(* ===== verification/Regex.thy ===== *)
theory Regex
  imports Prelude
begin

text \<open>
  Regular expressions with the matcher by derivatives. The program has one pattern, anchored at both
  ends, so matching is membership of the whole string; \<open>matches\<close> is the language the pattern denotes
  and \<open>is_match\<close> the executable test.
\<close>

datatype re =
    Nothing
  | Eps
  | Cls "char \<Rightarrow> bool"
  | Seq re re
  | Alt re re
  | Star re

inductive matches :: "re \<Rightarrow> string \<Rightarrow> bool" where
  m_eps: "matches Eps []"
| m_cls: "P c \<Longrightarrow> matches (Cls P) [c]"
| m_seq: "matches r s \<Longrightarrow> matches q t \<Longrightarrow> matches (Seq r q) (s @ t)"
| m_alt1: "matches r s \<Longrightarrow> matches (Alt r q) s"
| m_alt2: "matches q s \<Longrightarrow> matches (Alt r q) s"
| m_star0: "matches (Star r) []"
| m_star: "s \<noteq> [] \<Longrightarrow> matches r s \<Longrightarrow> matches (Star r) t \<Longrightarrow> matches (Star r) (s @ t)"

inductive_cases matches_NothingE [elim!]: "matches Nothing s"
inductive_cases matches_EpsE [elim!]: "matches Eps s"
inductive_cases matches_ClsE [elim!]: "matches (Cls P) s"
inductive_cases matches_SeqE [elim!]: "matches (Seq r q) s"
inductive_cases matches_AltE [elim!]: "matches (Alt r q) s"
inductive_cases matches_StarE: "matches (Star r) s"

fun nullable :: "re \<Rightarrow> bool" where
  "nullable Nothing = False"
| "nullable Eps = True"
| "nullable (Cls P) = False"
| "nullable (Seq r q) = (nullable r \<and> nullable q)"
| "nullable (Alt r q) = (nullable r \<or> nullable q)"
| "nullable (Star r) = True"

text \<open>Sequences and alternatives that keep derivatives small.\<close>

definition seq' :: "re \<Rightarrow> re \<Rightarrow> re" where
  "seq' r q = (case r of Nothing \<Rightarrow> Nothing | Eps \<Rightarrow> q | _ \<Rightarrow> Seq r q)"

definition alt' :: "re \<Rightarrow> re \<Rightarrow> re" where
  "alt' r q = (case r of Nothing \<Rightarrow> q | _ \<Rightarrow> (case q of Nothing \<Rightarrow> r | _ \<Rightarrow> Alt r q))"

fun deriv :: "char \<Rightarrow> re \<Rightarrow> re" where
  "deriv c Nothing = Nothing"
| "deriv c Eps = Nothing"
| "deriv c (Cls P) = (if P c then Eps else Nothing)"
| "deriv c (Seq r q) =
     (if nullable r then alt' (seq' (deriv c r) q) (deriv c q) else seq' (deriv c r) q)"
| "deriv c (Alt r q) = alt' (deriv c r) (deriv c q)"
| "deriv c (Star r) = seq' (deriv c r) (Star r)"

fun is_match :: "re \<Rightarrow> string \<Rightarrow> bool" where
  "is_match r [] = nullable r"
| "is_match r (c # cs) = is_match (deriv c r) cs"

section \<open>Correctness of the matcher\<close>

lemma matches_seq' [simp]: "matches (seq' r q) s \<longleftrightarrow> matches (Seq r q) s"
proof (cases r)
  case Eps
  then show ?thesis using m_seq [OF m_eps] by (auto simp: seq'_def)
qed (auto simp: seq'_def)

lemma matches_alt' [simp]: "matches (alt' r q) s \<longleftrightarrow> matches (Alt r q) s"
  by (cases r; cases q) (auto simp: alt'_def intro: matches.intros)

lemma matches_Alt_iff: "matches (Alt r q) s \<longleftrightarrow> matches r s \<or> matches q s"
  by (auto intro: matches.intros)

lemma nullable_iff: "nullable r \<longleftrightarrow> matches r []"
proof (induction r)
  case (Seq r q)
  then show ?case using m_seq [of r "[]" q "[]"] by auto
qed (auto intro: matches.intros)

lemma deriv_iff: "matches (deriv c r) s \<longleftrightarrow> matches r (c # s)"
proof (induction r arbitrary: s)
  case (Cls P)
  then show ?case by (auto intro: matches.intros)
next
  case (Seq r q)
  have split: "matches (Seq r q) (c # s) \<longleftrightarrow>
      (\<exists>u v. s = u @ v \<and> matches r (c # u) \<and> matches q v) \<or> (matches r [] \<and> matches q (c # s))"
    using m_seq [of r "[]" q "c # s"] by (auto simp: Cons_eq_append_conv) (metis append_Cons m_seq)
  have "matches (Seq (deriv c r) q) s \<longleftrightarrow> (\<exists>u v. s = u @ v \<and> matches r (c # u) \<and> matches q v)"
    using Seq.IH(1) m_seq by (auto 0 3)
  with split Seq.IH(2) show ?case
    by (cases "nullable r") (simp_all only: deriv.simps if_True if_False matches_alt' matches_Alt_iff
        matches_seq' nullable_iff simp_thms)
next
  case (Star r)
  have "matches (Star r) (c # s) \<longleftrightarrow> (\<exists>u v. s = u @ v \<and> matches r (c # u) \<and> matches (Star r) v)"
  proof
    assume "matches (Star r) (c # s)"
    then show "\<exists>u v. s = u @ v \<and> matches r (c # u) \<and> matches (Star r) v"
    proof (rule matches_StarE)
      fix u v assume *: "c # s = u @ v" "u \<noteq> []" "matches r u" "matches (Star r) v"
      then obtain u' where "u = c # u'" "s = u' @ v" by (cases u) auto
      with * show ?thesis by blast
    qed simp
  next
    assume "\<exists>u v. s = u @ v \<and> matches r (c # u) \<and> matches (Star r) v"
    then show "matches (Star r) (c # s)" using m_star [of "c # u" for u] by force
  qed
  then show ?case using Star.IH m_seq by (auto 0 3)
qed (auto intro: matches.intros)

lemma is_match_iff: "is_match r s \<longleftrightarrow> matches r s"
  by (induction r s rule: is_match.induct) (simp_all add: nullable_iff deriv_iff)

section \<open>Patterns\<close>

definition lit :: "string \<Rightarrow> re" where
  "lit s = foldr (\<lambda>c r. Seq (Cls ((=) c)) r) s Eps"

definition opt :: "re \<Rightarrow> re" where
  "opt r = Alt r Eps"

definition plus_re :: "re \<Rightarrow> re" where
  "plus_re r = Seq r (Star r)"

fun times_re :: "nat \<Rightarrow> re \<Rightarrow> re" where
  "times_re 0 r = Eps"
| "times_re (Suc n) r = Seq r (times_re n r)"

text \<open>Every character a pattern can consume satisfies \<open>P\<close>.\<close>

fun only :: "(char \<Rightarrow> bool) \<Rightarrow> re \<Rightarrow> bool" where
  "only P (Cls Q) = (\<forall>c. Q c \<longrightarrow> P c)"
| "only P (Seq r q) = (only P r \<and> only P q)"
| "only P (Alt r q) = (only P r \<and> only P q)"
| "only P (Star r) = only P r"
| "only P _ = True"

lemma matches_only: "matches r s \<Longrightarrow> only P r \<Longrightarrow> list_all P s"
  by (induction rule: matches.induct) auto

lemma only_combinators [simp]:
  "only P (lit s) \<longleftrightarrow> list_all P s" "only P (opt r) \<longleftrightarrow> only P r" "only P (plus_re r) \<longleftrightarrow> only P r"
  "only P (times_re n r) \<longleftrightarrow> n = 0 \<or> only P r"
proof -
  show "only P (lit s) \<longleftrightarrow> list_all P s" by (induction s) (auto simp: lit_def)
  show "only P (times_re n r) \<longleftrightarrow> n = 0 \<or> only P r" by (induction n) auto
qed (simp_all add: opt_def plus_re_def)

end
