(* ===== verification/Json.thy ===== *)
theory Json
  imports Prelude
begin

text \<open>
  JSON values as \<open>serde_json::Value\<close> represents them, its accessors, and the decoding that
  \<open>#[derive(Deserialize)]\<close> generates for the structs of the LXD API: a required field that is
  absent or of the wrong type is an error, a field marked \<open>#[serde(default)]\<close> falls back to the
  default when it is absent, an \<open>Option\<close> field is \<open>None\<close> when it is absent or \<open>null\<close>. The
  parser and the printer themselves belong to \<open>serde_json\<close> and are parameters of the model
  (theory World).
\<close>

section \<open>Values and accessors\<close>

datatype json =
    Null
  | Bool bool
  | Number int
  | Str string
  | Array "json list"
  | Object "(string \<times> json) list"

text \<open>\<open>Value::get(key)\<close>: \<open>None\<close> unless the value is an object with that key.\<close>

definition get :: "json \<Rightarrow> string \<Rightarrow> json option" where
  "get v k = (case v of Object kvs \<Rightarrow> map_of kvs k | _ \<Rightarrow> None)"

definition as_str :: "json \<Rightarrow> string option" where
  "as_str v = (case v of Str s \<Rightarrow> Some s | _ \<Rightarrow> None)"

definition as_array :: "json \<Rightarrow> json list option" where
  "as_array v = (case v of Array xs \<Rightarrow> Some xs | _ \<Rightarrow> None)"

text \<open>\<open>value["key"]\<close>: \<open>Null\<close> where \<open>get\<close> is \<open>None\<close>.\<close>

definition index :: "json \<Rightarrow> string \<Rightarrow> json" where
  "index v k = unwrap_or (get v k) Null"

lemma get_simps [simp]:
  "get (Object kvs) k = map_of kvs k" "get Null k = None" "get (Bool b) k = None"
  "get (Number n) k = None" "get (Str s) k = None" "get (Array xs) k = None"
  by (simp_all add: get_def)

lemma as_str_simps [simp]:
  "as_str (Str s) = Some s" "as_str Null = None" "as_str (Bool b) = None"
  "as_str (Number n) = None" "as_str (Array xs) = None" "as_str (Object kvs) = None"
  by (simp_all add: as_str_def)

lemma as_array_simps [simp]:
  "as_array (Array xs) = Some xs" "as_array Null = None" "as_array (Bool b) = None"
  "as_array (Number n) = None" "as_array (Str s) = None" "as_array (Object kvs) = None"
  by (simp_all add: as_array_def)

section \<open>Derived decoding\<close>

type_synonym 'a decoder = "json \<Rightarrow> 'a option"

definition de_string :: "string decoder" where
  "de_string v = as_str v"

definition de_bool :: "bool decoder" where
  "de_bool v = (case v of Bool b \<Rightarrow> Some b | _ \<Rightarrow> None)"

text \<open>An unsigned integer of \<open>w\<close> bits: numbers out of range are errors.\<close>

definition de_unsigned :: "nat \<Rightarrow> nat decoder" where
  "de_unsigned w v =
     (case v of Number n \<Rightarrow> if 0 \<le> n \<and> n < 2 ^ w then Some (nat n) else None | _ \<Rightarrow> None)"

definition de_i64 :: "int decoder" where
  "de_i64 v =
     (case v of Number n \<Rightarrow> if - (2 ^ 63) \<le> n \<and> n < 2 ^ 63 then Some n else None | _ \<Rightarrow> None)"

definition de_value :: "json decoder" where
  "de_value v = Some v"

fun traverse :: "('a \<Rightarrow> 'b option) \<Rightarrow> 'a list \<Rightarrow> 'b list option" where
  "traverse f [] = Some []"
| "traverse f (x # xs) =
     Option.bind (f x) (\<lambda>y. Option.bind (traverse f xs) (\<lambda>ys. Some (y # ys)))"

definition de_list :: "'a decoder \<Rightarrow> 'a list decoder" where
  "de_list f v = (case v of Array xs \<Rightarrow> traverse f xs | _ \<Rightarrow> None)"

text \<open>\<open>HashMap<String, T>\<close>: an object whose values all decode.\<close>

definition de_map :: "'a decoder \<Rightarrow> (string \<rightharpoonup> 'a) decoder" where
  "de_map f v =
     (case v of
        Object kvs \<Rightarrow>
          map_option map_of (traverse (\<lambda>(k, x). map_option (Pair k) (f x)) kvs)
      | _ \<Rightarrow> None)"

definition de_option :: "'a decoder \<Rightarrow> 'a option decoder" where
  "de_option f v = (case v of Null \<Rightarrow> Some None | _ \<Rightarrow> map_option Some (f v))"

text \<open>A required field, a field with a default, and an optional field of a struct.\<close>

definition field :: "string \<Rightarrow> 'a decoder \<Rightarrow> json \<Rightarrow> 'a option" where
  "field k f v = Option.bind (get v k) f"

definition field_default :: "string \<Rightarrow> 'a decoder \<Rightarrow> 'a \<Rightarrow> json \<Rightarrow> 'a option" where
  "field_default k f d v =
     (case v of Object _ \<Rightarrow> (case get v k of None \<Rightarrow> Some d | Some x \<Rightarrow> f x) | _ \<Rightarrow> None)"

definition field_option :: "string \<Rightarrow> 'a decoder \<Rightarrow> json \<Rightarrow> 'a option option" where
  "field_option k f v =
     (case v of Object _ \<Rightarrow> (case get v k of None \<Rightarrow> Some None | Some x \<Rightarrow> de_option f x)
      | _ \<Rightarrow> None)"

lemmas de_defs [decode_simps] = de_string_def de_bool_def de_unsigned_def de_i64_def de_value_def
  de_list_def de_map_def de_option_def field_def field_default_def field_option_def

lemma traverse_length: "traverse f xs = Some ys \<Longrightarrow> length ys = length xs"
  by (induction xs arbitrary: ys) (auto split: Option.bind_splits)

lemma traverse_map_Some: "(\<And>x. x \<in> set xs \<Longrightarrow> f (g x) = Some x) \<Longrightarrow> traverse f (map g xs) = Some xs"
  by (induction xs) auto

end
