(* ===== verification/Lxd_Types.thy ===== *)
theory Lxd_Types
  imports Json
begin

text \<open>
  The error type of the client (\<open>lxd-client/src/error.rs\<close>) and the structs mirroring LXD's REST
  API (\<open>lxd-client/src/types.rs\<close>) with the decoders their \<open>Deserialize\<close> derives give. The text of
  a wrapped library error is kept as a string.
\<close>

section \<open>Errors\<close>

datatype lxd_error =
    Api nat string
  | OperationFailed string string
  | InvalidQuantity string string
  | Io string
  | Hyper string
  | Http string
  | JsonError string
  | Tls string
  | WebSocket string

text \<open>The \<open>Display\<close> text of an error.\<close>

definition show_lxd_error :: "lxd_error \<Rightarrow> string" where
  "show_lxd_error e = (case e of
      Api status_code message \<Rightarrow> ''LXD API error (status '' @ dec status_code @ ''): '' @ message
    | OperationFailed description msg \<Rightarrow> ''LXD operation failed: '' @ description @ '': '' @ msg
    | InvalidQuantity quantity reason \<Rightarrow>
        ''invalid resource quantity '' @ debug_str quantity @ '': '' @ reason
    | Io t \<Rightarrow> ''transport error: '' @ t
    | Hyper t \<Rightarrow> ''hyper error: '' @ t
    | Http t \<Rightarrow> ''invalid request: '' @ t
    | JsonError t \<Rightarrow> ''invalid JSON from LXD: '' @ t
    | Tls reason \<Rightarrow> ''TLS error: '' @ reason
    | WebSocket reason \<Rightarrow> ''WebSocket error: '' @ reason)"

section \<open>The response envelope\<close>

record 'a lxd_response =
  resp_type :: string
  resp_status_code :: nat
  resp_error_code :: nat
  resp_metadata :: "'a option"
  resp_error :: "string option"

definition de_response :: "'a decoder \<Rightarrow> 'a lxd_response decoder" where
  "de_response f v =
     Option.bind (field ''type'' de_string v) (\<lambda>t.
     Option.bind (field ''status_code'' (de_unsigned 16) v) (\<lambda>s.
     Option.bind (field_default ''error_code'' (de_unsigned 16) 0 v) (\<lambda>c.
     Option.bind (field_option ''metadata'' f v) (\<lambda>m.
     Option.bind (field_option ''error'' de_string v) (\<lambda>e.
       Some \<lparr>resp_type = t, resp_status_code = s, resp_error_code = c,
             resp_metadata = m, resp_error = e\<rparr>)))))"

definition into_metadata :: "'a lxd_response \<Rightarrow> (lxd_error, 'a) result" where
  "into_metadata r = ok_or (resp_metadata r) (Api (resp_status_code r) ''LXD response missing metadata'')"

section \<open>Instances\<close>

type_synonym config_map = "string \<rightharpoonup> string"
type_synonym device_map = "string \<rightharpoonup> config_map"

record lxd_instance =
  inst_name :: string
  inst_description :: string
  inst_status :: string
  inst_status_code :: nat
  inst_architecture :: string
  inst_ephemeral :: bool
  inst_profiles :: "string list"
  inst_config :: config_map
  inst_devices :: device_map
  inst_type :: string
  inst_project :: string

definition de_instance :: "lxd_instance decoder" where
  "de_instance v =
     Option.bind (field ''name'' de_string v) (\<lambda>n.
     Option.bind (field ''description'' de_string v) (\<lambda>d.
     Option.bind (field ''status'' de_string v) (\<lambda>s.
     Option.bind (field ''status_code'' (de_unsigned 16) v) (\<lambda>sc.
     Option.bind (field_default ''architecture'' de_string [] v) (\<lambda>a.
     Option.bind (field ''ephemeral'' de_bool v) (\<lambda>eph.
     Option.bind (field ''profiles'' (de_list de_string) v) (\<lambda>ps.
     Option.bind (field ''config'' (de_map de_string) v) (\<lambda>c.
     Option.bind (field ''devices'' (de_map (de_map de_string)) v) (\<lambda>ds.
     Option.bind (field ''type'' de_string v) (\<lambda>t.
     Option.bind (field ''project'' de_string v) (\<lambda>p.
       Some \<lparr>inst_name = n, inst_description = d, inst_status = s, inst_status_code = sc,
             inst_architecture = a, inst_ephemeral = eph, inst_profiles = ps, inst_config = c,
             inst_devices = ds, inst_type = t, inst_project = p\<rparr>)))))))))))"

section \<open>Runtime state\<close>

text \<open>\<open>#[serde(default, deserialize_with = "null_to_default")]\<close>: absent and \<open>null\<close> both give the
  default.\<close>

definition field_null_default :: "string \<Rightarrow> 'a decoder \<Rightarrow> 'a \<Rightarrow> 'a decoder" where
  "field_null_default k f d v = map_option (\<lambda>o'. unwrap_or o' d) (field_option k f v)"

record instance_state_disk =
  disk_usage :: int
  disk_total :: int

definition de_instance_state_disk :: "instance_state_disk decoder" where
  "de_instance_state_disk v =
     Option.bind (field ''usage'' de_i64 v) (\<lambda>u.
     Option.bind (field_default ''total'' de_i64 0 v) (\<lambda>t.
       Some \<lparr>disk_usage = u, disk_total = t\<rparr>))"

record instance_state_memory =
  mem_usage :: int
  mem_usage_peak :: int
  mem_total :: int
  mem_swap_usage :: int
  mem_swap_usage_peak :: int

definition de_instance_state_memory :: "instance_state_memory decoder" where
  "de_instance_state_memory v =
     Option.bind (field ''usage'' de_i64 v) (\<lambda>u.
     Option.bind (field_default ''usage_peak'' de_i64 0 v) (\<lambda>up.
     Option.bind (field_default ''total'' de_i64 0 v) (\<lambda>t.
     Option.bind (field_default ''swap_usage'' de_i64 0 v) (\<lambda>s.
     Option.bind (field_default ''swap_usage_peak'' de_i64 0 v) (\<lambda>sp.
       Some \<lparr>mem_usage = u, mem_usage_peak = up, mem_total = t, mem_swap_usage = s,
             mem_swap_usage_peak = sp\<rparr>)))))"

record instance_state_network_address =
  addr_family :: string
  addr_address :: string
  addr_netmask :: string
  addr_scope :: string

definition de_instance_state_network_address :: "instance_state_network_address decoder" where
  "de_instance_state_network_address v =
     Option.bind (field ''family'' de_string v) (\<lambda>f.
     Option.bind (field ''address'' de_string v) (\<lambda>a.
     Option.bind (field_default ''netmask'' de_string [] v) (\<lambda>n.
     Option.bind (field_default ''scope'' de_string [] v) (\<lambda>s.
       Some \<lparr>addr_family = f, addr_address = a, addr_netmask = n, addr_scope = s\<rparr>))))"

record instance_state_network =
  nic_addresses :: "instance_state_network_address list"
  nic_hwaddr :: string
  nic_host_name :: string
  nic_mtu :: int
  nic_state :: string
  nic_type :: string

definition de_instance_state_network :: "instance_state_network decoder" where
  "de_instance_state_network v =
     Option.bind (field_default ''addresses'' (de_list de_instance_state_network_address) [] v) (\<lambda>as.
     Option.bind (field_default ''hwaddr'' de_string [] v) (\<lambda>h.
     Option.bind (field_default ''host_name'' de_string [] v) (\<lambda>n.
     Option.bind (field_default ''mtu'' de_i64 0 v) (\<lambda>m.
     Option.bind (field_default ''state'' de_string [] v) (\<lambda>s.
     Option.bind (field_default ''type'' de_string [] v) (\<lambda>t.
       Some \<lparr>nic_addresses = as, nic_hwaddr = h, nic_host_name = n, nic_mtu = m, nic_state = s,
             nic_type = t\<rparr>))))))"

record instance_state =
  is_status :: string
  is_status_code :: nat
  is_disk :: "string \<rightharpoonup> instance_state_disk"
  is_memory :: instance_state_memory
  is_network :: "string \<rightharpoonup> instance_state_network"
  is_pid :: int
  is_processes :: int
  is_cpu_usage :: int

definition de_instance_state :: "instance_state decoder" where
  "de_instance_state v =
     Option.bind (field ''status'' de_string v) (\<lambda>s.
     Option.bind (field ''status_code'' (de_unsigned 16) v) (\<lambda>sc.
     Option.bind (field_null_default ''disk'' (de_map de_instance_state_disk) Map.empty v) (\<lambda>d.
     Option.bind (field ''memory'' de_instance_state_memory v) (\<lambda>m.
     Option.bind (field_null_default ''network'' (de_map de_instance_state_network) Map.empty v) (\<lambda>n.
     Option.bind (field ''pid'' de_i64 v) (\<lambda>p.
     Option.bind (field ''processes'' de_i64 v) (\<lambda>pr.
     Option.bind (field ''cpu'' (field ''usage'' de_i64) v) (\<lambda>c.
       Some \<lparr>is_status = s, is_status_code = sc, is_disk = d, is_memory = m, is_network = n,
             is_pid = p, is_processes = pr, is_cpu_usage = c\<rparr>))))))))"

section \<open>Operations\<close>

datatype operation_status = Pending | Running | Success | Failure | Cancelled | Other string

text \<open>\<open>FromStr\<close> of \<open>OperationStatus\<close>: total, because \<open>Other\<close> is the default variant.\<close>

definition operation_status_of :: "string \<Rightarrow> operation_status" where
  "operation_status_of s =
     (if s = ''Pending'' then Pending else if s = ''Running'' then Running
      else if s = ''Success'' then Success else if s = ''Failure'' then Failure
      else if s = ''Cancelled'' then Cancelled else Other s)"

record operation =
  op_id :: string
  op_class :: string
  op_description :: string
  op_status :: operation_status
  op_status_code :: nat
  op_resources :: "string \<rightharpoonup> string list"
  op_err :: string
  op_location :: string
  op_metadata :: "json option"

definition de_operation :: "operation decoder" where
  "de_operation v =
     Option.bind (field ''id'' de_string v) (\<lambda>i.
     Option.bind (field_default ''class'' de_string [] v) (\<lambda>cl.
     Option.bind (field_default ''description'' de_string [] v) (\<lambda>d.
     Option.bind (field ''status'' (\<lambda>x. map_option operation_status_of (de_string x)) v) (\<lambda>s.
     Option.bind (field ''status_code'' (de_unsigned 16) v) (\<lambda>sc.
     Option.bind (field_default ''resources'' (de_map (de_list de_string)) Map.empty v) (\<lambda>r.
     Option.bind (field_default ''err'' de_string [] v) (\<lambda>e.
     Option.bind (field_default ''location'' de_string [] v) (\<lambda>l.
     Option.bind (field_option ''metadata'' de_value v) (\<lambda>m.
       Some \<lparr>op_id = i, op_class = cl, op_description = d, op_status = s, op_status_code = sc,
             op_resources = r, op_err = e, op_location = l, op_metadata = m\<rparr>)))))))))"

section \<open>Events, networks, images and volumes\<close>

record lxd_event =
  ev_timestamp :: string
  ev_type :: string
  ev_metadata :: json

definition de_event :: "lxd_event decoder" where
  "de_event v =
     Option.bind (field ''timestamp'' de_string v) (\<lambda>ts.
     Option.bind (field ''type'' de_string v) (\<lambda>t.
     Option.bind (field ''metadata'' de_value v) (\<lambda>m.
       Some \<lparr>ev_timestamp = ts, ev_type = t, ev_metadata = m\<rparr>)))"

record network =
  net_name :: string
  net_type :: string
  net_config :: config_map

definition de_network :: "network decoder" where
  "de_network v =
     Option.bind (field ''name'' de_string v) (\<lambda>n.
     Option.bind (field ''type'' de_string v) (\<lambda>t.
     Option.bind (field_default ''config'' (de_map de_string) Map.empty v) (\<lambda>c.
       Some \<lparr>net_name = n, net_type = t, net_config = c\<rparr>)))"

text \<open>An \<open>ImageAlias\<close> is its name.\<close>

definition de_image_alias :: "string decoder" where
  "de_image_alias v = field ''name'' de_string v"

record image =
  img_fingerprint :: string
  img_project :: string
  img_aliases :: "string list"

definition de_image :: "image decoder" where
  "de_image v =
     Option.bind (field ''fingerprint'' de_string v) (\<lambda>f.
     Option.bind (field_default ''project'' de_string [] v) (\<lambda>p.
     Option.bind (field_default ''aliases'' (de_list de_image_alias) [] v) (\<lambda>a.
       Some \<lparr>img_fingerprint = f, img_project = p, img_aliases = a\<rparr>)))"

record storage_volume =
  vol_name :: string
  vol_project :: string
  vol_used_by :: "string list"
  vol_location :: string

definition de_storage_volume :: "storage_volume decoder" where
  "de_storage_volume v =
     Option.bind (field ''name'' de_string v) (\<lambda>n.
     Option.bind (field_default ''project'' de_string [] v) (\<lambda>p.
     Option.bind (field_default ''used_by'' (de_list de_string) [] v) (\<lambda>u.
     Option.bind (field_default ''location'' de_string [] v) (\<lambda>l.
       Some \<lparr>vol_name = n, vol_project = p, vol_used_by = u, vol_location = l\<rparr>))))"

lemmas de_struct_defs [decode_simps] = de_response_def de_instance_def de_operation_def de_event_def
  de_network_def de_image_alias_def de_image_def de_storage_volume_def operation_status_of_def

lemma operation_status_of_terminal:
  "operation_status_of s = Success \<longleftrightarrow> s = ''Success''"
  "operation_status_of s = Failure \<longleftrightarrow> s = ''Failure''"
  "operation_status_of s = Cancelled \<longleftrightarrow> s = ''Cancelled''"
  by (auto simp: operation_status_of_def)

end
