(* ===== verification/Driver_Error.thy ===== *)
theory Driver_Error
  imports Lxd_Types
begin

text \<open>
  The driver's errors and their gRPC status (\<open>openshell-driver-lxd/src/error.rs\<close>). A status is its
  code and message, as \<open>tonic::Status\<close> carries them.
\<close>

datatype driver_error =
    Unimplemented string
  | InvalidArgument string
  | FailedPrecondition string
  | Lxd lxd_error
  | Timeout
  | NotFoundError string
  | ImageImport string
  | DhcpClient string

datatype code =
    Code_Unimplemented
  | Code_InvalidArgument
  | Code_FailedPrecondition
  | Code_Unauthenticated
  | Code_PermissionDenied
  | Code_NotFound
  | Code_AlreadyExists
  | Code_Internal
  | Code_DeadlineExceeded
  | Code_DataLoss

record status =
  status_code :: code
  status_message :: string

definition mk_status :: "code \<Rightarrow> string \<Rightarrow> status" where
  "mk_status c m = \<lparr>status_code = c, status_message = m\<rparr>"

text \<open>The \<open>Display\<close> text of a driver error.\<close>

definition show_driver_error :: "driver_error \<Rightarrow> string" where
  "show_driver_error e = (case e of
      Unimplemented m \<Rightarrow> ''not implemented: '' @ m
    | InvalidArgument m \<Rightarrow> ''invalid argument: '' @ m
    | FailedPrecondition m \<Rightarrow> ''failed precondition: '' @ m
    | Lxd l \<Rightarrow> ''LXD error: '' @ show_lxd_error l
    | Timeout \<Rightarrow> ''timed out waiting for LXD operation to complete''
    | NotFoundError m \<Rightarrow> ''not found: '' @ m
    | ImageImport m \<Rightarrow> ''image import failed: '' @ m
    | DhcpClient m \<Rightarrow> ''DHCP client error: '' @ m)"

definition status_of_api :: "nat \<Rightarrow> string \<Rightarrow> status" where
  "status_of_api status message =
     (if status = 400 then mk_status Code_InvalidArgument message
      else if status = 401 then mk_status Code_Unauthenticated message
      else if status = 403 then mk_status Code_PermissionDenied message
      else if status = 404 then mk_status Code_NotFound message
      else if status = 409 then mk_status Code_AlreadyExists message
      else mk_status Code_Internal (''LXD API error (status code '' @ dec status @ ''): '' @ message))"

definition status_of_error :: "driver_error \<Rightarrow> status" where
  "status_of_error err = (case err of
      Unimplemented m \<Rightarrow> mk_status Code_Unimplemented m
    | InvalidArgument m \<Rightarrow> mk_status Code_InvalidArgument m
    | FailedPrecondition m \<Rightarrow> mk_status Code_FailedPrecondition m
    | Lxd l \<Rightarrow> (case l of
          Api status message \<Rightarrow> status_of_api status message
        | InvalidQuantity quantity reason \<Rightarrow>
            mk_status Code_InvalidArgument (''invalid resource quantity '' @ debug_str quantity @ '': '' @ reason)
        | _ \<Rightarrow> mk_status Code_Internal (show_lxd_error l))
    | Timeout \<Rightarrow> mk_status Code_DeadlineExceeded ''timed out waiting for LXD operation to complete''
    | NotFoundError m \<Rightarrow> mk_status Code_NotFound m
    | ImageImport m \<Rightarrow> mk_status Code_Internal (''image import failed: '' @ m)
    | DhcpClient m \<Rightarrow> mk_status Code_Internal (''DHCP client error: '' @ m))"

lemmas status_simps = status_of_error_def status_of_api_def mk_status_def

text \<open>Which errors reach the caller as \<open>NotFound\<close>: an instance LXD does not know, or one that is
  not a sandbox of the driver.\<close>

lemma status_not_found:
  "status_code (status_of_error e) = Code_NotFound \<longleftrightarrow>
     (\<exists>m. e = NotFoundError m) \<or> (\<exists>m. e = Lxd (Api 404 m))"
  by (auto simp: status_simps split: driver_error.splits lxd_error.splits)

lemma status_invalid_argument:
  "status_code (status_of_error e) = Code_InvalidArgument \<longleftrightarrow>
     (\<exists>m. e = InvalidArgument m) \<or> (\<exists>m. e = Lxd (Api 400 m)) \<or> (\<exists>q r. e = Lxd (InvalidQuantity q r))"
  by (auto simp: status_simps split: driver_error.splits lxd_error.splits)

end
