(* ===== verification/Effects.thy ===== *)
theory Effects
  imports Prelude
begin

text \<open>
  Asynchronous code as state passing over a trace. A computation takes the history of events so
  far and returns its result together with the extended history; an event records one effect
  (an HTTP exchange, a sleep, a lock operation, a file read) with the answer the outside world
  gave. The answers come from an environment that may look at the whole history, so a theorem
  for every environment covers every behaviour of the outside world, other clients of LXD
  included. The result is \<open>None\<close> where the code never returns (an unbounded wait).

  \<open>await m f\<close> is \<open>let x = m.await; f(x)\<close>, \<open>await_ok m f\<close> is \<open>let x = m.await?; f(x)\<close>.
  \<open>run P G m Q\<close> is the program logic: from a history satisfying \<open>P\<close>, every event that \<open>m\<close> adds
  satisfies the guarantee \<open>G\<close> with respect to the history before it, and if \<open>m\<close> returns, the
  result and the history satisfy \<open>Q\<close>.
\<close>

section \<open>The monad\<close>

type_synonym ('ev, 'a) io = "'ev list \<Rightarrow> 'a option \<times> 'ev list"

definition return :: "'a \<Rightarrow> ('ev, 'a) io" where
  "return a = (\<lambda>h. (Some a, h))"

definition hang :: "('ev, 'a) io" where
  "hang = (\<lambda>h. (None, h))"

definition await :: "('ev, 'a) io \<Rightarrow> ('a \<Rightarrow> ('ev, 'b) io) \<Rightarrow> ('ev, 'b) io" where
  "await m f = (\<lambda>h. case m h of (None, h') \<Rightarrow> (None, h') | (Some a, h') \<Rightarrow> f a h')"

definition ok :: "'a \<Rightarrow> ('ev, ('e, 'a) result) io" where
  "ok a = return (Inr a)"

definition err :: "'e \<Rightarrow> ('ev, ('e, 'a) result) io" where
  "err e = return (Inl e)"

definition await_ok ::
  "('ev, ('e, 'a) result) io \<Rightarrow> ('a \<Rightarrow> ('ev, ('e, 'b) result) io) \<Rightarrow> ('ev, ('e, 'b) result) io" where
  "await_ok m f = await m (\<lambda>r. case r of Inl e \<Rightarrow> err e | Inr a \<Rightarrow> f a)"

text \<open>The \<open>?\<close> operator with a conversion of the error, as \<open>From\<close> and \<open>map_err\<close> give.\<close>

definition await_map ::
  "('e \<Rightarrow> 'f) \<Rightarrow> ('ev, ('e, 'a) result) io \<Rightarrow> ('a \<Rightarrow> ('ev, ('f, 'b) result) io)
   \<Rightarrow> ('ev, ('f, 'b) result) io" where
  "await_map c m f = await m (\<lambda>r. case r of Inl e \<Rightarrow> err (c e) | Inr a \<Rightarrow> f a)"

text \<open>The \<open>?\<close> operator on a pure result.\<close>

definition lift_ok ::
  "('e, 'a) result \<Rightarrow> ('a \<Rightarrow> ('ev, ('e, 'b) result) io) \<Rightarrow> ('ev, ('e, 'b) result) io" where
  "lift_ok r f = (case r of Inl e \<Rightarrow> err e | Inr a \<Rightarrow> f a)"

text \<open>One effect: the answer is a function of the history, the event records it.\<close>

definition perform :: "('ev list \<Rightarrow> 'b) \<Rightarrow> ('b \<Rightarrow> 'ev) \<Rightarrow> ('ev, 'b) io" where
  "perform answer mk = (\<lambda>h. (Some (answer h), h @ [mk (answer h)]))"

text \<open>A loop over a list that stops at the first error.\<close>

fun for_ok :: "'a list \<Rightarrow> ('a \<Rightarrow> ('ev, ('e, unit) result) io) \<Rightarrow> ('ev, ('e, unit) result) io" where
  "for_ok [] body = ok ()"
| "for_ok (x # xs) body = await_ok (body x) (\<lambda>_. for_ok xs body)"

text \<open>\<open>tokio::time::timeout\<close>: the computation is dropped once \<open>budget\<close> effects have happened
  without it finishing; what it would have done after that does not happen.\<close>

definition timeout :: "('ev list \<Rightarrow> nat) \<Rightarrow> ('ev, 'a) io \<Rightarrow> ('ev, 'a option) io" where
  "timeout budget m =
     (\<lambda>h. case m h of
        (None, h') \<Rightarrow> (Some None, take (length h + budget h) h')
      | (Some a, h') \<Rightarrow>
          if length h' \<le> length h + budget h then (Some (Some a), h')
          else (Some None, take (length h + budget h) h'))"

lemma await_return [simp]: "await (return a) f = f a"
  by (simp add: await_def return_def fun_eq_iff)

lemma await_return_right [simp]: "await m return = m"
  by (auto simp: await_def return_def fun_eq_iff split: prod.splits option.splits)

lemma await_assoc: "await (await m f) g = await m (\<lambda>a. await (f a) g)"
  by (auto simp: await_def fun_eq_iff split: prod.splits option.splits)

lemma await_hang [simp]: "await hang f = hang"
  by (simp add: await_def hang_def fun_eq_iff)

lemma await_ok_simps [simp]: "await_ok (ok a) f = f a" "await_ok (err e) f = err e"
  by (simp_all add: await_ok_def ok_def err_def)

section \<open>The program logic\<close>

text \<open>The events \<open>es\<close> after history \<open>h\<close> satisfy \<open>G\<close>, each with respect to its own past.\<close>

fun guarded :: "('ev list \<Rightarrow> 'ev \<Rightarrow> bool) \<Rightarrow> 'ev list \<Rightarrow> 'ev list \<Rightarrow> bool" where
  "guarded G h [] = True"
| "guarded G h (e # es) = (G h e \<and> guarded G (h @ [e]) es)"

lemma guarded_append [simp]:
  "guarded G h (es @ fs) \<longleftrightarrow> guarded G h es \<and> guarded G (h @ es) fs"
  by (induction es arbitrary: h) auto

lemma guarded_take: "guarded G h es \<Longrightarrow> guarded G h (take n es)"
  by (metis append_take_drop_id guarded_append)

lemma guarded_nth: "guarded G h es \<Longrightarrow> i < length es \<Longrightarrow> G (h @ take i es) (es ! i)"
proof (induction es arbitrary: h i)
  case (Cons e es)
  then show ?case by (cases i) fastforce+
qed simp

lemma guarded_mono:
  "guarded G h es \<Longrightarrow> (\<And>h e. G h e \<Longrightarrow> G' h e) \<Longrightarrow> guarded G' h es"
  by (induction es arbitrary: h) auto

lemma guarded_all: "guarded (\<lambda>_. p) h es \<longleftrightarrow> list_all p es"
  by (induction es arbitrary: h) auto

definition run ::
  "('ev list \<Rightarrow> bool) \<Rightarrow> ('ev list \<Rightarrow> 'ev \<Rightarrow> bool) \<Rightarrow> ('ev, 'a) io \<Rightarrow> ('a \<Rightarrow> 'ev list \<Rightarrow> bool) \<Rightarrow> bool"
where
  "run P G m Q \<longleftrightarrow>
     (\<forall>h. P h \<longrightarrow> (\<exists>es. snd (m h) = h @ es \<and> guarded G h es
        \<and> (\<forall>a. fst (m h) = Some a \<longrightarrow> Q a (h @ es))))"

lemma runD:
  assumes "run P G m Q" and "P h"
  obtains es where "snd (m h) = h @ es" and "guarded G h es"
    and "\<And>a. fst (m h) = Some a \<Longrightarrow> Q a (h @ es)"
  using assms unfolding run_def by blast

lemma run_return [io_rules]: "(\<And>h. P h \<Longrightarrow> Q a h) \<Longrightarrow> run P G (return a) Q"
  by (simp add: run_def return_def)

lemma run_ok [io_rules]: "(\<And>h. P h \<Longrightarrow> Q (Inr a) h) \<Longrightarrow> run P G (ok a) Q"
  by (simp add: ok_def run_return)

lemma run_err [io_rules]: "(\<And>h. P h \<Longrightarrow> Q (Inl e) h) \<Longrightarrow> run P G (err e) Q"
  by (simp add: err_def run_return)

lemma run_hang [io_rules]: "run P G hang Q"
  by (simp add: run_def hang_def)

lemma run_perform [io_rules]:
  "(\<And>h. P h \<Longrightarrow> G h (mk (answer h)) \<and> Q (answer h) (h @ [mk (answer h)]))
   \<Longrightarrow> run P G (perform answer mk) Q"
  by (simp add: run_def perform_def)

lemma run_await:
  assumes m: "run P G m R" and f: "\<And>a. run (R a) G (f a) Q"
  shows "run P G (await m f) Q"
  unfolding run_def
proof (intro allI impI)
  fix h assume "P h"
  obtain es where es: "snd (m h) = h @ es" "guarded G h es"
    and R: "\<And>a. fst (m h) = Some a \<Longrightarrow> R a (h @ es)"
    using runD [OF m \<open>P h\<close>] by metis
  show "\<exists>es. snd (await m f h) = h @ es \<and> guarded G h es
      \<and> (\<forall>a. fst (await m f h) = Some a \<longrightarrow> Q a (h @ es))"
  proof (cases "fst (m h)")
    case None
    with es show ?thesis by (auto simp: await_def split: prod.splits)
  next
    case (Some a)
    obtain es' where "snd (f a (h @ es)) = (h @ es) @ es'" "guarded G (h @ es) es'"
      and "\<And>b. fst (f a (h @ es)) = Some b \<Longrightarrow> Q b ((h @ es) @ es')"
      using runD [OF f R [OF Some]] by metis
    moreover have "await m f h = f a (h @ es)"
      using Some es(1) by (cases "m h") (simp add: await_def)
    ultimately show ?thesis using es(2) by (intro exI [of _ "es @ es'"]) auto
  qed
qed

lemma run_await_ok:
  assumes "run P G m R" and "\<And>a. run (R (Inr a)) G (f a) Q" and "\<And>e h. R (Inl e) h \<Longrightarrow> Q (Inl e) h"
  shows "run P G (await_ok m f) Q"
  unfolding await_ok_def
proof (rule run_await [OF assms(1)])
  fix r
  show "run (R r) G (case r of Inl e \<Rightarrow> err e | Inr a \<Rightarrow> f a) Q"
    using assms(2,3) by (cases r) (auto intro: run_err)
qed

lemma run_await_map:
  assumes "run P G m R" and "\<And>a. run (R (Inr a)) G (f a) Q"
    and "\<And>e h. R (Inl e) h \<Longrightarrow> Q (Inl (c e)) h"
  shows "run P G (await_map c m f) Q"
  unfolding await_map_def
proof (rule run_await [OF assms(1)])
  fix r
  show "run (R r) G (case r of Inl e \<Rightarrow> err (c e) | Inr a \<Rightarrow> f a) Q"
    using assms(2,3) by (cases r) (auto intro: run_err)
qed

lemma run_lift_ok [io_rules]:
  "(\<And>a. r = Inr a \<Longrightarrow> run P G (f a) Q) \<Longrightarrow> (\<And>e h. r = Inl e \<Longrightarrow> P h \<Longrightarrow> Q (Inl e) h)
   \<Longrightarrow> run P G (lift_ok r f) Q"
  by (cases r) (auto simp: lift_ok_def intro: run_err)

lemma run_weaken:
  "run P G m Q \<Longrightarrow> (\<And>h. P' h \<Longrightarrow> P h) \<Longrightarrow> (\<And>h e. G h e \<Longrightarrow> G' h e)
   \<Longrightarrow> (\<And>a h. Q a h \<Longrightarrow> Q' a h) \<Longrightarrow> run P' G' m Q'"
  unfolding run_def by (fast intro: guarded_mono)

lemma run_pre: "run P G m Q \<Longrightarrow> (\<And>h. P' h \<Longrightarrow> P h) \<Longrightarrow> run P' G m Q"
  by (rule run_weaken)

lemma run_post: "run P G m Q \<Longrightarrow> (\<And>a h. Q a h \<Longrightarrow> Q' a h) \<Longrightarrow> run P G m Q'"
  by (rule run_weaken)

lemma run_False: "(\<And>h. \<not> P h) \<Longrightarrow> run P G m Q"
  by (simp add: run_def)

lemma run_conj_pure: "(p \<Longrightarrow> run P G m Q) \<Longrightarrow> run (\<lambda>h. p \<and> P h) G m Q"
  by (cases p) (auto simp: run_def)

lemma run_ex: "(\<And>x. run (P x) G m Q) \<Longrightarrow> run (\<lambda>h. \<exists>x. P x h) G m Q"
  unfolding run_def by blast

lemma run_if [io_rules]:
  "(b \<Longrightarrow> run P G m Q) \<Longrightarrow> (\<not> b \<Longrightarrow> run P G n Q) \<Longrightarrow> run P G (if b then m else n) Q"
  by simp

lemma run_case_option [io_rules]:
  "(x = None \<Longrightarrow> run P G m Q) \<Longrightarrow> (\<And>a. x = Some a \<Longrightarrow> run P G (f a) Q)
   \<Longrightarrow> run P G (case x of None \<Rightarrow> m | Some a \<Rightarrow> f a) Q"
  by (cases x) simp_all

lemma run_case_sum [io_rules]:
  "(\<And>e. r = Inl e \<Longrightarrow> run P G (m e) Q) \<Longrightarrow> (\<And>a. r = Inr a \<Longrightarrow> run P G (f a) Q)
   \<Longrightarrow> run P G (case r of Inl e \<Rightarrow> m e | Inr a \<Rightarrow> f a) Q"
  by (cases r) simp_all

lemma run_case_prod [io_rules]:
  "(\<And>a b. x = (a, b) \<Longrightarrow> run P G (f a b) Q) \<Longrightarrow> run P G (case x of (a, b) \<Rightarrow> f a b) Q"
  by (cases x) simp

lemma run_timeout:
  assumes m: "run P G m R"
    and fin: "\<And>a h. R a h \<Longrightarrow> Q (Some a) h" and elapsed: "\<And>h. Q None h"
  shows "run P G (timeout b m) Q"
  unfolding run_def
proof (intro allI impI)
  fix h assume "P h"
  obtain es where es: "snd (m h) = h @ es" "guarded G h es"
    and R: "\<And>a. fst (m h) = Some a \<Longrightarrow> R a (h @ es)"
    using runD [OF m \<open>P h\<close>] by metis
  have cut: "take (length h + b h) (h @ es) = h @ take (b h) es" by simp
  show "\<exists>es. snd (timeout b m h) = h @ es \<and> guarded G h es
      \<and> (\<forall>a. fst (timeout b m h) = Some a \<longrightarrow> Q a (h @ es))"
  proof (cases "\<exists>a. fst (m h) = Some a \<and> length es \<le> b h")
    case True
    then obtain a where a: "fst (m h) = Some a" "length es \<le> b h" by blast
    then have "timeout b m h = (Some (Some a), h @ es)"
      using es(1) by (cases "m h") (simp add: timeout_def)
    then show ?thesis using es(2) fin [OF R [OF a(1)]] by simp
  next
    case False
    then have "timeout b m h = (Some None, h @ take (b h) es)"
      using es(1) cut by (cases "m h") (auto simp: timeout_def split: option.splits)
    then show ?thesis using guarded_take [OF es(2)] elapsed by auto
  qed
qed

lemma run_for_ok:
  assumes body: "\<And>x. x \<in> set xs \<Longrightarrow> run I G (body x) (\<lambda>r h. case r of Inl e \<Rightarrow> E e h | Inr _ \<Rightarrow> I h)"
  shows "run I G (for_ok xs body) (\<lambda>r h. case r of Inl e \<Rightarrow> E e h | Inr _ \<Rightarrow> I h)"
  using body
proof (induction xs)
  case Nil
  show ?case by (auto intro: run_ok)
next
  case (Cons x xs)
  have head: "run I G (body x) (\<lambda>r h. case r of Inl e \<Rightarrow> E e h | Inr _ \<Rightarrow> I h)"
    using Cons.prems by simp
  show ?case unfolding for_ok.simps
    by (rule run_await_ok [OF head]) (use Cons in simp_all)
qed

section \<open>Guarantees that do not depend on the history\<close>

text \<open>\<open>emits p m\<close>: every event \<open>m\<close> adds satisfies \<open>p\<close>, whatever the environment does.\<close>

definition emits :: "('ev \<Rightarrow> bool) \<Rightarrow> ('ev, 'a) io \<Rightarrow> bool" where
  "emits p m \<longleftrightarrow> run (\<lambda>_. True) (\<lambda>_. p) m (\<lambda>_ _. True)"

lemma emits_iff: "emits p m \<longleftrightarrow> (\<forall>h. \<exists>es. snd (m h) = h @ es \<and> list_all p es)"
  by (simp add: emits_def run_def guarded_all)

named_theorems emits_rules "compositional rules for the events a computation emits"

lemma emits_return [emits_rules]: "emits p (return a)"
  by (simp add: emits_iff return_def)

lemma emits_hang [emits_rules]: "emits p hang"
  by (simp add: emits_iff hang_def)

lemma emits_ok [emits_rules]: "emits p (ok a)"
  by (simp add: ok_def emits_return)

lemma emits_err [emits_rules]: "emits p (err e)"
  by (simp add: err_def emits_return)

lemma emits_perform: "(\<And>h. p (mk (answer h))) \<Longrightarrow> emits p (perform answer mk)"
  by (simp add: emits_iff perform_def)

lemma emits_await [emits_rules]:
  "emits p m \<Longrightarrow> (\<And>a. emits p (f a)) \<Longrightarrow> emits p (await m f)"
  unfolding emits_def by (rule run_await) auto

lemma emits_await_ok [emits_rules]:
  "emits p m \<Longrightarrow> (\<And>a. emits p (f a)) \<Longrightarrow> emits p (await_ok m f)"
  unfolding emits_def by (rule run_await_ok) auto

lemma emits_await_map [emits_rules]:
  "emits p m \<Longrightarrow> (\<And>a. emits p (f a)) \<Longrightarrow> emits p (await_map c m f)"
  unfolding emits_def by (rule run_await_map) auto

lemma emits_lift_ok [emits_rules]: "(\<And>a. r = Inr a \<Longrightarrow> emits p (f a)) \<Longrightarrow> emits p (lift_ok r f)"
  unfolding emits_def by (rule run_lift_ok) auto

lemma emits_if [emits_rules]:
  "(b \<Longrightarrow> emits p m) \<Longrightarrow> (\<not> b \<Longrightarrow> emits p n) \<Longrightarrow> emits p (if b then m else n)"
  by simp

lemma emits_case_option [emits_rules]:
  "(x = None \<Longrightarrow> emits p m) \<Longrightarrow> (\<And>a. x = Some a \<Longrightarrow> emits p (f a))
   \<Longrightarrow> emits p (case x of None \<Rightarrow> m | Some a \<Rightarrow> f a)"
  by (cases x) simp_all

lemma emits_case_sum [emits_rules]:
  "(\<And>e. r = Inl e \<Longrightarrow> emits p (m e)) \<Longrightarrow> (\<And>a. r = Inr a \<Longrightarrow> emits p (f a))
   \<Longrightarrow> emits p (case r of Inl e \<Rightarrow> m e | Inr a \<Rightarrow> f a)"
  by (cases r) simp_all

lemma emits_case_prod [emits_rules]:
  "(\<And>a b. x = (a, b) \<Longrightarrow> emits p (f a b)) \<Longrightarrow> emits p (case x of (a, b) \<Rightarrow> f a b)"
  by (cases x) simp

lemma emits_timeout [emits_rules]: "emits p m \<Longrightarrow> emits p (timeout b m)"
  unfolding emits_def by (rule run_timeout) auto

lemma emits_for_ok [emits_rules]:
  "(\<And>x. x \<in> set xs \<Longrightarrow> emits p (body x)) \<Longrightarrow> emits p (for_ok xs body)"
  by (induction xs) (auto intro: emits_rules)

lemma emits_weaken: "emits p m \<Longrightarrow> (\<And>e. p e \<Longrightarrow> q e) \<Longrightarrow> emits q m"
  unfolding emits_iff by (metis list.pred_mono_strong)

text \<open>Two facts about the same computation, and facts that survive every event it may emit.\<close>

lemma guarded_conj: "guarded G h es \<Longrightarrow> guarded G' h es \<Longrightarrow> guarded (\<lambda>h e. G h e \<and> G' h e) h es"
  by (induction es arbitrary: h) auto

lemma run_conj:
  assumes "run P G m Q" and "run P G' m Q'"
  shows "run P (\<lambda>h e. G h e \<and> G' h e) m (\<lambda>a h. Q a h \<and> Q' a h)"
  unfolding run_def
proof (intro allI impI)
  fix h assume "P h"
  from assms this show "\<exists>es. snd (m h) = h @ es \<and> guarded (\<lambda>h e. G h e \<and> G' h e) h es
      \<and> (\<forall>a. fst (m h) = Some a \<longrightarrow> Q a (h @ es) \<and> Q' a (h @ es))"
    unfolding run_def by (metis guarded_conj same_append_eq)
qed

lemma guarded_stable:
  assumes "list_all p es" and "I h"
    and "\<And>h e. I h \<Longrightarrow> p e \<Longrightarrow> I (h @ [e]) \<and> G h e"
  shows "guarded G h es \<and> I (h @ es)"
  using assms(1,2)
proof (induction es arbitrary: h)
  case (Cons e es)
  then show ?case using assms(3) [of h e] Cons.IH [of "h @ [e]"] by simp
qed simp

lemma run_stable:
  assumes "emits p m" and "\<And>h e. I h \<Longrightarrow> p e \<Longrightarrow> I (h @ [e]) \<and> G h e"
  shows "run I G m (\<lambda>_. I)"
  unfolding run_def
proof (intro allI impI)
  fix h assume "I h"
  obtain es where "snd (m h) = h @ es" "list_all p es" using assms(1) unfolding emits_iff by blast
  with guarded_stable [OF this(2) \<open>I h\<close> assms(2)]
  show "\<exists>es. snd (m h) = h @ es \<and> guarded G h es \<and> (\<forall>a. fst (m h) = Some a \<longrightarrow> I (h @ es))"
    by blast
qed

section \<open>Computations that return\<close>

text \<open>\<open>returns m\<close>: \<open>m\<close> ends with a result from every history, whatever the environment does.\<close>

definition returns :: "('ev, 'a) io \<Rightarrow> bool" where
  "returns m \<longleftrightarrow> (\<forall>h. fst (m h) \<noteq> None)"

named_theorems returns_rules "compositional rules for computations that return"

lemma returns_basic [returns_rules]: "returns (return a)" "returns (ok b)" "returns (err e)" "returns (perform f g)"
  by (simp_all add: returns_def return_def ok_def err_def perform_def)

lemma returns_await [returns_rules]:
  "returns m \<Longrightarrow> (\<And>a. returns (f a)) \<Longrightarrow> returns (await m f)"
  unfolding returns_def
proof
  fix h assume m: "\<forall>h. fst (m h) \<noteq> None" and f: "\<And>a. \<forall>h. fst (f a h) \<noteq> None"
  obtain a h' where "m h = (Some a, h')" using m by (cases "m h") (metis fst_conv not_Some_eq)
  then show "fst (await m f h) \<noteq> None" using f by (simp add: await_def)
qed

lemma returns_await_ok [returns_rules]:
  "returns m \<Longrightarrow> (\<And>a. returns (f a)) \<Longrightarrow> returns (await_ok m f)"
  unfolding await_ok_def by (intro returns_rules) (auto split: sum.splits intro: returns_rules)

lemma returns_await_map [returns_rules]:
  "returns m \<Longrightarrow> (\<And>a. returns (f a)) \<Longrightarrow> returns (await_map c m f)"
  unfolding await_map_def by (intro returns_rules) (auto split: sum.splits intro: returns_rules)

lemma returns_lift_ok [returns_rules]: "(\<And>a. r = Inr a \<Longrightarrow> returns (f a)) \<Longrightarrow> returns (lift_ok r f)"
  by (cases r) (simp_all add: lift_ok_def returns_rules)

lemma returns_cases [returns_rules]:
  "(b \<Longrightarrow> returns m) \<Longrightarrow> (\<not> b \<Longrightarrow> returns n) \<Longrightarrow> returns (if b then m else n)"
  "(x = None \<Longrightarrow> returns m) \<Longrightarrow> (\<And>a. x = Some a \<Longrightarrow> returns (f a))
   \<Longrightarrow> returns (case x of None \<Rightarrow> m | Some a \<Rightarrow> f a)"
  "(\<And>e. r = Inl e \<Longrightarrow> returns (g e)) \<Longrightarrow> (\<And>a. r = Inr a \<Longrightarrow> returns (k a))
   \<Longrightarrow> returns (case r of Inl e \<Rightarrow> g e | Inr a \<Rightarrow> k a)"
  "(\<And>a b. y = (a, b) \<Longrightarrow> returns (l a b)) \<Longrightarrow> returns (case y of (a, b) \<Rightarrow> l a b)"
  "returns (q z) \<Longrightarrow> returns (let w = z in q w)"
  by (auto split: option.splits sum.splits prod.splits)

text \<open>A time limit makes anything return.\<close>

lemma returns_timeout [returns_rules]: "returns (timeout b m)"
  by (auto simp: returns_def timeout_def split: prod.splits option.splits)

lemma returns_for_ok [returns_rules]:
  "(\<And>x. x \<in> set xs \<Longrightarrow> returns (body x)) \<Longrightarrow> returns (for_ok xs body)"
  by (induction xs) (auto intro: returns_rules)

end
