(* ===== verification/F64.thy ===== *)
theory F64
  imports Prelude Complex_Main
begin

text \<open>
  Rust's \<open>f64\<close> as far as the program uses it: parsing (\<open>str::parse\<close>), division by a constant,
  comparison with zero, \<open>ceil\<close>, \<open>fract\<close> and the saturating conversion to \<open>u64\<close> and \<open>u32\<close>.
  A finite value is the rational number it stands for (the two zeros are one value: the program
  only compares with zero), and every operation rounds its exact result to the nearest binary64
  number, ties to even.
\<close>

section \<open>Values and rounding\<close>

datatype f64 = NaN | Infinity bool | Finite rat

fun bit_len :: "nat \<Rightarrow> nat" where
  "bit_len n = (if n = 0 then 0 else Suc (bit_len (n div 2)))"

declare bit_len.simps [simp del]

definition pow2 :: "int \<Rightarrow> rat" where
  "pow2 e = (if 0 \<le> e then 2 ^ nat e else 1 / 2 ^ nat (- e))"

text \<open>The exponent \<open>k\<close> with \<open>2 ^ k \<le> q < 2 ^ (k + 1)\<close>, for positive \<open>q\<close>.\<close>

definition ilog2 :: "rat \<Rightarrow> int" where
  "ilog2 q =
     (let (a, b) = quotient_of q; k = int (bit_len (nat a)) - int (bit_len (nat b))
      in if pow2 k \<le> q then k else k - 1)"

text \<open>Round to the nearest integer, ties to even.\<close>

definition round_even :: "rat \<Rightarrow> int" where
  "round_even q =
     (let f = \<lfloor>q\<rfloor>; r = q - of_int f
      in if r < 1 / 2 then f else if 1 / 2 < r then f + 1 else if even f then f else f + 1)"

text \<open>The spacing of binary64 numbers around \<open>q\<close>: 53 significant bits, down to \<open>2 ^ -1074\<close>.\<close>

definition ulp_exp :: "rat \<Rightarrow> int" where
  "ulp_exp q = max (ilog2 q - 52) (- 1074)"

definition round_pos :: "rat \<Rightarrow> f64" where
  "round_pos q =
     (let e = ulp_exp q; v = of_int (round_even (q / pow2 e)) * pow2 e
      in if pow2 1024 \<le> v then Infinity False else Finite v)"

definition neg_f64 :: "f64 \<Rightarrow> f64" where
  "neg_f64 x = (case x of NaN \<Rightarrow> NaN | Infinity s \<Rightarrow> Infinity (\<not> s) | Finite q \<Rightarrow> Finite (- q))"

definition round_f64 :: "rat \<Rightarrow> f64" where
  "round_f64 q =
     (if q = 0 then Finite 0 else if 0 < q then round_pos q else neg_f64 (round_pos (- q)))"

section \<open>Operations\<close>

definition div_f64 :: "f64 \<Rightarrow> rat \<Rightarrow> f64" where
  "div_f64 x d = (case x of NaN \<Rightarrow> NaN | Infinity s \<Rightarrow> Infinity s | Finite q \<Rightarrow> round_f64 (q / d))"

definition is_finite :: "f64 \<Rightarrow> bool" where
  "is_finite x = (case x of Finite _ \<Rightarrow> True | _ \<Rightarrow> False)"

text \<open>\<open>x <= d\<close> and \<open>x >= d\<close> for a constant \<open>d\<close>: false on NaN.\<close>

definition le_f64 :: "f64 \<Rightarrow> rat \<Rightarrow> bool" where
  "le_f64 x d = (case x of NaN \<Rightarrow> False | Infinity s \<Rightarrow> s | Finite q \<Rightarrow> q \<le> d)"

definition ge_f64 :: "f64 \<Rightarrow> rat \<Rightarrow> bool" where
  "ge_f64 x d = (case x of NaN \<Rightarrow> False | Infinity s \<Rightarrow> \<not> s | Finite q \<Rightarrow> d \<le> q)"

definition fract_is_zero :: "f64 \<Rightarrow> bool" where
  "fract_is_zero x = (case x of Finite q \<Rightarrow> of_int \<lfloor>q\<rfloor> = q | _ \<Rightarrow> False)"

text \<open>\<open>as uN\<close>: NaN is 0, values out of range saturate, fractions are dropped.\<close>

definition to_unsigned :: "nat \<Rightarrow> f64 \<Rightarrow> nat" where
  "to_unsigned w x =
     (case x of NaN \<Rightarrow> 0 | Infinity s \<Rightarrow> if s then 0 else 2 ^ w - 1
      | Finite q \<Rightarrow> if q < 0 then 0 else min (nat \<lfloor>q\<rfloor>) (2 ^ w - 1))"

text \<open>\<open>ceil\<close> is exact: the result is always representable.\<close>

definition ceil_f64 :: "f64 \<Rightarrow> f64" where
  "ceil_f64 x = (case x of Finite q \<Rightarrow> Finite (of_int \<lceil>q\<rceil>) | _ \<Rightarrow> x)"

section \<open>Parsing\<close>

text \<open>The exact value of \<open>digits.digits\<close> with a decimal exponent.\<close>

definition dec_value :: "string \<Rightarrow> string \<Rightarrow> int \<Rightarrow> rat" where
  "dec_value ip fp e =
     (let n = of_nat (digits_val (ip @ fp)); x = e - int (length fp)
      in if 0 \<le> x then n * 10 ^ nat x else n / 10 ^ nat (- x))"

definition parse_exponent :: "string \<Rightarrow> int option" where
  "parse_exponent s =
     (let (neg, ds) = (case s of c # cs \<Rightarrow> if c = CHR ''-'' then (True, cs)
                         else if c = CHR ''+'' then (False, cs) else (False, s)
                       | [] \<Rightarrow> (False, []))
      in if ds \<noteq> [] \<and> list_all is_ascii_digit ds
         then Some (if neg then - int (digits_val ds) else int (digits_val ds)) else None)"

definition parse_number :: "string \<Rightarrow> rat option" where
  "parse_number s =
     (let ip = takeWhile is_ascii_digit s; r1 = dropWhile is_ascii_digit s;
          (fp, r2) = (case r1 of c # r \<Rightarrow> if c = CHR ''.''
                        then (takeWhile is_ascii_digit r, dropWhile is_ascii_digit r) else ([], r1)
                      | [] \<Rightarrow> ([], []))
      in if ip = [] \<and> fp = [] then None
         else (case r2 of
                 [] \<Rightarrow> Some (dec_value ip fp 0)
               | c # r \<Rightarrow> if to_ascii_lowercase c = CHR ''e''
                   then map_option (dec_value ip fp) (parse_exponent r) else None))"

definition parse_f64 :: "string \<Rightarrow> f64 option" where
  "parse_f64 s =
     (let (neg, t) = (case s of c # cs \<Rightarrow> if c = CHR ''-'' then (True, cs)
                        else if c = CHR ''+'' then (False, cs) else (False, s)
                      | [] \<Rightarrow> (False, []));
          sign = (\<lambda>x. if neg then neg_f64 x else x); l = map to_ascii_lowercase t
      in if l = ''inf'' \<or> l = ''infinity'' then Some (sign (Infinity False))
         else if l = ''nan'' then Some NaN
         else map_option (\<lambda>q. sign (round_f64 q)) (parse_number t))"

section \<open>Rounding is exact on small integers and monotone enough around them\<close>

lemma bit_len_bounds: "0 < n \<Longrightarrow> 2 ^ (bit_len n - 1) \<le> n \<and> n < 2 ^ bit_len n \<and> 0 < bit_len n"
proof (induction n rule: bit_len.induct)
  case (1 n)
  show ?case
  proof (cases "n = 1")
    case True
    then show ?thesis by (simp add: bit_len.simps [of "Suc 0"] bit_len.simps [of 0])
  next
    case False
    with 1(2) have "0 < n div 2" by auto
    with 1 have ih: "2 ^ (bit_len (n div 2) - 1) \<le> n div 2" "n div 2 < 2 ^ bit_len (n div 2)"
      "0 < bit_len (n div 2)" by auto
    have len: "bit_len n = Suc (bit_len (n div 2))"
      using 1(2) by (simp add: bit_len.simps [of n])
    have "2 ^ bit_len (n div 2) = 2 * (2 ^ (bit_len (n div 2) - 1) :: nat)"
      using ih(3) by (metis Suc_diff_1 power_Suc)
    then have "2 ^ bit_len (n div 2) \<le> n \<and> n < 2 * 2 ^ bit_len (n div 2)"
      using ih(1,2) by linarith
    then show ?thesis by (simp add: len)
  qed
qed

lemma pow2_pos [simp]: "0 < pow2 e"
  by (simp add: pow2_def)

lemma pow2_simps [simp]: "pow2 e \<noteq> 0" "\<not> pow2 e < 0" "0 \<le> pow2 e" "\<bar>pow2 e\<bar> = pow2 e"
  using pow2_pos [of e] by (auto simp del: pow2_pos)

lemma pow2_of_nat: "pow2 (int n) = 2 ^ n"
  by (simp add: pow2_def)

lemma pow2_Suc: "pow2 (e + 1) = 2 * pow2 e"
proof (cases "0 \<le> e")
  case True
  then show ?thesis by (simp add: pow2_def nat_add_distrib)
next
  case False
  then obtain m where "nat (- e) = Suc m" by (cases "nat (- e)") auto
  with False have e: "nat (- e) = Suc m" "nat (- (e + 1)) = m" by linarith+
  show ?thesis
  proof (cases m)
    case 0
    with e False have "e = - 1" by linarith
    then show ?thesis by (simp add: pow2_def)
  next
    case (Suc k)
    with e False have "\<not> 0 \<le> e + 1" by linarith
    with e False show ?thesis by (simp add: pow2_def)
  qed
qed

lemma pow2_add_nat: "pow2 (e + int n) = pow2 e * 2 ^ n"
proof (induction n)
  case (Suc n)
  then show ?case using pow2_Suc [of "e + int n"] by (simp add: ac_simps)
qed simp

lemma pow2_diff: "pow2 (int m - int n) = 2 ^ m / 2 ^ n"
  using pow2_add_nat [of "int m - int n" n] by (simp add: pow2_of_nat field_simps)

lemma pow2_mono: "d \<le> e \<Longrightarrow> pow2 d \<le> pow2 e"
proof -
  assume "d \<le> e"
  then obtain n where "e = d + int n" by (metis zle_iff_zadd)
  then have "pow2 e = pow2 d * 2 ^ n" by (simp add: pow2_add_nat)
  then show ?thesis by (simp add: mult_le_cancel_left1)
qed

lemma pow2_bounds_rat:
  assumes "2 ^ i \<le> k" and "k < 2 ^ j"
  shows "(2 :: rat) ^ i \<le> of_nat k" and "of_nat k < (2 :: rat) ^ j"
  using assms by (metis of_nat_le_iff of_nat_numeral of_nat_power,
      metis of_nat_less_iff of_nat_numeral of_nat_power)

lemma ilog2_bounds:
  assumes "0 < q"
  shows "pow2 (ilog2 q) \<le> q" and "q < pow2 (ilog2 q + 1)"
proof -
  obtain a b where ab: "quotient_of q = (a, b)" by (cases "quotient_of q")
  then have q: "q = of_int a / of_int b" and b: "0 < b"
    by (auto dest: quotient_of_div quotient_of_denom_pos)
  with assms have a: "0 < a" by (simp add: zero_less_divide_iff)
  let ?m = "bit_len (nat a)" and ?n = "bit_len (nat b)"
  have ba: "2 ^ (?m - 1) \<le> nat a" "nat a < 2 ^ ?m" "0 < ?m"
    and bb: "2 ^ (?n - 1) \<le> nat b" "nat b < 2 ^ ?n" "0 < ?n"
    using bit_len_bounds [of "nat a"] bit_len_bounds [of "nat b"] a b by simp_all
  have ra: "(2 :: rat) ^ (?m - 1) \<le> of_int a" "of_int a < (2 :: rat) ^ ?m"
    using pow2_bounds_rat [OF ba(1,2)] a by simp_all
  have rb: "(2 :: rat) ^ (?n - 1) \<le> of_int b" "of_int b < (2 :: rat) ^ ?n"
    using pow2_bounds_rat [OF bb(1,2)] b by simp_all
  have n: "(2 :: rat) ^ ?n = 2 * 2 ^ (?n - 1)" and m: "(2 :: rat) ^ ?m = 2 * 2 ^ (?m - 1)"
    using ba(3) bb(3) by (metis Suc_diff_1 power_Suc)+
  let ?k = "int ?m - int ?n"
  have up: "q < pow2 (?k + 1)"
  proof -
    have "q < 2 ^ ?m / 2 ^ (?n - 1)"
      unfolding q using ra(2) rb(1) a b by (intro frac_less) auto
    also have "\<dots> = pow2 (?k + 1)"
      by (simp add: pow2_Suc pow2_diff n)
    finally show ?thesis .
  qed
  have lo: "pow2 (?k - 1) \<le> q"
  proof -
    have "2 ^ (?m - 1) / 2 ^ ?n \<le> q"
      unfolding q using ra(1) rb(2) a b by (intro frac_le) auto
    moreover have "pow2 (?k - 1) = 2 ^ (?m - 1) / 2 ^ ?n"
      using pow2_Suc [of "?k - 1"] by (simp add: pow2_diff m)
    ultimately show ?thesis by simp
  qed
  show "pow2 (ilog2 q) \<le> q" "q < pow2 (ilog2 q + 1)"
    using up lo by (auto simp: ilog2_def ab Let_def)
qed

lemma round_even_error: "\<bar>of_int (round_even q) - q\<bar> \<le> 1 / 2"
  unfolding round_even_def Let_def using floor_correct [of q] by (auto simp: abs_if) linarith

lemma round_even_of_int [simp]: "round_even (of_int n) = n"
  by (simp add: round_even_def)

lemma round_pos_error:
  assumes "0 < q" and "round_pos q = Finite v"
  shows "\<bar>v - q\<bar> \<le> pow2 (ulp_exp q) / 2"
proof -
  let ?p = "pow2 (ulp_exp q)"
  have v: "v = of_int (round_even (q / ?p)) * ?p"
    using assms(2) by (auto simp: round_pos_def Let_def split: if_splits)
  have "v - q = (of_int (round_even (q / ?p)) - q / ?p) * ?p"
    unfolding v by (simp add: field_simps)
  then have "\<bar>v - q\<bar> = \<bar>of_int (round_even (q / ?p)) - q / ?p\<bar> * ?p"
    by (simp add: abs_mult)
  also have "\<dots> \<le> 1 / 2 * ?p"
    by (rule mult_right_mono [OF round_even_error]) (simp add: less_imp_le)
  finally show ?thesis by simp
qed

end
