(* ===== verification/Proto.thy ===== *)
theory Proto
  imports F64
begin

text \<open>
  The messages of \<open>proto/compute_driver.proto\<close> that the driver receives and returns. A message is
  a record with the fields of the schema, a message-typed field is an option, a \<open>oneof\<close> a datatype.
  A \<open>map<string, string>\<close> is the list of its entries in the order the program happens to iterate
  over it, so that a theorem for every list covers every iteration order of the hash map.
\<close>

section \<open>\<open>google.protobuf.Struct\<close>\<close>

datatype kind =
    NullValue
  | NumberValue f64
  | StringValue string
  | BoolValue bool
  | StructValue "(string \<times> kind option) list"
  | ListValue "kind option list"

text \<open>A \<open>Value\<close> holds an optional kind; a \<open>Struct\<close> maps field names to values.\<close>

type_synonym pb_struct = "string \<rightharpoonup> kind option"

type_synonym str_map = "(string \<times> string) list"

section \<open>Sandbox messages\<close>

record driver_resource_requirements =
  cpu_request :: string
  cpu_limit :: string
  memory_request :: string
  memory_limit :: string

record gpu_resource_requirements =
  gpu_count :: "nat option"

record resource_requirements =
  rr_gpu :: "gpu_resource_requirements option"

record driver_sandbox_template =
  tpl_image :: string
  tpl_agent_socket_path :: string
  tpl_labels :: str_map
  tpl_environment :: str_map
  tpl_resources :: "driver_resource_requirements option"
  tpl_platform_config :: "pb_struct option"
  tpl_driver_config :: "pb_struct option"

record driver_sandbox_spec =
  spec_log_level :: string
  spec_environment :: str_map
  spec_template :: "driver_sandbox_template option"
  spec_resource_requirements :: "resource_requirements option"
  spec_sandbox_token :: string
  spec_command :: "string list"
  spec_tty :: bool
  spec_await_main_process_attachment :: bool

record driver_condition =
  cond_type :: string
  cond_status :: string
  cond_reason :: string
  cond_message :: string
  cond_last_transition_time :: string

record driver_sandbox_status =
  st_sandbox_name :: string
  st_instance_id :: string
  st_agent_fd :: string
  st_sandbox_fd :: string
  st_conditions :: "driver_condition list"
  st_deleting :: bool

record driver_sandbox =
  sb_id :: string
  sb_name :: string
  sb_namespace :: string
  sb_spec :: "driver_sandbox_spec option"
  sb_status :: "driver_sandbox_status option"
  sb_workspace :: string

section \<open>Capabilities and listener requirements\<close>

record get_capabilities_response =
  cap_driver_name :: string
  cap_driver_version :: string
  cap_default_image :: string
  cap_gateway_manages_lifecycle :: bool
  cap_supports_sandbox_authentication :: bool

datatype listener_selector =
    ExactBindAddress string
  | DefaultRouteInterface
  | LoopbackInterface

record gateway_listener_requirement =
  req_reason :: string
  req_selector :: "listener_selector option"

section \<open>Empty messages, as \<open>Default::default()\<close> builds them\<close>

definition default_template :: driver_sandbox_template where
  "default_template = \<lparr>tpl_image = [], tpl_agent_socket_path = [], tpl_labels = [],
     tpl_environment = [], tpl_resources = None, tpl_platform_config = None, tpl_driver_config = None\<rparr>"

definition default_spec :: driver_sandbox_spec where
  "default_spec = \<lparr>spec_log_level = [], spec_environment = [], spec_template = None,
     spec_resource_requirements = None, spec_sandbox_token = [], spec_command = [],
     spec_tty = False, spec_await_main_process_attachment = False\<rparr>"

definition default_sandbox :: driver_sandbox where
  "default_sandbox = \<lparr>sb_id = [], sb_name = [], sb_namespace = [], sb_spec = None,
     sb_status = None, sb_workspace = []\<rparr>"

end
