(* ===== verification/Ip.thy ===== *)
theory Ip
  imports Prelude
begin

text \<open>
  IP addresses and socket addresses as \<open>std::net\<close> parses and prints them. An address is the number
  it stands for: below \<open>2 ^ 32\<close> for IPv4, below \<open>2 ^ 128\<close> for IPv6.
\<close>

section \<open>Addresses\<close>

datatype ip_addr = V4 nat | V6 nat

record socket_addr =
  sa_ip :: ip_addr
  sa_port :: nat
  sa_scope :: nat

definition octets :: "nat \<Rightarrow> nat list" where
  "octets n = [n div 2 ^ 24 mod 256, n div 2 ^ 16 mod 256, n div 2 ^ 8 mod 256, n mod 256]"

definition of_octets :: "nat list \<Rightarrow> nat" where
  "of_octets os = foldl (\<lambda>n b. 256 * n + b) 0 os"

definition segments :: "nat \<Rightarrow> nat list" where
  "segments n = map (\<lambda>i. n div 2 ^ (16 * i) mod 2 ^ 16) (rev [0..<8])"

definition of_segments :: "nat list \<Rightarrow> nat" where
  "of_segments ss = foldl (\<lambda>n b. 2 ^ 16 * n + b) 0 ss"

definition is_unspecified :: "ip_addr \<Rightarrow> bool" where
  "is_unspecified a = (case a of V4 n \<Rightarrow> n = 0 | V6 n \<Rightarrow> n = 0)"

definition is_multicast :: "ip_addr \<Rightarrow> bool" where
  "is_multicast a = (case a of V4 n \<Rightarrow> 224 \<le> n div 2 ^ 24 \<and> n div 2 ^ 24 \<le> 239
                     | V6 n \<Rightarrow> n div 2 ^ 120 = 255)"

section \<open>Printing\<close>

definition show_ipv4 :: "nat \<Rightarrow> string" where
  "show_ipv4 n = join_str ''.'' (map dec (octets n))"

definition show_groups :: "nat list \<Rightarrow> string" where
  "show_groups ss = join_str '':'' (map hex_nat ss)"

text \<open>Start and length of the first longest run of zero segments.\<close>

definition longest_zeros :: "nat list \<Rightarrow> nat \<times> nat" where
  "longest_zeros ss = foldl (\<lambda>(s, l) i. let k = length (takeWhile (\<lambda>x. x = 0) (drop i ss))
     in if l < k then (i, k) else (s, l)) (0, 0) [0..<length ss]"

definition show_ipv6 :: "nat \<Rightarrow> string" where
  "show_ipv6 n =
     (if n div 2 ^ 32 = 0xFFFF then ''::ffff:'' @ show_ipv4 (n mod 2 ^ 32)
      else let ss = segments n; (start, len) = longest_zeros ss
        in if 1 < len then show_groups (take start ss) @ ''::'' @ show_groups (drop (start + len) ss)
           else show_groups ss)"

definition show_ip :: "ip_addr \<Rightarrow> string" where
  "show_ip a = (case a of V4 n \<Rightarrow> show_ipv4 n | V6 n \<Rightarrow> show_ipv6 n)"

definition show_socket_addr :: "socket_addr \<Rightarrow> string" where
  "show_socket_addr a = (case sa_ip a of
      V4 n \<Rightarrow> show_ipv4 n @ '':'' @ dec (sa_port a)
    | V6 n \<Rightarrow> ''['' @ show_ipv6 n
        @ (if sa_scope a = 0 then [] else ''%'' @ dec (sa_scope a)) @ '']:'' @ dec (sa_port a))"

section \<open>Parsing\<close>

text \<open>An octet: one to three digits without a leading zero, at most 255.\<close>

definition parse_octet :: "string \<Rightarrow> nat option" where
  "parse_octet s =
     (if s \<noteq> [] \<and> list_all is_ascii_digit s \<and> length s \<le> 3 \<and> (length s = 1 \<or> hd s \<noteq> CHR ''0'')
        \<and> digits_val s < 256
      then Some (digits_val s) else None)"

fun all_some :: "'a option list \<Rightarrow> 'a list option" where
  "all_some [] = Some []"
| "all_some (x # xs) = Option.bind x (\<lambda>a. map_option (Cons a) (all_some xs))"

definition parse_ipv4 :: "string \<Rightarrow> nat option" where
  "parse_ipv4 s =
     (let parts = split_char (CHR ''.'') s
      in if length parts = 4 then map_option of_octets (all_some (map parse_octet parts)) else None)"

definition hex_digit_val :: "char \<Rightarrow> nat" where
  "hex_digit_val c = (let n = (of_char c :: nat) in
     if n \<le> 57 then n - 48 else if 97 \<le> n then n - 87 else n - 55)"

definition parse_segment :: "string \<Rightarrow> nat option" where
  "parse_segment s =
     (if s \<noteq> [] \<and> list_all is_ascii_hexdigit s \<and> length s \<le> 4
      then Some (foldl (\<lambda>n c. 16 * n + hex_digit_val c) 0 s) else None)"

text \<open>Colon-separated segments; the last may be an embedded IPv4 address where \<open>v4\<close> allows it.\<close>

fun parse_segments :: "bool \<Rightarrow> string list \<Rightarrow> nat list option" where
  "parse_segments v4 [] = Some []"
| "parse_segments v4 [s] = (case parse_segment s of
      Some x \<Rightarrow> Some [x]
    | None \<Rightarrow> if v4 then map_option (\<lambda>n. [n div 2 ^ 16, n mod 2 ^ 16]) (parse_ipv4 s) else None)"
| "parse_segments v4 (s # ss) =
     Option.bind (parse_segment s) (\<lambda>x. map_option (Cons x) (parse_segments v4 ss))"

text \<open>The text before and after the first \<open>::\<close>.\<close>

fun split_double_colon :: "string \<Rightarrow> (string \<times> string) option" where
  "split_double_colon (a # b # cs) =
     (if a = CHR '':'' \<and> b = CHR '':'' then Some ([], cs)
      else map_option (\<lambda>(u, v). (a # u, v)) (split_double_colon (b # cs)))"
| "split_double_colon _ = None"

definition groups_of :: "bool \<Rightarrow> string \<Rightarrow> nat list option" where
  "groups_of v4 s = (if s = [] then Some [] else parse_segments v4 (split_char (CHR '':'') s))"

definition parse_ipv6 :: "string \<Rightarrow> nat option" where
  "parse_ipv6 s = (case split_double_colon s of
      None \<Rightarrow> Option.bind (groups_of True s) (\<lambda>gs. if length gs = 8 then Some (of_segments gs) else None)
    | Some (u, v) \<Rightarrow>
        Option.bind (groups_of False u) (\<lambda>hd'.
        Option.bind (groups_of True v) (\<lambda>tl'.
          if length hd' + length tl' \<le> 7
          then Some (of_segments (hd' @ replicate (8 - length hd' - length tl') 0 @ tl')) else None)))"

definition parse_ip :: "string \<Rightarrow> ip_addr option" where
  "parse_ip s = (case parse_ipv4 s of Some n \<Rightarrow> Some (V4 n) | None \<Rightarrow> map_option V6 (parse_ipv6 s))"

text \<open>A number of digits only: no sign, leading zeros allowed.\<close>

definition parse_number_max :: "nat \<Rightarrow> string \<Rightarrow> nat option" where
  "parse_number_max bound s =
     (if s \<noteq> [] \<and> list_all is_ascii_digit s \<and> digits_val s < bound then Some (digits_val s) else None)"

definition parse_socket_addr_v4 :: "string \<Rightarrow> socket_addr option" where
  "parse_socket_addr_v4 s =
     Option.bind (split_once (CHR '':'') s) (\<lambda>(ip, port).
     Option.bind (parse_ipv4 ip) (\<lambda>n.
     Option.bind (parse_number_max (2 ^ 16) port) (\<lambda>p.
       Some \<lparr>sa_ip = V4 n, sa_port = p, sa_scope = 0\<rparr>)))"

definition parse_socket_addr_v6 :: "string \<Rightarrow> socket_addr option" where
  "parse_socket_addr_v6 s = (case s of
      c # rest \<Rightarrow> if c \<noteq> CHR ''['' then None else
        Option.bind (split_once (CHR '']'') rest) (\<lambda>(inner, after).
        Option.bind (case split_once (CHR ''%'') inner of
            None \<Rightarrow> Some (inner, 0)
          | Some (ip, sc) \<Rightarrow> map_option (Pair ip) (parse_number_max (2 ^ 32) sc)) (\<lambda>(ip, scope).
        Option.bind (parse_ipv6 ip) (\<lambda>n.
        Option.bind (strip_prefix '':'' after) (\<lambda>port.
        Option.bind (parse_number_max (2 ^ 16) port) (\<lambda>p.
          Some \<lparr>sa_ip = V6 n, sa_port = p, sa_scope = scope\<rparr>)))))
    | [] \<Rightarrow> None)"

definition parse_socket_addr :: "string \<Rightarrow> socket_addr option" where
  "parse_socket_addr s = (case parse_socket_addr_v4 s of Some a \<Rightarrow> Some a | None \<Rightarrow> parse_socket_addr_v6 s)"

section \<open>Round trips\<close>

lemma dec_len: "n < 10 ^ k \<Longrightarrow> 0 < k \<Longrightarrow> length (dec n) \<le> k"
proof (induction n arbitrary: k rule: dec.induct)
  case (1 n)
  show ?case
  proof (cases "n < 10")
    case True
    then show ?thesis using 1(3) by (simp add: dec.simps [of n])
  next
    case False
    obtain j where k: "k = Suc j" using 1(3) by (cases k) auto
    with False 1(2) have "0 < j" by (cases j) auto
    moreover have "n div 10 < 10 ^ j" using 1(2) k by (simp add: less_mult_imp_div_less mult.commute)
    ultimately have "length (dec (n div 10)) \<le> j" using 1(1) False by blast
    then show ?thesis using False k by (simp add: dec.simps [of n])
  qed
qed

lemma dec_hd: "0 < n \<Longrightarrow> hd (dec n) \<noteq> CHR ''0''"
proof (induction n rule: dec.induct)
  case (1 n)
  show ?case
  proof (cases "n < 10")
    case True
    then have "digit_val (digit_char n) = n" by (rule digit_char_props)
    then have "digit_char n \<noteq> CHR ''0''" using 1(2) by (auto simp: digit_val_def)
    then show ?thesis using True by (simp add: dec.simps [of n])
  next
    case False
    then have "0 < n div 10" by simp
    with 1 False show ?thesis by (simp add: dec.simps [of n])
  qed
qed

lemma dec_length_1: "n < 10 \<longleftrightarrow> length (dec n) = 1"
  by (subst dec.simps) simp

lemma parse_octet_dec: "n < 256 \<Longrightarrow> parse_octet (dec n) = Some n"
  using dec_len [of n 3] dec_hd [of n] dec_length_1 [of n]
  by (cases "n = 0") (auto simp: parse_octet_def list_all_iff dec_digits)

lemma sep_not_in_dec: "\<not> is_ascii_digit c \<Longrightarrow> c \<notin> set (dec n)"
  using dec_digits by blast

lemma of_octets_octets: "n < 2 ^ 32 \<Longrightarrow> of_octets (octets n) = n"
proof -
  assume n: "n < 2 ^ 32"
  define a where "a = n div 256"
  define b where "b = a div 256"
  define c where "c = b div 256"
  have "c < 256" using n by (simp add: a_def b_def c_def div_mult2_eq [symmetric] less_mult_imp_div_less)
  moreover have "n div 2 ^ 24 = c" "n div 2 ^ 16 = b" "n div 2 ^ 8 = a"
    by (simp_all add: a_def b_def c_def div_mult2_eq [symmetric])
  ultimately have "of_octets (octets n) = 256 * (256 * (256 * c + b mod 256) + a mod 256) + n mod 256"
    by (simp add: of_octets_def octets_def)
  also have "\<dots> = n" by (simp add: a_def b_def c_def)
  finally show ?thesis .
qed

lemma parse_show_ipv4: "n < 2 ^ 32 \<Longrightarrow> parse_ipv4 (show_ipv4 n) = Some n"
proof -
  assume n: "n < 2 ^ 32"
  have "CHR ''.'' \<notin> set (dec k)" for k by (rule sep_not_in_dec) (simp add: is_ascii_digit_def)
  then have "split_char (CHR ''.'') (show_ipv4 n) = map dec (octets n)"
    unfolding show_ipv4_def by (intro split_join) (auto simp: octets_def)
  moreover have "all_some (map parse_octet (map dec (octets n))) = Some (octets n)"
    by (simp add: octets_def parse_octet_dec)
  moreover have "length (octets n) = 4" by (simp add: octets_def)
  ultimately show ?thesis by (simp add: parse_ipv4_def of_octets_octets [OF n])
qed

lemma parse_show_ip_v4: "n < 2 ^ 32 \<Longrightarrow> parse_ip (show_ip (V4 n)) = Some (V4 n)"
  by (simp add: parse_ip_def show_ip_def parse_show_ipv4)

lemma parse_show_socket_addr_v4:
  assumes "n < 2 ^ 32" and "p < 2 ^ 16"
  shows "parse_socket_addr (show_socket_addr \<lparr>sa_ip = V4 n, sa_port = p, sa_scope = 0\<rparr>)
    = Some \<lparr>sa_ip = V4 n, sa_port = p, sa_scope = 0\<rparr>"
proof -
  have "CHR '':'' \<notin> set (dec k)" for k by (rule sep_not_in_dec) (simp add: is_ascii_digit_def)
  then have "CHR '':'' \<notin> set (show_ipv4 n)" by (simp add: show_ipv4_def octets_def)
  then have "split_once (CHR '':'') (show_ipv4 n @ '':'' @ dec p) = Some (show_ipv4 n, dec p)"
    by (simp add: split_once_append)
  moreover have "parse_number_max (2 ^ 16) (dec p) = Some p"
    using assms(2) by (simp add: parse_number_max_def list_all_iff dec_digits)
  ultimately show ?thesis
    using parse_show_ipv4 [OF assms(1)]
    by (simp add: parse_socket_addr_def parse_socket_addr_v4_def show_socket_addr_def)
qed

end
