(* ===== verification/World.thy ===== *)
theory World
  imports Effects Proto Lxd_Types Ip
begin

text \<open>
  The outside world of the program. An \<open>event\<close> is one effect with the answer it got; an \<open>env\<close> is
  everything that is not in the repository: the LXD daemon behind the HTTP transport, the host's
  files and resolver, and the pure functions of the packages the program calls (\<open>serde_json\<close>,
  \<open>url\<close>, \<open>urlencoding\<close>, \<open>http\<close>, \<open>sha2\<close>, \<open>tar\<close>). Every answer of the world is a function of the history.
\<close>

section \<open>Requests and answers\<close>

datatype http_method = GET | POST | PUT | PATCH | DELETE

text \<open>A request body: none, a JSON value, raw bytes, a streamed split image (preamble, path and
  length of the rootfs file, closing boundary), or the JSON object that creates an instance (name,
  image alias, config, devices, profiles, start), kept apart because its maps are hash maps.\<close>

datatype http_body =
    No_Body
  | Json_Body json
  | Bytes_Body string
  | Split_Body string string nat string
  | Instance_Body string string config_map device_map "string list" bool

text \<open>\<open>req_path\<close> is the path the client method asked for, \<open>req_uri\<close> what goes on the wire once
  the client has added the project (\<open>LxdClient::decorate_path\<close>).\<close>

record http_request =
  req_method :: http_method
  req_path :: string
  req_uri :: string
  req_headers :: "(string \<times> string) list"
  req_body :: http_body

record http_response =
  http_status :: nat
  http_headers :: "(string \<times> string) list"
  http_payload :: string

text \<open>A WebSocket delivers messages until it closes; one that stays open without sending anything
  more never yields another item.\<close>

datatype ws_message = Text string | NonText | Ws_Io string | Ws_Error string

record ws_stream =
  ws_messages :: "ws_message list"
  ws_closes :: bool

datatype io_error = NotFound string | IoError string

text \<open>File metadata; a modification time that cannot be read or lies in the future has no age.\<close>

record file_meta =
  meta_is_symlink :: bool
  meta_is_file :: bool
  meta_is_dir :: bool
  meta_is_socket :: bool
  meta_mode :: nat
  meta_uid :: nat
  meta_len :: nat
  meta_age_secs :: "nat option"

text \<open>The file system calls of the program, each with the paths it names.\<close>

datatype fs_call =
    Symlink_Metadata string
  | Metadata string
  | Create_Dir_All string
  | Temp_Dir string string
  | Remove_Dir_All string
  | Remove_File string
  | Rename string string
  | Write_File string string
  | Write_New string nat string
  | Open_File string
  | Open_NoFollow string
  | Read_All string
  | Read_Prefix string nat
  | Create_New string nat
  | Copy_File string string
  | Set_Mode string nat
  | Make_Symlink string string
  | Read_Link string
  | Read_Dir string
  | Get_Xattr string string
  | Bind_Socket string

record proc_output =
  out_success :: bool
  out_stdout :: string
  out_stderr :: string

section \<open>Events\<close>

datatype watch_event = Sandbox driver_sandbox | Deleted string

datatype event =
    Exchange http_request "(lxd_error, http_response) result"
  | Subscribe string "(lxd_error, ws_stream) result"
  | Sleep nat
  | Lock string
  | Unlock string
  | ReadFile string "(io_error, string) result"
  | LookupHost string nat "(io_error, socket_addr list) result"
  | Publish watch_event
  | Fs fs_call bool
  | Process string "string list" "(io_error, proc_output) result"
  | Arch_Verified
  | Fetch_Add
  | Watch_Subscribed

section \<open>The environment\<close>

text \<open>The host a URL names, as \<open>url::Host\<close>.\<close>

datatype url_host = Host_V4 nat | Host_V6 nat | Host_Domain string

text \<open>The header of one entry of a tar archive. A builder is the bytes written so far:
  \<open>ext_tar_append\<close> adds an entry (header, path, data), \<open>ext_tar_finish\<close> ends the archive.\<close>

record tar_header =
  tar_size :: nat
  tar_mode :: nat

record env =
  env_http :: "event list \<Rightarrow> http_request \<Rightarrow> (lxd_error, http_response) result"
  env_subscribe :: "event list \<Rightarrow> string \<Rightarrow> (lxd_error, ws_stream) result"
  env_read_file :: "event list \<Rightarrow> string \<Rightarrow> (io_error, string) result"
  env_lookup_host :: "event list \<Rightarrow> string \<Rightarrow> nat \<Rightarrow> (io_error, socket_addr list) result"
  env_fs_do :: "event list \<Rightarrow> fs_call \<Rightarrow> (io_error, unit) result"
  env_fs_stat :: "event list \<Rightarrow> fs_call \<Rightarrow> (io_error, file_meta) result"
  env_fs_text :: "event list \<Rightarrow> fs_call \<Rightarrow> (io_error, string) result"
  env_fs_names :: "event list \<Rightarrow> fs_call \<Rightarrow> (io_error, (io_error, string) result list) result"
  env_fs_xattr :: "event list \<Rightarrow> fs_call \<Rightarrow> (io_error, string option) result"
  env_process :: "event list \<Rightarrow> string \<Rightarrow> string list \<Rightarrow> (io_error, proc_output) result"
  env_now :: "event list \<Rightarrow> nat"
  env_var :: "string \<Rightarrow> string option"
  env_arch :: string
  env_uid :: nat
  asset_init_script :: string
  asset_dhcp_script :: string
  env_pid :: nat
  env_budget :: "nat \<Rightarrow> event list \<Rightarrow> nat"
  env_rounds :: nat
  ext_json_parse :: "string \<Rightarrow> (string, json) result"
  ext_json_print :: "json \<Rightarrow> string"
  ext_decode_error :: "string \<Rightarrow> string"
  ext_status_text :: "nat \<Rightarrow> string"
  ext_url_join :: "string \<Rightarrow> string \<times> string option"
  ext_append_pair :: "string option \<Rightarrow> string \<Rightarrow> string \<Rightarrow> string option"
  ext_uri_parse :: "string \<Rightarrow> (string, string option \<times> nat option) result"
  ext_server_name :: "string \<Rightarrow> (string, unit) result"
  ext_encode :: "string \<Rightarrow> string"
  ext_decode :: "string \<Rightarrow> string option"
  ext_sha256 :: "string \<Rightarrow> string"
  ext_show_io :: "io_error \<Rightarrow> string"
  ext_url_host :: "string \<Rightarrow> (string, url_host option \<times> nat option) result"
  ext_pem_certs :: "string \<Rightarrow> (string, string list) result"
  ext_pem_key :: "string \<Rightarrow> (string, string option) result"
  ext_tls_versions :: "(string, unit) result"
  ext_root_add :: "string \<Rightarrow> (string, unit) result"
  ext_client_auth :: "string list \<Rightarrow> string \<Rightarrow> (string, unit) result"
  ext_tar_append :: "string \<Rightarrow> tar_header \<Rightarrow> string \<Rightarrow> string \<Rightarrow> (string, string) result"
  ext_tar_finish :: "string \<Rightarrow> (string, string) result"

type_synonym 'a action = "(event, 'a) io"
type_synonym ('e, 'a) fallible = "(event, ('e, 'a) result) io"

section \<open>Primitive actions\<close>

definition send_request :: "env \<Rightarrow> http_request \<Rightarrow> (lxd_error, http_response) fallible" where
  "send_request E r = perform (\<lambda>h. env_http E h r) (Exchange r)"

definition open_socket :: "env \<Rightarrow> string \<Rightarrow> (lxd_error, ws_stream) fallible" where
  "open_socket E path = perform (\<lambda>h. env_subscribe E h path) (Subscribe path)"

definition sleep :: "nat \<Rightarrow> unit action" where
  "sleep ms = perform (\<lambda>_. ()) (\<lambda>_. Sleep ms)"

definition read_file :: "env \<Rightarrow> string \<Rightarrow> (io_error, string) fallible" where
  "read_file E path = perform (\<lambda>h. env_read_file E h path) (ReadFile path)"

definition lookup_host :: "env \<Rightarrow> string \<Rightarrow> nat \<Rightarrow> (io_error, socket_addr list) fallible" where
  "lookup_host E host port = perform (\<lambda>h. env_lookup_host E h host port) (LookupHost host port)"

definition publish :: "watch_event \<Rightarrow> unit action" where
  "publish w = perform (\<lambda>_. ()) (\<lambda>_. Publish w)"

definition succeeded :: "('e, 'a) result \<Rightarrow> bool" where
  "succeeded r = (case r of Inl _ \<Rightarrow> False | Inr _ \<Rightarrow> True)"

definition fs_do :: "env \<Rightarrow> fs_call \<Rightarrow> (io_error, unit) fallible" where
  "fs_do E c = perform (\<lambda>h. env_fs_do E h c) (\<lambda>a. Fs c (succeeded a))"

definition fs_stat :: "env \<Rightarrow> fs_call \<Rightarrow> (io_error, file_meta) fallible" where
  "fs_stat E c = perform (\<lambda>h. env_fs_stat E h c) (\<lambda>a. Fs c (succeeded a))"

definition fs_text :: "env \<Rightarrow> fs_call \<Rightarrow> (io_error, string) fallible" where
  "fs_text E c = perform (\<lambda>h. env_fs_text E h c) (\<lambda>a. Fs c (succeeded a))"

definition fs_names :: "env \<Rightarrow> fs_call \<Rightarrow> (io_error, (io_error, string) result list) fallible" where
  "fs_names E c = perform (\<lambda>h. env_fs_names E h c) (\<lambda>a. Fs c (succeeded a))"

definition fs_xattr :: "env \<Rightarrow> fs_call \<Rightarrow> (io_error, string option) fallible" where
  "fs_xattr E c = perform (\<lambda>h. env_fs_xattr E h c) (\<lambda>a. Fs c (succeeded a))"

definition process :: "env \<Rightarrow> string \<Rightarrow> string list \<Rightarrow> (io_error, proc_output) fallible" where
  "process E prog args = perform (\<lambda>h. env_process E h prog args) (Process prog args)"

text \<open>Reading program state that is a function of the history, such as a \<open>OnceCell\<close> or a counter.\<close>

definition recall :: "(event list \<Rightarrow> 'a) \<Rightarrow> 'a action" where
  "recall f = (\<lambda>h. (Some (f h), h))"

definition note_event :: "event \<Rightarrow> unit action" where
  "note_event e = perform (\<lambda>_. ()) (\<lambda>_. e)"

text \<open>An atomic counter starting at 0: \<open>fetch_add(1)\<close> returns how often it was called before.\<close>

definition fetch_add :: "nat action" where
  "fetch_add = perform (\<lambda>h. length (filter (\<lambda>e. e = Fetch_Add) h) mod 2 ^ 64) (\<lambda>_. Fetch_Add)"

text \<open>A mutex guard: held from the lock to the end of the scope, errors included.\<close>

definition with_lock :: "string \<Rightarrow> 'a action \<Rightarrow> 'a action" where
  "with_lock k m =
     await (perform (\<lambda>_. ()) (\<lambda>_. Lock k)) (\<lambda>_.
     await m (\<lambda>a.
     await (perform (\<lambda>_. ()) (\<lambda>_. Unlock k)) (\<lambda>_. return a)))"

text \<open>\<open>tokio::time::timeout(secs, m)\<close>: the environment decides how many effects fit.\<close>

definition timeout_secs :: "env \<Rightarrow> nat \<Rightarrow> 'a action \<Rightarrow> 'a option action" where
  "timeout_secs E secs m = timeout (env_budget E secs) m"

section \<open>Rules for the primitive actions\<close>

lemma emits_primitives [emits_rules]:
  "(\<And>a. p (Exchange r a)) \<Longrightarrow> emits p (send_request E r)"
  "(\<And>a. p (Subscribe path a)) \<Longrightarrow> emits p (open_socket E path)"
  "p (Sleep ms) \<Longrightarrow> emits p (sleep ms)"
  "(\<And>a. p (ReadFile path a)) \<Longrightarrow> emits p (read_file E path)"
  "(\<And>a. p (LookupHost host port a)) \<Longrightarrow> emits p (lookup_host E host port)"
  "p (Publish w) \<Longrightarrow> emits p (publish w)"
  "(\<And>b. p (Fs c b)) \<Longrightarrow> emits p (fs_do E c)"
  "(\<And>b. p (Fs c b)) \<Longrightarrow> emits p (fs_stat E c)"
  "(\<And>b. p (Fs c b)) \<Longrightarrow> emits p (fs_text E c)"
  "(\<And>b. p (Fs c b)) \<Longrightarrow> emits p (fs_names E c)"
  "(\<And>b. p (Fs c b)) \<Longrightarrow> emits p (fs_xattr E c)"
  "(\<And>a. p (Process prog args a)) \<Longrightarrow> emits p (process E prog args)"
  "emits p (recall g)"
  "p e \<Longrightarrow> emits p (note_event e)"
  "p Fetch_Add \<Longrightarrow> emits p fetch_add"
  by (simp_all add: send_request_def open_socket_def sleep_def read_file_def lookup_host_def
      publish_def fs_do_def fs_stat_def fs_text_def fs_names_def fs_xattr_def process_def
      note_event_def fetch_add_def emits_perform)
    (simp add: emits_iff recall_def)

lemma emits_with_lock [emits_rules]:
  "p (Lock k) \<Longrightarrow> p (Unlock k) \<Longrightarrow> emits p m \<Longrightarrow> emits p (with_lock k m)"
  unfolding with_lock_def by (auto intro!: emits_rules emits_perform)

lemma emits_timeout_secs [emits_rules]: "emits p m \<Longrightarrow> emits p (timeout_secs E secs m)"
  unfolding timeout_secs_def by (rule emits_timeout)

lemma run_send_request [io_rules]:
  "(\<And>h a. P h \<Longrightarrow> a = env_http E h r \<Longrightarrow> G h (Exchange r a) \<and> Q a (h @ [Exchange r a]))
   \<Longrightarrow> run P G (send_request E r) Q"
  unfolding send_request_def by (rule run_perform) blast

lemma run_sleep [io_rules]:
  "(\<And>h. P h \<Longrightarrow> G h (Sleep ms) \<and> Q () (h @ [Sleep ms])) \<Longrightarrow> run P G (sleep ms) Q"
  unfolding sleep_def by (rule run_perform) simp

lemma run_fs_do [io_rules]:
  "(\<And>h a. P h \<Longrightarrow> G h (Fs c (succeeded a)) \<and> Q a (h @ [Fs c (succeeded a)])) \<Longrightarrow> run P G (fs_do E c) Q"
  unfolding fs_do_def by (rule run_perform) blast

lemma run_fs_stat [io_rules]:
  "(\<And>h a. P h \<Longrightarrow> G h (Fs c (succeeded a)) \<and> Q a (h @ [Fs c (succeeded a)])) \<Longrightarrow> run P G (fs_stat E c) Q"
  unfolding fs_stat_def by (rule run_perform) blast

lemma run_fs_text [io_rules]:
  "(\<And>h a. P h \<Longrightarrow> G h (Fs c (succeeded a)) \<and> Q a (h @ [Fs c (succeeded a)])) \<Longrightarrow> run P G (fs_text E c) Q"
  unfolding fs_text_def by (rule run_perform) blast

lemma run_recall [io_rules]: "(\<And>h. P h \<Longrightarrow> Q (f h) h) \<Longrightarrow> run P G (recall f) Q"
  by (simp add: run_def recall_def)

lemma run_publish [io_rules]:
  "(\<And>h. P h \<Longrightarrow> G h (Publish w) \<and> Q () (h @ [Publish w])) \<Longrightarrow> run P G (publish w) Q"
  unfolding publish_def by (rule run_perform) simp

lemma run_with_lock:
  assumes "\<And>h. P h \<Longrightarrow> G h (Lock k) \<and> P' (h @ [Lock k])"
    and "run P' G m R" and "\<And>a h. R a h \<Longrightarrow> G h (Unlock k) \<and> Q a (h @ [Unlock k])"
  shows "run P G (with_lock k m) Q"
  unfolding with_lock_def
  by (intro run_await [where R = "\<lambda>_. P'"] run_await [OF assms(2)]
      run_await [where R = "\<lambda>_ h. Q a h" for a] run_perform run_return)
    (use assms(1,3) in auto)

lemma returns_primitives [returns_rules]:
  "returns (send_request E r)" "returns (open_socket E path)" "returns (sleep ms)"
  "returns (read_file E path)" "returns (lookup_host E host port)" "returns (publish w)"
  "returns (fs_do E c)" "returns (fs_stat E c)" "returns (fs_text E c)" "returns (fs_names E c)"
  "returns (fs_xattr E c)" "returns (process E prog args)" "returns (note_event e)" "returns fetch_add"
  "returns (timeout_secs E secs m)"
  by (simp_all add: send_request_def open_socket_def sleep_def read_file_def lookup_host_def
      publish_def fs_do_def fs_stat_def fs_text_def fs_names_def fs_xattr_def process_def
      note_event_def fetch_add_def timeout_secs_def returns_rules)

lemma returns_with_lock [returns_rules]: "returns m \<Longrightarrow> returns (with_lock k m)"
  unfolding with_lock_def by (intro returns_rules)

text \<open>The lock events of a scope, for a guarantee that may depend on what is held.\<close>

lemma run_with_lock_stable:
  assumes "\<And>h e. I h \<Longrightarrow> e = Lock k \<or> e = Unlock k \<Longrightarrow> I (h @ [e]) \<and> G h e"
    and "run I G m (\<lambda>_. I)"
  shows "run I G (with_lock k m) (\<lambda>_. I)"
  by (rule run_with_lock [OF _ assms(2)]) (use assms(1) in blast)+

end
