(* ===== verification/Oci_Reference.thy ===== *)
theory Oci_Reference
  imports Regex Driver_Error World
begin

text \<open>
  OCI references, cache aliases and manifests: the pure part of
  \<open>openshell-driver-lxd/src/image.rs\<close>. The reference grammar is the code's regular expression, written
  with the combinators of theory Regex.
\<close>

section \<open>References\<close>

definition is_domain_char :: "char \<Rightarrow> bool" where
  "is_domain_char c \<longleftrightarrow> is_ascii_alphanumeric c \<or> c = CHR ''.'' \<or> c = CHR ''-''"

definition is_lower_alnum :: "char \<Rightarrow> bool" where
  "is_lower_alnum c \<longleftrightarrow> is_ascii_lowercase c \<or> is_ascii_digit c"

definition is_separator :: "char \<Rightarrow> bool" where
  "is_separator c \<longleftrightarrow> c = CHR ''.'' \<or> c = CHR ''_'' \<or> c = CHR ''-''"

definition is_tag_char :: "char \<Rightarrow> bool" where
  "is_tag_char c \<longleftrightarrow> is_ascii_alphanumeric c \<or> is_separator c"

text \<open>\<open>[a-z0-9]+(?:[._-][a-z0-9]+)*\<close>\<close>

definition path_component_re :: re where
  "path_component_re = Seq (plus_re (Cls is_lower_alnum))
     (Star (Seq (Cls is_separator) (plus_re (Cls is_lower_alnum))))"

text \<open>\<open>(?:[a-zA-Z0-9.-]+(?::[0-9]+)?/)?\<close>\<close>

definition domain_re :: re where
  "domain_re = opt (Seq (plus_re (Cls is_domain_char))
     (Seq (opt (Seq (lit '':'') (plus_re (Cls is_ascii_digit)))) (lit ''/'')))"

definition OCI_REF_REGEX :: re where
  "OCI_REF_REGEX =
     Seq (opt (lit ''docker://''))
    (Seq (Seq domain_re (Seq (Star (Seq path_component_re (lit ''/''))) path_component_re))
    (Seq (opt (Seq (lit '':'') (plus_re (Cls is_tag_char))))
         (opt (Seq (lit ''@sha256:'') (times_re 64 (Cls is_ascii_hexdigit))))))"

definition strip_docker_scheme :: "string \<Rightarrow> string" where
  "strip_docker_scheme r = unwrap_or (strip_prefix ''docker://'' r) r"

definition validate_reference :: "string \<Rightarrow> (driver_error, unit) result" where
  "validate_reference r =
     (if r = [] then Inl (InvalidArgument ''image reference cannot be empty'')
      else if \<not> is_match OCI_REF_REGEX r then
        Inl (InvalidArgument (''invalid OCI image reference: '' @ debug_str r))
      else Inr ())"

section \<open>Cache aliases\<close>

definition CONVERSION_REVISION :: nat where
  "CONVERSION_REVISION = 3"

definition DEFAULT_CACHE_ALIAS_PREFIX :: string where
  "DEFAULT_CACHE_ALIAS_PREFIX = ''openshell-oci-''"

definition cache_alias_with_prefix :: "string \<Rightarrow> string \<Rightarrow> string" where
  "cache_alias_with_prefix prefix digest =
     prefix @ ''r'' @ dec CONVERSION_REVISION @ ''-'' @ unwrap_or (strip_prefix ''sha256:'' digest) digest"

definition cache_alias :: "string \<Rightarrow> string" where
  "cache_alias digest = cache_alias_with_prefix DEFAULT_CACHE_ALIAS_PREFIX digest"

section \<open>Repository paths\<close>

text \<open>\<open>repo_path\<close> drops a trailing digest, then a tag in the last path segment.\<close>

definition without_digest :: "string \<Rightarrow> string" where
  "without_digest r = (case rfind_str ''@sha256:'' r of Some idx \<Rightarrow> take idx r | None \<Rightarrow> r)"

definition without_tag :: "string \<Rightarrow> string" where
  "without_tag r = (case rfind_str '':'' r of
      Some colon_idx \<Rightarrow> (case rfind_str ''/'' r of
          Some slash_idx \<Rightarrow> if slash_idx < colon_idx then take colon_idx r else r
        | None \<Rightarrow> take colon_idx r)
    | None \<Rightarrow> r)"

definition repo_path :: "string \<Rightarrow> string" where
  "repo_path r = without_tag (without_digest (strip_docker_scheme r))"

definition inspect_target :: "string \<Rightarrow> string" where
  "inspect_target r =
     (let bare = strip_docker_scheme r
      in case rfind_str ''@sha256:'' bare of
           Some idx \<Rightarrow> ''docker://'' @ repo_path bare @ drop idx bare
         | None \<Rightarrow> ''docker://'' @ bare)"

section \<open>Architectures and digests\<close>

definition host_lxd_arch :: "env \<Rightarrow> string" where
  "host_lxd_arch E = (let a = env_arch E in
     if a = ''arm'' then ''armhf'' else if a = ''powerpc64'' then ''ppc64el'' else a)"

definition host_oci_arch :: "env \<Rightarrow> string" where
  "host_oci_arch E = (let a = env_arch E in
     if a = ''x86_64'' then ''amd64'' else if a = ''aarch64'' then ''arm64''
     else if a = ''powerpc64'' then ''ppc64le'' else a)"

text \<open>The first manifest of an index for the platform that carries a digest.\<close>

text \<open>A digest in hexadecimal, two lower case digits for each byte.\<close>

fun hex_digest :: "string \<Rightarrow> string" where
  "hex_digest [] = []"
| "hex_digest (b # bytes) = hex2 b @ hex_digest bytes"

fun find_platform :: "string \<Rightarrow> string \<Rightarrow> json list \<Rightarrow> string option" where
  "find_platform os arch [] = None"
| "find_platform os arch (entry # rest) =
     (let platform = get entry ''platform'';
          entry_os = Option.bind (Option.bind platform (\<lambda>p. get p ''os'')) as_str;
          entry_arch = Option.bind (Option.bind platform (\<lambda>p. get p ''architecture'')) as_str
      in if entry_os = Some os \<and> entry_arch = Some arch then
           (case Option.bind (get entry ''digest'') as_str of
              Some digest \<Rightarrow> Some digest
            | None \<Rightarrow> find_platform os arch rest)
         else find_platform os arch rest)"

definition select_arch_digest :: "env \<Rightarrow> string \<Rightarrow> string \<Rightarrow> string \<Rightarrow> (driver_error, string) result" where
  "select_arch_digest E raw os arch = (case ext_json_parse E raw of
      Inl e \<Rightarrow> Inl (ImageImport (''failed to parse image manifest as JSON: '' @ e))
    | Inr doc \<Rightarrow> (case Option.bind (get doc ''manifests'') as_array of
        None \<Rightarrow> Inr (''sha256:'' @ hex_digest (ext_sha256 E raw))
      | Some manifests \<Rightarrow> (case find_platform os arch manifests of
          Some digest \<Rightarrow> Inr digest
        | None \<Rightarrow> Inl (ImageImport (''image index has no '' @ os @ ''/'' @ arch @ '' manifest'')))))"

section \<open>Laws\<close>

text \<open>The characters a valid reference can contain: none of them is special to a shell, and none is
  white space or a control character.\<close>

definition is_reference_char :: "char \<Rightarrow> bool" where
  "is_reference_char c \<longleftrightarrow> is_ascii_alphanumeric c \<or> c \<in> set ''./:_@-''"

lemma is_reference_char_classes:
  "is_domain_char c \<Longrightarrow> is_reference_char c" "is_lower_alnum c \<Longrightarrow> is_reference_char c"
  "is_separator c \<Longrightarrow> is_reference_char c" "is_tag_char c \<Longrightarrow> is_reference_char c"
  "is_ascii_digit c \<Longrightarrow> is_reference_char c" "is_ascii_hexdigit c \<Longrightarrow> is_reference_char c"
  by (auto simp: is_domain_char_def is_lower_alnum_def is_separator_def is_tag_char_def
      is_reference_char_def char_class_defs)

lemma only_oci_regex: "only is_reference_char OCI_REF_REGEX"
  by (auto simp: OCI_REF_REGEX_def domain_re_def path_component_re_def is_reference_char_classes)
    (simp_all add: is_reference_char_def char_class_defs)

lemma validate_reference_chars: "validate_reference r = Inr () \<Longrightarrow> list_all is_reference_char r"
  using matches_only [OF _ only_oci_regex] by (auto simp: validate_reference_def is_match_iff split: if_splits)

lemma validate_reference_Inl: "validate_reference r = Inl e \<Longrightarrow> \<exists>m. e = InvalidArgument m"
  by (auto simp: validate_reference_def split: if_splits)

text \<open>Distinct digests have distinct aliases.\<close>

lemma strip_sha_inject:
  assumes "length d = 64 + 7" and "length d' = 64 + 7" and "starts_with d ''sha256:''" and "starts_with d' ''sha256:''"
    and "cache_alias_with_prefix p d = cache_alias_with_prefix p d'"
  shows "d = d'"
  using assms by (auto simp: cache_alias_with_prefix_def starts_with_iff unwrap_or_def)

text \<open>Where the last occurrence of a pattern is, when nothing of it occurs later.\<close>

lemma rfind_str_last:
  assumes "p \<noteq> []" and "\<not> contains_str (tl p @ v) p"
  shows "rfind_str p (u @ p @ v) = Some (length u)"
proof (induction u)
  case Nil
  obtain c cs where p: "p = c # cs" using assms(1) by (cases p) auto
  have "rfind_str p (cs @ v) = None" using assms(2) p by (simp add: rfind_str_None)
  moreover have "starts_with (c # cs @ v) p" by (simp add: p starts_with_iff)
  ultimately show ?case by (simp add: p)
qed simp

lemma contains_str_set: "contains_str s p \<Longrightarrow> set p \<subseteq> set s"
  by (auto simp: contains_str_iff)

lemma rfind_char_None: "d \<notin> set s \<Longrightarrow> rfind_str [d] s = None"
  by (simp add: rfind_str_None contains_str_iff) (metis append_Cons in_set_conv_decomp)

lemma rfind_char_last: "d \<notin> set v \<Longrightarrow> rfind_str [d] (u @ d # v) = Some (length u)"
  using rfind_str_last [of "[d]" v u] by (simp add: contains_str_iff) (metis append_Cons in_set_conv_decomp)

text \<open>The repository of a reference with a tag: the colon after the last slash starts the tag.\<close>

lemma strip_docker_scheme_id: "\<not> starts_with r ''docker://'' \<Longrightarrow> strip_docker_scheme r = r"
  by (simp add: strip_docker_scheme_def starts_with_def unwrap_or_def)

lemma tag_slash:
  assumes "CHR ''/'' \<notin> set tag" and "rfind_str ''/'' (name @ '':'' @ tag) = Some i"
  shows "i < length name"
proof -
  have "starts_with (drop i (name @ '':'' @ tag)) ''/''" using rfind_str_sound assms(2) by blast
  then obtain rest where "drop i (name @ '':'' @ tag) = CHR ''/'' # rest" by (auto simp: starts_with_iff)
  then show "i < length name"
    using assms(1) by (cases "i < length name")
      (auto simp: drop_Cons' dest!: arg_cong [of _ _ set] split: if_splits dest: in_set_dropD)
qed

lemma repo_path_tag_digest:
  assumes "\<not> starts_with (name @ '':'' @ tag @ suffix) ''docker://''"
    and "CHR ''/'' \<notin> set tag" and "CHR '':'' \<notin> set tag" and "CHR ''@'' \<notin> set (name @ tag)"
    and "suffix = [] \<or> (\<exists>hex. suffix = ''@sha256:'' @ hex \<and> CHR ''@'' \<notin> set hex)"
  shows "repo_path (name @ '':'' @ tag @ suffix) = name"
proof -
  let ?wd = "name @ '':'' @ tag"
  let ?r = "?wd @ suffix"
  have "without_digest ?r = ?wd"
    using assms(5)
  proof
    assume "suffix = []"
    moreover have "rfind_str ''@sha256:'' ?wd = None"
      using assms(4) contains_str_set [of ?wd "''@sha256:''"] by (auto simp: rfind_str_None)
    ultimately show ?thesis by (simp add: without_digest_def)
  next
    assume "\<exists>hex. suffix = ''@sha256:'' @ hex \<and> CHR ''@'' \<notin> set hex"
    then obtain hex where hex: "suffix = ''@sha256:'' @ hex" "CHR ''@'' \<notin> set hex" by blast
    then have "\<not> contains_str (tl ''@sha256:'' @ hex) ''@sha256:''"
      using contains_str_set [of "tl ''@sha256:'' @ hex" "''@sha256:''"] by auto
    then have "rfind_str ''@sha256:'' ?r = Some (length ?wd)"
      using rfind_str_last [of "''@sha256:''" hex ?wd] hex(1) by simp
    then show ?thesis by (simp add: without_digest_def)
  qed
  moreover have "without_tag ?wd = name"
    using rfind_char_last [OF assms(3), of name] tag_slash [OF assms(2), of name]
    by (simp add: without_tag_def split: option.split)
  moreover have "strip_docker_scheme ?r = ?r" using strip_docker_scheme_id assms(1) by simp
  ultimately show ?thesis by (simp add: repo_path_def)
qed

lemma inspect_target_tag_digest:
  assumes "\<not> starts_with (name @ '':'' @ tag @ ''@sha256:'' @ hex) ''docker://''"
    and "CHR ''/'' \<notin> set tag" and "CHR '':'' \<notin> set tag" and "CHR ''@'' \<notin> set (name @ tag @ hex)"
  shows "inspect_target (name @ '':'' @ tag @ ''@sha256:'' @ hex) = ''docker://'' @ name @ ''@sha256:'' @ hex"
proof -
  let ?r = "name @ '':'' @ tag @ ''@sha256:'' @ hex"
  have "\<not> contains_str (tl ''@sha256:'' @ hex) ''@sha256:''"
    using assms(4) contains_str_set [of "tl ''@sha256:'' @ hex" "''@sha256:''"] by auto
  then have "rfind_str ''@sha256:'' ?r = Some (length (name @ '':'' @ tag))"
    using rfind_str_last [of "''@sha256:''" hex "name @ '':'' @ tag"] by simp
  moreover have "repo_path ?r = name" using repo_path_tag_digest assms by auto
  moreover have "strip_docker_scheme ?r = ?r" using strip_docker_scheme_id assms(1) by simp
  ultimately show ?thesis by (simp add: inspect_target_def Let_def)
qed

end
