(* ===== verification/Paths.thy ===== *)
theory Paths
  imports Prelude
begin

text \<open>
  \<open>std::path\<close> on Unix as far as the program uses it: joining, components, the last component and the
  parent. A path is its text.
\<close>

definition path_join :: "string \<Rightarrow> string \<Rightarrow> string" where
  "path_join a b =
     (if starts_with b ''/'' then b
      else if a = [] \<or> ends_with a ''/'' then a @ b
      else a @ ''/'' @ b)"

datatype component = RootDir | CurDir | ParentDir | Normal string

definition component_of :: "string \<Rightarrow> component" where
  "component_of s = (if s = ''.'' then CurDir else if s = ''..'' then ParentDir else Normal s)"

text \<open>\<open>Path::components\<close>: empty parts vanish, and so does every \<open>.\<close> but a leading one.\<close>

definition components :: "string \<Rightarrow> component list" where
  "components s =
     (let parts = map component_of (filter (\<lambda>p. p \<noteq> []) (split_char (CHR ''/'') s));
          rest = filter (\<lambda>c. c \<noteq> CurDir) parts
      in if starts_with s ''/'' then RootDir # rest
         else if parts \<noteq> [] \<and> hd parts = CurDir then CurDir # rest else rest)"

definition component_str :: "component \<Rightarrow> string" where
  "component_str c = (case c of RootDir \<Rightarrow> ''/'' | CurDir \<Rightarrow> ''.'' | ParentDir \<Rightarrow> ''..'' | Normal s \<Rightarrow> s)"

definition file_name :: "string \<Rightarrow> string option" where
  "file_name s = (let cs = components s in
     if cs = [] then None else case last cs of Normal n \<Rightarrow> Some n | _ \<Rightarrow> None)"

text \<open>\<open>Path::parent\<close> of a path whose last component is a name.\<close>

definition path_parent :: "string \<Rightarrow> string option" where
  "path_parent s =
     (let t = trim_end_matches (CHR ''/'') s;
          u = trim_end_matches (CHR ''/'') (take (length t - length (split_last (CHR ''/'') t)) t)
      in if t = [] then None
         else Some (if u = [] \<and> starts_with s ''/'' then ''/'' else u))"

text \<open>A name that is a single, ordinary path component.\<close>

definition normal_name :: "string \<Rightarrow> bool" where
  "normal_name n \<longleftrightarrow> n \<noteq> [] \<and> n \<noteq> ''.'' \<and> n \<noteq> ''..'' \<and> CHR ''/'' \<notin> set n"

lemma components_normal: "Normal n \<in> set (components s) \<Longrightarrow> normal_name n"
  unfolding components_def Let_def
  by (auto simp: component_of_def normal_name_def split: if_splits dest: split_char_piece)

lemma components_of_name: "normal_name n \<Longrightarrow> components n = [Normal n]"
  unfolding components_def Let_def normal_name_def
  by (cases n) (auto simp: split_char_no_sep component_of_def starts_with_iff)

lemma component_of_str:
  "components (component_str c) = [c] \<or> (\<exists>n. c = Normal n \<and> \<not> normal_name n)"
proof (cases c)
  case (Normal n)
  then show ?thesis using components_of_name by (cases "normal_name n") (simp_all add: component_str_def)
qed (simp_all add: component_str_def components_def component_of_def starts_with_iff)

end
