(* ===== verification/Rootfs.thy ===== *)
theory Rootfs
  imports Driver_Error World Paths
begin

text \<open>
  Preparing an unpacked image (\<open>openshell-driver-lxd/src/image.rs\<close>): the owners \<open>umoci\<close> recorded, the
  pseudo file that restores them, the injected init script, and resolving a guest path inside a
  rootfs whose symlinks must not be followed on the host.
\<close>

section \<open>Recorded owners\<close>

definition ROOTLESS_OWNER_XATTR :: string where
  "ROOTLESS_OWNER_XATTR = ''user.rootlesscontainers''"

definition ROOTLESS_NOOP_ID :: nat where
  "ROOTLESS_NOOP_ID = 2 ^ 32 - 1"

text \<open>One varint: the value so far and its shift; the seven bits of each byte do not overlap, so the
  code's \<open>|=\<close> adds. \<open>None\<close> when the bytes end early or the value is too long.\<close>

fun read_varint :: "nat \<Rightarrow> nat \<Rightarrow> nat list \<Rightarrow> (nat \<times> nat list) option" where
  "read_varint shift v [] = None"
| "read_varint shift v (byte # rest) =
     (let v' = v + byte mod 128 * 2 ^ shift
      in if byte div 128 mod 2 = 0 then Some (v', rest)
         else if 35 < shift + 7 then None
         else read_varint (shift + 7) v' rest)"

lemma read_varint_shorter: "read_varint shift v bs = Some (x, rest) \<Longrightarrow> length rest < length bs"
  by (induction shift v bs rule: read_varint.induct) (force simp: Let_def split: if_splits)+

function decode_owner_loop :: "nat \<Rightarrow> nat \<Rightarrow> nat list \<Rightarrow> (nat \<times> nat) option" where
  "decode_owner_loop uid gid [] = Some (uid, gid)"
| "decode_owner_loop uid gid (key # tl') =
     (if key mod 8 \<noteq> 0 then None
      else case read_varint 0 0 tl' of
             None \<Rightarrow> None
           | Some (v, rest) \<Rightarrow>
               if 2 ^ 32 \<le> v then None
               else let i = (if v = ROOTLESS_NOOP_ID then 0 else v)
                 in if key div 8 = 1 then decode_owner_loop i gid rest
                    else if key div 8 = 2 then decode_owner_loop uid i rest
                    else decode_owner_loop uid gid rest)"
  by pat_completeness auto

termination
  by (relation "measure (\<lambda>(_, _, bs). length bs)") (auto dest: read_varint_shorter)

definition decode_rootless_owner :: "string \<Rightarrow> (nat \<times> nat) option" where
  "decode_rootless_owner bytes = decode_owner_loop 0 0 (map of_char bytes)"

definition malformed_owner :: "string \<Rightarrow> io_error" where
  "malformed_owner path = IoError (''malformed '' @ ROOTLESS_OWNER_XATTR @ '' on '' @ path)"

definition read_rootless_owner :: "env \<Rightarrow> string \<Rightarrow> (io_error, (nat \<times> nat) option) fallible" where
  "read_rootless_owner E path =
     await_ok (fs_xattr E (Get_Xattr path ROOTLESS_OWNER_XATTR)) (\<lambda>x. case x of
        None \<Rightarrow> ok None
      | Some buf \<Rightarrow> (case decode_rootless_owner buf of
          None \<Rightarrow> err (malformed_owner path)
        | Some owner \<Rightarrow> ok (Some owner)))"

section \<open>The ownership pseudo file\<close>

fun pseudo_escape :: "string \<Rightarrow> string" where
  "pseudo_escape [] = []"
| "pseudo_escape (b # bs) =
     (if b = CHR 0x22 \<or> b = CHR 0x5C then CHR 0x5C # b # pseudo_escape bs else b # pseudo_escape bs)"

definition pseudo_quote :: "string \<Rightarrow> string" where
  "pseudo_quote path = CHR 0x22 # pseudo_escape path @ [CHR 0x22]"

fun oct_nat :: "nat \<Rightarrow> string" where
  "oct_nat n = (if n < 8 then [digit_char n] else oct_nat (n div 8) @ [digit_char (n mod 8)])"

declare oct_nat.simps [simp del]

definition io_err :: "env \<Rightarrow> string \<Rightarrow> string \<Rightarrow> io_error \<Rightarrow> driver_error" where
  "io_err E what path e = ImageImport (what @ '' '' @ path @ '': '' @ ext_show_io E e)"

definition pseudo_line :: "string \<Rightarrow> nat \<Rightarrow> nat \<times> nat \<Rightarrow> string" where
  "pseudo_line relative mode owner =
     pseudo_quote relative @ '' m '' @ oct_nat mode @ '' '' @ dec (fst owner) @ '' '' @ dec (snd owner)
       @ [CHR 0x0A]"

text \<open>\<open>path.strip_prefix(rootfs)\<close> of a path the walk built by joining names to \<open>rootfs\<close>.\<close>

definition relative_to :: "string \<Rightarrow> string \<Rightarrow> string" where
  "relative_to rootfs path = trim_start_matches (CHR ''/'') (drop (length rootfs) path)"

text \<open>The entries of one directory: the directories among them, the lines written and their number.\<close>

fun walk_entries ::
  "env \<Rightarrow> string \<Rightarrow> string \<Rightarrow> (io_error, string) result list \<Rightarrow> string list \<Rightarrow> string \<Rightarrow> nat
   \<Rightarrow> (driver_error, string list \<times> string \<times> nat) fallible"
where
  "walk_entries E rootfs dir [] pending out count = ok (pending, out, count)"
| "walk_entries E rootfs dir (entry # entries) pending out count =
     lift_ok (map_err (io_err E ''failed to read directory'' dir) entry) (\<lambda>name.
     let path = path_join dir name in
     await_map (io_err E ''failed to stat'' path) (fs_stat E (Symlink_Metadata path)) (\<lambda>metadata.
     let pending' = (if meta_is_dir metadata then pending @ [path] else pending);
         relative = relative_to rootfs path
     in if CHR 0x0A \<in> set relative then walk_entries E rootfs dir entries pending' out count
        else
          await_map (io_err E ''failed to read owner of'' path) (read_rootless_owner E path) (\<lambda>owner.
          walk_entries E rootfs dir entries pending'
            (out @ pseudo_line relative (meta_mode metadata mod 4096) (unwrap_or owner (0, 0)))
            (count + 1))))"

fun walk_rootfs ::
  "nat \<Rightarrow> env \<Rightarrow> string \<Rightarrow> string list \<Rightarrow> string \<Rightarrow> nat \<Rightarrow> (driver_error, string \<times> nat) fallible"
where
  "walk_rootfs 0 E rootfs pending out count = hang"
| "walk_rootfs (Suc n) E rootfs pending out count =
     (if pending = [] then ok (out, count)
      else
        let dir = last pending in
        await_map (io_err E ''failed to read directory'' dir) (fs_names E (Read_Dir dir)) (\<lambda>entries.
        await_ok (walk_entries E rootfs dir entries (butlast pending) out count) (\<lambda>(pending', out', count').
        walk_rootfs n E rootfs pending' out' count')))"

definition write_ownership_pseudo_file :: "env \<Rightarrow> string \<Rightarrow> string \<Rightarrow> (driver_error, nat) fallible" where
  "write_ownership_pseudo_file E rootfs pseudo_file =
     await_map (io_err E ''failed to create pseudo file'' pseudo_file) (fs_do E (Write_File pseudo_file [])) (\<lambda>_.
     await_ok (walk_rootfs (env_rounds E) E rootfs [rootfs] [] 0) (\<lambda>(out, count).
     await_map (io_err E ''failed to write pseudo file'' pseudo_file) (fs_do E (Write_File pseudo_file out)) (\<lambda>_.
     ok count)))"

section \<open>The init script\<close>

definition GUEST_INIT_SCRIPT_PATH :: string where
  "GUEST_INIT_SCRIPT_PATH = ''/openshell-init.sh''"

definition GUEST_INIT_PATH :: string where
  "GUEST_INIT_PATH = ''/sbin/init''"

definition MAX_SYMLINK_HOPS :: nat where
  "MAX_SYMLINK_HOPS = 40"

definition inject_init_script :: "env \<Rightarrow> string \<Rightarrow> (driver_error, unit) fallible" where
  "inject_init_script E rootfs_dest =
     (let script_path = path_join rootfs_dest (trim_start_matches (CHR ''/'') GUEST_INIT_SCRIPT_PATH) in
      await_ok (await (fs_stat E (Symlink_Metadata script_path)) (\<lambda>r. case r of
          Inr metadata \<Rightarrow>
            if meta_is_dir metadata then
              err (ImageImport (''the image has a directory at '' @ GUEST_INIT_SCRIPT_PATH))
            else
              await_map (\<lambda>e. ImageImport (''failed to remove '' @ script_path @ '' from the image: '' @ ext_show_io E e))
                (fs_do E (Remove_File script_path)) (\<lambda>_. ok ())
        | Inl (NotFound _) \<Rightarrow> ok ()
        | Inl e \<Rightarrow> err (ImageImport (''failed to stat '' @ script_path @ '': '' @ ext_show_io E e)))) (\<lambda>_.
      await_map (\<lambda>e. ImageImport (''failed to write init script to '' @ script_path @ '': '' @ ext_show_io E e))
        (fs_do E (Write_New script_path 493 (asset_init_script E))) (\<lambda>_. ok ())))"

definition too_many_symlinks :: "string \<Rightarrow> driver_error" where
  "too_many_symlinks guest_path =
     ImageImport (''too many symlinks resolving '' @ debug_str guest_path @ '' in the image'')"

definition resolved_path :: "string \<Rightarrow> string list \<Rightarrow> string" where
  "resolved_path rootfs resolved = path_join rootfs (join_str ''/'' resolved)"

text \<open>The loop over the pending parts: \<open>resolved\<close> is the list of names \<open>PathBuf\<close> holds, \<open>hops\<close> the
  symlinks followed so far.\<close>

function resolve_loop ::
  "env \<Rightarrow> string \<Rightarrow> string \<Rightarrow> string list \<Rightarrow> string list \<Rightarrow> nat \<Rightarrow> (driver_error, string list) fallible"
where
  "resolve_loop E rootfs guest_path [] resolved hops = ok resolved"
| "resolve_loop E rootfs guest_path (part # pending) resolved hops =
     (case components part of
        Normal name # _ \<Rightarrow>
          (let candidate = path_join (resolved_path rootfs resolved) name in
           await (fs_stat E (Symlink_Metadata candidate)) (\<lambda>r.
             let is_symlink = (case r of Inr metadata \<Rightarrow> meta_is_symlink metadata | Inl _ \<Rightarrow> False)
             in if \<not> is_symlink then resolve_loop E rootfs guest_path pending (resolved @ [name]) hops
                else if MAX_SYMLINK_HOPS < hops + 1 then err (too_many_symlinks guest_path)
                else
                  await_map (\<lambda>e. ImageImport (''failed to read symlink '' @ candidate @ '': '' @ ext_show_io E e))
                    (fs_text E (Read_Link candidate)) (\<lambda>target.
                    resolve_loop E rootfs guest_path (map component_str (components target) @ pending)
                      (if starts_with target ''/'' then [] else resolved) (hops + 1))))
      | ParentDir # _ \<Rightarrow> resolve_loop E rootfs guest_path pending (butlast resolved) hops
      | _ \<Rightarrow> resolve_loop E rootfs guest_path pending resolved hops)"
  by pat_completeness auto

termination
  by (relation "measures [\<lambda>(E, rootfs, g, pending, resolved, hops). MAX_SYMLINK_HOPS + 1 - hops,
        \<lambda>(E, rootfs, g, pending, resolved, hops). length pending]") auto

definition resolve_in_rootfs :: "env \<Rightarrow> string \<Rightarrow> string \<Rightarrow> (driver_error, string) fallible" where
  "resolve_in_rootfs E rootfs guest_path =
     lift_ok (ok_or (file_name guest_path) (ImageImport (debug_str guest_path @ '' does not name a file''))) (\<lambda>name.
     await_ok (resolve_loop E rootfs guest_path (map component_str (butlast (components guest_path))) [] 0) (\<lambda>resolved.
     ok (path_join (resolved_path rootfs resolved) name)))"

definition install_init :: "env \<Rightarrow> string \<Rightarrow> (driver_error, unit) fallible" where
  "install_init E rootfs_dest =
     await_ok (resolve_in_rootfs E rootfs_dest GUEST_INIT_PATH) (\<lambda>init.
     let io_err = (\<lambda>what e. ImageImport (''failed to '' @ what @ '' '' @ init @ '': '' @ ext_show_io E e)) in
     await_ok (case path_parent init of
          Some parent \<Rightarrow> await_map (io_err ''create the parent of'') (fs_do E (Create_Dir_All parent)) (\<lambda>_. ok ())
        | None \<Rightarrow> ok ()) (\<lambda>_.
     await_ok (await (fs_stat E (Symlink_Metadata init)) (\<lambda>r. case r of
          Inr metadata \<Rightarrow>
            if meta_is_dir metadata then err (ImageImport (''the image has a directory at '' @ GUEST_INIT_PATH))
            else await_map (io_err ''remove'') (fs_do E (Remove_File init)) (\<lambda>_. ok ())
        | Inl (NotFound _) \<Rightarrow> ok ()
        | Inl e \<Rightarrow> err (io_err ''stat'' e))) (\<lambda>_.
     await_map (io_err ''create'') (fs_do E (Make_Symlink GUEST_INIT_SCRIPT_PATH init)) (\<lambda>_. ok ()))))"

section \<open>Owners round trip\<close>

text \<open>The protobuf encoding \<open>umoci\<close> writes: two varint fields.\<close>

fun encode_varint :: "nat \<Rightarrow> nat list" where
  "encode_varint n = (if n < 128 then [n] else (128 + n mod 128) # encode_varint (n div 128))"

declare encode_varint.simps [simp del]

definition encode_owner :: "nat \<Rightarrow> nat \<Rightarrow> nat list" where
  "encode_owner uid gid = 8 # encode_varint uid @ 16 # encode_varint gid"

lemma read_encode_varint:
  "shift \<le> 35 \<Longrightarrow> n < 2 ^ (35 - shift) \<Longrightarrow>
     read_varint shift v (encode_varint n @ rest) = Some (v + n * 2 ^ shift, rest)"
proof (induction n arbitrary: shift v rule: encode_varint.induct)
  case (1 n)
  show ?case
  proof (cases "n < 128")
    case True
    then show ?thesis by (subst encode_varint.simps) (simp add: Let_def)
  next
    case False
    have big: "35 - shift > 7"
    proof (rule ccontr)
      assume "\<not> 7 < 35 - shift"
      then have "(2 :: nat) ^ (35 - shift) \<le> 2 ^ 7" by (intro power_increasing) auto
      with 1(3) False show False by simp
    qed
    have split: "(2 :: nat) ^ (35 - shift) = 128 * 2 ^ (35 - (shift + 7))"
    proof -
      have "35 - shift = 7 + (35 - (shift + 7))" using big by linarith
      then have "(2 :: nat) ^ (35 - shift) = 2 ^ (7 + (35 - (shift + 7)))" by (rule arg_cong)
      then show ?thesis by (simp add: power_add)
    qed
    have "n div 128 < 2 ^ (35 - (shift + 7))" using 1(3) split by (simp add: less_mult_imp_div_less mult.commute)
    then have ih: "read_varint (shift + 7) w (encode_varint (n div 128) @ rest)
        = Some (w + n div 128 * 2 ^ (shift + 7), rest)" for w
      using 1(1) False big by simp
    have "n mod 128 * 2 ^ shift + n div 128 * 2 ^ (shift + 7) = n * 2 ^ shift"
    proof -
      have "n mod 128 * 2 ^ shift + n div 128 * 2 ^ (shift + 7) = (n mod 128 + n div 128 * 128) * 2 ^ shift"
        by (simp only: distrib_right power_add mult.assoc) (simp add: mult.left_commute mult.commute)
      then show ?thesis by (simp only: mod_div_mult_eq)
    qed
    then show ?thesis using False big ih by (subst encode_varint.simps) (simp add: Let_def)
  qed
qed

definition owner_id :: "nat \<Rightarrow> nat" where
  "owner_id n = (if n = ROOTLESS_NOOP_ID then 0 else n)"

lemma decode_encode_owner:
  assumes "uid < 2 ^ 32" and "gid < 2 ^ 32"
  shows "decode_owner_loop 0 0 (encode_owner uid gid) = Some (owner_id uid, owner_id gid)"
proof -
  have r: "read_varint 0 0 (encode_varint n @ rest) = Some (n, rest)" if "n < 2 ^ 32" for n rest
    using that by (simp add: read_encode_varint)
  show ?thesis
    using r [OF assms(1)] r [OF assms(2), of "[]"] assms
    by (simp add: encode_owner_def owner_id_def Let_def)
qed

section \<open>Confinement\<close>

text \<open>A path made of the rootfs and ordinary names below it.\<close>

definition under_rootfs :: "string \<Rightarrow> string \<Rightarrow> bool" where
  "under_rootfs rootfs p \<longleftrightarrow> (\<exists>names. list_all normal_name names \<and> p = foldl path_join rootfs names)"

definition fs_paths :: "fs_call \<Rightarrow> string list" where
  "fs_paths c = (case c of Symlink_Metadata p \<Rightarrow> [p] | Metadata p \<Rightarrow> [p] | Create_Dir_All p \<Rightarrow> [p]
    | Temp_Dir d _ \<Rightarrow> [d] | Remove_Dir_All p \<Rightarrow> [p] | Remove_File p \<Rightarrow> [p] | Rename a b \<Rightarrow> [a, b]
    | Write_File p _ \<Rightarrow> [p] | Write_New p _ _ \<Rightarrow> [p] | Open_File p \<Rightarrow> [p] | Open_NoFollow p \<Rightarrow> [p]
    | Read_All p \<Rightarrow> [p] | Read_Prefix p _ \<Rightarrow> [p] | Create_New p _ \<Rightarrow> [p] | Copy_File a b \<Rightarrow> [a, b]
    | Set_Mode p _ \<Rightarrow> [p] | Make_Symlink _ l \<Rightarrow> [l] | Read_Link p \<Rightarrow> [p] | Read_Dir p \<Rightarrow> [p]
    | Get_Xattr p _ \<Rightarrow> [p] | Bind_Socket p \<Rightarrow> [p])"

text \<open>Every file system call of the event names only paths under the rootfs; no other effect.\<close>

definition confined :: "string \<Rightarrow> event \<Rightarrow> bool" where
  "confined rootfs e = (case e of Fs c _ \<Rightarrow> list_all (under_rootfs rootfs) (fs_paths c) | _ \<Rightarrow> False)"

lemma confined_Fs [simp]: "confined rootfs (Fs c b) \<longleftrightarrow> list_all (under_rootfs rootfs) (fs_paths c)"
  by (simp add: confined_def)

lemma normal_name_ends: "normal_name n \<Longrightarrow> \<not> ends_with (s @ n) ''/'' \<and> s @ n \<noteq> []"
  by (cases n rule: rev_cases) (auto simp: normal_name_def ends_with_iff)

lemma path_join_name:
  "normal_name n \<Longrightarrow> path_join a n = (if a = [] \<or> ends_with a ''/'' then a @ n else a @ ''/'' @ n)"
  by (cases n) (auto simp: path_join_def normal_name_def starts_with_iff)

lemma join_names_start: "list_all normal_name ns \<Longrightarrow> \<not> starts_with (join_str ''/'' ns) ''/''"
  by (cases ns rule: remdups_adj.cases) (auto simp: starts_with_iff normal_name_def append_eq_Cons_conv)

lemma join_snoc: "ns \<noteq> [] \<Longrightarrow> join_str sep (ns @ [n]) = join_str sep ns @ sep @ n"
  by (induction sep ns rule: join_str.induct) auto

lemma foldl_path_join:
  "list_all normal_name ns \<Longrightarrow> ns \<noteq> [] \<Longrightarrow>
     foldl path_join rootfs ns = path_join rootfs (join_str ''/'' ns) \<and> \<not> ends_with (foldl path_join rootfs ns) ''/''
     \<and> foldl path_join rootfs ns \<noteq> []"
proof (induction ns rule: rev_induct)
  case (snoc n ns)
  then have n: "normal_name n" and ns: "list_all normal_name ns" by simp_all
  show ?case
  proof (cases "ns = []")
    case True
    then show ?thesis using n normal_name_ends [OF n, of "[]"] normal_name_ends [OF n, of rootfs]
        normal_name_ends [OF n, of "rootfs @ ''/''"] by (simp add: path_join_name)
  next
    case False
    let ?b = "foldl path_join rootfs ns"
    from snoc.IH [OF ns False] have b: "?b = path_join rootfs (join_str ''/'' ns)" "\<not> ends_with ?b ''/''" "?b \<noteq> []"
      by auto
    have start: "\<not> starts_with (join_str ''/'' (ns @ [n])) ''/''" "\<not> starts_with (join_str ''/'' ns) ''/''"
      using join_names_start snoc.prems(1) ns by blast+
    have "path_join ?b n = path_join rootfs (join_str ''/'' (ns @ [n]))"
      using n b start False by (auto simp: path_join_name path_join_def [of rootfs] join_snoc)
    moreover have "path_join ?b n = ?b @ ''/'' @ n" using n b(2,3) by (simp add: path_join_name)
    ultimately show ?thesis using normal_name_ends [OF n, of "?b @ ''/''"] by simp
  qed
qed simp

lemma resolved_join:
  assumes "list_all normal_name names" and "normal_name n"
  shows "path_join (resolved_path rootfs names) n = foldl path_join rootfs (names @ [n])"
proof (cases "names = []")
  case True
  have "\<not> starts_with n ''/''" using assms(2) by (cases n) (auto simp: normal_name_def starts_with_iff)
  with True show ?thesis
    by (auto simp: resolved_path_def path_join_def starts_with_iff ends_with_iff)
next
  case False
  then show ?thesis using foldl_path_join [OF assms(1) False, of rootfs] by (simp add: resolved_path_def)
qed

lemma under_rootfs_resolved:
  "list_all normal_name names \<Longrightarrow> normal_name n \<Longrightarrow> under_rootfs rootfs (path_join (resolved_path rootfs names) n)"
  unfolding under_rootfs_def using resolved_join by (intro exI [of _ "names @ [n]"]) auto

lemma list_all_butlast: "list_all P xs \<Longrightarrow> list_all P (butlast xs)"
  by (auto simp: list_all_iff dest: in_set_butlastD)

lemma resolve_loop_confined:
  "list_all normal_name resolved \<Longrightarrow>
     run (\<lambda>_. True) (\<lambda>_. confined rootfs) (resolve_loop E rootfs g pending resolved hops)
       (\<lambda>r _. case r of Inr names \<Rightarrow> list_all normal_name names | Inl _ \<Rightarrow> True)"
proof (induction E rootfs g pending resolved hops rule: resolve_loop.induct)
  case (1 E rootfs g resolved hops)
  then show ?case by (auto intro: run_ok)
next
  case (2 E rootfs g part pending resolved hops)
  show ?case
  proof (cases "components part")
    case Nil
    with 2 show ?thesis by simp
  next
    case (Cons c cs)
    show ?thesis
    proof (cases c)
      case (Normal name)
      have n: "normal_name name" using components_normal [of name part] Cons Normal by simp
      note under = under_rootfs_resolved [OF "2.prems" n, of rootfs]
      show ?thesis
        unfolding resolve_loop.simps Cons Normal list.case component.case Let_def
      proof (rule run_await [where R = "\<lambda>_ _. True"], rule run_fs_stat)
        fix r :: "(io_error, file_meta) result"
        let ?link = "case r of Inr metadata \<Rightarrow> meta_is_symlink metadata | Inl _ \<Rightarrow> False"
        have IH1: "\<not> ?link \<Longrightarrow> run (\<lambda>_. True) (\<lambda>_. confined rootfs)
            (resolve_loop E rootfs g pending (resolved @ [name]) hops)
            (\<lambda>r _. case r of Inr names \<Rightarrow> list_all normal_name names | Inl _ \<Rightarrow> True)"
          using "2.IH"(5) [OF Cons Normal refl refl] "2.prems" n by simp
        have IH2: "?link \<Longrightarrow> \<not> MAX_SYMLINK_HOPS < hops + 1 \<Longrightarrow> run (\<lambda>_. True) (\<lambda>_. confined rootfs)
            (resolve_loop E rootfs g (map component_str (components target) @ pending)
              (if starts_with target ''/'' then [] else resolved) (hops + 1))
            (\<lambda>r _. case r of Inr names \<Rightarrow> list_all normal_name names | Inl _ \<Rightarrow> True)" for target
          using "2.IH"(6) [OF Cons Normal refl refl] "2.prems" by simp
        show "run ((\<lambda>_ _. True) r) (\<lambda>_. confined rootfs)
          (if \<not> ?link then resolve_loop E rootfs g pending (resolved @ [name]) hops
           else if MAX_SYMLINK_HOPS < hops + 1 then err (too_many_symlinks g)
           else await_map (\<lambda>e. ImageImport (''failed to read symlink '' @ path_join (resolved_path rootfs resolved) name
                  @ '': '' @ ext_show_io E e))
             (fs_text E (Read_Link (path_join (resolved_path rootfs resolved) name))) (\<lambda>target.
             resolve_loop E rootfs g (map component_str (components target) @ pending)
               (if starts_with target ''/'' then [] else resolved) (hops + 1)))
          (\<lambda>r _. case r of Inr names \<Rightarrow> list_all normal_name names | Inl _ \<Rightarrow> True)"
          using IH1 IH2 under
          by (intro run_if run_err run_await_map [where R = "\<lambda>_ _. True"] run_fs_text)
            (auto simp: fs_paths_def)
      qed (use under in \<open>auto simp: fs_paths_def\<close>)
    next
      case ParentDir
      with 2 Cons list_all_butlast [OF "2.prems"] show ?thesis by simp
    qed (use 2 Cons in simp_all)
  qed
qed

lemma file_name_normal: "file_name s = Some n \<Longrightarrow> normal_name n"
  using components_normal by (auto simp: file_name_def Let_def split: if_splits component.splits) (metis last_in_set)

text \<open>Resolving returns the rootfs followed by ordinary names, the last of them the file's.\<close>

lemma resolve_in_rootfs_confined:
  "run (\<lambda>_. True) (\<lambda>_. confined rootfs) (resolve_in_rootfs E rootfs guest_path)
     (\<lambda>r _. case r of Inl _ \<Rightarrow> True
        | Inr p \<Rightarrow> \<exists>names n. list_all normal_name names \<and> file_name guest_path = Some n
            \<and> p = foldl path_join rootfs (names @ [n]))"
  unfolding resolve_in_rootfs_def
proof (rule run_lift_ok)
  fix name assume "ok_or (file_name guest_path) (ImageImport (debug_str guest_path @ '' does not name a file'')) = Inr name"
  then have n: "file_name guest_path = Some name" by (cases "file_name guest_path") (auto simp: ok_or_def)
  show "run (\<lambda>_. True) (\<lambda>_. confined rootfs)
     (await_ok (resolve_loop E rootfs guest_path (map component_str (butlast (components guest_path))) [] 0)
       (\<lambda>resolved. ok (path_join (resolved_path rootfs resolved) name)))
     (\<lambda>r _. case r of Inl _ \<Rightarrow> True
        | Inr p \<Rightarrow> \<exists>names n. list_all normal_name names \<and> file_name guest_path = Some n
            \<and> p = foldl path_join rootfs (names @ [n]))"
    using resolved_join [OF _ file_name_normal [OF n]] n
    by (intro run_await_ok [OF resolve_loop_confined] run_ok) auto
qed auto

lemma trim_end_names: "s \<noteq> [] \<Longrightarrow> last s \<noteq> d \<Longrightarrow> trim_end_matches d s = s"
  by (cases s rule: rev_cases) (simp_all add: trim_end_matches_def)

lemma path_parent_join:
  assumes "rootfs \<noteq> []" and "\<not> ends_with rootfs ''/''" and "list_all normal_name names" and "normal_name n"
  shows "path_parent (foldl path_join rootfs (names @ [n])) = Some (foldl path_join rootfs names)"
proof -
  let ?b = "foldl path_join rootfs names"
  have b: "?b \<noteq> []" "\<not> ends_with ?b ''/''"
    using foldl_path_join [OF assms(3), of rootfs] assms(1,2) by (cases "names = []"; simp)+
  have s: "foldl path_join rootfs (names @ [n]) = ?b @ ''/'' @ n"
    using b assms(4) by (simp add: path_join_name)
  have n: "n \<noteq> []" "CHR ''/'' \<notin> set n" using assms(4) by (auto simp: normal_name_def)
  then have "last (?b @ ''/'' @ n) \<noteq> CHR ''/''" by (metis append_is_Nil_conv last_appendR last_in_set)
  then have t: "trim_end_matches (CHR ''/'') (?b @ ''/'' @ n) = ?b @ ''/'' @ n"
    by (intro trim_end_names) auto
  have l: "split_last (CHR ''/'') (?b @ ''/'' @ n) = n" using split_last_append [OF n(2), of ?b] by simp
  have "last ?b \<noteq> CHR ''/''"
    using b by (cases ?b rule: rev_cases) (auto simp: ends_with_iff)
  then have "trim_end_matches (CHR ''/'') (?b @ ''/'') = ?b"
    using b(1) by (cases ?b rule: rev_cases) (simp_all add: trim_end_matches_def)
  then show ?thesis using b(1) unfolding path_parent_def s t Let_def l by simp
qed

lemma under_rootfs_names: "list_all normal_name names \<Longrightarrow> under_rootfs rootfs (foldl path_join rootfs names)"
  by (auto simp: under_rootfs_def)

lemma init_script_under: "under_rootfs rootfs (path_join rootfs (trim_start_matches (CHR ''/'') GUEST_INIT_SCRIPT_PATH))"
  using under_rootfs_names [of "[''openshell-init.sh'']" rootfs]
  by (simp add: normal_name_def trim_start_matches_def GUEST_INIT_SCRIPT_PATH_def)

lemma emits_case_io_error [emits_rules]:
  "(\<And>m. emits p (f m)) \<Longrightarrow> (\<And>m. emits p (g m)) \<Longrightarrow>
   emits p (case e of NotFound m \<Rightarrow> f m | IoError m \<Rightarrow> g m)"
  by (cases e) simp_all

lemma inject_init_script_confined: "emits (confined rootfs) (inject_init_script E rootfs)"
  unfolding inject_init_script_def Let_def
  by (intro emits_rules) (simp_all add: fs_paths_def init_script_under)

lemma install_init_confined:
  assumes "rootfs \<noteq> []" and "\<not> ends_with rootfs ''/''"
  shows "emits (confined rootfs) (install_init E rootfs)"
  unfolding emits_def install_init_def
proof (rule run_await_ok [OF resolve_in_rootfs_confined])
  fix init
  let ?P = "\<exists>names n. list_all normal_name names \<and> file_name GUEST_INIT_PATH = Some n
    \<and> init = foldl path_join rootfs (names @ [n])"
  let ?body = "let io_err = (\<lambda>what e. ImageImport (''failed to '' @ what @ '' '' @ init @ '': '' @ ext_show_io E e)) in
     await_ok (case path_parent init of
          Some parent \<Rightarrow> await_map (io_err ''create the parent of'') (fs_do E (Create_Dir_All parent)) (\<lambda>_. ok ())
        | None \<Rightarrow> ok ()) (\<lambda>_.
     await_ok (await (fs_stat E (Symlink_Metadata init)) (\<lambda>r. case r of
          Inr metadata \<Rightarrow>
            if meta_is_dir metadata then err (ImageImport (''the image has a directory at '' @ GUEST_INIT_PATH))
            else await_map (io_err ''remove'') (fs_do E (Remove_File init)) (\<lambda>_. ok ())
        | Inl (NotFound _) \<Rightarrow> ok ()
        | Inl e \<Rightarrow> err (io_err ''stat'' e))) (\<lambda>_.
     await_map (io_err ''create'') (fs_do E (Make_Symlink GUEST_INIT_SCRIPT_PATH init)) (\<lambda>_. ok ())))"
  have body: "emits (confined rootfs) ?body" if resolved: ?P
  proof -
    obtain names n where p: "list_all normal_name names" "normal_name n" "init = foldl path_join rootfs (names @ [n])"
      using resolved file_name_normal by blast
    have parent: "path_parent init = Some (foldl path_join rootfs names)"
      using path_parent_join [OF assms p(1,2)] p(3) by simp
    have "list_all normal_name (names @ [n])" using p(1,2) by simp
    then have "under_rootfs rootfs init" unfolding p(3) by (rule under_rootfs_names)
    with under_rootfs_names [OF p(1), of rootfs] show ?thesis
      unfolding Let_def parent option.case by (intro emits_rules) (simp_all add: fs_paths_def)
  qed
  show "run ((\<lambda>r _. case r of Inl _ \<Rightarrow> True
        | Inr p \<Rightarrow> \<exists>names n. list_all normal_name names \<and> file_name GUEST_INIT_PATH = Some n
            \<and> p = foldl path_join rootfs (names @ [n])) (Inr init)) (\<lambda>_. confined rootfs) ?body (\<lambda>_ _. True)"
    using body unfolding emits_def by (cases ?P) (auto intro: run_False elim: run_pre)
qed simp

section \<open>Quoted paths can be read back\<close>

fun pseudo_unescape :: "string \<Rightarrow> (string \<times> string) option" where
  "pseudo_unescape [] = None"
| "pseudo_unescape (b # bs) =
     (if b = CHR 0x22 then Some ([], bs)
      else if b = CHR 0x5C then
        (case bs of [] \<Rightarrow> None | c # cs \<Rightarrow> map_option (\<lambda>(p, r). (c # p, r)) (pseudo_unescape cs))
      else map_option (\<lambda>(p, r). (b # p, r)) (pseudo_unescape bs))"

lemma pseudo_unescape_escape: "pseudo_unescape (pseudo_escape p @ CHR 0x22 # rest) = Some (p, rest)"
  by (induction p) auto

end
