(* ===== verification/Lxd_Tls.thy ===== *)
theory Lxd_Tls
  imports World
begin

text \<open>
  The HTTPS endpoint of the LXD client (\<open>lxd-client/src/client.rs\<close>): its URL, the certificates and
  the key it reads, and which server certificates the connector accepts. The PEM parsers, the crypto
  provider and the root store are \<open>rustls\<close>'s; they are functions of the environment.
\<close>

section \<open>Endpoints\<close>

record lxd_https_config =
  https_url :: string
  https_client_cert :: string
  https_client_key :: string
  https_server_ca :: "string option"
  https_server_cert :: "string option"
  https_server_fingerprint :: "string option"

datatype lxd_endpoint = UnixSocket string | Https lxd_https_config

definition parsed_url :: "env \<Rightarrow> lxd_https_config \<Rightarrow> (lxd_error, string \<times> nat option) result" where
  "parsed_url E c = (case ext_uri_parse E (https_url c) of
      Inl e \<Rightarrow> Inl (Tls (''invalid LXD URL '' @ debug_str (https_url c) @ '': '' @ e))
    | Inr (None, _) \<Rightarrow> Inl (Tls (''LXD URL '' @ debug_str (https_url c) @ '' has no host''))
    | Inr (Some host, port) \<Rightarrow> Inr (host, port))"

definition host_port :: "env \<Rightarrow> lxd_https_config \<Rightarrow> (lxd_error, string) result" where
  "host_port E c = result_bind (parsed_url E c) (\<lambda>(host, port).
     if CHR '':'' \<in> set host
     then Inr (''['' @ host @ '']:'' @ dec (unwrap_or port 8443))
     else Inr (host @ '':'' @ dec (unwrap_or port 8443)))"

definition hostname :: "env \<Rightarrow> lxd_https_config \<Rightarrow> (lxd_error, string) result" where
  "hostname E c = result_bind (parsed_url E c) (\<lambda>(host, _). Inr host)"

definition server_name :: "env \<Rightarrow> lxd_https_config \<Rightarrow> (lxd_error, unit) result" where
  "server_name E c = result_bind (hostname E c) (\<lambda>h.
     map_err (\<lambda>e. Tls (''invalid server name: '' @ e)) (ext_server_name E h))"

section \<open>Pinned certificates\<close>

text \<open>The fingerprint is read in chunks of two bytes. \<open>std::str::from_utf8(chunk).expect(..)\<close>
  panics on a chunk that is not UTF-8 by itself; \<open>u8::from_str_radix(chunk, 16)\<close> accepts a plus sign
  when a digit follows it.\<close>

definition utf8_chunk :: "char \<Rightarrow> char \<Rightarrow> bool" where
  "utf8_chunk a b \<longleftrightarrow>
     (of_char a :: nat) < 128 \<and> (of_char b :: nat) < 128
     \<or> 194 \<le> (of_char a :: nat) \<and> (of_char a :: nat) \<le> 223 \<and> 128 \<le> (of_char b :: nat) \<and> (of_char b :: nat) < 192"

definition hex_val :: "char \<Rightarrow> nat" where
  "hex_val c = (let n = (of_char c :: nat) in
     if is_ascii_digit c then n - 48 else if n < 97 then n - 55 else n - 87)"

definition parse_hex_byte :: "char \<Rightarrow> char \<Rightarrow> nat option" where
  "parse_hex_byte a b =
     (if is_ascii_hexdigit a \<and> is_ascii_hexdigit b then Some (16 * hex_val a + hex_val b)
      else if a = CHR ''+'' \<and> is_ascii_hexdigit b then Some (hex_val b)
      else None)"

datatype hex_outcome = Hex_Bytes "nat list" | Hex_Invalid | Hex_Panic

fun parse_hex_bytes :: "string \<Rightarrow> hex_outcome" where
  "parse_hex_bytes (a # b # cs) =
     (if \<not> utf8_chunk a b then Hex_Panic
      else case parse_hex_byte a b of
             None \<Rightarrow> Hex_Invalid
           | Some x \<Rightarrow> (case parse_hex_bytes cs of Hex_Bytes xs \<Rightarrow> Hex_Bytes (x # xs) | r \<Rightarrow> r))"
| "parse_hex_bytes [] = Hex_Bytes []"
| "parse_hex_bytes [_] = Hex_Invalid"

text \<open>\<open>None\<close> is the panic.\<close>

definition parse_fingerprint :: "string \<Rightarrow> (lxd_error, nat list) result option" where
  "parse_fingerprint input =
     (let hex = filter (\<lambda>c. c \<noteq> CHR '':'') (map to_ascii_lowercase input)
      in if length hex \<noteq> 64
         then Some (Inl (Tls (''invalid fingerprint length: expected 64 hex chars, got '' @ dec (length hex))))
         else (case parse_hex_bytes hex of
                 Hex_Bytes bytes \<Rightarrow> Some (Inr bytes)
               | Hex_Invalid \<Rightarrow> Some (Inl (Tls ''invalid fingerprint hex: invalid digit found in string''))
               | Hex_Panic \<Rightarrow> None))"

section \<open>Certificate verifiers\<close>

text \<open>What the handshake of \<open>rustls\<close> asks a \<open>ServerCertVerifier\<close>: whether it trusts the certificate the
  server presents, and whether a signature of the handshake verifies with that certificate's key. A
  certificate, a message and a signature are bytes. The intermediates, the server name, the OCSP response and
  the time, which both verifiers of the code ignore, are left out. The crypto provider is \<open>ring\<close>'s.\<close>

datatype certificate_error = ApplicationVerificationFailure | Certificate_Other string

datatype rustls_error = General string | InvalidCertificate certificate_error | Rustls_Other string

record crypto_provider =
  crypto_verify_tls12 :: "string \<Rightarrow> string \<Rightarrow> string \<Rightarrow> (rustls_error, unit) result"
  crypto_verify_tls13 :: "string \<Rightarrow> string \<Rightarrow> string \<Rightarrow> (rustls_error, unit) result"
  crypto_schemes :: "nat list"

record server_cert_verifier =
  verify_server_cert :: "string \<Rightarrow> (rustls_error, unit) result"
  verify_tls12_signature :: "string \<Rightarrow> string \<Rightarrow> string \<Rightarrow> (rustls_error, unit) result"
  verify_tls13_signature :: "string \<Rightarrow> string \<Rightarrow> string \<Rightarrow> (rustls_error, unit) result"
  supported_verify_schemes :: "nat list"

record fingerprint_verifier =
  fv_fingerprint :: "nat list"
  fv_provider :: crypto_provider

definition fv_verify_server_cert ::
  "(string \<Rightarrow> nat list) \<Rightarrow> fingerprint_verifier \<Rightarrow> string \<Rightarrow> (rustls_error, unit) result" where
  "fv_verify_server_cert digest v end_entity =
     (if digest end_entity = fv_fingerprint v then Inr ()
      else Inl (General ''server certificate fingerprint mismatch''))"

definition fv_verify_tls12_signature ::
  "fingerprint_verifier \<Rightarrow> string \<Rightarrow> string \<Rightarrow> string \<Rightarrow> (rustls_error, unit) result" where
  "fv_verify_tls12_signature v message cert dss = crypto_verify_tls12 (fv_provider v) message cert dss"

definition fv_verify_tls13_signature ::
  "fingerprint_verifier \<Rightarrow> string \<Rightarrow> string \<Rightarrow> string \<Rightarrow> (rustls_error, unit) result" where
  "fv_verify_tls13_signature v message cert dss = crypto_verify_tls13 (fv_provider v) message cert dss"

definition fv_supported_verify_schemes :: "fingerprint_verifier \<Rightarrow> nat list" where
  "fv_supported_verify_schemes v = crypto_schemes (fv_provider v)"

definition fingerprint_impl :: "(string \<Rightarrow> nat list) \<Rightarrow> fingerprint_verifier \<Rightarrow> server_cert_verifier" where
  "fingerprint_impl digest v =
     \<lparr>verify_server_cert = fv_verify_server_cert digest v,
      verify_tls12_signature = fv_verify_tls12_signature v,
      verify_tls13_signature = fv_verify_tls13_signature v,
      supported_verify_schemes = fv_supported_verify_schemes v\<rparr>"

record pinned_server_cert =
  psc_cert :: string
  psc_provider :: crypto_provider

definition psc_verify_server_cert :: "pinned_server_cert \<Rightarrow> string \<Rightarrow> (rustls_error, unit) result" where
  "psc_verify_server_cert v end_entity =
     (if end_entity = psc_cert v then Inr ()
      else Inl (InvalidCertificate ApplicationVerificationFailure))"

definition psc_verify_tls12_signature ::
  "pinned_server_cert \<Rightarrow> string \<Rightarrow> string \<Rightarrow> string \<Rightarrow> (rustls_error, unit) result" where
  "psc_verify_tls12_signature v message cert dss = crypto_verify_tls12 (psc_provider v) message cert dss"

definition psc_verify_tls13_signature ::
  "pinned_server_cert \<Rightarrow> string \<Rightarrow> string \<Rightarrow> string \<Rightarrow> (rustls_error, unit) result" where
  "psc_verify_tls13_signature v message cert dss = crypto_verify_tls13 (psc_provider v) message cert dss"

definition psc_supported_verify_schemes :: "pinned_server_cert \<Rightarrow> nat list" where
  "psc_supported_verify_schemes v = crypto_schemes (psc_provider v)"

definition pinned_impl :: "pinned_server_cert \<Rightarrow> server_cert_verifier" where
  "pinned_impl v =
     \<lparr>verify_server_cert = psc_verify_server_cert v,
      verify_tls12_signature = psc_verify_tls12_signature v,
      verify_tls13_signature = psc_verify_tls13_signature v,
      supported_verify_schemes = psc_supported_verify_schemes v\<rparr>"

section \<open>The connector\<close>

text \<open>What the connector trusts: one digest, one certificate, the certificates of a file as roots, or
  the bundled roots.\<close>

datatype server_trust =
    Trust_Fingerprint "nat list"
  | Trust_Pinned string
  | Trust_Roots "string list"
  | Trust_Webpki

record tls_connector =
  tls_trust :: server_trust
  tls_client_certs :: "string list"
  tls_client_key :: string

text \<open>Opening and parsing a PEM file with certificates.\<close>

definition read_certs :: "env \<Rightarrow> string \<Rightarrow> string \<Rightarrow> (lxd_error, string list) fallible" where
  "read_certs E what path =
     await_map (\<lambda>e. Tls (''cannot open '' @ what @ '': '' @ ext_show_io E e)) (fs_do E (Open_File path)) (\<lambda>_.
     await_map (\<lambda>e. Tls (''invalid '' @ what @ '' PEM: '' @ ext_show_io E e)) (fs_text E (Read_All path)) (\<lambda>text.
     return (map_err (\<lambda>e. Tls (''invalid '' @ what @ '' PEM: '' @ e)) (ext_pem_certs E text))))"

definition read_key :: "env \<Rightarrow> string \<Rightarrow> (lxd_error, string) fallible" where
  "read_key E path =
     await_map (\<lambda>e. Tls (''cannot open client key: '' @ ext_show_io E e)) (fs_do E (Open_File path)) (\<lambda>_.
     await_map (\<lambda>e. Tls (''invalid client key PEM: '' @ ext_show_io E e)) (fs_text E (Read_All path)) (\<lambda>text.
     lift_ok (map_err (\<lambda>e. Tls (''invalid client key PEM: '' @ e)) (ext_pem_key E text)) (\<lambda>key.
     return (ok_or key (Tls ''no private key in PEM file'')))))"

text \<open>Adding the certificates of the CA file to an empty root store, one by one.\<close>

fun add_roots :: "env \<Rightarrow> string list \<Rightarrow> (lxd_error, unit) result" where
  "add_roots E [] = Inr ()"
| "add_roots E (cert # certs) =
     result_bind (map_err (\<lambda>e. Tls (''invalid CA cert: '' @ e)) (ext_root_add E cert)) (\<lambda>_. add_roots E certs)"

text \<open>Which trust the configuration asks for: the fingerprint before the certificate before the CA. A
  panic ends the program, so nothing is returned.\<close>

definition server_trust_of :: "env \<Rightarrow> lxd_https_config \<Rightarrow> (lxd_error, server_trust) fallible" where
  "server_trust_of E c = (case https_server_fingerprint c of
      Some fingerprint \<Rightarrow> (case parse_fingerprint fingerprint of
          None \<Rightarrow> hang
        | Some r \<Rightarrow> lift_ok r (\<lambda>bytes. ok (Trust_Fingerprint bytes)))
    | None \<Rightarrow> (case https_server_cert c of
          Some cert_path \<Rightarrow>
            await_ok (read_certs E ''server cert'' cert_path) (\<lambda>server_certs.
            if length server_certs \<noteq> 1 then
              err (Tls (''server cert file must hold exactly one certificate, found '' @ dec (length server_certs)))
            else ok (Trust_Pinned (hd server_certs)))
        | None \<Rightarrow> (case https_server_ca c of
              Some ca_path \<Rightarrow>
                await_ok (read_certs E ''server CA'' ca_path) (\<lambda>ca_certs.
                lift_ok (add_roots E ca_certs) (\<lambda>_. ok (Trust_Roots ca_certs)))
            | None \<Rightarrow> ok Trust_Webpki)))"

definition build_connector :: "env \<Rightarrow> lxd_https_config \<Rightarrow> (lxd_error, tls_connector) fallible" where
  "build_connector E c =
     await_ok (read_certs E ''client cert'' (https_client_cert c)) (\<lambda>client_certs.
     await_ok (read_key E (https_client_key c)) (\<lambda>key.
     lift_ok (map_err (\<lambda>e. Tls (''TLS protocol error: '' @ e)) (ext_tls_versions E)) (\<lambda>_.
     await_ok (server_trust_of E c) (\<lambda>trust.
     lift_ok (map_err (\<lambda>e. Tls (''TLS cert error: '' @ e)) (ext_client_auth E client_certs key)) (\<lambda>_.
     ok \<lparr>tls_trust = trust, tls_client_certs = client_certs, tls_client_key = key\<rparr>)))))"

text \<open>The verifier the connector installs; with roots it keeps the one of \<open>rustls\<close>.\<close>

definition custom_verifier ::
  "(string \<Rightarrow> nat list) \<Rightarrow> crypto_provider \<Rightarrow> server_trust \<Rightarrow> server_cert_verifier option" where
  "custom_verifier digest provider trust = (case trust of
      Trust_Fingerprint fingerprint \<Rightarrow>
        Some (fingerprint_impl digest \<lparr>fv_fingerprint = fingerprint, fv_provider = provider\<rparr>)
    | Trust_Pinned cert \<Rightarrow> Some (pinned_impl \<lparr>psc_cert = cert, psc_provider = provider\<rparr>)
    | Trust_Roots _ \<Rightarrow> None
    | Trust_Webpki \<Rightarrow> None)"

section \<open>Authenticating the server\<close>

datatype tls_version = TLS12 | TLS13

definition handshake_signature ::
  "tls_version \<Rightarrow> server_cert_verifier \<Rightarrow> string \<Rightarrow> string \<Rightarrow> string \<Rightarrow> (rustls_error, unit) result" where
  "handshake_signature ver v = (case ver of TLS12 \<Rightarrow> verify_tls12_signature v | TLS13 \<Rightarrow> verify_tls13_signature v)"

definition crypto_signature ::
  "tls_version \<Rightarrow> crypto_provider \<Rightarrow> string \<Rightarrow> string \<Rightarrow> string \<Rightarrow> (rustls_error, unit) result" where
  "crypto_signature ver p = (case ver of TLS12 \<Rightarrow> crypto_verify_tls12 p | TLS13 \<Rightarrow> crypto_verify_tls13 p)"

text \<open>What \<open>rustls\<close> documents of its handshake: \<open>established v ver end_entity message dss\<close>, a connection that
  was established with the verifier \<open>v\<close> to a server that presented \<open>end_entity\<close> and signed \<open>message\<close> with \<open>dss\<close>,
  has passed both checks.\<close>

definition consults_verifier ::
  "(server_cert_verifier \<Rightarrow> tls_version \<Rightarrow> string \<Rightarrow> string \<Rightarrow> string \<Rightarrow> bool) \<Rightarrow> bool" where
  "consults_verifier established \<longleftrightarrow> (\<forall>v ver end_entity message dss.
     established v ver end_entity message dss \<longrightarrow>
       verify_server_cert v end_entity = Inr () \<and> handshake_signature ver v message end_entity dss = Inr ())"

text \<open>A verifier that pins the server: it accepts only trusted certificates and leaves signatures to the
  provider. Whoever gets through holds the key of a trusted certificate.\<close>

locale server_pin =
  fixes verifier :: server_cert_verifier and trusted :: "string \<Rightarrow> bool" and provider :: crypto_provider
  assumes accepts_trusted: "verify_server_cert verifier end_entity = Inr () \<Longrightarrow> trusted end_entity"
    and provider_signature: "handshake_signature ver verifier = crypto_signature ver provider"
begin

lemma established_authenticated:
  assumes "consults_verifier established" and "established verifier ver end_entity message dss"
  shows "trusted end_entity \<and> crypto_signature ver provider message end_entity dss = Inr ()"
  using assms accepts_trusted provider_signature unfolding consults_verifier_def by fastforce

end

lemmas verifier_defs = fingerprint_impl_def pinned_impl_def fv_verify_server_cert_def psc_verify_server_cert_def
  fv_verify_tls12_signature_def fv_verify_tls13_signature_def psc_verify_tls12_signature_def psc_verify_tls13_signature_def
  handshake_signature_def crypto_signature_def

interpretation fingerprint: server_pin "fingerprint_impl digest v" "\<lambda>c. digest c = fv_fingerprint v" "fv_provider v" for digest v
  by unfold_locales (auto simp: verifier_defs fun_eq_iff split: if_splits tls_version.splits)

interpretation pinned: server_pin "pinned_impl v" "\<lambda>c. c = psc_cert v" "psc_provider v" for v
  by unfold_locales (auto simp: verifier_defs fun_eq_iff split: if_splits tls_version.splits)

section \<open>Fingerprints round trip\<close>

lemma hex_val_hex_char: "d < 16 \<Longrightarrow> hex_val (hex_char d) = d"
  by (auto simp: hex_val_def hex_char_def is_ascii_digit_def)

definition show_fingerprint :: "nat list \<Rightarrow> string" where
  "show_fingerprint bs = concat (map (\<lambda>b. [hex_char (b div 16), hex_char (b mod 16)]) bs)"

lemma hexdigit_ascii: "is_ascii_hexdigit c \<Longrightarrow> (of_char c :: nat) < 128"
  by (auto simp: char_class_defs)

lemma parse_hex_bytes_show:
  "list_all (\<lambda>b. b < 256) bs \<Longrightarrow> parse_hex_bytes (show_fingerprint bs) = Hex_Bytes bs"
proof (induction bs)
  case (Cons b bs)
  have b: "b div 16 < 16" "b mod 16 < 16" using Cons.prems by auto
  then have "parse_hex_byte (hex_char (b div 16)) (hex_char (b mod 16)) = Some b"
    unfolding parse_hex_byte_def by (simp only: hex_char_hexdigit hex_val_hex_char simp_thms if_True) simp
  moreover have "utf8_chunk (hex_char (b div 16)) (hex_char (b mod 16))"
    using hexdigit_ascii [OF hex_char_hexdigit] b by (simp add: utf8_chunk_def)
  ultimately show ?case using Cons by (simp add: show_fingerprint_def)
qed (simp add: show_fingerprint_def)

lemma length_show_fingerprint: "length (show_fingerprint bs) = 2 * length bs"
  by (induction bs) (simp_all add: show_fingerprint_def)

section \<open>Properties\<close>

text \<open>Claim C36. A SHA-256 fingerprint is read back from its hexadecimal form, in either case and with
  colons anywhere.\<close>

theorem fingerprint_roundtrip:
  assumes "length bs = 32" and "list_all (\<lambda>b. b < 256) bs"
    and "filter (\<lambda>c. c \<noteq> CHR '':'') (map to_ascii_lowercase s) = show_fingerprint bs"
  shows "parse_fingerprint s = Some (Inr bs)"
  using assms parse_hex_bytes_show [OF assms(2)] length_show_fingerprint [of bs]
  by (simp add: parse_fingerprint_def)

theorem fingerprint_roundtrip_witness:
  "parse_fingerprint (''AB:'' @ concat (replicate 31 ''00'')) = Some (Inr (171 # replicate 31 0))"
proof (rule fingerprint_roundtrip)
  show "length (171 # replicate 31 0) = 32" by simp
  show "list_all (\<lambda>b. b < 256) (171 # replicate 31 (0 :: nat))" by (simp add: list_all_iff)
  show "filter (\<lambda>c. c \<noteq> CHR '':'') (map to_ascii_lowercase (''AB:'' @ concat (replicate 31 ''00'')))
      = show_fingerprint (171 # replicate 31 0)"
    by code_simp
qed



definition sample_https :: lxd_https_config where
  "sample_https = \<lparr>https_url = ''https://lxd:8443'', https_client_cert = ''c'', https_client_key = ''k'',
     https_server_ca = Some ''ca'', https_server_cert = None, https_server_fingerprint = Some (replicate 64 (CHR ''0''))\<rparr>"

definition sample_provider :: crypto_provider where
  "sample_provider = \<lparr>crypto_verify_tls12 = \<lambda>_ _ _. Inr (), crypto_verify_tls13 = \<lambda>_ _ _. Inr (), crypto_schemes = []\<rparr>"

definition sample_established :: "server_cert_verifier \<Rightarrow> tls_version \<Rightarrow> string \<Rightarrow> string \<Rightarrow> string \<Rightarrow> bool" where
  "sample_established v ver end_entity message dss \<longleftrightarrow>
     verify_server_cert v end_entity = Inr () \<and> handshake_signature ver v message end_entity dss = Inr ()"


end
