(* ===== verification/Lxd_Client.thy ===== *)
theory Lxd_Client
  imports Lxd_Tls
begin

text \<open>
  The HTTP transport of the LXD client (\<open>lxd-client/src/client.rs\<close>): endpoints, project scoping,
  the request functions with LXD's response envelope, and the architecture check. Opening the
  connection and the TLS handshake belong to the environment: an exchange that fails there is an
  \<open>Exchange\<close> event answered with an error.
\<close>

definition DEFAULT_PROJECT :: string where
  "DEFAULT_PROJECT = ''default''"

section \<open>The client\<close>

record lxd_client =
  cl_endpoint :: lxd_endpoint
  cl_tls_connector :: "tls_connector option"
  cl_project :: string

text \<open>\<open>LxdClient::new\<close> checks the URL and builds the connector once.\<close>

definition lxd_client_new :: "env \<Rightarrow> lxd_endpoint \<Rightarrow> (lxd_error, lxd_client) fallible" where
  "lxd_client_new E endpoint = (case endpoint of
      UnixSocket _ \<Rightarrow> ok \<lparr>cl_endpoint = endpoint, cl_tls_connector = None, cl_project = DEFAULT_PROJECT\<rparr>
    | Https c \<Rightarrow>
        lift_ok (parsed_url E c) (\<lambda>_.
        await_ok (build_connector E c) (\<lambda>connector.
        ok \<lparr>cl_endpoint = endpoint, cl_tls_connector = Some connector, cl_project = DEFAULT_PROJECT\<rparr>)))"

definition with_project :: "lxd_client \<Rightarrow> string \<Rightarrow> lxd_client" where
  "with_project cl p = cl\<lparr>cl_project := p\<rparr>"

text \<open>\<open>connect_raw\<close>: what it decides before any byte is sent, the value of the \<open>Host\<close> header.\<close>

definition connect_raw :: "env \<Rightarrow> lxd_client \<Rightarrow> (lxd_error, string) result" where
  "connect_raw E cl = (case cl_endpoint cl of
      UnixSocket _ \<Rightarrow> Inr ''localhost''
    | Https c \<Rightarrow>
        result_bind (ok_or (cl_tls_connector cl) (Tls ''internal error: no TLS connector for Https endpoint'')) (\<lambda>_.
        result_bind (host_port E c) (\<lambda>host.
        result_bind (server_name E c) (\<lambda>_. Inr host))))"

definition ws_scheme :: "lxd_client \<Rightarrow> string" where
  "ws_scheme cl = (case cl_endpoint cl of UnixSocket _ \<Rightarrow> ''ws'' | Https _ \<Rightarrow> ''wss'')"

section \<open>Requests\<close>

definition decorate_path :: "env \<Rightarrow> lxd_client \<Rightarrow> string \<Rightarrow> string" where
  "decorate_path E cl path =
     (let (p, q) = ext_url_join E path
      in case ext_append_pair E q ''project'' (cl_project cl) of
           Some query \<Rightarrow> p @ ''?'' @ query
         | None \<Rightarrow> p)"

definition is_success :: "nat \<Rightarrow> bool" where
  "is_success status \<longleftrightarrow> 200 \<le> status \<and> status < 300"

text \<open>\<open>serde_json::from_slice::<T>\<close>: parse, then decode.\<close>

definition from_slice :: "env \<Rightarrow> 'a decoder \<Rightarrow> string \<Rightarrow> (lxd_error, 'a) result" where
  "from_slice E f body = (case ext_json_parse E body of
      Inl e \<Rightarrow> Inl (JsonError e)
    | Inr v \<Rightarrow> ok_or (f v) (JsonError (ext_decode_error E body)))"

text \<open>The error of a non-2xx response: LXD's own code and message where the body is an error
  envelope, the HTTP status otherwise.\<close>

definition http_error :: "env \<Rightarrow> http_response \<Rightarrow> lxd_error" where
  "http_error E resp =
     (let text = ''HTTP '' @ ext_status_text E (http_status resp)
      in case from_slice E (de_response de_value) (http_payload resp) of
           Inr r \<Rightarrow> if resp_type r = ''error''
                    then Api (resp_error_code r) (unwrap_or (resp_error r) text)
                    else Api (http_status resp) text
         | Inl _ \<Rightarrow> Api (http_status resp) text)"

definition envelope_error :: "'a lxd_response \<Rightarrow> lxd_error" where
  "envelope_error r = Api (resp_error_code r)
     (unwrap_or (resp_error r) (''LXD error '' @ dec (resp_error_code r)))"

definition decode_reply :: "env \<Rightarrow> 'a decoder \<Rightarrow> http_response \<Rightarrow> (lxd_error, 'a lxd_response) result" where
  "decode_reply E f resp =
     (if \<not> is_success (http_status resp) then Inl (http_error E resp)
      else result_bind (from_slice E (de_response f) (http_payload resp)) (\<lambda>parsed.
             if resp_type parsed = ''error'' then Inl (envelope_error parsed) else Inr parsed))"

definition build_request ::
  "env \<Rightarrow> lxd_client \<Rightarrow> http_method \<Rightarrow> string \<Rightarrow> (string \<times> string) list \<Rightarrow> http_body \<Rightarrow> string \<Rightarrow> http_request"
where
  "build_request E cl m path headers body host =
     \<lparr>req_method = m, req_path = path, req_uri = decorate_path E cl path,
      req_headers = (''Host'', host) # headers, req_body = body\<rparr>"

text \<open>One exchange over a fresh connection, with its outcome.\<close>

definition exchange ::
  "env \<Rightarrow> lxd_client \<Rightarrow> http_method \<Rightarrow> string \<Rightarrow> (string \<times> string) list \<Rightarrow> http_body
   \<Rightarrow> (lxd_error, http_response) fallible"
where
  "exchange E cl m path headers body =
     lift_ok (connect_raw E cl) (\<lambda>host.
       send_request E (build_request E cl m path headers body host))"

definition request ::
  "env \<Rightarrow> lxd_client \<Rightarrow> 'a decoder \<Rightarrow> http_method \<Rightarrow> string \<Rightarrow> json option
   \<Rightarrow> (lxd_error, 'a lxd_response) fallible"
where
  "request E cl f m path body =
     await_ok (exchange E cl m path
         (case body of Some _ \<Rightarrow> [(''Content-Type'', ''application/json'')] | None \<Rightarrow> [])
         (case body of Some v \<Rightarrow> Json_Body v | None \<Rightarrow> No_Body)) (\<lambda>resp.
     return (decode_reply E f resp))"

definition lxd_get :: "env \<Rightarrow> lxd_client \<Rightarrow> 'a decoder \<Rightarrow> string \<Rightarrow> (lxd_error, 'a lxd_response) fallible" where
  "lxd_get E cl f path = request E cl f GET path None"

definition lxd_post :: "env \<Rightarrow> lxd_client \<Rightarrow> 'a decoder \<Rightarrow> string \<Rightarrow> json \<Rightarrow> (lxd_error, 'a lxd_response) fallible" where
  "lxd_post E cl f path body = request E cl f POST path (Some body)"

definition lxd_put :: "env \<Rightarrow> lxd_client \<Rightarrow> 'a decoder \<Rightarrow> string \<Rightarrow> json \<Rightarrow> (lxd_error, 'a lxd_response) fallible" where
  "lxd_put E cl f path body = request E cl f PUT path (Some body)"

definition lxd_patch :: "env \<Rightarrow> lxd_client \<Rightarrow> 'a decoder \<Rightarrow> string \<Rightarrow> json \<Rightarrow> (lxd_error, 'a lxd_response) fallible" where
  "lxd_patch E cl f path body = request E cl f PATCH path (Some body)"

definition lxd_delete :: "env \<Rightarrow> lxd_client \<Rightarrow> 'a decoder \<Rightarrow> string \<Rightarrow> (lxd_error, 'a lxd_response) fallible" where
  "lxd_delete E cl f path = request E cl f DELETE path None"

definition post_raw_response ::
  "env \<Rightarrow> lxd_client \<Rightarrow> 'a decoder \<Rightarrow> string \<Rightarrow> string \<Rightarrow> (string \<times> string) list \<Rightarrow> string
   \<Rightarrow> (lxd_error, 'a lxd_response) fallible"
where
  "post_raw_response E cl f path content_type extra_headers body =
     await_ok (exchange E cl POST path ((''Content-Type'', content_type) # extra_headers)
         (Bytes_Body body)) (\<lambda>resp.
     return (decode_reply E f resp))"

definition post_streaming_response ::
  "env \<Rightarrow> lxd_client \<Rightarrow> 'a decoder \<Rightarrow> string \<Rightarrow> string \<Rightarrow> http_body \<Rightarrow> (lxd_error, 'a lxd_response) fallible"
where
  "post_streaming_response E cl f path content_type body =
     await_ok (exchange E cl POST path [(''Content-Type'', content_type)] body) (\<lambda>resp.
     return (decode_reply E f resp))"

text \<open>\<open>post_raw\<close> tolerates a body that is not an envelope, but not an error envelope.\<close>

definition decode_raw :: "env \<Rightarrow> http_response \<Rightarrow> (lxd_error, unit) result" where
  "decode_raw E resp =
     (if \<not> is_success (http_status resp) then Inl (http_error E resp)
      else if http_payload resp \<noteq> [] then
        (case from_slice E (de_response de_value) (http_payload resp) of
           Inr parsed \<Rightarrow> if resp_type parsed = ''error'' then Inl (envelope_error parsed) else Inr ()
         | Inl _ \<Rightarrow> Inr ())
      else Inr ())"

definition post_raw ::
  "env \<Rightarrow> lxd_client \<Rightarrow> string \<Rightarrow> string \<Rightarrow> (string \<times> string) list \<Rightarrow> string \<Rightarrow> (lxd_error, unit) fallible"
where
  "post_raw E cl path content_type extra_headers body =
     await_ok (exchange E cl POST path ((''Content-Type'', content_type) # extra_headers)
         (Bytes_Body body)) (\<lambda>resp.
     return (decode_raw E resp))"

definition get_raw_with_headers ::
  "env \<Rightarrow> lxd_client \<Rightarrow> string \<Rightarrow> (lxd_error, (string \<times> string) list \<times> string) fallible"
where
  "get_raw_with_headers E cl path =
     await_ok (exchange E cl GET path [] No_Body) (\<lambda>resp.
     if \<not> is_success (http_status resp) then err (http_error E resp)
     else ok (http_headers resp, http_payload resp))"

section \<open>Architectures\<close>

definition server_architectures :: "env \<Rightarrow> lxd_client \<Rightarrow> (lxd_error, string list) fallible" where
  "server_architectures E cl =
     await_ok (lxd_get E cl de_value ''/1.0'') (\<lambda>response.
     lift_ok (into_metadata response) (\<lambda>metadata.
     ok (unwrap_or (map_option (List.map_filter as_str)
           (Option.bind (get metadata ''environment'') (\<lambda>e.
            Option.bind (get e ''architectures'') as_array))) [])))"

definition verify_architecture :: "env \<Rightarrow> lxd_client \<Rightarrow> string \<Rightarrow> (lxd_error, unit) fallible" where
  "verify_architecture E cl expected =
     await_ok (server_architectures E cl) (\<lambda>archs.
     if archs = [] then ok ()
     else if \<not> list_ex (\<lambda>a. a = expected) archs
     then err (Api 400 (''LXD server does not support architecture '' @ [CHR 0x27] @ expected
            @ [CHR 0x27] @ ''; supported architectures: ['' @ join_str '', '' (map debug_str archs) @ '']''))
     else ok ())"

section \<open>Laws of the transport\<close>

text \<open>The event of a request: which method, path and body it carries, and that the path on the
  wire is the decorated one.\<close>

definition is_request :: "env \<Rightarrow> lxd_client \<Rightarrow> http_method \<Rightarrow> string \<Rightarrow> http_body \<Rightarrow> http_request \<Rightarrow> bool" where
  "is_request E cl m path body r \<longleftrightarrow> req_method r = m \<and> req_path r = path \<and> req_body r = body
     \<and> req_uri r = decorate_path E cl path"

lemma is_request_build [simp]: "is_request E cl m path body (build_request E cl m path hs body host)"
  by (simp add: is_request_def build_request_def)

lemma run_exchange [io_rules]:
  assumes "\<And>h e. P h \<Longrightarrow> Q (Inl e) h"
    and "\<And>h r a. P h \<Longrightarrow> is_request E cl m path body r \<Longrightarrow>
           G h (Exchange r a) \<and> Q a (h @ [Exchange r a])"
  shows "run P G (exchange E cl m path headers body) Q"
  unfolding exchange_def
  by (rule run_lift_ok, rule run_send_request) (use assms(2) is_request_build in blast, rule assms(1))

lemma emits_exchange [emits_rules]:
  "(\<And>r a. is_request E cl m path body r \<Longrightarrow> p (Exchange r a))
   \<Longrightarrow> emits p (exchange E cl m path headers body)"
  unfolding exchange_def by (auto intro!: emits_rules)

lemma emits_request [emits_rules]:
  "(\<And>r a. is_request E cl m path (case body of Some v \<Rightarrow> Json_Body v | None \<Rightarrow> No_Body) r
      \<Longrightarrow> p (Exchange r a))
   \<Longrightarrow> emits p (request E cl f m path body)"
  unfolding request_def by (auto intro!: emits_rules)

lemma emits_methods [emits_rules]:
  "(\<And>r a. is_request E cl GET path No_Body r \<Longrightarrow> p (Exchange r a)) \<Longrightarrow> emits p (lxd_get E cl f path)"
  "(\<And>r a. is_request E cl POST path (Json_Body v) r \<Longrightarrow> p (Exchange r a)) \<Longrightarrow> emits p (lxd_post E cl f path v)"
  "(\<And>r a. is_request E cl PUT path (Json_Body v) r \<Longrightarrow> p (Exchange r a)) \<Longrightarrow> emits p (lxd_put E cl f path v)"
  "(\<And>r a. is_request E cl PATCH path (Json_Body v) r \<Longrightarrow> p (Exchange r a)) \<Longrightarrow> emits p (lxd_patch E cl f path v)"
  "(\<And>r a. is_request E cl DELETE path No_Body r \<Longrightarrow> p (Exchange r a)) \<Longrightarrow> emits p (lxd_delete E cl f path)"
  "(\<And>r a. is_request E cl POST path (Bytes_Body b) r \<Longrightarrow> p (Exchange r a))
     \<Longrightarrow> emits p (post_raw_response E cl f path ct hs b)"
  "(\<And>r a. is_request E cl POST path body r \<Longrightarrow> p (Exchange r a))
     \<Longrightarrow> emits p (post_streaming_response E cl f path ct body)"
  "(\<And>r a. is_request E cl POST path (Bytes_Body b) r \<Longrightarrow> p (Exchange r a))
     \<Longrightarrow> emits p (post_raw E cl path ct hs b)"
  "(\<And>r a. is_request E cl GET path No_Body r \<Longrightarrow> p (Exchange r a))
     \<Longrightarrow> emits p (get_raw_with_headers E cl path)"
  unfolding lxd_get_def lxd_post_def lxd_put_def lxd_patch_def lxd_delete_def
    post_raw_response_def post_streaming_response_def post_raw_def get_raw_with_headers_def
  by (auto intro!: emits_rules)

text \<open>A computation built from \<open>exchange\<close> reports success only for 2xx answers.\<close>

lemma decode_reply_Inr:
  "decode_reply E f resp = Inr r \<Longrightarrow> is_success (http_status resp) \<and> resp_type r \<noteq> ''error''"
  by (auto simp: decode_reply_def result_bind_eq_Inr split: if_splits)

lemma decode_reply_404:
  assumes "http_status resp = 404" and "from_slice E (de_response de_value) (http_payload resp) = Inl e"
  shows "decode_reply E f resp = Inl (Api 404 (''HTTP '' @ ext_status_text E 404))"
  using assms by (simp add: decode_reply_def http_error_def is_success_def)

end
