(* ===== verification/Lxd_Operations.thy ===== *)
theory Lxd_Operations
  imports Lxd_Client
begin

text \<open>
  The event stream (\<open>lxd-client/src/events.rs\<close>) and waiting for background operations
  (\<open>lxd-client/src/operations.rs\<close>). The waiting loops have no bound of their own in the code; the
  model observes \<open>env_rounds\<close> rounds of them and treats what lies beyond as not returning, and the
  lemmas say when a round ends the wait.
\<close>

section \<open>Event streams\<close>

definition decode_message :: "env \<Rightarrow> ws_message \<Rightarrow> (lxd_error, lxd_event) result option" where
  "decode_message E m = (case m of
      Text t \<Rightarrow> Some (from_slice E de_event t)
    | NonText \<Rightarrow> None
    | Ws_Io e \<Rightarrow> Some (Inl (Io e))
    | Ws_Error e \<Rightarrow> Some (Inl (WebSocket e)))"

record event_stream =
  es_items :: "(lxd_error, lxd_event) result list"
  es_closes :: bool

definition subscribe_events :: "env \<Rightarrow> lxd_client \<Rightarrow> string list \<Rightarrow> (lxd_error, event_stream) fallible" where
  "subscribe_events E cl types =
     lift_ok (connect_raw E cl) (\<lambda>_.
     await_ok (open_socket E (decorate_path E cl (''/1.0/events?type='' @ join_str '','' types))) (\<lambda>ws.
     ok \<lparr>es_items = List.map_filter (decode_message E) (ws_messages ws), es_closes = ws_closes ws\<rparr>))"

section \<open>Waiting for an operation\<close>

definition metadata_of :: "(lxd_error, 'a lxd_response) fallible \<Rightarrow> (lxd_error, 'a) fallible" where
  "metadata_of m = await_ok m (\<lambda>r. return (into_metadata r))"

definition get_operation :: "env \<Rightarrow> lxd_client \<Rightarrow> string \<Rightarrow> (lxd_error, operation) fallible" where
  "get_operation E cl i = metadata_of (lxd_get E cl de_operation (''/1.0/operations/'' @ i))"

datatype reconciled = Done "(lxd_error, operation) result" | StillPending

definition op_failed :: "operation \<Rightarrow> bool" where
  "op_failed op \<longleftrightarrow> op_status op = Failure \<or> op_status op = Cancelled \<or> op_err op \<noteq> []"

definition operation_failure :: "operation \<Rightarrow> lxd_error" where
  "operation_failure op = OperationFailed (op_description op) (op_err op)"

definition reconcile_operation :: "env \<Rightarrow> lxd_client \<Rightarrow> string \<Rightarrow> (lxd_error, reconciled) fallible" where
  "reconcile_operation E cl i =
     await (get_operation E cl i) (\<lambda>r. case r of
        Inr op \<Rightarrow>
          if op_status op = Success then ok (Done (Inr op))
          else if op_failed op then ok (Done (Inl (operation_failure op)))
          else ok StillPending
      | Inl e \<Rightarrow> (case e of Io _ \<Rightarrow> ok StillPending | Hyper _ \<Rightarrow> ok StillPending | _ \<Rightarrow> err e))"

text \<open>What the driver makes of one event of the stream: \<open>None\<close> to read on.\<close>

datatype verdict = Succeeded | Failed string string

definition judge_event :: "string \<Rightarrow> lxd_event \<Rightarrow> verdict option" where
  "judge_event i ev =
     (if ev_type ev \<noteq> ''operation'' then None
      else case as_str (index (ev_metadata ev) ''id'') of
             None \<Rightarrow> None
           | Some event_id \<Rightarrow>
               if event_id \<noteq> i \<and> event_id \<noteq> ''/1.0/operations/'' @ i then None
               else
                 (let status = operation_status_of
                        (unwrap_or (as_str (index (ev_metadata ev) ''status'')) [])
                  in if status = Success then Some Succeeded
                     else if status = Failure \<or> status = Cancelled
                     then Some (Failed (unwrap_or (as_str (index (ev_metadata ev) ''description'')) [])
                                       (unwrap_or (as_str (index (ev_metadata ev) ''err'')) []))
                     else None))"

text \<open>Draining the stream: \<open>None\<close> when it ended, the wait's result otherwise.\<close>

fun drain_events ::
  "env \<Rightarrow> lxd_client \<Rightarrow> string \<Rightarrow> bool \<Rightarrow> (lxd_error, lxd_event) result list
   \<Rightarrow> (lxd_error, operation) result option action"
where
  "drain_events E cl i closes [] = (if closes then return None else hang)"
| "drain_events E cl i closes (item # items) = (case item of
      Inr ev \<Rightarrow> (case judge_event i ev of
          None \<Rightarrow> drain_events E cl i closes items
        | Some Succeeded \<Rightarrow> await (get_operation E cl i) (\<lambda>r. return (Some r))
        | Some (Failed d e) \<Rightarrow> return (Some (Inl (OperationFailed d e))))
    | Inl e \<Rightarrow> (case e of
          Io _ \<Rightarrow> return None
        | WebSocket _ \<Rightarrow> return None
        | JsonError _ \<Rightarrow> drain_events E cl i closes items
        | _ \<Rightarrow> return (Some (Inl e))))"

definition RECONCILE_RETRY_INTERVAL :: nat where
  "RECONCILE_RETRY_INTERVAL = 100"

text \<open>The REST long poll; \<open>rest_recheck\<close> is its reading of the operation after a transport error,
  \<open>None\<close> to poll again.\<close>

definition rest_recheck :: "env \<Rightarrow> lxd_client \<Rightarrow> string \<Rightarrow> (lxd_error, operation option) fallible" where
  "rest_recheck E cl i =
     await (get_operation E cl i) (\<lambda>r. case r of
        Inr op \<Rightarrow>
          if op_status op = Success then ok (Some op)
          else if op_failed op then err (operation_failure op)
          else ok None
      | Inl e \<Rightarrow> (case e of
          Io _ \<Rightarrow> ok None
        | Hyper _ \<Rightarrow> ok None
        | Api code _ \<Rightarrow>
            if code = 404
            then err (Api 404 (''operation '' @ i @ '' not found (purged by LXD)''))
            else err e
        | _ \<Rightarrow> err e))"

fun wait_rest_loop :: "nat \<Rightarrow> env \<Rightarrow> lxd_client \<Rightarrow> string \<Rightarrow> (lxd_error, operation) fallible" where
  "wait_rest_loop 0 E cl i = hang"
| "wait_rest_loop (Suc n) E cl i =
     await (lxd_get E cl de_operation (''/1.0/operations/'' @ i @ ''/wait?timeout=-1'')) (\<lambda>r.
       let retry = await_ok (rest_recheck E cl i) (\<lambda>o'. case o' of
             Some op \<Rightarrow> ok op
           | None \<Rightarrow> await (sleep RECONCILE_RETRY_INTERVAL) (\<lambda>_. wait_rest_loop n E cl i))
       in case r of
            Inr resp \<Rightarrow> lift_ok (into_metadata resp) (\<lambda>op.
              if op_failed op then err (operation_failure op) else ok op)
          | Inl e \<Rightarrow> (case e of Io _ \<Rightarrow> retry | Hyper _ \<Rightarrow> retry | _ \<Rightarrow> err e))"

definition wait_operation_rest :: "nat \<Rightarrow> env \<Rightarrow> lxd_client \<Rightarrow> string \<Rightarrow> (lxd_error, operation) fallible" where
  "wait_operation_rest n E cl i = wait_rest_loop n E cl i"

fun wait_loop :: "nat \<Rightarrow> env \<Rightarrow> lxd_client \<Rightarrow> string \<Rightarrow> (lxd_error, operation) fallible" where
  "wait_loop 0 E cl i = hang"
| "wait_loop (Suc n) E cl i =
     await (subscribe_events E cl [''operation'']) (\<lambda>s. case s of
        Inl e \<Rightarrow> (case e of
            Io _ \<Rightarrow> wait_operation_rest (Suc n) E cl i
          | WebSocket _ \<Rightarrow> wait_operation_rest (Suc n) E cl i
          | _ \<Rightarrow> err e)
      | Inr events \<Rightarrow>
          await_ok (reconcile_operation E cl i) (\<lambda>before. case before of
            Done outcome \<Rightarrow> return outcome
          | StillPending \<Rightarrow>
              await (drain_events E cl i (es_closes events) (es_items events)) (\<lambda>d. case d of
                Some outcome \<Rightarrow> return outcome
              | None \<Rightarrow>
                  await_ok (reconcile_operation E cl i) (\<lambda>after. case after of
                    Done outcome \<Rightarrow> return outcome
                  | StillPending \<Rightarrow>
                      await (sleep RECONCILE_RETRY_INTERVAL) (\<lambda>_. wait_loop n E cl i)))))"

definition lxd_wait_operation :: "env \<Rightarrow> lxd_client \<Rightarrow> string \<Rightarrow> (lxd_error, operation) fallible" where
  "lxd_wait_operation E cl i = wait_loop (env_rounds E) E cl i"

section \<open>Waiting only observes\<close>

text \<open>Events that cannot change anything in LXD: reads, subscriptions, sleeps, local bookkeeping.\<close>

definition observing :: "event \<Rightarrow> bool" where
  "observing e = (case e of Exchange r _ \<Rightarrow> req_method r = GET | _ \<Rightarrow> True)"

lemma observing_simps [simp]:
  "observing (Exchange r a) \<longleftrightarrow> req_method r = GET" "observing (Subscribe u b)" "observing (Sleep n)"
  "observing (Lock k)" "observing (Unlock k)" "observing (ReadFile f c)"
  "observing (LookupHost x p d)" "observing (Publish w)" "observing (Fs fc o')"
  "observing (Process g as po)" "observing Arch_Verified" "observing Fetch_Add" "observing Watch_Subscribed"
  by (simp_all add: observing_def)

lemma emits_subscribe [emits_rules]:
  "(\<And>u a. p (Subscribe u a)) \<Longrightarrow> emits p (subscribe_events E cl types)"
  unfolding subscribe_events_def by (auto intro!: emits_rules)

lemma emits_metadata_of [emits_rules]: "emits p m \<Longrightarrow> emits p (metadata_of m)"
  unfolding metadata_of_def by (auto intro!: emits_rules)

lemma emits_get_operation [emits_rules]:
  "(\<And>r a. is_request E cl GET (''/1.0/operations/'' @ i) No_Body r \<Longrightarrow> p (Exchange r a))
   \<Longrightarrow> emits p (get_operation E cl i)"
  unfolding get_operation_def by (auto intro!: emits_rules)

lemma emits_case_error [emits_rules]:
  "emits p io \<Longrightarrow> emits p hy \<Longrightarrow> emits p ot \<Longrightarrow>
   emits p (case e of Io _ \<Rightarrow> io | Hyper _ \<Rightarrow> hy | _ \<Rightarrow> ot)"
  by (cases e) simp_all

text \<open>The events of a wait: the stream, the operation itself, and the pauses in between.\<close>

locale wait_events =
  fixes E :: env and cl :: lxd_client and i :: string and p :: "event \<Rightarrow> bool"
  assumes stream: "p (Subscribe u b)"
    and pause: "p (Sleep n)"
    and reading: "is_request E cl GET (''/1.0/operations/'' @ i) No_Body r \<Longrightarrow> p (Exchange r a)"
    and polling: "is_request E cl GET (''/1.0/operations/'' @ i @ ''/wait?timeout=-1'') No_Body r
                  \<Longrightarrow> p (Exchange r a)"
begin

lemma emits_reconcile: "emits p (reconcile_operation E cl i)"
  unfolding reconcile_operation_def by (auto intro!: emits_rules reading)

lemma emits_drain: "emits p (drain_events E cl i closes items)"
proof (induction items)
  case Nil
  show ?case by (auto intro!: emits_rules)
next
  case (Cons item items)
  then show ?case
    by (auto simp: emits_return intro!: emits_rules reading split: sum.splits option.splits
        verdict.splits lxd_error.splits)
qed

lemma emits_rest: "emits p (wait_rest_loop n E cl i)"
proof (induction n)
  case (Suc n)
  have "emits p (rest_recheck E cl i)"
    unfolding rest_recheck_def
    by (auto simp: emits_ok emits_err intro!: emits_rules reading split: lxd_error.splits)
  with Suc show ?case by (auto simp: Let_def intro!: emits_rules polling pause)
qed (simp add: emits_hang)

lemma emits_wait: "emits p (wait_loop n E cl i)"
proof (induction n)
  case (Suc n)
  then show ?case
    unfolding wait_loop.simps wait_operation_rest_def
    by (auto simp: emits_err simp del: wait_rest_loop.simps
        intro!: emits_rules stream pause emits_reconcile emits_drain emits_rest
        split: lxd_error.splits reconciled.splits)
qed (simp add: emits_hang)

lemma emits_lxd_wait: "emits p (lxd_wait_operation E cl i)"
  unfolding lxd_wait_operation_def by (rule emits_wait)

end

interpretation observing_wait: wait_events E cl i observing for E cl i
  by unfold_locales (auto simp: is_request_def)

end
