(* ===== verification/Split_Image_Body.thy ===== *)
theory Split_Image_Body
  imports World
begin

text \<open>
  The streaming request body of a split image upload (\<open>lxd-client/src/split_image_body.rs\<close>): a state
  machine polled by the HTTP library. The file is read through a parameter \<open>poll_read\<close>, tokio's
  asynchronous read into a buffer of a given size; \<open>reads_file\<close> states what it promises about the
  bytes still unread. A body that panics on an \<open>expect\<close> yields \<open>Panicked\<close>.
\<close>

section \<open>The body\<close>

definition ROOTFS_CHUNK_SIZE :: nat where
  "ROOTFS_CHUNK_SIZE = 256 * 1024"

datatype body_state = Preamble | Rootfs | Closing | Finished

record 'f split_image_body =
  sib_state :: body_state
  sib_preamble :: "string option"
  sib_rootfs_file :: 'f
  sib_rootfs_remaining :: nat
  sib_closing :: "string option"
  sib_total_len :: nat

definition crlf :: string where
  "crlf = [CHR 0x0D, CHR 0x0A]"

definition part_headers :: "string \<Rightarrow> string \<Rightarrow> string \<Rightarrow> string" where
  "part_headers boundary name filename =
     ''--'' @ boundary @ crlf
     @ ''Content-Disposition: form-data; name='' @ [CHR 0x22] @ name @ [CHR 0x22]
     @ ''; filename='' @ [CHR 0x22] @ filename @ [CHR 0x22] @ crlf
     @ ''Content-Type: application/octet-stream'' @ crlf @ crlf"

definition preamble_of :: "string \<Rightarrow> string \<Rightarrow> string \<Rightarrow> string \<Rightarrow> string" where
  "preamble_of metadata_filename metadata_bytes rootfs_filename boundary =
     part_headers boundary ''metadata'' metadata_filename @ metadata_bytes @ crlf
     @ part_headers boundary ''rootfs'' rootfs_filename"

definition closing_of :: "string \<Rightarrow> string" where
  "closing_of boundary = crlf @ ''--'' @ boundary @ ''--'' @ crlf"

text \<open>\<open>SplitImageBody::new\<close>; the sum of the lengths is a \<open>u64\<close>.\<close>

definition split_new ::
  "string \<Rightarrow> string \<Rightarrow> string \<Rightarrow> 'f \<Rightarrow> nat \<Rightarrow> string \<Rightarrow> 'f split_image_body" where
  "split_new metadata_filename metadata_bytes rootfs_filename rootfs_file rootfs_len boundary =
     (let preamble = preamble_of metadata_filename metadata_bytes rootfs_filename boundary;
          closing = closing_of boundary
      in \<lparr>sib_state = Preamble, sib_preamble = Some preamble, sib_rootfs_file = rootfs_file,
          sib_rootfs_remaining = rootfs_len, sib_closing = Some closing,
          sib_total_len = (length preamble + rootfs_len + length closing) mod 2 ^ 64\<rparr>)"

section \<open>Polling\<close>

datatype read_poll = Read_Ready string | Read_Failed io_error | Read_Pending

datatype frame_poll = Frame string | Frame_Error io_error | End_Of_Stream | Frame_Pending | Panicked

definition poll_closing :: "'f split_image_body \<Rightarrow> frame_poll \<times> 'f split_image_body" where
  "poll_closing b = (case sib_closing b of
      None \<Rightarrow> (Panicked, b)
    | Some closing \<Rightarrow> (Frame closing, b\<lparr>sib_closing := None, sib_state := Finished\<rparr>))"

definition unexpected_eof :: "nat \<Rightarrow> io_error" where
  "unexpected_eof remaining =
     IoError (''unexpected EOF reading rootfs: '' @ dec remaining @ '' bytes remaining'')"

definition poll_rootfs ::
  "('f \<Rightarrow> nat \<Rightarrow> read_poll \<times> 'f) \<Rightarrow> 'f split_image_body \<Rightarrow> frame_poll \<times> 'f split_image_body" where
  "poll_rootfs poll_read b =
     (let to_read = min ROOTFS_CHUNK_SIZE (sib_rootfs_remaining b);
          (r, file) = poll_read (sib_rootfs_file b) to_read;
          this = b\<lparr>sib_rootfs_file := file\<rparr>
      in case r of
           Read_Ready filled \<Rightarrow>
             if filled = [] then (Frame_Error (unexpected_eof (sib_rootfs_remaining b)), this)
             else (Frame filled, this\<lparr>sib_rootfs_remaining := sib_rootfs_remaining b - length filled\<rparr>)
         | Read_Failed e \<Rightarrow> (Frame_Error e, this)
         | Read_Pending \<Rightarrow> (Frame_Pending, this))"

definition poll_frame ::
  "('f \<Rightarrow> nat \<Rightarrow> read_poll \<times> 'f) \<Rightarrow> 'f split_image_body \<Rightarrow> frame_poll \<times> 'f split_image_body" where
  "poll_frame poll_read b = (case sib_state b of
      Preamble \<Rightarrow> (case sib_preamble b of
          None \<Rightarrow> (Panicked, b)
        | Some preamble \<Rightarrow> (Frame preamble, b\<lparr>sib_preamble := None, sib_state := Rootfs\<rparr>))
    | Rootfs \<Rightarrow>
        if sib_rootfs_remaining b = 0 then poll_closing (b\<lparr>sib_state := Closing\<rparr>)
        else poll_rootfs poll_read b
    | Closing \<Rightarrow> poll_closing b
    | Finished \<Rightarrow> (End_Of_Stream, b))"

definition is_end_stream :: "'f split_image_body \<Rightarrow> bool" where
  "is_end_stream b \<longleftrightarrow> sib_state b = Finished"

definition size_hint :: "'f split_image_body \<Rightarrow> nat" where
  "size_hint b = sib_total_len b"

section \<open>What the file promises\<close>

text \<open>A read delivers a non-empty prefix of the unread bytes that fits the buffer, and nothing only
  at the end of the file; a read that is pending or fails consumes nothing.\<close>

definition reads_file :: "('f \<Rightarrow> nat \<Rightarrow> read_poll \<times> 'f) \<Rightarrow> ('f \<Rightarrow> string) \<Rightarrow> bool" where
  "reads_file poll_read unread \<longleftrightarrow> (\<forall>f n r f'. 0 < n \<longrightarrow> poll_read f n = (r, f') \<longrightarrow>
     (case r of
        Read_Ready filled \<Rightarrow> length filled \<le> n \<and> unread f = filled @ unread f'
          \<and> (filled = [] \<longrightarrow> unread f = [])
      | _ \<Rightarrow> unread f' = unread f))"

definition never_stalls :: "('f \<Rightarrow> nat \<Rightarrow> read_poll \<times> 'f) \<Rightarrow> bool" where
  "never_stalls poll_read \<longleftrightarrow> (\<forall>f n. \<exists>filled f'. poll_read f n = (Read_Ready filled, f'))"

section \<open>Draining the body\<close>

datatype drained = Complete | Broken io_error | Crashed | Suspended

fun drain :: "('f \<Rightarrow> nat \<Rightarrow> read_poll \<times> 'f) \<Rightarrow> nat \<Rightarrow> 'f split_image_body \<Rightarrow> string list \<times> drained" where
  "drain pr 0 b = ([], Suspended)"
| "drain pr (Suc n) b = (case poll_frame pr b of
      (Frame f, b') \<Rightarrow> (let (fs, out) = drain pr n b' in (f # fs, out))
    | (Frame_Error e, b') \<Rightarrow> ([], Broken e)
    | (End_Of_Stream, b') \<Rightarrow> ([], Complete)
    | (Frame_Pending, b') \<Rightarrow> drain pr n b'
    | (Panicked, b') \<Rightarrow> ([], Crashed))"

text \<open>The invariant between polls: which bytes of the stream are still to come.\<close>

definition still_to_send :: "('f \<Rightarrow> string) \<Rightarrow> string \<Rightarrow> string \<Rightarrow> 'f split_image_body \<Rightarrow> string" where
  "still_to_send unread pre clo b =
     (let rest = take (sib_rootfs_remaining b) (unread (sib_rootfs_file b))
      in case sib_state b of Preamble \<Rightarrow> pre @ rest @ clo | Rootfs \<Rightarrow> rest @ clo
         | Closing \<Rightarrow> clo | Finished \<Rightarrow> [])"

definition body_inv :: "string \<Rightarrow> string \<Rightarrow> 'f split_image_body \<Rightarrow> bool" where
  "body_inv pre clo b \<longleftrightarrow>
     (sib_state b = Preamble \<longrightarrow> sib_preamble b = Some pre)
     \<and> (sib_state b \<noteq> Finished \<longrightarrow> sib_closing b = Some clo)"

lemmas poll_defs = poll_frame_def poll_rootfs_def poll_closing_def

lemma reads_fileD:
  assumes "reads_file pr unread" and "0 < n" and "pr f n = (r, f')"
  shows "case r of Read_Ready filled \<Rightarrow> length filled \<le> n \<and> unread f = filled @ unread f'
          \<and> (filled = [] \<longrightarrow> unread f = [])
      | _ \<Rightarrow> unread f' = unread f"
  using assms unfolding reads_file_def by blast

lemma reads_file_Ready:
  assumes "reads_file pr unread" and "0 < n" and "pr f n = (Read_Ready filled, f')"
  shows "length filled \<le> n" and "unread f = filled @ unread f'" and "filled = [] \<Longrightarrow> unread f = []"
  using reads_fileD [OF assms] by auto

lemma reads_file_idle:
  assumes "reads_file pr unread" and "0 < n" and "pr f n = (r, f')" and "\<And>x. r \<noteq> Read_Ready x"
  shows "unread f' = unread f"
  using reads_fileD [OF assms(1-3)] assms(4) by (cases r) auto

text \<open>The outcomes of a poll, with what each does to the bytes still to come.\<close>

lemma poll_frame_cases:
  assumes reader: "reads_file pr unread" and inv: "body_inv pre clo b" and poll: "poll_frame pr b = (r, b')"
  shows "body_inv pre clo b'"
    and "r \<noteq> Panicked"
    and "r = Frame f \<Longrightarrow> still_to_send unread pre clo b = f @ still_to_send unread pre clo b'"
    and "r = Frame_Pending \<Longrightarrow> still_to_send unread pre clo b' = still_to_send unread pre clo b"
    and "r = End_Of_Stream \<Longrightarrow> still_to_send unread pre clo b = []"
proof -
  consider (reading) "sib_state b = Rootfs" "0 < sib_rootfs_remaining b"
    | (other) "sib_state b \<noteq> Rootfs \<or> sib_rootfs_remaining b = 0" by blast
  then have "body_inv pre clo b' \<and> r \<noteq> Panicked
      \<and> (r = Frame f \<longrightarrow> still_to_send unread pre clo b = f @ still_to_send unread pre clo b')
      \<and> (r = Frame_Pending \<longrightarrow> still_to_send unread pre clo b' = still_to_send unread pre clo b)
      \<and> (r = End_Of_Stream \<longrightarrow> still_to_send unread pre clo b = [])"
  proof cases
    case reading
    define n where "n = min ROOTFS_CHUNK_SIZE (sib_rootfs_remaining b)"
    have n: "0 < n" "n \<le> sib_rootfs_remaining b" using reading by (auto simp: n_def ROOTFS_CHUNK_SIZE_def)
    obtain rp file' where rp: "pr (sib_rootfs_file b) n = (rp, file')" by fastforce
    show ?thesis
    proof (cases rp)
      case (Read_Ready filled)
      note got = reads_file_Ready [OF reader n(1) rp [unfolded Read_Ready]]
      have "length filled \<le> sib_rootfs_remaining b" using got(1) n(2) by (rule order.trans)
      with got inv poll reading rp Read_Ready show ?thesis
        by (auto simp: poll_defs body_inv_def still_to_send_def Let_def n_def [symmetric] split: if_splits)
    qed (use reads_file_idle [OF reader n(1) rp] inv poll reading rp in
        \<open>auto simp: poll_defs body_inv_def still_to_send_def Let_def n_def [symmetric]\<close>)
  next
    case other
    then show ?thesis using inv poll
      by (cases "sib_state b")
        (auto simp: poll_defs body_inv_def still_to_send_def Let_def split: if_splits)
  qed
  then show "body_inv pre clo b'" "r \<noteq> Panicked"
    "r = Frame f \<Longrightarrow> still_to_send unread pre clo b = f @ still_to_send unread pre clo b'"
    "r = Frame_Pending \<Longrightarrow> still_to_send unread pre clo b' = still_to_send unread pre clo b"
    "r = End_Of_Stream \<Longrightarrow> still_to_send unread pre clo b = []" by blast+
qed

lemma drain_sound:
  assumes reader: "reads_file pr unread" and inv: "body_inv pre clo b" and run: "drain pr n b = (fs, out)"
  shows "out \<noteq> Crashed \<and> (\<exists>rest. still_to_send unread pre clo b = concat fs @ rest \<and> (out = Complete \<longrightarrow> rest = []))"
  using inv run
proof (induction n arbitrary: b fs)
  case 0
  then show ?case by simp
next
  case (Suc n)
  obtain r b' where poll: "poll_frame pr b = (r, b')" by fastforce
  note step = poll_frame_cases [OF reader Suc.prems(1) poll]
  show ?case
  proof (cases r)
    case (Frame f)
    obtain gs where gs: "drain pr n b' = (gs, out)" "fs = f # gs"
      using Suc.prems(2) poll Frame by (auto split: prod.splits)
    then show ?thesis using Suc.IH [OF step(1) gs(1)] step(3) [OF Frame] by auto
  qed (use Suc.IH [OF step(1)] Suc.prems(2) poll step in auto)
qed

text \<open>A body whose file is short never completes.\<close>

lemma drain_complete_len:
  assumes reader: "reads_file pr unread"
  shows "drain pr n b = (fs, Complete) \<Longrightarrow> sib_state b = Preamble \<or> sib_state b = Rootfs
    \<Longrightarrow> sib_rootfs_remaining b \<le> length (unread (sib_rootfs_file b))"
proof (induction n arbitrary: b fs)
  case (Suc n)
  define m where "m = min ROOTFS_CHUNK_SIZE (sib_rootfs_remaining b)"
  obtain rp file' where rp: "pr (sib_rootfs_file b) m = (rp, file')" by fastforce
  show ?case
  proof (cases "sib_state b = Rootfs \<and> 0 < sib_rootfs_remaining b")
    case True
    then have "0 < m" by (simp add: m_def ROOTFS_CHUNK_SIZE_def)
    with True Suc.prems rp reads_file_Ready [OF reader \<open>0 < m\<close>] reads_file_idle [OF reader \<open>0 < m\<close> rp]
    show ?thesis
      by (cases rp) (fastforce simp: poll_defs Let_def m_def [symmetric] split: if_splits prod.splits
          dest: Suc.IH)+
  next
    case False
    with Suc show ?thesis
      by (fastforce simp: poll_defs split: prod.splits option.splits)
  qed
qed simp

text \<open>Progress: with a file that always delivers, every poll brings the end closer.\<close>

lemma drain_progress:
  assumes reader: "reads_file pr unread" and live: "never_stalls pr"
  shows "sib_state b = Rootfs \<Longrightarrow> sib_closing b = Some clo
    \<Longrightarrow> sib_rootfs_remaining b \<le> length (unread (sib_rootfs_file b))
    \<Longrightarrow> sib_rootfs_remaining b + 2 \<le> n \<Longrightarrow> \<exists>fs. drain pr n b = (fs, Complete)"
proof (induction n arbitrary: b)
  case (Suc n)
  show ?case
  proof (cases "sib_rootfs_remaining b = 0")
    case True
    then obtain k where "n = Suc k" using Suc.prems(4) by (cases n) auto
    with True Suc.prems show ?thesis by (simp add: poll_defs)
  next
    case False
    define m where "m = min ROOTFS_CHUNK_SIZE (sib_rootfs_remaining b)"
    have m: "0 < m" "m \<le> sib_rootfs_remaining b" using False by (auto simp: m_def ROOTFS_CHUNK_SIZE_def)
    obtain filled f' where r: "pr (sib_rootfs_file b) m = (Read_Ready filled, f')"
      using live by (meson never_stalls_def)
    note got = reads_file_Ready [OF reader m(1) r]
    have "filled \<noteq> []" using got(3) Suc.prems(3) False by auto
    then have "poll_frame pr b = (Frame filled, b\<lparr>sib_rootfs_file := f',
        sib_rootfs_remaining := sib_rootfs_remaining b - length filled\<rparr>)"
      using Suc.prems(1) False r by (simp add: poll_defs Let_def m_def [symmetric])
    moreover have "0 < length filled" using \<open>filled \<noteq> []\<close> by simp
    then have "sib_rootfs_remaining b - length filled + 2 \<le> n" using Suc.prems(4) False by linarith
    then have "\<exists>fs. drain pr n (b\<lparr>sib_rootfs_file := f',
        sib_rootfs_remaining := sib_rootfs_remaining b - length filled\<rparr>) = (fs, Complete)"
      using Suc.prems got(1,2) by (intro Suc.IH) auto
    ultimately show ?thesis by auto
  qed
qed simp

lemma body_inv_new:
  "body_inv (preamble_of mf mb rf bd) (closing_of bd) (split_new mf mb rf file len bd)"
  by (simp add: body_inv_def split_new_def Let_def)

lemma still_to_send_new:
  "still_to_send unread (preamble_of mf mb rf bd) (closing_of bd) (split_new mf mb rf file len bd)
     = preamble_of mf mb rf bd @ take len (unread file) @ closing_of bd"
  by (simp add: still_to_send_def split_new_def Let_def)

section \<open>Properties\<close>

text \<open>Claim C16. Whatever the file and the scheduler do, the body never panics and what it sends is a
  prefix of preamble, rootfs and closing boundary; if it completes, the file held as many bytes as
  announced, everything was sent, and its length is the announced content length.\<close>

theorem split_body_streams_exactly:
  assumes "reads_file poll_read unread"
    and "length (preamble_of mf mb rf bd) + len + length (closing_of bd) < 2 ^ 64"
    and "drain poll_read n (split_new mf mb rf file' len bd) = (fs, out)"
  shows "out \<noteq> Crashed
    \<and> (\<exists>rest. preamble_of mf mb rf bd @ take len (unread file') @ closing_of bd = concat fs @ rest)
    \<and> (out = Complete \<longrightarrow> len \<le> length (unread file')
        \<and> concat fs = preamble_of mf mb rf bd @ take len (unread file') @ closing_of bd
        \<and> length (concat fs) = size_hint (split_new mf mb rf file' len bd))"
proof -
  obtain rest where sound: "out \<noteq> Crashed"
    "preamble_of mf mb rf bd @ take len (unread file') @ closing_of bd = concat fs @ rest"
    "out = Complete \<longrightarrow> rest = []"
    using drain_sound [OF assms(1) body_inv_new assms(3)] unfolding still_to_send_new by blast
  have "len \<le> length (unread file')" if "out = Complete"
    using drain_complete_len [OF assms(1), of n "split_new mf mb rf file' len bd" fs] assms(3) that
    by (simp add: split_new_def Let_def)
  then have "length (concat fs) = length (preamble_of mf mb rf bd) + len + length (closing_of bd)"
    if "out = Complete"
    using that sound(3) arg_cong [of _ _ length, OF sound(2)] by (simp add: min_absorb2)
  with sound assms(2) \<open>out = Complete \<Longrightarrow> len \<le> _\<close> show ?thesis
    by (simp add: size_hint_def split_new_def Let_def)
qed

text \<open>A file in memory that delivers at most two bytes per read.\<close>

definition sample_read :: "string \<Rightarrow> nat \<Rightarrow> read_poll \<times> string" where
  "sample_read f n = (Read_Ready (take (min 2 n) f), drop (min 2 n) f)"

lemma sample_reads_file: "reads_file sample_read (\<lambda>f. f)"
  by (auto simp: reads_file_def sample_read_def split: read_poll.splits)

lemma sample_never_stalls: "never_stalls sample_read"
  by (auto simp: never_stalls_def sample_read_def)

theorem split_body_streams_exactly_witness:
  "snd (drain sample_read 9 (split_new ''m'' ''x'' ''r'' ''abc'' 3 ''b'')) \<noteq> Crashed"
proof -
  have "length (preamble_of ''m'' ''x'' ''r'' ''b'') + 3 + length (closing_of ''b'') < 2 ^ 64"
    by (simp add: preamble_of_def closing_of_def part_headers_def crlf_def)
  from split_body_streams_exactly [OF sample_reads_file this prod.collapse [symmetric]]
  show ?thesis by blast
qed

text \<open>Claim C17. A body over a file that is long enough and always delivers is sent completely, within
  \<open>len + 3\<close> polls.\<close>

theorem split_body_completes:
  assumes "reads_file poll_read unread" and "never_stalls poll_read" and "len \<le> length (unread file')"
  shows "\<exists>fs. drain poll_read (len + 3) (split_new mf mb rf file' len bd) = (fs, Complete)"
proof -
  let ?b = "(split_new mf mb rf file' len bd)\<lparr>sib_preamble := None, sib_state := Rootfs\<rparr>"
  have "\<exists>fs. drain poll_read (len + 2) ?b = (fs, Complete)"
    by (rule drain_progress [OF assms(1,2), where clo = "closing_of bd"])
      (use assms(3) in \<open>simp_all add: split_new_def Let_def\<close>)
  moreover have "poll_frame poll_read (split_new mf mb rf file' len bd) = (Frame (preamble_of mf mb rf bd), ?b)"
    by (simp add: poll_frame_def split_new_def Let_def)
  ultimately show ?thesis by (auto simp: numeral_3_eq_3)
qed

theorem split_body_completes_witness:
  "\<exists>fs. drain sample_read (3 + 3) (split_new ''m'' ''x'' ''r'' ''abc'' 3 ''b'') = (fs, Complete)"
  by (rule split_body_completes [OF sample_reads_file sample_never_stalls]) simp

section \<open>Memory\<close>

text \<open>How many frames a body can still give: at most one for each byte of the rootfs that is left, and the two ends.\<close>

definition frames_left :: "'f split_image_body \<Rightarrow> nat" where
  "frames_left b = (case sib_state b of Preamble \<Rightarrow> sib_rootfs_remaining b + 2 | Rootfs \<Rightarrow> sib_rootfs_remaining b + 1
     | Closing \<Rightarrow> 1 | Finished \<Rightarrow> 0)"

lemma poll_frame_bounded:
  assumes reader: "reads_file pr unread" and inv: "body_inv pre clo b" and poll: "poll_frame pr b = (r, b')"
  shows "(case r of Frame f \<Rightarrow> (f = pre \<or> f = clo \<or> length f \<le> ROOTFS_CHUNK_SIZE) \<and> frames_left b' < frames_left b
      | Frame_Pending \<Rightarrow> frames_left b' \<le> frames_left b | _ \<Rightarrow> True)"
proof (cases "sib_state b = Rootfs \<and> 0 < sib_rootfs_remaining b")
  case True
  define n where "n = min ROOTFS_CHUNK_SIZE (sib_rootfs_remaining b)"
  have n: "0 < n" "n \<le> ROOTFS_CHUNK_SIZE" using True by (auto simp: n_def ROOTFS_CHUNK_SIZE_def)
  obtain rp file' where rp: "pr (sib_rootfs_file b) n = (rp, file')" by fastforce
  have "filled \<noteq> [] \<Longrightarrow> 0 < length filled \<and> length filled \<le> ROOTFS_CHUNK_SIZE" if "rp = Read_Ready filled" for filled
    using reads_file_Ready(1) [OF reader n(1) rp [unfolded that]] n(2) by simp
  then show ?thesis
    using True poll rp
    by (cases rp) (auto simp: poll_defs frames_left_def Let_def n_def [symmetric] split: if_splits)
next
  case False
  then show ?thesis
    using inv poll
    by (cases "sib_state b") (auto simp: poll_defs body_inv_def frames_left_def split: if_splits)
qed

lemma drain_bounded:
  assumes reader: "reads_file pr unread" and inv: "body_inv pre clo b" and run: "drain pr n b = (fs, out)"
  shows "(\<forall>f\<in>set fs. f = pre \<or> f = clo \<or> length f \<le> ROOTFS_CHUNK_SIZE) \<and> length fs \<le> frames_left b"
  using inv run
proof (induction n arbitrary: b fs)
  case (Suc n)
  obtain r b' where poll: "poll_frame pr b = (r, b')" by fastforce
  note inv' = poll_frame_cases(1) [OF reader Suc.prems(1) poll] and step = poll_frame_bounded [OF reader Suc.prems(1) poll]
  show ?case
  proof (cases r)
    case (Frame f)
    obtain gs where gs: "drain pr n b' = (gs, out)" "fs = f # gs"
      using Suc.prems(2) poll Frame by (auto split: prod.splits)
    then show ?thesis using Suc.IH [OF inv' gs(1)] step Frame by auto
  qed (use Suc.IH [OF inv'] Suc.prems(2) poll step in fastforce)+
qed simp

text \<open>Claim C30. An upload of any size needs memory for one chunk: whatever the file and the scheduler do, a frame is
  the preamble, the closing boundary or at most \<open>ROOTFS_CHUNK_SIZE\<close> bytes of the rootfs, and there are at most
  \<open>len + 2\<close> of them, so no frame is empty for want of data.\<close>

theorem split_frames_bounded:
  assumes "reads_file poll_read unread" and "drain poll_read n (split_new mf mb rf file' len bd) = (fs, out)"
  shows "(\<forall>f\<in>set fs. f = preamble_of mf mb rf bd \<or> f = closing_of bd \<or> length f \<le> ROOTFS_CHUNK_SIZE)
    \<and> length fs \<le> len + 2"
proof -
  have "frames_left (split_new mf mb rf file' len bd) = len + 2" by (simp add: frames_left_def split_new_def Let_def)
  with drain_bounded [OF assms(1) body_inv_new assms(2)] show ?thesis by simp
qed

theorem split_frames_bounded_witness:
  "length (fst (drain sample_read 9 (split_new ''m'' ''x'' ''r'' ''abc'' 3 ''b''))) \<le> 5"
  using split_frames_bounded [OF sample_reads_file prod.collapse [symmetric], of 9 "''m''" "''x''" "''r''" "''abc''" 3 "''b''"]
  by simp

end
