(* ===== verification/Lxd_Api.thy ===== *)
theory Lxd_Api
  imports Lxd_Operations Split_Image_Body
begin

text \<open>
  The methods of \<open>LxdClient\<close> for instances, images, networks, projects, storage volumes and network
  ACLs (\<open>lxd-client/src/instances.rs\<close>, \<open>images.rs\<close>, \<open>networks.rs\<close>, \<open>projects.rs\<close>, \<open>storage.rs\<close>,
  \<open>acls.rs\<close>), each as the exchanges it performs.
\<close>

section \<open>Instances\<close>

definition instance_path :: "string \<Rightarrow> string" where
  "instance_path name = ''/1.0/instances/'' @ name"

definition state_path :: "string \<Rightarrow> string" where
  "state_path name = instance_path name @ ''/state''"

definition create_instance ::
  "env \<Rightarrow> lxd_client \<Rightarrow> string \<Rightarrow> string \<Rightarrow> config_map \<Rightarrow> device_map \<Rightarrow> string list \<Rightarrow> bool
   \<Rightarrow> (lxd_error, operation) fallible"
where
  "create_instance E cl name image_alias config devices profiles start =
     metadata_of (await_ok (exchange E cl POST ''/1.0/instances'' [(''Content-Type'', ''application/json'')]
         (Instance_Body name image_alias config devices profiles start))
       (\<lambda>resp. return (decode_reply E de_operation resp)))"

definition get_instance :: "env \<Rightarrow> lxd_client \<Rightarrow> string \<Rightarrow> (lxd_error, lxd_instance) fallible" where
  "get_instance E cl name = metadata_of (lxd_get E cl de_instance (instance_path name))"

definition get_instance_state :: "env \<Rightarrow> lxd_client \<Rightarrow> string \<Rightarrow> (lxd_error, instance_state) fallible" where
  "get_instance_state E cl name = metadata_of (lxd_get E cl de_instance_state (state_path name))"

definition list_instances :: "env \<Rightarrow> lxd_client \<Rightarrow> (lxd_error, lxd_instance list) fallible" where
  "list_instances E cl = metadata_of (lxd_get E cl (de_list de_instance) ''/1.0/instances?recursion=1'')"

definition start_body :: json where
  "start_body = Object [(''action'', Str ''start'')]"

definition start_instance :: "env \<Rightarrow> lxd_client \<Rightarrow> string \<Rightarrow> (lxd_error, operation) fallible" where
  "start_instance E cl name = metadata_of (lxd_put E cl de_operation (state_path name) start_body)"

definition stop_body :: "bool \<Rightarrow> int \<Rightarrow> json" where
  "stop_body force secs =
     Object [(''action'', Str ''stop''), (''force'', Bool force), (''timeout'', Number secs)]"

definition stop_instance_timeout ::
  "env \<Rightarrow> lxd_client \<Rightarrow> string \<Rightarrow> bool \<Rightarrow> int \<Rightarrow> (lxd_error, operation) fallible" where
  "stop_instance_timeout E cl name force secs =
     metadata_of (lxd_put E cl de_operation (state_path name) (stop_body force secs))"

definition stop_instance :: "env \<Rightarrow> lxd_client \<Rightarrow> string \<Rightarrow> bool \<Rightarrow> (lxd_error, operation) fallible" where
  "stop_instance E cl name force = stop_instance_timeout E cl name force 0"

text \<open>The body of a config patch: \<open>null\<close> removes a key.\<close>

definition patch_body :: "(string \<times> string option) list \<Rightarrow> json" where
  "patch_body config = Object [(''config'',
     Object (map (\<lambda>(k, v). (k, case v of None \<Rightarrow> Null | Some s \<Rightarrow> Str s)) config))]"

definition patch_instance_config ::
  "env \<Rightarrow> lxd_client \<Rightarrow> string \<Rightarrow> (string \<times> string option) list \<Rightarrow> (lxd_error, unit) fallible" where
  "patch_instance_config E cl name config =
     await_ok (lxd_patch E cl de_value (''/1.0/instances/'' @ ext_encode E name) (patch_body config))
       (\<lambda>_. ok ())"

definition delete_instance :: "env \<Rightarrow> lxd_client \<Rightarrow> string \<Rightarrow> (lxd_error, operation) fallible" where
  "delete_instance E cl name = metadata_of (lxd_delete E cl de_operation (instance_path name))"

definition files_path :: "env \<Rightarrow> string \<Rightarrow> string \<Rightarrow> string" where
  "files_path E name guest_path = ''/1.0/instances/'' @ name @ ''/files?path='' @ ext_encode E guest_path"

definition header_get :: "(string \<times> string) list \<Rightarrow> string \<Rightarrow> string option" where
  "header_get hs k = map_option snd (find (\<lambda>(n, _). eq_ignore_ascii_case n k) hs)"

definition is_ascii_space :: "char \<Rightarrow> bool" where
  "is_ascii_space c \<longleftrightarrow> c = CHR '' '' \<or> (9 \<le> (of_char c :: nat) \<and> (of_char c :: nat) \<le> 13)"

definition str_trim :: "string \<Rightarrow> string" where
  "str_trim s = rev (dropWhile is_ascii_space (rev (dropWhile is_ascii_space s)))"

definition path_is_dir_in_instance :: "env \<Rightarrow> lxd_client \<Rightarrow> string \<Rightarrow> string \<Rightarrow> bool action" where
  "path_is_dir_in_instance E cl name guest_path =
     await (get_raw_with_headers E cl (files_path E name guest_path)) (\<lambda>r. case r of
        Inr (headers, _) \<Rightarrow> return (map_option str_trim (header_get headers ''X-LXD-type'') = Some ''directory'')
      | Inl _ \<Rightarrow> return False)"

text \<open>The ancestors of a guest path, shallowest first; the last component is the file itself.\<close>

fun prefixes_from :: "string \<Rightarrow> string list \<Rightarrow> string list" where
  "prefixes_from pre [] = []"
| "prefixes_from pre (c # cs) = (pre @ ''/'' @ c) # prefixes_from (pre @ ''/'' @ c) cs"

definition parent_dirs :: "string \<Rightarrow> string list" where
  "parent_dirs guest_path =
     (let components = filter (\<lambda>c. c \<noteq> []) (split_char (CHR ''/'') guest_path)
      in prefixes_from [] (take (length components - 1) components))"

definition create_parent_dirs_in_instance ::
  "env \<Rightarrow> lxd_client \<Rightarrow> string \<Rightarrow> string \<Rightarrow> (lxd_error, unit) fallible" where
  "create_parent_dirs_in_instance E cl name guest_path =
     for_ok (parent_dirs guest_path) (\<lambda>prefix.
       await (post_raw E cl (files_path E name prefix) ''application/octet-stream''
           [(''X-LXD-uid'', ''0''), (''X-LXD-gid'', ''0''), (''X-LXD-mode'', ''0755''),
            (''X-LXD-type'', ''directory'')] []) (\<lambda>result. case result of
          Inr _ \<Rightarrow> ok ()
        | Inl e \<Rightarrow> await (path_is_dir_in_instance E cl name prefix) (\<lambda>is_dir.
            if \<not> is_dir then err e else ok ())))"

definition push_file_into_instance ::
  "env \<Rightarrow> lxd_client \<Rightarrow> string \<Rightarrow> string \<Rightarrow> string \<Rightarrow> (lxd_error, unit) fallible" where
  "push_file_into_instance E cl name guest_path content =
     await_ok (create_parent_dirs_in_instance E cl name guest_path) (\<lambda>_.
     post_raw E cl (files_path E name guest_path) ''application/octet-stream''
       [(''X-LXD-uid'', ''0''), (''X-LXD-gid'', ''0''), (''X-LXD-mode'', ''0400''),
        (''X-LXD-type'', ''file''), (''X-LXD-write'', ''overwrite'')] content)"

text \<open>\<open>u32::from_str_radix(s, 8)\<close> on a string without leading zeros.\<close>

definition is_octal_digit :: "char \<Rightarrow> bool" where
  "is_octal_digit c \<longleftrightarrow> is_ascii_digit c \<and> digit_val c < 8"

definition parse_octal_u32 :: "string \<Rightarrow> nat option" where
  "parse_octal_u32 s =
     (let ds = (case s of c # cs \<Rightarrow> if c = CHR ''+'' then cs else s | [] \<Rightarrow> []);
          v = foldl (\<lambda>n c. 8 * n + digit_val c) 0 ds
      in if ds \<noteq> [] \<and> list_all is_octal_digit ds \<and> v < 2 ^ 32 then Some v else None)"

definition get_file_from_instance ::
  "env \<Rightarrow> lxd_client \<Rightarrow> string \<Rightarrow> string \<Rightarrow> (lxd_error, string \<times> nat) fallible" where
  "get_file_from_instance E cl name guest_path =
     await_ok (get_raw_with_headers E cl (files_path E name guest_path)) (\<lambda>(headers, body).
     let mode_str = unwrap_or (header_get headers ''X-LXD-mode'') ''0644'';
         clean_mode = trim_start_matches (CHR ''0'') mode_str;
         mode = (if clean_mode = [] then 0 else unwrap_or (parse_octal_u32 clean_mode) 0)
     in ok (body, mode))"

section \<open>Networks, projects and images\<close>

definition get_network :: "env \<Rightarrow> lxd_client \<Rightarrow> string \<Rightarrow> (lxd_error, network) fallible" where
  "get_network E cl name = metadata_of (lxd_get E cl de_network (''/1.0/networks/'' @ name))"

text \<open>The existence checks: a 404 is \<open>false\<close>, every other error is passed on.\<close>

definition exists_at :: "env \<Rightarrow> lxd_client \<Rightarrow> string \<Rightarrow> (lxd_error, bool) fallible" where
  "exists_at E cl path =
     await (lxd_get E cl de_value path) (\<lambda>r. case r of
        Inr _ \<Rightarrow> ok True
      | Inl (Api code msg) \<Rightarrow> if code = 404 then ok False else err (Api code msg)
      | Inl e \<Rightarrow> err e)"

definition project_exists :: "env \<Rightarrow> lxd_client \<Rightarrow> string \<Rightarrow> (lxd_error, bool) fallible" where
  "project_exists E cl project = exists_at E cl (''/1.0/projects/'' @ ext_encode E project)"

definition create_project :: "env \<Rightarrow> lxd_client \<Rightarrow> string \<Rightarrow> (lxd_error, unit) fallible" where
  "create_project E cl name =
     await_ok (lxd_post E cl de_value ''/1.0/projects'' (Object [(''name'', Str name)])) (\<lambda>_. ok ())"

text \<open>Deletions that wait for their operation and take a 404 as success.\<close>

definition delete_and_wait :: "env \<Rightarrow> lxd_client \<Rightarrow> string \<Rightarrow> (lxd_error, unit) fallible" where
  "delete_and_wait E cl path =
     await (lxd_delete E cl de_operation path) (\<lambda>r. case r of
        Inr resp \<Rightarrow> lift_ok (into_metadata resp) (\<lambda>op.
          await_ok (lxd_wait_operation E cl (op_id op)) (\<lambda>_. ok ()))
      | Inl (Api code msg) \<Rightarrow> if code = 404 then ok () else err (Api code msg)
      | Inl e \<Rightarrow> err e)"

definition delete_project :: "env \<Rightarrow> lxd_client \<Rightarrow> string \<Rightarrow> (lxd_error, unit) fallible" where
  "delete_project E cl name = delete_and_wait E cl (''/1.0/projects/'' @ ext_encode E name)"

definition list_images :: "env \<Rightarrow> lxd_client \<Rightarrow> (lxd_error, image list) fallible" where
  "list_images E cl = metadata_of (lxd_get E cl (de_list de_image) ''/1.0/images?recursion=1'')"

definition image_alias_exists :: "env \<Rightarrow> lxd_client \<Rightarrow> string \<Rightarrow> (lxd_error, bool) fallible" where
  "image_alias_exists E cl a = exists_at E cl (''/1.0/images/aliases/'' @ ext_encode E a)"

definition get_image_aliases :: "env \<Rightarrow> lxd_client \<Rightarrow> string \<Rightarrow> (lxd_error, string list) fallible" where
  "get_image_aliases E cl fingerprint =
     await_ok (metadata_of (lxd_get E cl de_value (''/1.0/images/'' @ ext_encode E fingerprint))) (\<lambda>metadata.
     ok (unwrap_or (map_option (List.map_filter (\<lambda>v. Option.bind (get v ''name'') as_str))
           (Option.bind (get metadata ''aliases'') as_array)) []))"

definition create_image_alias ::
  "env \<Rightarrow> lxd_client \<Rightarrow> string \<Rightarrow> string \<Rightarrow> string option \<Rightarrow> (lxd_error, unit) fallible" where
  "create_image_alias E cl a target description =
     await_ok (lxd_post E cl de_value ''/1.0/images/aliases''
         (Object [(''name'', Str a), (''target'', Str target),
                  (''description'', Str (unwrap_or description []))])) (\<lambda>_. ok ())"

definition delete_image :: "env \<Rightarrow> lxd_client \<Rightarrow> string \<Rightarrow> (lxd_error, operation) fallible" where
  "delete_image E cl fingerprint =
     metadata_of (lxd_delete E cl de_operation (''/1.0/images/'' @ ext_encode E fingerprint))"

definition split_boundary :: string where
  "split_boundary = ''------------------------openshellsplitimageboundary''"

text \<open>The body streams the rootfs: its preamble, the file with its length, and the closing boundary
  are those of \<open>split_new\<close>.\<close>

definition create_image_from_split ::
  "env \<Rightarrow> lxd_client \<Rightarrow> string \<Rightarrow> string \<Rightarrow> string \<Rightarrow> string \<Rightarrow> (lxd_error, operation) fallible" where
  "create_image_from_split E cl metadata_filename metadata_bytes rootfs_filename rootfs_path =
     await_map (\<lambda>e. Io (ext_show_io E e)) (fs_stat E (Metadata rootfs_path)) (\<lambda>rootfs_meta.
     await_map (\<lambda>e. Io (ext_show_io E e)) (fs_do E (Open_File rootfs_path)) (\<lambda>_.
     let body = split_new metadata_filename metadata_bytes rootfs_filename rootfs_path
                  (meta_len rootfs_meta) split_boundary
     in metadata_of (post_streaming_response E cl de_operation ''/1.0/images''
          (''multipart/form-data; boundary='' @ split_boundary)
          (Split_Body (the (sib_preamble body)) (sib_rootfs_file body)
             (sib_rootfs_remaining body) (the (sib_closing body))))))"

section \<open>Storage\<close>

definition list_storage_pools :: "env \<Rightarrow> lxd_client \<Rightarrow> (lxd_error, string list) fallible" where
  "list_storage_pools E cl =
     await_ok (metadata_of (lxd_get E cl (de_list de_string) ''/1.0/storage-pools'')) (\<lambda>paths.
     ok (map (\<lambda>path. let name = split_last (CHR ''/'') path in unwrap_or (ext_decode E name) name) paths))"

definition custom_volumes_path :: "env \<Rightarrow> string \<Rightarrow> string" where
  "custom_volumes_path E pool = ''/1.0/storage-pools/'' @ ext_encode E pool @ ''/volumes/custom''"

definition list_custom_volumes :: "env \<Rightarrow> lxd_client \<Rightarrow> string \<Rightarrow> (lxd_error, storage_volume list) fallible" where
  "list_custom_volumes E cl pool =
     metadata_of (lxd_get E cl (de_list de_storage_volume) (custom_volumes_path E pool @ ''?recursion=1''))"

definition volume_delete_path :: "env \<Rightarrow> string \<Rightarrow> string \<Rightarrow> string \<Rightarrow> string" where
  "volume_delete_path E pool name location =
     custom_volumes_path E pool @ ''/'' @ ext_encode E name
       @ (if location \<noteq> [] then ''?target='' @ ext_encode E location else [])"

definition delete_custom_volume ::
  "env \<Rightarrow> lxd_client \<Rightarrow> string \<Rightarrow> string \<Rightarrow> string \<Rightarrow> (lxd_error, unit) fallible" where
  "delete_custom_volume E cl pool name location =
     await_ok (lxd_delete E cl de_value (volume_delete_path E pool name location)) (\<lambda>response.
     if resp_type response = ''async'' then
       lift_ok (into_metadata response) (\<lambda>v.
       lift_ok (ok_or (de_operation v) (JsonError [])) (\<lambda>op.
       await_ok (lxd_wait_operation E cl (op_id op)) (\<lambda>_. ok ())))
     else ok ())"

definition storage_pool_exists :: "env \<Rightarrow> lxd_client \<Rightarrow> string \<Rightarrow> (lxd_error, bool) fallible" where
  "storage_pool_exists E cl pool = exists_at E cl (''/1.0/storage-pools/'' @ ext_encode E pool)"

definition volume_path :: "env \<Rightarrow> string \<Rightarrow> string \<Rightarrow> string \<Rightarrow> string" where
  "volume_path E pool volume_type name =
     ''/1.0/storage-pools/'' @ ext_encode E pool @ ''/volumes/'' @ ext_encode E volume_type
       @ ''/'' @ ext_encode E name"

definition storage_pool_volume_exists ::
  "env \<Rightarrow> lxd_client \<Rightarrow> string \<Rightarrow> string \<Rightarrow> string \<Rightarrow> (lxd_error, bool) fallible" where
  "storage_pool_volume_exists E cl pool volume_type name = exists_at E cl (volume_path E pool volume_type name)"

definition create_storage_pool_volume_from_tarball ::
  "env \<Rightarrow> lxd_client \<Rightarrow> string \<Rightarrow> string \<Rightarrow> string \<Rightarrow> (lxd_error, operation) fallible" where
  "create_storage_pool_volume_from_tarball E cl pool name tarball =
     metadata_of (post_raw_response E cl de_operation
       (''/1.0/storage-pools/'' @ ext_encode E pool @ ''/volumes'') ''application/octet-stream''
       [(''X-LXD-name'', name), (''X-LXD-type'', ''tar'')] tarball)"

definition update_storage_pool_volume_config ::
  "env \<Rightarrow> lxd_client \<Rightarrow> string \<Rightarrow> string \<Rightarrow> string \<Rightarrow> json \<Rightarrow> (lxd_error, operation) fallible" where
  "update_storage_pool_volume_config E cl pool volume_type name config =
     metadata_of (lxd_patch E cl de_operation (volume_path E pool volume_type name)
       (Object [(''config'', config)]))"

definition get_storage_pool_volume ::
  "env \<Rightarrow> lxd_client \<Rightarrow> string \<Rightarrow> string \<Rightarrow> string \<Rightarrow> (lxd_error, json) fallible" where
  "get_storage_pool_volume E cl pool volume_type name =
     metadata_of (lxd_get E cl de_value (volume_path E pool volume_type name))"

definition is_shifted :: "json \<Rightarrow> bool" where
  "is_shifted volume =
     (case Option.bind (get volume ''config'') (\<lambda>c. Option.bind (get c ''security.shifted'') as_str) of
        Some v \<Rightarrow> v = ''true'' \<or> v = ''1''
      | None \<Rightarrow> False)"

definition ensure_storage_pool_volume_shifted ::
  "env \<Rightarrow> lxd_client \<Rightarrow> string \<Rightarrow> string \<Rightarrow> string \<Rightarrow> (lxd_error, unit) fallible" where
  "ensure_storage_pool_volume_shifted E cl pool volume_type name =
     await_ok (get_storage_pool_volume E cl pool volume_type name) (\<lambda>volume.
     if \<not> is_shifted volume then
       await_ok (update_storage_pool_volume_config E cl pool volume_type name
           (Object [(''security.shifted'', Str ''true'')])) (\<lambda>op.
       await_ok (lxd_wait_operation E cl (op_id op)) (\<lambda>_. ok ()))
     else ok ())"

definition delete_storage_pool_volume ::
  "env \<Rightarrow> lxd_client \<Rightarrow> string \<Rightarrow> string \<Rightarrow> string \<Rightarrow> (lxd_error, operation) fallible" where
  "delete_storage_pool_volume E cl pool volume_type name =
     metadata_of (lxd_delete E cl de_operation (volume_path E pool volume_type name))"

text \<open>The archive of a volume: entries are (name, content, mode).\<close>

fun append_entries :: "env \<Rightarrow> string \<Rightarrow> (string \<times> string \<times> nat) list \<Rightarrow> (string, string) result" where
  "append_entries E builder [] = ext_tar_finish E builder"
| "append_entries E builder ((filename, contents, mode) # entries) =
     result_bind (ext_tar_append E builder \<lparr>tar_size = length contents, tar_mode = mode\<rparr> filename contents)
       (\<lambda>builder'. append_entries E builder' entries)"

definition create_multi_file_tarball :: "env \<Rightarrow> (string \<times> string \<times> nat) list \<Rightarrow> (string, string) result" where
  "create_multi_file_tarball E entries = append_entries E [] entries"

definition ensure_single_file_volume ::
  "env \<Rightarrow> lxd_client \<Rightarrow> string \<Rightarrow> string \<Rightarrow> (string \<times> string \<times> nat) list
   \<Rightarrow> (lxd_error, unit) fallible"
where
  "ensure_single_file_volume E cl pool name entries =
     await_ok (storage_pool_volume_exists E cl pool ''custom'' name) (\<lambda>present.
     if present then ensure_storage_pool_volume_shifted E cl pool ''custom'' name
     else
       lift_ok (map_err Io (create_multi_file_tarball E entries)) (\<lambda>tarball.
       await (await_ok (create_storage_pool_volume_from_tarball E cl pool name tarball) (\<lambda>op.
              await_ok (lxd_wait_operation E cl (op_id op)) (\<lambda>_. ok ()))) (\<lambda>created. case created of
          Inl e \<Rightarrow>
            await_ok (storage_pool_volume_exists E cl pool ''custom'' name) (\<lambda>now_present.
            if now_present then ensure_storage_pool_volume_shifted E cl pool ''custom'' name
            else err e)
        | Inr _ \<Rightarrow> ensure_storage_pool_volume_shifted E cl pool ''custom'' name)))"

definition ensure_supervisor_volume ::
  "env \<Rightarrow> lxd_client \<Rightarrow> string \<Rightarrow> string \<Rightarrow> string \<Rightarrow> (lxd_error, unit) fallible" where
  "ensure_supervisor_volume E cl pool name binary =
     await_map (\<lambda>e. Io (ext_show_io E e)) (read_file E binary) (\<lambda>bytes.
     ensure_single_file_volume E cl pool name [(''openshell-sandbox'', bytes, 493)])"

definition ensure_dhcp_client_volume ::
  "env \<Rightarrow> lxd_client \<Rightarrow> string \<Rightarrow> string \<Rightarrow> string \<Rightarrow> string \<Rightarrow> (lxd_error, unit) fallible" where
  "ensure_dhcp_client_volume E cl pool name binary script =
     ensure_single_file_volume E cl pool name
       [(''udhcpc'', binary, 493), (''udhcpc.script'', script, 493)]"

end
