(* ===== verification/Dhcp.thy ===== *)
theory Dhcp
  imports Driver_Error World Paths
begin

text \<open>
  The DHCP client (\<open>openshell-driver-lxd/src/dhcp_client.rs\<close>): recognising a statically linked ELF
  executable and finding one on the host. Offsets are \<open>usize\<close> (64 bits): the checked additions and
  multiplications are written out, and a slice whose end lies past the file is \<open>None\<close>.
\<close>

section \<open>Static ELF executables\<close>

definition byte_at :: "string \<Rightarrow> nat \<Rightarrow> nat" where
  "byte_at bytes i = of_char (bytes ! i)"

text \<open>\<open>bytes.get(offset..offset + n)\<close> read in the file's byte order.\<close>

definition read_uint :: "nat \<Rightarrow> bool \<Rightarrow> string \<Rightarrow> nat \<Rightarrow> nat option" where
  "read_uint n is_le bytes offset =
     (if length bytes < offset + n then None
      else let bs = map of_char (take n (drop offset bytes))
        in Some (foldl (\<lambda>a b. 256 * a + b) 0 (if is_le then rev bs else bs)))"

definition checked_add :: "nat \<Rightarrow> nat \<Rightarrow> nat option" where
  "checked_add a b = (if a + b < 2 ^ 64 then Some (a + b) else None)"

definition checked_mul :: "nat \<Rightarrow> nat \<Rightarrow> nat option" where
  "checked_mul a b = (if a * b < 2 ^ 64 then Some (a * b) else None)"

definition PT_INTERP :: nat where
  "PT_INTERP = 3"

text \<open>The offset, entry size and number of the program headers, by file class.\<close>

definition program_headers :: "nat \<Rightarrow> bool \<Rightarrow> string \<Rightarrow> (nat \<times> nat \<times> nat) option" where
  "program_headers ei_class is_le bytes =
     (if ei_class = 1 then
        Option.bind (read_uint 4 is_le bytes 28) (\<lambda>phoff.
        Option.bind (read_uint 2 is_le bytes 42) (\<lambda>phentsize.
        Option.bind (read_uint 2 is_le bytes 44) (\<lambda>phnum. Some (phoff, phentsize, phnum))))
      else if ei_class = 2 then
        (if length bytes < 64 then None
         else
          Option.bind (read_uint 8 is_le bytes 32) (\<lambda>phoff.
          Option.bind (read_uint 2 is_le bytes 54) (\<lambda>phentsize.
          Option.bind (read_uint 2 is_le bytes 56) (\<lambda>phnum. Some (phoff, phentsize, phnum)))))
      else None)"

definition header_type :: "bool \<Rightarrow> string \<Rightarrow> nat \<Rightarrow> nat \<Rightarrow> nat \<Rightarrow> nat option" where
  "header_type is_le bytes phoff phentsize i =
     Option.bind (checked_mul i phentsize) (\<lambda>o'.
     Option.bind (checked_add phoff o') (\<lambda>ph_offset. read_uint 4 is_le bytes ph_offset))"

definition no_interp :: "bool \<Rightarrow> string \<Rightarrow> nat \<Rightarrow> nat \<Rightarrow> nat \<Rightarrow> bool" where
  "no_interp is_le bytes phoff phentsize phnum =
     list_all (\<lambda>i. case header_type is_le bytes phoff phentsize i of
        None \<Rightarrow> False | Some p_type \<Rightarrow> p_type \<noteq> PT_INTERP) [0..<phnum]"

definition elf_magic :: string where
  "elf_magic = [CHR 0x7F, CHR ''E'', CHR ''L'', CHR ''F'']"

definition elf_is_le :: "string \<Rightarrow> bool option" where
  "elf_is_le bytes = (if byte_at bytes 5 = 1 then Some True else if byte_at bytes 5 = 2 then Some False else None)"

definition is_static_elf_bytes :: "string \<Rightarrow> bool" where
  "is_static_elf_bytes bytes =
     (if length bytes < 52 \<or> take 4 bytes \<noteq> elf_magic then False
      else case elf_is_le bytes of None \<Rightarrow> False | Some is_le \<Rightarrow>
        (case read_uint 2 is_le bytes 16 of None \<Rightarrow> False | Some e_type \<Rightarrow>
          if e_type \<noteq> 2 \<and> e_type \<noteq> 3 then False
          else case program_headers (byte_at bytes 4) is_le bytes of
                 None \<Rightarrow> False
               | Some (e_phoff, e_phentsize, e_phnum) \<Rightarrow>
                   if e_phnum = 0 \<or> e_phentsize < 4 then False
                   else no_interp is_le bytes e_phoff e_phentsize e_phnum))"

section \<open>Finding a client\<close>

definition CANDIDATE_NAMES :: "string list" where
  "CANDIDATE_NAMES = [''busybox-static'', ''udhcpc'', ''busybox'']"

definition FALLBACK_PATHS :: "string list" where
  "FALLBACK_PATHS = [''/usr/bin/busybox-static'', ''/bin/busybox-static'', ''/usr/sbin/udhcpc'',
     ''/usr/bin/udhcpc'', ''/sbin/udhcpc'', ''/bin/udhcpc'', ''/usr/bin/busybox'', ''/bin/busybox'']"

definition SNAP_RELATIVE_PATHS :: "string list" where
  "SNAP_RELATIVE_PATHS = [''usr/bin/busybox-static'', ''bin/busybox-static'', ''usr/sbin/udhcpc'',
     ''usr/bin/udhcpc'', ''bin/udhcpc'', ''sbin/udhcpc'', ''usr/bin/busybox'', ''bin/busybox'']"

definition executable_bits :: "nat \<Rightarrow> bool" where
  "executable_bits mode \<longleftrightarrow> mode div 64 mod 2 = 1 \<or> mode div 8 mod 2 = 1 \<or> mode mod 2 = 1"

definition is_executable :: "env \<Rightarrow> string \<Rightarrow> bool action" where
  "is_executable E path =
     await (fs_stat E (Metadata path)) (\<lambda>r. case r of
        Inr m \<Rightarrow> return (meta_is_file m \<and> executable_bits (meta_mode m))
      | Inl _ \<Rightarrow> return False)"

definition is_static_elf :: "env \<Rightarrow> string \<Rightarrow> bool action" where
  "is_static_elf E path =
     await (fs_text E (Read_Prefix path 65536)) (\<lambda>r. case r of
        Inl _ \<Rightarrow> return False
      | Inr buffer \<Rightarrow> if length buffer < 52 then return False else return (is_static_elf_bytes buffer))"

definition is_candidate :: "env \<Rightarrow> string \<Rightarrow> bool action" where
  "is_candidate E path =
     await (is_executable E path) (\<lambda>x. if x then is_static_elf E path else return False)"

text \<open>The first path of a list that is a candidate.\<close>

fun first_candidate :: "env \<Rightarrow> string list \<Rightarrow> string option action" where
  "first_candidate E [] = return None"
| "first_candidate E (p # ps) =
     await (is_candidate E p) (\<lambda>b. if b then return (Some p) else first_candidate E ps)"

definition find_in_path :: "env \<Rightarrow> string \<Rightarrow> string option action" where
  "find_in_path E name = (case env_var E ''PATH'' of
      None \<Rightarrow> return None
    | Some paths \<Rightarrow> first_candidate E (map (\<lambda>dir. path_join dir name) (split_char (CHR '':'') paths)))"

fun find_names_in_path :: "env \<Rightarrow> string list \<Rightarrow> string option action" where
  "find_names_in_path E [] = return None"
| "find_names_in_path E (n # ns) =
     await (find_in_path E n) (\<lambda>p. case p of Some q \<Rightarrow> return (Some q) | None \<Rightarrow> find_names_in_path E ns)"

definition find_in_snap :: "env \<Rightarrow> string option action" where
  "find_in_snap E = (case env_var E ''SNAP'' of
      None \<Rightarrow> return None
    | Some snap \<Rightarrow> first_candidate E (map (path_join snap) SNAP_RELATIVE_PATHS))"

definition resolve_dhcp_client_binary :: "env \<Rightarrow> string option \<Rightarrow> (driver_error, string) fallible" where
  "resolve_dhcp_client_binary E override_path = (case override_path of
      Some path \<Rightarrow>
        await (is_executable E path) (\<lambda>x.
        if \<not> x then
          err (DhcpClient (''configured DHCP client binary '' @ debug_str path
            @ '' does not exist or is not executable''))
        else await (is_static_elf E path) (\<lambda>s.
        if \<not> s then
          err (DhcpClient (''configured DHCP client binary '' @ debug_str path
            @ '' is dynamically linked or not a static ELF executable; fallback DHCP client must be statically linked''))
        else ok path))
    | None \<Rightarrow>
        await (find_names_in_path E CANDIDATE_NAMES) (\<lambda>p. case p of Some q \<Rightarrow> ok q | None \<Rightarrow>
        await (find_in_snap E) (\<lambda>p. case p of Some q \<Rightarrow> ok q | None \<Rightarrow>
        await (first_candidate E FALLBACK_PATHS) (\<lambda>p. case p of Some q \<Rightarrow> ok q | None \<Rightarrow>
        err (DhcpClient ''no DHCP client binary found in environment; install udhcpc or busybox-static, or pass --dhcp-client-bin'')))))"

text \<open>\<open>format!("{:x}", ..)\<close> of the digest writes two lower case digits for each byte.\<close>

definition dhcp_client_digest :: "env \<Rightarrow> string \<Rightarrow> string" where
  "dhcp_client_digest E binary_bytes = ''sha256:'' @ concat (map hex2 (ext_sha256 E (binary_bytes @ asset_dhcp_script E)))"

definition load_dhcp_client :: "env \<Rightarrow> string option \<Rightarrow> (driver_error, string \<times> string) fallible" where
  "load_dhcp_client E override_path =
     await_ok (resolve_dhcp_client_binary E override_path) (\<lambda>path.
     await_map (\<lambda>e. DhcpClient (''failed to read DHCP client binary from '' @ debug_str path @ '': '' @ ext_show_io E e))
       (read_file E path) (\<lambda>binary_bytes.
     ok (binary_bytes, dhcp_client_digest E binary_bytes)))"

section \<open>Laws\<close>

lemma read_uint_bound: "read_uint n le bytes offset = Some v \<Longrightarrow> offset + n \<le> length bytes"
  by (auto simp: read_uint_def Let_def split: if_splits)

text \<open>An accepted file has a program header table that lies inside the part that was read, and no
  header of it names an interpreter.\<close>

lemma static_elf_headers:
  assumes "is_static_elf_bytes bytes"
  obtains le phoff phentsize phnum where
    "elf_is_le bytes = Some le"
    and "program_headers (byte_at bytes 4) le bytes = Some (phoff, phentsize, phnum)"
    and "0 < phnum" and "4 \<le> phentsize"
    and "\<And>i. i < phnum \<Longrightarrow> \<exists>t. read_uint 4 le bytes (phoff + i * phentsize) = Some t \<and> t \<noteq> PT_INTERP"
proof -
  obtain le phoff phentsize phnum where h: "elf_is_le bytes = Some le"
    "program_headers (byte_at bytes 4) le bytes = Some (phoff, phentsize, phnum)"
    "0 < phnum" "4 \<le> phentsize" "no_interp le bytes phoff phentsize phnum"
    using assms by (auto simp: is_static_elf_bytes_def split: if_splits option.splits)
  have "\<exists>t. read_uint 4 le bytes (phoff + i * phentsize) = Some t \<and> t \<noteq> PT_INTERP" if "i < phnum" for i
  proof -
    have "case header_type le bytes phoff phentsize i of None \<Rightarrow> False | Some p \<Rightarrow> p \<noteq> PT_INTERP"
      using h(5) that by (simp add: no_interp_def list_all_iff)
    then show ?thesis
      by (auto simp: header_type_def checked_add_def checked_mul_def bind_eq_Some_conv
          split: option.splits if_splits)
  qed
  with h show thesis by (intro that) auto
qed

lemma emits_is_executable [emits_rules]:
  "(\<And>b. p (Fs (Metadata path) b)) \<Longrightarrow> emits p (is_executable E path)"
  unfolding is_executable_def by (auto intro!: emits_rules)

lemma emits_is_static_elf [emits_rules]:
  "(\<And>b. p (Fs (Read_Prefix path 65536) b)) \<Longrightarrow> emits p (is_static_elf E path)"
  unfolding is_static_elf_def by (auto intro!: emits_rules)

text \<open>Finding and reading the client only looks at host files.\<close>

lemma emits_is_candidate [emits_rules]: "(\<And>c b. p (Fs c b)) \<Longrightarrow> emits p (is_candidate E path)"
  unfolding is_candidate_def by (auto intro!: emits_rules)

lemma emits_first_candidate [emits_rules]: "(\<And>c b. p (Fs c b)) \<Longrightarrow> emits p (first_candidate E ps)"
  by (induction ps) (auto intro!: emits_rules)

lemma emits_find_in_path [emits_rules]: "(\<And>c b. p (Fs c b)) \<Longrightarrow> emits p (find_in_path E n)"
  unfolding find_in_path_def by (auto intro!: emits_rules)

lemma emits_find_names [emits_rules]: "(\<And>c b. p (Fs c b)) \<Longrightarrow> emits p (find_names_in_path E ns)"
  by (induction ns) (auto intro!: emits_rules)

lemma emits_find_in_snap [emits_rules]: "(\<And>c b. p (Fs c b)) \<Longrightarrow> emits p (find_in_snap E)"
  unfolding find_in_snap_def by (auto intro!: emits_rules)

lemma emits_resolve_dhcp [emits_rules]:
  "(\<And>c b. p (Fs c b)) \<Longrightarrow> emits p (resolve_dhcp_client_binary E ov)"
  unfolding resolve_dhcp_client_binary_def by (auto intro!: emits_rules)

lemma emits_load_dhcp [emits_rules]:
  "(\<And>c b. p (Fs c b)) \<Longrightarrow> (\<And>f a. p (ReadFile f a)) \<Longrightarrow> emits p (load_dhcp_client E ov)"
  unfolding load_dhcp_client_def by (auto intro!: emits_rules)

end
