(* ===== verification/Image.thy ===== *)
theory Image
  imports Oci_Reference Rootfs Lxd_Api Dhcp
begin

text \<open>
  Image resolution and import (\<open>openshell-driver-lxd/src/image.rs\<close>): the importer that drives
  \<open>skopeo\<close>, \<open>umoci\<close> and \<open>mksquashfs\<close>, and the cache in front of it. The importer is a record of its
  three methods, as the code's trait object is; the external programs are processes of the world.
\<close>

section \<open>The importer interface\<close>

record oci_importer =
  imp_resolve_digest :: "string \<Rightarrow> (driver_error, string) fallible"
  imp_import :: "string \<Rightarrow> string \<Rightarrow> string \<Rightarrow> (driver_error, unit) fallible"
  imp_extract_supervisor_binary :: "string \<Rightarrow> string \<Rightarrow> (driver_error, string \<times> string) fallible"

type_synonym image_alias_checker = "string \<Rightarrow> (driver_error, bool) fallible"

definition alias_checker_of :: "env \<Rightarrow> lxd_client \<Rightarrow> image_alias_checker" where
  "alias_checker_of E cl a = await_map Lxd (image_alias_exists E cl a) ok"

section \<open>Files\<close>

definition digest_of_file :: "env \<Rightarrow> string \<Rightarrow> (driver_error, string) fallible" where
  "digest_of_file E path =
     await_map (\<lambda>e. ImageImport (''failed to stat supervisor binary at '' @ path @ '': '' @ ext_show_io E e))
       (fs_stat E (Symlink_Metadata path)) (\<lambda>metadata.
     if meta_is_symlink metadata \<or> \<not> meta_is_file metadata then
       err (ImageImport (''supervisor binary at '' @ path @ '' is a symlink or not a regular file''))
     else
       await_map (\<lambda>e. ImageImport (''failed to open supervisor binary at '' @ path @ '': '' @ ext_show_io E e))
         (fs_do E (Open_NoFollow path)) (\<lambda>_.
       await_map (\<lambda>e. ImageImport (''failed to read supervisor binary at '' @ path @ '': '' @ ext_show_io E e))
         (fs_text E (Read_All path)) (\<lambda>bytes.
       ok (''sha256:'' @ hex_digest (ext_sha256 E bytes)))))"

definition is_valid_cached_binary :: "env \<Rightarrow> string \<Rightarrow> bool action" where
  "is_valid_cached_binary E path =
     await (fs_stat E (Symlink_Metadata path)) (\<lambda>r. case r of
        Inl _ \<Rightarrow> return False
      | Inr metadata \<Rightarrow>
          if meta_is_symlink metadata \<or> \<not> meta_is_file metadata then return False
          else if meta_uid metadata \<noteq> env_uid E then return False
          else if \<not> executable_bits (meta_mode metadata) then return False
          else return True)"

definition path_exists :: "env \<Rightarrow> string \<Rightarrow> bool action" where
  "path_exists E path = await (fs_stat E (Metadata path)) (\<lambda>r. return (succeeded r))"

definition copy_extracted_binary :: "env \<Rightarrow> string \<Rightarrow> string \<Rightarrow> string \<Rightarrow> (driver_error, unit) fallible" where
  "copy_extracted_binary E source target reference =
     await (fs_stat E (Symlink_Metadata source)) (\<lambda>r. case r of
        Inl (NotFound _) \<Rightarrow>
          err (ImageImport (''image '' @ debug_str reference @ '' does not contain /openshell-sandbox''))
      | Inl e \<Rightarrow>
          err (ImageImport (''failed to stat /openshell-sandbox in image '' @ debug_str reference @ '': '' @ ext_show_io E e))
      | Inr metadata \<Rightarrow>
          if meta_is_symlink metadata then
            err (ImageImport (''image '' @ debug_str reference @ '' has a symlink at /openshell-sandbox''))
          else if \<not> meta_is_file metadata then
            err (ImageImport (''image '' @ debug_str reference @ '' does not contain a regular file at /openshell-sandbox''))
          else
            await_map (\<lambda>e. ImageImport (''failed to open extracted supervisor binary '' @ source @ '': '' @ ext_show_io E e))
              (fs_do E (Open_NoFollow source)) (\<lambda>_.
            await_map (\<lambda>e. ImageImport (''failed to create temporary supervisor binary '' @ target @ '': '' @ ext_show_io E e))
              (fs_do E (Create_New target 493)) (\<lambda>_.
            await_map (\<lambda>e. ImageImport (''failed to copy extracted supervisor binary to '' @ target @ '': '' @ ext_show_io E e))
              (fs_do E (Copy_File source target)) (\<lambda>_.
            await (fs_do E (Set_Mode target 493)) (\<lambda>_. ok ())))))"

definition create_metadata_tar_xz :: "env \<Rightarrow> string \<Rightarrow> string \<Rightarrow> (driver_error, string) fallible" where
  "create_metadata_tar_xz E dir metadata_yaml =
     (let metadata_path = path_join dir ''metadata.yaml''; tar_path = path_join dir ''metadata.tar.xz'' in
      await_map (\<lambda>e. ImageImport (''failed to write metadata.yaml: '' @ ext_show_io E e))
        (fs_do E (Write_File metadata_path metadata_yaml)) (\<lambda>_.
      await_map (\<lambda>e. ImageImport (''failed to run tar for metadata: '' @ ext_show_io E e))
        (process E ''tar'' [''-cJf'', tar_path, ''-C'', dir, ''metadata.yaml'']) (\<lambda>out.
      if \<not> out_success out then err (ImageImport (''failed to build metadata.tar.xz: '' @ out_stderr out))
      else await_map (\<lambda>e. ImageImport (''failed to read metadata.tar.xz: '' @ ext_show_io E e))
        (read_file E tar_path) ok)))"

section \<open>The importer over \<open>skopeo\<close>, \<open>umoci\<close> and \<open>mksquashfs\<close>\<close>

record skopeo_importer =
  si_lxd :: lxd_client
  si_skopeo_path :: string
  si_umoci_path :: string
  si_mksquashfs_path :: string
  si_work_dir :: string
  si_timeout :: nat

definition skopeo_new ::
  "lxd_client \<Rightarrow> string option \<Rightarrow> string option \<Rightarrow> string option \<Rightarrow> string \<Rightarrow> nat \<Rightarrow> skopeo_importer" where
  "skopeo_new lxd skopeo umoci mksquashfs work_dir timeout' =
     \<lparr>si_lxd = lxd, si_skopeo_path = unwrap_or skopeo ''skopeo'', si_umoci_path = unwrap_or umoci ''umoci'',
      si_mksquashfs_path = unwrap_or mksquashfs ''mksquashfs'', si_work_dir = work_dir, si_timeout = timeout'\<rparr>"

text \<open>The \<open>OnceCell\<close>: once the check has succeeded it is not made again.\<close>

definition verify_lxd_architecture :: "env \<Rightarrow> skopeo_importer \<Rightarrow> (driver_error, unit) fallible" where
  "verify_lxd_architecture E si =
     await (recall (\<lambda>h. Arch_Verified \<in> set h)) (\<lambda>done'.
     if done' then ok ()
     else
       await_map (\<lambda>e. case e of
            Api _ message \<Rightarrow> ImageImport message
          | other \<Rightarrow> ImageImport (''failed to verify LXD server architecture: '' @ show_lxd_error other))
         (verify_architecture E (si_lxd si) (host_lxd_arch E)) (\<lambda>_.
       await (note_event Arch_Verified) (\<lambda>_. ok ())))"

definition scratch_dir :: "env \<Rightarrow> skopeo_importer \<Rightarrow> string \<Rightarrow> (driver_error, string) fallible" where
  "scratch_dir E si prefix =
     await_map (\<lambda>e. ImageImport (''failed to create image work directory '' @ si_work_dir si @ '': '' @ ext_show_io E e))
       (fs_do E (Create_Dir_All (si_work_dir si))) (\<lambda>_.
     await_map (\<lambda>e. ImageImport (''failed to create scratch directory in '' @ si_work_dir si @ '': '' @ ext_show_io E e))
       (fs_text E (Temp_Dir (si_work_dir si) prefix)) ok)"

text \<open>The scratch directory goes when its \<open>TempDir\<close> leaves the scope, whatever the outcome.\<close>

definition with_scratch_dir ::
  "env \<Rightarrow> skopeo_importer \<Rightarrow> string \<Rightarrow> (string \<Rightarrow> (driver_error, 'a) fallible) \<Rightarrow> (driver_error, 'a) fallible" where
  "with_scratch_dir E si prefix body =
     await_ok (scratch_dir E si prefix) (\<lambda>temp_path.
     await (body temp_path) (\<lambda>r. await (fs_do E (Remove_Dir_All temp_path)) (\<lambda>_. return r)))"

text \<open>One external tool, bounded by the pull timeout.\<close>

definition run_tool ::
  "env \<Rightarrow> skopeo_importer \<Rightarrow> string \<Rightarrow> string list \<Rightarrow> string \<Rightarrow> string \<Rightarrow> string \<Rightarrow> (driver_error, proc_output) fallible" where
  "run_tool E si prog args timed_out exec_failed failed =
     await (timeout_secs E (si_timeout si) (process E prog args)) (\<lambda>o'. case o' of
        None \<Rightarrow> err (ImageImport timed_out)
      | Some (Inl e) \<Rightarrow> err (ImageImport (exec_failed @ '': '' @ ext_show_io E e))
      | Some (Inr out) \<Rightarrow>
          if \<not> out_success out then err (ImageImport (failed @ '': '' @ out_stderr out)) else ok out)"

definition si_resolve_digest :: "env \<Rightarrow> skopeo_importer \<Rightarrow> string \<Rightarrow> (driver_error, string) fallible" where
  "si_resolve_digest E si reference =
     await_ok (verify_lxd_architecture E si) (\<lambda>_.
     await_ok (run_tool E si (si_skopeo_path si) [''inspect'', ''--raw'', inspect_target reference]
         (''skopeo inspect timed out for '' @ debug_str reference) ''failed to execute skopeo''
         (''skopeo inspect failed for '' @ debug_str reference)) (\<lambda>out.
     return (map_err (\<lambda>e. ImageImport (''failed to resolve digest for '' @ debug_str reference @ '': '' @ show_driver_error e))
       (select_arch_digest E (out_stdout out) ''linux'' (host_oci_arch E)))))"

text \<open>Copy and unpack an image: the steps \<open>import\<close> and \<open>extract_supervisor_binary\<close> share.\<close>

definition copy_and_unpack ::
  "env \<Rightarrow> skopeo_importer \<Rightarrow> string \<Rightarrow> string \<Rightarrow> string \<Rightarrow> string \<Rightarrow> (driver_error, unit) fallible" where
  "copy_and_unpack E si reference digest temp_path subject =
     (let copy_source = ''docker://'' @ repo_path reference @ ''@'' @ digest;
          oci_dest = path_join temp_path ''oci''; bundle_dest = path_join temp_path ''bundle''
      in await_ok (run_tool E si (si_skopeo_path si)
           [''copy'', ''--override-os'', ''linux'', ''--override-arch'', host_oci_arch E, copy_source,
            ''oci:'' @ oci_dest @ '':img'']
           (''skopeo copy timed out for '' @ debug_str copy_source) ''failed to execute skopeo copy''
           (''skopeo copy failed for '' @ debug_str copy_source)) (\<lambda>_.
         await_ok (run_tool E si (si_umoci_path si)
           [''unpack'', ''--rootless'', ''--image'', oci_dest @ '':img'', bundle_dest]
           (''umoci unpack timed out for '' @ subject) ''failed to execute umoci unpack''
           (''umoci unpack failed for '' @ subject)) (\<lambda>_. ok ())))"

definition fingerprint_of :: "operation \<Rightarrow> (driver_error, string) result" where
  "fingerprint_of op = ok_or (Option.bind (Option.bind (op_metadata op) (\<lambda>m. get m ''fingerprint'')) as_str)
     (ImageImport ''operation response missing image fingerprint'')"

definition metadata_yaml :: "string \<Rightarrow> nat \<Rightarrow> string \<Rightarrow> string" where
  "metadata_yaml arch creation_date alias =
     ''architecture: '' @ [CHR 0x22] @ arch @ [CHR 0x22, CHR 0x0A]
     @ ''creation_date: '' @ dec creation_date @ [CHR 0x0A] @ ''properties:'' @ [CHR 0x0A]
     @ ''  description: '' @ [CHR 0x22] @ ''OpenShell sandbox '' @ alias @ [CHR 0x22, CHR 0x0A]"

text \<open>Binding the alias; an image that could not be bound and has no other alias is removed again.\<close>

definition bind_alias ::
  "env \<Rightarrow> skopeo_importer \<Rightarrow> string \<Rightarrow> string \<Rightarrow> string \<Rightarrow> (driver_error, unit) fallible" where
  "bind_alias E si alias fingerprint digest =
     await (create_image_alias E (si_lxd si) alias fingerprint (Some (''OpenShell image '' @ digest))) (\<lambda>r. case r of
        Inr _ \<Rightarrow> ok ()
      | Inl e \<Rightarrow>
          await (get_image_aliases E (si_lxd si) fingerprint) (\<lambda>a.
          await (if a = Inr [] then
                   await (delete_image E (si_lxd si) fingerprint) (\<lambda>d. case d of
                      Inr del_op \<Rightarrow>
                        await (timeout_secs E (si_timeout si) (lxd_wait_operation E (si_lxd si) (op_id del_op)))
                          (\<lambda>_. return ())
                    | Inl _ \<Rightarrow> return ())
                 else return ()) (\<lambda>_.
          err (ImageImport (''failed to create image alias '' @ alias @ '': '' @ show_lxd_error e)))))"

definition upload_image ::
  "env \<Rightarrow> skopeo_importer \<Rightarrow> string \<Rightarrow> string \<Rightarrow> (driver_error, string) fallible" where
  "upload_image E si metadata_tar_bytes squashfs_path =
     await (timeout_secs E (si_timeout si)
       (create_image_from_split E (si_lxd si) ''metadata.tar.xz'' metadata_tar_bytes ''rootfs.squashfs'' squashfs_path)) (\<lambda>o'.
     case o' of
        None \<Rightarrow> err (ImageImport ''timed out uploading split image to LXD'')
      | Some (Inl e) \<Rightarrow> err (ImageImport (''LXD split image upload failed: '' @ show_lxd_error e))
      | Some (Inr op) \<Rightarrow>
          await (timeout_secs E (si_timeout si) (lxd_wait_operation E (si_lxd si) (op_id op))) (\<lambda>w. case w of
             None \<Rightarrow> err (ImageImport ''timed out waiting for image upload operation'')
           | Some (Inl e) \<Rightarrow> err (ImageImport (''image upload operation failed: '' @ show_lxd_error e))
           | Some (Inr finished_op) \<Rightarrow> return (fingerprint_of finished_op)))"

definition si_import ::
  "env \<Rightarrow> skopeo_importer \<Rightarrow> string \<Rightarrow> string \<Rightarrow> string \<Rightarrow> (driver_error, unit) fallible" where
  "si_import E si reference digest alias =
     await_ok (verify_lxd_architecture E si) (\<lambda>_.
     with_scratch_dir E si ''openshell-oci-import-'' (\<lambda>temp_path.
       let bundle_dest = path_join temp_path ''bundle''; rootfs_dest = path_join bundle_dest ''rootfs'';
           squashfs_path = path_join temp_path ''rootfs.squashfs'';
           pseudo_path = path_join temp_path ''ownership.pseudo''
       in
       await_ok (copy_and_unpack E si reference digest temp_path alias) (\<lambda>_.
       await (fs_do E (Remove_Dir_All (path_join temp_path ''oci''))) (\<lambda>_.
       await_ok (inject_init_script E rootfs_dest) (\<lambda>_.
       await_ok (install_init E rootfs_dest) (\<lambda>_.
       await_ok (write_ownership_pseudo_file E rootfs_dest pseudo_path) (\<lambda>_.
       await_ok (run_tool E si (si_mksquashfs_path si)
           [rootfs_dest, squashfs_path, ''-noappend'', ''-root-uid'', ''0'', ''-root-gid'', ''0'', ''-pf'',
            pseudo_path, ''-xattrs-exclude'', ''^user'' @ [CHR 0x5C] @ ''.rootlesscontainers$'']
           (''mksquashfs timed out for '' @ alias) ''failed to execute mksquashfs''
           (''mksquashfs failed for '' @ alias)) (\<lambda>_.
       await (recall (env_now E)) (\<lambda>creation_date.
       await_ok (create_metadata_tar_xz E temp_path (metadata_yaml (host_lxd_arch E) creation_date alias)) (\<lambda>metadata_tar_bytes.
       await_ok (upload_image E si metadata_tar_bytes squashfs_path) (\<lambda>fingerprint.
       bind_alias E si alias fingerprint digest)))))))))))"

definition clean_digest :: "string \<Rightarrow> string" where
  "clean_digest digest = unwrap_or (strip_prefix ''sha256:'' digest) digest"

definition staging_name :: "env \<Rightarrow> nat \<Rightarrow> string" where
  "staging_name E n = ''.openshell-sandbox.tmp.'' @ dec (env_pid E) @ ''.'' @ dec n"

text \<open>Committing an extracted binary under its final name, or giving way to one already there.\<close>

definition commit_binary :: "env \<Rightarrow> string \<Rightarrow> string \<Rightarrow> string \<Rightarrow> (driver_error, string \<times> string) fallible" where
  "commit_binary E temp_target binary_path digest =
     await (is_valid_cached_binary E binary_path) (\<lambda>valid.
     if valid then await (fs_do E (Remove_File temp_target)) (\<lambda>_. ok (binary_path, digest))
     else
       await (fs_do E (Rename temp_target binary_path)) (\<lambda>r. case r of
          Inr _ \<Rightarrow> ok (binary_path, digest)
        | Inl e \<Rightarrow>
            await (is_valid_cached_binary E binary_path) (\<lambda>valid.
            if valid then await (fs_do E (Remove_File temp_target)) (\<lambda>_. ok (binary_path, digest))
            else err (ImageImport (''failed to commit extracted supervisor binary to '' @ binary_path @ '': ''
                   @ ext_show_io E e)))))"

definition si_extract_supervisor_binary ::
  "env \<Rightarrow> skopeo_importer \<Rightarrow> string \<Rightarrow> string \<Rightarrow> (driver_error, string \<times> string) fallible" where
  "si_extract_supervisor_binary E si reference cache_dir =
     await_ok (verify_lxd_architecture E si) (\<lambda>_.
     lift_ok (validate_reference reference) (\<lambda>_.
     await_ok (si_resolve_digest E si reference) (\<lambda>digest.
     let target_dir = path_join cache_dir (clean_digest digest);
         binary_path = path_join target_dir ''openshell-sandbox''
     in
     await (path_exists E binary_path) (\<lambda>present.
     if present then ok (binary_path, digest)
     else
       with_scratch_dir E si ''openshell-supervisor-extract-'' (\<lambda>temp_path.
         let rootfs_dest = path_join (path_join temp_path ''bundle'') ''rootfs'' in
         await_ok (copy_and_unpack E si reference digest temp_path reference) (\<lambda>_.
         await_map (\<lambda>e. ImageImport (''failed to create supervisor cache directory '' @ target_dir @ '': '' @ ext_show_io E e))
           (fs_do E (Create_Dir_All target_dir)) (\<lambda>_.
         await fetch_add (\<lambda>n.
         let temp_target = path_join target_dir (staging_name E n) in
         await_ok (copy_extracted_binary E (path_join rootfs_dest ''openshell-sandbox'') temp_target reference) (\<lambda>_.
         commit_binary E temp_target binary_path digest)))))))))"

definition skopeo_oci_importer :: "env \<Rightarrow> skopeo_importer \<Rightarrow> oci_importer" where
  "skopeo_oci_importer E si =
     \<lparr>imp_resolve_digest = si_resolve_digest E si, imp_import = si_import E si,
      imp_extract_supervisor_binary = si_extract_supervisor_binary E si\<rparr>"

section \<open>The cache\<close>

record image_cache =
  ic_alias_checker :: image_alias_checker
  ic_importer :: oci_importer
  ic_prefix :: string

definition image_cache_new :: "env \<Rightarrow> lxd_client \<Rightarrow> oci_importer \<Rightarrow> string \<Rightarrow> image_cache" where
  "image_cache_new E lxd importer prefix =
     \<lparr>ic_alias_checker = alias_checker_of E lxd, ic_importer = importer, ic_prefix = prefix\<rparr>"

definition resolve_alias :: "image_cache \<Rightarrow> string \<Rightarrow> (driver_error, string) fallible" where
  "resolve_alias ic reference =
     lift_ok (validate_reference reference) (\<lambda>_.
     await_ok (imp_resolve_digest (ic_importer ic) reference) (\<lambda>digest.
     let alias = cache_alias_with_prefix (ic_prefix ic) digest in
     with_lock (''alias:'' @ alias) (
       await_ok (ic_alias_checker ic alias) (\<lambda>hit.
       if hit then ok alias
       else await_ok (imp_import (ic_importer ic) reference digest alias) (\<lambda>_. ok alias)))))"

definition extract_supervisor_binary ::
  "env \<Rightarrow> image_cache \<Rightarrow> string \<Rightarrow> string \<Rightarrow> (driver_error, string \<times> string) fallible" where
  "extract_supervisor_binary E ic reference cache_dir =
     lift_ok (validate_reference reference) (\<lambda>_.
     await_ok (imp_resolve_digest (ic_importer ic) reference) (\<lambda>digest.
     let binary_path = path_join (path_join cache_dir (clean_digest digest)) ''openshell-sandbox'' in
     with_lock (''extract:'' @ digest) (
       await (is_valid_cached_binary E binary_path) (\<lambda>valid.
       if valid then ok (binary_path, digest)
       else imp_extract_supervisor_binary (ic_importer ic) reference cache_dir))))"

end
