(* ===== verification/Resources.thy ===== *)
theory Resources
  imports F64 Lxd_Types
begin

text \<open>
  Resource quantities (\<open>lxd-client/src/resources.rs\<close>): Kubernetes CPU and memory quantities to LXD's
  \<open>limits.cpu\<close> and \<open>limits.memory\<close>. CPU quantities go through binary64 arithmetic, so the lemmas
  bound the rounding error before the ceiling is taken.
\<close>

section \<open>Operations\<close>

definition invalid :: "string \<Rightarrow> string \<Rightarrow> lxd_error" where
  "invalid quantity reason = InvalidQuantity quantity reason"

definition cpu_cores :: "string \<Rightarrow> (lxd_error, f64) result" where
  "cpu_cores quantity = (case strip_suffix ''m'' quantity of
      Some milli \<Rightarrow> result_bind (ok_or (parse_f64 milli) (invalid quantity ''not a valid millicore value''))
        (\<lambda>m. Inr (div_f64 m 1000))
    | None \<Rightarrow> ok_or (parse_f64 quantity) (invalid quantity ''not a valid core count''))"

definition cpu_limit_to_lxd :: "string \<Rightarrow> (lxd_error, string) result" where
  "cpu_limit_to_lxd quantity = result_bind (cpu_cores quantity) (\<lambda>cores.
     if \<not> is_finite cores then Inl (invalid quantity ''must be a finite number'')
     else if le_f64 cores 0 then Inl (invalid quantity ''must be greater than zero'')
     else Inr (dec (max (to_unsigned 64 (ceil_f64 cores)) 1)))"

definition SUFFIXES :: "string list" where
  "SUFFIXES = [''Ki'', ''Mi'', ''Gi'', ''Ti'']"

text \<open>The loop over the suffixes: \<open>None\<close> when no suffix matches.\<close>

fun memory_suffix :: "string \<Rightarrow> string list \<Rightarrow> (lxd_error, string) result option" where
  "memory_suffix quantity [] = None"
| "memory_suffix quantity (suffix # rest) = (case strip_suffix suffix quantity of
      Some digits \<Rightarrow>
        if digits = [] \<or> \<not> list_all is_ascii_digit digits
        then Some (Inl (invalid quantity ''expected a numeric prefix before the suffix''))
        else Some (Inr (quantity @ ''B''))
    | None \<Rightarrow> memory_suffix quantity rest)"

definition memory_limit_to_lxd :: "string \<Rightarrow> (lxd_error, string) result" where
  "memory_limit_to_lxd quantity = (case memory_suffix quantity SUFFIXES of
      Some r \<Rightarrow> r
    | None \<Rightarrow>
        if quantity \<noteq> [] \<and> list_all is_ascii_digit quantity then Inr quantity
        else Inl (invalid quantity (''expected a '' @ join_str ''/'' SUFFIXES @ '' suffix (e.g. ''
          @ [CHR 0x22] @ ''512Mi'' @ [CHR 0x22] @ '', '' @ [CHR 0x22] @ ''4Gi'' @ [CHR 0x22]
          @ '') or a bare byte count'')))"

section \<open>Rounding of the quotients that occur\<close>

lemma ulp_exp_le:
  assumes "0 < q" and "q < pow2 (int k)"
  shows "ulp_exp q \<le> max (int k - 53) (- 1074)"
proof -
  have "pow2 (ilog2 q) < pow2 (int k)"
    using ilog2_bounds(1) [OF assms(1)] assms(2) by (rule le_less_trans)
  then have "ilog2 q < int k" using pow2_mono [of "int k" "ilog2 q"] by force
  then show ?thesis by (simp add: ulp_exp_def)
qed

lemma round_pos_finite:
  assumes "0 < q" and "q < pow2 64"
  obtains v where "round_pos q = Finite v" and "\<bar>v - q\<bar> \<le> pow2 (ulp_exp q) / 2"
proof -
  let ?p = "pow2 (ulp_exp q)"
  let ?v = "of_int (round_even (q / ?p)) * ?p"
  have "ulp_exp q \<le> 11" using ulp_exp_le [OF assms(1), of 64] assms(2) by simp
  then have p: "?p \<le> pow2 11" by (rule pow2_mono)
  have "?v - q = (of_int (round_even (q / ?p)) - q / ?p) * ?p" by (simp add: field_simps)
  also have "\<dots> \<le> 1 / 2 * ?p"
    using round_even_error [of "q / ?p"] by (intro mult_right_mono) (linarith, simp)
  finally have "?v \<le> q + ?p / 2" by simp
  also have "\<dots> < pow2 64 + pow2 11" using p assms(2) pow2_pos [of "ulp_exp q"] by linarith
  also have "\<dots> \<le> pow2 65" by (simp add: pow2_def)
  also have "\<dots> \<le> pow2 1024" by (rule pow2_mono) simp
  finally have "round_pos q = Finite ?v" by (simp add: round_pos_def Let_def)
  with round_pos_error [OF assms(1)] that show thesis by blast
qed

lemma round_f64_nat:
  assumes "n < 2 ^ 53"
  shows "round_f64 (of_nat n) = Finite (of_nat n)"
proof (cases "n = 0")
  case True
  then show ?thesis by (simp add: round_f64_def)
next
  case False
  let ?q = "of_nat n :: rat"
  have q: "0 < ?q" "?q < pow2 (int 53)"
    using False pow2_bounds_rat(2) [of 0 n 53] assms by (simp, simp only: pow2_of_nat) simp
  have e: "ulp_exp ?q \<le> 0" using ulp_exp_le [OF q] by simp
  then obtain k where k: "ulp_exp ?q = - int k" by (metis minus_le_iff neg_0_le_iff_le nonneg_int_cases minus_minus)
  have pk: "pow2 (- int k) = 1 / 2 ^ k" using pow2_diff [of 0 k] by simp
  have "?q / pow2 (- int k) = of_int (int (n * 2 ^ k))" by (simp add: pk)
  then have v: "of_int (round_even (?q / pow2 (- int k))) * pow2 (- int k) = ?q"
    by (simp only: round_even_of_int) (simp add: pk)
  have "pow2 53 \<le> pow2 1024" by (rule pow2_mono) simp
  with q(2) have "\<not> pow2 1024 \<le> ?q" by simp
  then show ?thesis
    using q(1) False by (simp add: round_f64_def round_pos_def Let_def k v)
qed

lemma round_up_millis: "n = 1000 * m + r \<Longrightarrow> 0 < r \<Longrightarrow> r < 1000 \<Longrightarrow> (n + 999) div 1000 = m + (1 :: nat)"
  by (rule div_nat_eqI) simp_all

text \<open>Dividing by 1000 keeps the ceiling: a quotient that is not an integer is at least a thousandth
  away from one, and the rounding error is far smaller.\<close>

lemma ceiling_millis:
  assumes "0 < n" and "n \<le> 10 ^ 12"
  obtains v where "round_f64 (of_nat n / 1000) = Finite v" and "0 < v"
    and "\<lceil>v\<rceil> = int ((n + 999) div 1000)"
proof (cases "n mod 1000 = 0")
  case True
  then obtain m where n: "n = 1000 * m" by (metis mod_0_imp_dvd dvdE)
  with assms have "m < 2 ^ 53" "0 < m" by auto
  moreover have "of_nat n / 1000 = (of_nat m :: rat)" by (simp add: n)
  moreover have "(n + 999) div 1000 = m" by (simp add: n)
  ultimately show thesis using round_f64_nat [of m] by (intro that) auto
next
  case False
  let ?q = "of_nat n / 1000 :: rat" and ?m = "n div 1000"
  have nm: "n = 1000 * ?m + n mod 1000" by simp
  have "rat_of_nat n = of_nat (1000 * ?m + n mod 1000)" by simp
  then have q: "?q = of_nat ?m + of_nat (n mod 1000) / 1000"
    by (simp only: of_nat_add of_nat_mult) simp
  have r: "1 / 1000 \<le> (of_nat (n mod 1000) / 1000 :: rat)" "of_nat (n mod 1000) / 1000 \<le> (999 / 1000 :: rat)"
  proof -
    have "of_nat 1 \<le> (of_nat (n mod 1000) :: rat)" "(of_nat (n mod 1000) :: rat) \<le> of_nat 999"
      using False by (subst of_nat_le_iff; simp)+
    then show "1 / 1000 \<le> (of_nat (n mod 1000) / 1000 :: rat)"
      "of_nat (n mod 1000) / 1000 \<le> (999 / 1000 :: rat)" by simp_all
  qed
  have pos: "0 < ?q" using assms by simp
  have "rat_of_nat n \<le> of_nat (10 ^ 12)" using assms(2) by (simp only: of_nat_le_iff)
  then have small: "?q < pow2 (int 30)" by (simp add: pow2_def)
  then have "?q < pow2 64" by (rule order.strict_trans2) (simp add: pow2_def)
  then obtain v where v: "round_pos ?q = Finite v" "\<bar>v - ?q\<bar> \<le> pow2 (ulp_exp ?q) / 2"
    using round_pos_finite [OF pos] by blast
  have "pow2 (ulp_exp ?q) \<le> pow2 (- 23)" using ulp_exp_le [OF pos small] by (intro pow2_mono) simp
  then have err: "\<bar>v - ?q\<bar> \<le> 1 / 16777216" using v(2) by (simp add: pow2_def)
  have lo: "of_nat ?m < v" and hi: "v < of_nat ?m + 1"
    using err r unfolding q by linarith+
  have "(n + 999) div 1000 = ?m + 1" using round_up_millis nm False by (metis mod_less_divisor
      neq0_conv zero_less_numeral)
  moreover have "\<lceil>v\<rceil> = int ?m + 1" using lo hi by (intro ceiling_unique) auto
  moreover have "0 < v" using lo by (metis le_less_trans of_nat_0_le_iff)
  ultimately show thesis using v(1) pos by (intro that [of v]) (auto simp: round_f64_def)
qed

section \<open>Parsing of decimal numbers\<close>

lemma parse_f64_dec: "n < 2 ^ 53 \<Longrightarrow> parse_f64 (dec n) = Some (Finite (of_nat n))"
proof -
  assume n: "n < 2 ^ 53"
  have digits: "list_all is_ascii_digit (dec n)" by (auto simp: list_all_iff dec_digits)
  obtain c cs where c: "dec n = c # cs" by (cases "dec n") simp_all
  have dc: "is_ascii_digit c" using digits c by simp
  then have sign: "c \<noteq> CHR ''-''" "c \<noteq> CHR ''+''" "to_ascii_lowercase c \<noteq> CHR ''i''"
    "to_ascii_lowercase c \<noteq> CHR ''n''"
    by (auto simp: char_class_defs to_ascii_lowercase_def)
  have "takeWhile is_ascii_digit (dec n) = dec n"
    using digits by (simp add: list_all_iff)
  moreover have "dropWhile is_ascii_digit (dec n) = []"
    using digits by (simp add: list_all_iff)
  ultimately have number: "parse_number (dec n) = Some (of_nat n)"
    by (simp only: parse_number_def Let_def) (simp add: dec_value_def)
  show ?thesis
    using c sign number by (simp add: parse_f64_def Let_def round_f64_nat [OF n])
qed

lemma cpu_limit_millis_lemma:
  assumes "0 < n" and "n \<le> 10 ^ 12"
  shows "cpu_limit_to_lxd (dec n @ ''m'') = Inr (dec ((n + 999) div 1000))"
proof -
  obtain v where v: "round_f64 (of_nat n / 1000) = Finite v" "0 < v" "\<lceil>v\<rceil> = int ((n + 999) div 1000)"
    using ceiling_millis [OF assms] by blast
  have "n < 2 ^ 53" using assms by simp
  then have "cpu_cores (dec n @ ''m'') = Inr (Finite v)"
    by (simp add: cpu_cores_def strip_suffix_append parse_f64_dec ok_or_def result_bind_def div_f64_def v(1))
  moreover have "(n + 999) div 1000 \<ge> 1" "(n + 999) div 1000 \<le> 2 ^ 64 - 1" using assms by auto
  ultimately show ?thesis
    using v(2,3) by (simp add: cpu_limit_to_lxd_def result_bind_def is_finite_def le_f64_def
        ceil_f64_def to_unsigned_def)
qed

section \<open>Properties\<close>

text \<open>Claim C18. A CPU quantity in millicores becomes the number of whole cores that covers it, exactly,
  for every quantity up to \<open>10 ^ 12\<close>: the division in binary64 and its rounding never change the
  ceiling.\<close>

theorem cpu_limit_millicores_exact:
  assumes "0 < n" and "n \<le> 10 ^ 12"
  shows "cpu_limit_to_lxd (dec n @ ''m'') = Inr (dec ((n + 999) div 1000))"
  using assms by (rule cpu_limit_millis_lemma)

theorem cpu_limit_millicores_exact_witness: "cpu_limit_to_lxd (dec 1001 @ ''m'') = Inr (dec ((1001 + 999) div 1000))"
  by (rule cpu_limit_millicores_exact) simp_all

lemma memory_suffix_cases:
  "memory_suffix q ss = None \<longleftrightarrow> (\<forall>s \<in> set ss. \<not> ends_with q s)"
  "memory_suffix q ss = Some (Inr v) \<Longrightarrow> v = q @ ''B'' \<and> (\<exists>s d. s \<in> set ss \<and> q = d @ s \<and> d \<noteq> [] \<and> list_all is_ascii_digit d)"
  by (induction q ss rule: memory_suffix.induct)
    (auto simp: ends_with_def strip_suffix_eq_Some split: option.splits if_splits)

lemma memory_suffix_digits:
  "s \<in> set SUFFIXES \<Longrightarrow> d \<noteq> [] \<Longrightarrow> list_all is_ascii_digit d
   \<Longrightarrow> memory_suffix (d @ s) SUFFIXES = Some (Inr (d @ s @ ''B''))"
  by (auto simp: SUFFIXES_def strip_suffix_def)

text \<open>A memory quantity is accepted exactly when it is a number of bytes or a number with an
  IEC suffix, and LXD gets the same quantity, with \<open>B\<close> appended to a suffixed one.\<close>

lemma memory_limit_accepts:
  "memory_limit_to_lxd q = Inr v \<longleftrightarrow>
     (\<exists>d s. s \<in> set SUFFIXES \<and> q = d @ s \<and> d \<noteq> [] \<and> list_all is_ascii_digit d \<and> v = q @ ''B'')
     \<or> q \<noteq> [] \<and> list_all is_ascii_digit q \<and> v = q"
proof
  assume "memory_limit_to_lxd q = Inr v"
  then show "(\<exists>d s. s \<in> set SUFFIXES \<and> q = d @ s \<and> d \<noteq> [] \<and> list_all is_ascii_digit d \<and> v = q @ ''B'')
     \<or> q \<noteq> [] \<and> list_all is_ascii_digit q \<and> v = q"
    by (auto simp: memory_limit_to_lxd_def split: option.splits if_splits dest!: memory_suffix_cases(2))
next
  assume "(\<exists>d s. s \<in> set SUFFIXES \<and> q = d @ s \<and> d \<noteq> [] \<and> list_all is_ascii_digit d \<and> v = q @ ''B'')
     \<or> q \<noteq> [] \<and> list_all is_ascii_digit q \<and> v = q"
  then show "memory_limit_to_lxd q = Inr v"
  proof (elim disjE exE conjE)
    fix d s assume "s \<in> set SUFFIXES" "q = d @ s" "d \<noteq> []" "list_all is_ascii_digit d" "v = q @ ''B''"
    then show ?thesis by (simp add: memory_limit_to_lxd_def memory_suffix_digits)
  next
    assume q: "q \<noteq> []" "list_all is_ascii_digit q" "v = q"
    have "\<not> ends_with q s" if "s \<in> set SUFFIXES" for s
      using that q(2) by (auto simp: SUFFIXES_def ends_with_iff is_ascii_digit_def)
    then have "memory_suffix q SUFFIXES = None" using memory_suffix_cases(1) by blast
    with q show ?thesis by (simp add: memory_limit_to_lxd_def)
  qed
qed

end
