(* ===== verification/Mapping.thy ===== *)
theory Mapping
  imports Resources Driver_Error Proto Json
begin

text \<open>
  Translation between sandboxes and LXD instances (\<open>openshell-driver-lxd/src/mapping.rs\<close>): the instance
  config, devices and profiles a create request becomes, and the sandbox an observed instance is
  reported as. Printing JSON is \<open>serde_json\<close>'s and a parameter.
\<close>

section \<open>Keys and guest paths\<close>

definition KEY_SANDBOX_ID :: string where "KEY_SANDBOX_ID = ''user.openshell.sandbox_id''"
definition KEY_NAMESPACE :: string where "KEY_NAMESPACE = ''user.openshell.namespace''"
definition KEY_WORKSPACE :: string where "KEY_WORKSPACE = ''user.openshell.workspace''"
definition LABEL_PREFIX :: string where "LABEL_PREFIX = ''user.openshell.label.''"
definition ENV_PREFIX :: string where "ENV_PREFIX = ''environment.''"
definition GUEST_SANDBOX_TOKEN_PATH :: string where
  "GUEST_SANDBOX_TOKEN_PATH = ''/etc/openshell/auth/sandbox.jwt''"
definition GUEST_SSH_SOCKET_PATH :: string where "GUEST_SSH_SOCKET_PATH = ''/run/openshell/ssh.sock''"
definition ENV_MAIN_PROCESS_SPEC :: string where "ENV_MAIN_PROCESS_SPEC = ''OPENSHELL_MAIN_PROCESS_SPEC''"
definition MAIN_PROCESS_SPEC_VERSION :: int where "MAIN_PROCESS_SPEC_VERSION = 1"
definition GUEST_TLS_CA_PATH :: string where "GUEST_TLS_CA_PATH = ''/etc/openshell/tls/client/ca.crt''"
definition GUEST_TLS_CERT_PATH :: string where "GUEST_TLS_CERT_PATH = ''/etc/openshell/tls/client/tls.crt''"
definition GUEST_TLS_KEY_PATH :: string where "GUEST_TLS_KEY_PATH = ''/etc/openshell/tls/client/tls.key''"
definition GUEST_SUPERVISOR_BIN_DIR :: string where "GUEST_SUPERVISOR_BIN_DIR = ''/opt/openshell/bin''"
definition GUEST_DHCP_CLIENT_DIR :: string where "GUEST_DHCP_CLIENT_DIR = ''/opt/openshell/net''"
definition KEY_STOP_INTENT :: string where "KEY_STOP_INTENT = ''user.openshell.stop_intent''"
definition KEY_LAST_POWER :: string where "KEY_LAST_POWER = ''volatile.last_state.power''"
definition CONDITION_EXITED :: string where "CONDITION_EXITED = ''ContainerExited''"
definition CONDITION_RUNTIME_RESTART :: string where "CONDITION_RUNTIME_RESTART = ''ContainerRuntimeRestart''"
definition CONDITION_STOPPED :: string where "CONDITION_STOPPED = ''ContainerStopped''"
definition CONDITION_CREATED :: string where "CONDITION_CREATED = ''ContainerCreated''"
definition CONDITION_STARTING :: string where "CONDITION_STARTING = ''ContainerStarting''"
definition CONDITION_PAUSED :: string where "CONDITION_PAUSED = ''ContainerPaused''"

lemmas key_defs = KEY_SANDBOX_ID_def KEY_NAMESPACE_def KEY_WORKSPACE_def LABEL_PREFIX_def
  ENV_PREFIX_def KEY_STOP_INTENT_def KEY_LAST_POWER_def ENV_MAIN_PROCESS_SPEC_def

lemmas condition_defs = CONDITION_EXITED_def CONDITION_RUNTIME_RESTART_def CONDITION_STOPPED_def
  CONDITION_CREATED_def CONDITION_STARTING_def CONDITION_PAUSED_def

section \<open>The main process\<close>

definition main_process_spec :: "(json \<Rightarrow> string) \<Rightarrow> driver_sandbox_spec \<Rightarrow> string" where
  "main_process_spec print spec =
     (let (command, tty, await_attachment) =
        (if spec_command spec = [] then ([''/bin/bash'', ''-l''], True, False)
         else (spec_command spec, spec_tty spec, spec_await_main_process_attachment spec))
      in print (Object [(''await_main_process_attachment'', Bool await_attachment),
           (''command'', Array (map Str command)), (''tty'', Bool tty),
           (''version'', Number MAIN_PROCESS_SPEC_VERSION)]))"

definition insert_guest_tls_environment :: "config_map \<Rightarrow> config_map" where
  "insert_guest_tls_environment config = extend_map config
     [(ENV_PREFIX @ ''OPENSHELL_TLS_CA'', GUEST_TLS_CA_PATH),
      (ENV_PREFIX @ ''OPENSHELL_TLS_CERT'', GUEST_TLS_CERT_PATH),
      (ENV_PREFIX @ ''OPENSHELL_TLS_KEY'', GUEST_TLS_KEY_PATH)]"

definition strip_sha256 :: "string \<Rightarrow> string" where
  "strip_sha256 digest = unwrap_or (strip_prefix ''sha256:'' digest) digest"

definition supervisor_volume_name :: "string \<Rightarrow> string" where
  "supervisor_volume_name digest = ''openshell-supervisor-'' @ strip_sha256 digest"

definition dhcp_client_volume_name :: "string \<Rightarrow> string" where
  "dhcp_client_volume_name digest = ''openshell-dhcp-client-'' @ strip_sha256 digest"

section \<open>Observed sandboxes\<close>

datatype stop_seen = Discovered | Live

definition stopped_by_the_runtime :: "lxd_instance \<Rightarrow> bool" where
  "stopped_by_the_runtime i \<longleftrightarrow>
     inst_status i = ''Stopped'' \<and> inst_config i KEY_STOP_INTENT = None
     \<and> is_some_and (inst_config i KEY_LAST_POWER) (\<lambda>power. power = ''RUNNING'')"

definition lxc_target :: "lxd_instance \<Rightarrow> string" where
  "lxc_target i =
     (if inst_project i = [] \<or> inst_project i = ''default'' then inst_name i
      else inst_name i @ '' --project '' @ inst_project i)"

text \<open>Status, reason and message of the \<open>Ready\<close> condition.\<close>

definition ready_parts :: "lxd_instance \<Rightarrow> stop_seen \<Rightarrow> string \<times> string \<times> string" where
  "ready_parts i seen =
     (let s = inst_status i in
      if s = ''Running'' \<or> s = ''Ready'' then (''True'', [], [])
      else if s = ''Stopped'' then
        (if inst_config i KEY_LAST_POWER = None then
           (''False'', CONDITION_CREATED, ''sandbox instance is created but has not started yet'')
         else if inst_config i KEY_STOP_INTENT \<noteq> None then
           (''False'', CONDITION_STOPPED, ''sandbox instance was stopped on request'')
         else if seen = Discovered \<and> stopped_by_the_runtime i then
           (''False'', CONDITION_RUNTIME_RESTART,
            ''LXD stopped the running sandbox instance (daemon or host shutdown) and has not started it again'')
         else
           (''False'', CONDITION_EXITED,
            ''sandbox supervisor exited and the instance stopped; its output is in `lxc console ''
              @ lxc_target i @ '' --show-log`''))
      else if s = ''Starting'' then (''False'', CONDITION_STARTING, ''sandbox instance is starting'')
      else if s = ''Frozen'' then (''False'', CONDITION_PAUSED, ''sandbox instance is frozen'')
      else if s = ''Error'' then
        (''False'', ''Error'',
         ''LXD reports the sandbox instance in an error state; see `lxc info '' @ lxc_target i @ '' --show-log`'')
      else (''Unknown'', ''Unknown'', ''LXD reports unrecognized instance status '' @ debug_str s))"

definition ready_condition :: "lxd_instance \<Rightarrow> stop_seen \<Rightarrow> driver_condition" where
  "ready_condition i seen =
     (let (status, reason, message) = ready_parts i seen
      in \<lparr>cond_type = ''Ready'', cond_status = status, cond_reason = reason, cond_message = message,
          cond_last_transition_time = []\<rparr>)"

definition to_driver_sandbox :: "lxd_instance \<Rightarrow> stop_seen \<Rightarrow> driver_sandbox" where
  "to_driver_sandbox i seen =
     \<lparr>sb_id = unwrap_or (inst_config i KEY_SANDBOX_ID) [],
      sb_name = inst_name i,
      sb_namespace = unwrap_or (inst_config i KEY_NAMESPACE) [],
      sb_spec = None,
      sb_status = Some \<lparr>st_sandbox_name = inst_name i, st_instance_id = inst_name i, st_agent_fd = [],
         st_sandbox_fd = [], st_conditions = [ready_condition i seen], st_deleting = False\<rparr>,
      sb_workspace = unwrap_or (inst_config i KEY_WORKSPACE) []\<rparr>"

definition instance_to_driver_sandbox :: "lxd_instance \<Rightarrow> driver_sandbox" where
  "instance_to_driver_sandbox i = to_driver_sandbox i Discovered"

definition instance_to_driver_sandbox_live :: "lxd_instance \<Rightarrow> driver_sandbox" where
  "instance_to_driver_sandbox_live i = to_driver_sandbox i Live"

section \<open>Fields of \<open>driver_config\<close>\<close>

definition struct_get :: "pb_struct option \<Rightarrow> string \<Rightarrow> kind option" where
  "struct_get s key = Option.bind s (\<lambda>fields. Option.bind (fields key) (\<lambda>k. k))"

definition struct_get_str :: "pb_struct option \<Rightarrow> string \<Rightarrow> string option" where
  "struct_get_str s key = (case struct_get s key of Some (StringValue v) \<Rightarrow> Some v | _ \<Rightarrow> None)"

definition struct_get_str_list :: "pb_struct option \<Rightarrow> string \<Rightarrow> string list" where
  "struct_get_str_list s key = (case struct_get s key of
      Some (ListValue vs) \<Rightarrow> List.map_filter (\<lambda>v. case v of Some (StringValue t) \<Rightarrow> Some t | _ \<Rightarrow> None) vs
    | _ \<Rightarrow> [])"

definition max_processes :: "driver_sandbox_template \<Rightarrow> nat option" where
  "max_processes t = (case struct_get (tpl_driver_config t) ''max_processes'' of
      Some (NumberValue n) \<Rightarrow>
        if is_finite n \<and> ge_f64 n 0 \<and> fract_is_zero n \<and> le_f64 n (2 ^ 32 - 1) then Some (to_unsigned 32 n)
        else None
    | Some (StringValue s) \<Rightarrow> parse_u32 s
    | _ \<Rightarrow> None)"

definition is_valid_label_key :: "string \<Rightarrow> bool" where
  "is_valid_label_key key \<longleftrightarrow> key \<noteq> []
     \<and> list_all (\<lambda>c. is_ascii_alphanumeric c \<or> c = CHR ''.'' \<or> c = CHR ''_'' \<or> c = CHR ''-'') key"

section \<open>Building an instance\<close>

definition env_entries :: "str_map \<Rightarrow> str_map" where
  "env_entries kvs = map (\<lambda>(k, v). (ENV_PREFIX @ k, v)) kvs"

fun insert_labels :: "config_map \<Rightarrow> str_map \<Rightarrow> (driver_error, config_map) result" where
  "insert_labels config [] = Inr config"
| "insert_labels config ((key, v) # rest) =
     (if \<not> is_valid_label_key key then
        Inl (InvalidArgument (''invalid label key '' @ debug_str key @ '': must match [a-zA-Z0-9._-]+''))
      else insert_labels (config(LABEL_PREFIX @ key \<mapsto> v)) rest)"

definition insert_limit ::
  "string \<Rightarrow> (string \<Rightarrow> (lxd_error, string) result) \<Rightarrow> string \<Rightarrow> config_map \<Rightarrow> (driver_error, config_map) result" where
  "insert_limit key convert quantity config =
     (if quantity = [] then Inr config
      else result_bind (map_err Lxd (convert quantity)) (\<lambda>v. Inr (config(key \<mapsto> v))))"

definition insert_resources ::
  "driver_resource_requirements option \<Rightarrow> config_map \<Rightarrow> (driver_error, config_map) result" where
  "insert_resources resources config = (case resources of
      None \<Rightarrow> Inr config
    | Some r \<Rightarrow>
        result_bind (insert_limit ''limits.cpu'' cpu_limit_to_lxd
          (if cpu_limit r \<noteq> [] then cpu_limit r else cpu_request r) config) (\<lambda>config.
        insert_limit ''limits.memory'' memory_limit_to_lxd
          (if memory_limit r \<noteq> [] then memory_limit r else memory_request r) config))"

definition driver_environment ::
  "(json \<Rightarrow> string) \<Rightarrow> driver_sandbox \<Rightarrow> driver_sandbox_spec \<Rightarrow> string \<Rightarrow> bool \<Rightarrow> str_map" where
  "driver_environment print sandbox spec gateway_endpoint has_token =
     [(ENV_PREFIX @ ''OPENSHELL_SANDBOX_ID'', sb_id sandbox),
      (ENV_PREFIX @ ''OPENSHELL_SANDBOX'', sb_name sandbox),
      (ENV_PREFIX @ ''OPENSHELL_SSH_SOCKET_PATH'', GUEST_SSH_SOCKET_PATH),
      (ENV_PREFIX @ ENV_MAIN_PROCESS_SPEC, main_process_spec print spec)]
     @ (if gateway_endpoint \<noteq> [] then [(ENV_PREFIX @ ''OPENSHELL_ENDPOINT'', gateway_endpoint)] else [])
     @ (if has_token then [(ENV_PREFIX @ ''OPENSHELL_SANDBOX_TOKEN_FILE'', GUEST_SANDBOX_TOKEN_PATH)] else [])"

definition build_create_config ::
  "(json \<Rightarrow> string) \<Rightarrow> driver_sandbox \<Rightarrow> driver_sandbox_spec \<Rightarrow> driver_sandbox_template \<Rightarrow> string \<Rightarrow> bool
   \<Rightarrow> nat \<Rightarrow> (driver_error, config_map) result"
where
  "build_create_config print sandbox spec template gateway_endpoint has_token default_max_processes =
     (let config = Map.empty(KEY_SANDBOX_ID \<mapsto> sb_id sandbox, KEY_NAMESPACE \<mapsto> sb_namespace sandbox,
            KEY_WORKSPACE \<mapsto> sb_workspace sandbox);
          config = extend_map config (env_entries (spec_environment spec));
          config = extend_map config (env_entries (tpl_environment template));
          config = extend_map config (driver_environment print sandbox spec gateway_endpoint has_token)
      in result_bind (insert_labels config (tpl_labels template)) (\<lambda>config.
         result_bind (insert_resources (tpl_resources template) config) (\<lambda>config.
         let n = unwrap_or (max_processes template) default_max_processes
         in Inr (if 0 < n then config(''limits.processes'' \<mapsto> dec n) else config))))"

record placement =
  pl_network :: string
  pl_storage_pool :: string

definition placement_resolve :: "driver_sandbox_template \<Rightarrow> string \<Rightarrow> string \<Rightarrow> placement" where
  "placement_resolve template default_network default_storage_pool =
     \<lparr>pl_network = unwrap_or (struct_get_str (tpl_driver_config template) ''network'') default_network,
      pl_storage_pool = unwrap_or (struct_get_str (tpl_driver_config template) ''storage_pool'') default_storage_pool\<rparr>"

definition nic_device :: "string \<Rightarrow> string option \<Rightarrow> config_map" where
  "nic_device network egress_acl =
     (let eth0 = Map.empty(''type'' \<mapsto> ''nic'', ''network'' \<mapsto> network)
      in case egress_acl of
           None \<Rightarrow> eth0
         | Some acl \<Rightarrow> eth0(''security.acls'' \<mapsto> acl,
             ''security.acls.default.egress.action'' \<mapsto> ''reject'',
             ''security.acls.default.ingress.action'' \<mapsto> ''reject''))"

definition volume_device :: "string \<Rightarrow> string \<Rightarrow> string \<Rightarrow> config_map" where
  "volume_device pool source path = Map.empty(''type'' \<mapsto> ''disk'', ''pool'' \<mapsto> pool, ''source'' \<mapsto> source,
     ''path'' \<mapsto> path, ''readonly'' \<mapsto> ''true'')"

definition build_create_devices ::
  "placement \<Rightarrow> string option \<Rightarrow> bool \<Rightarrow> string \<Rightarrow> string \<Rightarrow> string \<Rightarrow> string \<Rightarrow> device_map" where
  "build_create_devices placement egress_acl gpu supervisor_pool supervisor_volume dhcp_client_pool
     dhcp_client_volume =
     (let devices = Map.empty(
            ''root'' \<mapsto> Map.empty(''type'' \<mapsto> ''disk'', ''pool'' \<mapsto> pl_storage_pool placement, ''path'' \<mapsto> ''/''),
            ''eth0'' \<mapsto> nic_device (pl_network placement) egress_acl,
            ''supervisor'' \<mapsto> volume_device supervisor_pool supervisor_volume GUEST_SUPERVISOR_BIN_DIR,
            ''dhcp-client'' \<mapsto> volume_device dhcp_client_pool dhcp_client_volume GUEST_DHCP_CLIENT_DIR)
      in if gpu then devices(''gpu0'' \<mapsto> Map.empty(''type'' \<mapsto> ''gpu'', ''gputype'' \<mapsto> ''physical''))
         else devices)"

definition build_profiles :: "driver_sandbox_template \<Rightarrow> string list" where
  "build_profiles template = ''default'' # struct_get_str_list (tpl_driver_config template) ''profiles''"

section \<open>Laws of the observation\<close>

lemma ready_parts_message: "fst (ready_parts i seen) = ''True'' \<longleftrightarrow> snd (snd (ready_parts i seen)) = []"
  by (simp add: ready_parts_def Let_def debug_str_def)

lemma ready_parts_reason: "fst (ready_parts i seen) = ''True'' \<longleftrightarrow> fst (snd (ready_parts i seen)) = []"
  by (simp add: ready_parts_def Let_def condition_defs)

lemma ready_parts_restart:
  "fst (snd (ready_parts i seen)) = CONDITION_RUNTIME_RESTART \<longleftrightarrow>
     seen = Discovered \<and> stopped_by_the_runtime i"
  by (auto simp: ready_parts_def Let_def condition_defs stopped_by_the_runtime_def is_some_and_def
      split: option.splits)

lemma ready_condition_simps [simp]:
  "cond_status (ready_condition i seen) = fst (ready_parts i seen)"
  "cond_reason (ready_condition i seen) = fst (snd (ready_parts i seen))"
  "cond_message (ready_condition i seen) = snd (snd (ready_parts i seen))"
  by (simp_all add: ready_condition_def split: prod.split)

section \<open>Laws of the created config\<close>

lemma insert_labels_Inr:
  "insert_labels c kvs = Inr c' \<Longrightarrow>
     (\<forall>k. \<not> starts_with k LABEL_PREFIX \<longrightarrow> c' k = c k)
     \<and> dom c' = dom c \<union> (\<lambda>kv. LABEL_PREFIX @ fst kv) ` set kvs
     \<and> list_all (\<lambda>kv. is_valid_label_key (fst kv)) kvs"
proof (induction kvs arbitrary: c)
  case (Cons kv kvs)
  obtain k v where kv: "kv = (k, v)" by (cases kv)
  with Cons.prems have "is_valid_label_key k" "insert_labels (c(LABEL_PREFIX @ k \<mapsto> v)) kvs = Inr c'"
    by (auto split: if_splits)
  with Cons.IH kv show ?case by (auto simp: starts_with_iff)
qed simp

lemma insert_limit_Inr:
  "insert_limit key f q c = Inr c' \<Longrightarrow> (\<forall>k. k \<noteq> key \<longrightarrow> c' k = c k) \<and> dom c' \<subseteq> insert key (dom c)"
  by (auto simp: insert_limit_def result_bind_eq_Inr split: if_splits)

lemma insert_resources_Inr:
  assumes "insert_resources r c = Inr c'"
  shows "(\<forall>k. k \<noteq> ''limits.cpu'' \<longrightarrow> k \<noteq> ''limits.memory'' \<longrightarrow> c' k = c k)
    \<and> dom c' \<subseteq> {''limits.cpu'', ''limits.memory''} \<union> dom c"
proof (cases r)
  case None
  with assms show ?thesis by (auto simp: insert_resources_def)
next
  case (Some q)
  with assms obtain d where
    d: "insert_limit ''limits.cpu'' cpu_limit_to_lxd (if cpu_limit q \<noteq> [] then cpu_limit q else cpu_request q) c = Inr d"
    and c': "insert_limit ''limits.memory'' memory_limit_to_lxd
      (if memory_limit q \<noteq> [] then memory_limit q else memory_request q) d = Inr c'"
    by (auto simp: insert_resources_def result_bind_eq_Inr)
  show ?thesis using insert_limit_Inr [OF d] insert_limit_Inr [OF c'] by auto
qed

text \<open>Quantities that cannot be converted are reported as such.\<close>

lemma memory_suffix_Inl: "memory_suffix q ss = Some (Inl e) \<Longrightarrow> \<exists>r. e = InvalidQuantity q r"
  by (induction q ss rule: memory_suffix.induct) (auto simp: invalid_def split: option.splits if_splits)

lemma memory_limit_Inl: "memory_limit_to_lxd q = Inl e \<Longrightarrow> \<exists>r. e = InvalidQuantity q r"
  by (auto simp: memory_limit_to_lxd_def invalid_def split: option.splits if_splits dest: memory_suffix_Inl)

text \<open>The config before labels and limits: the three markers and environment variables, the
  driver's own overriding the request's.\<close>

definition base_config ::
  "(json \<Rightarrow> string) \<Rightarrow> driver_sandbox \<Rightarrow> driver_sandbox_spec \<Rightarrow> driver_sandbox_template \<Rightarrow> string \<Rightarrow> bool \<Rightarrow> config_map"
where
  "base_config print sandbox spec template ep tok =
     extend_map (extend_map (extend_map (Map.empty(KEY_SANDBOX_ID \<mapsto> sb_id sandbox,
        KEY_NAMESPACE \<mapsto> sb_namespace sandbox, KEY_WORKSPACE \<mapsto> sb_workspace sandbox))
       (env_entries (spec_environment spec))) (env_entries (tpl_environment template)))
       (driver_environment print sandbox spec ep tok)"

lemma env_entries_keys: "k \<in> fst ` set (env_entries kvs) \<Longrightarrow> starts_with k ENV_PREFIX"
  by (auto simp: env_entries_def starts_with_iff)

lemma driver_environment_keys:
  "k \<in> fst ` set (driver_environment print sandbox spec ep tok) \<Longrightarrow> starts_with k ENV_PREFIX"
  by (auto simp: driver_environment_def starts_with_iff split: if_splits)

lemma base_config_marker:
  assumes "\<not> starts_with k ENV_PREFIX"
  shows "base_config print sandbox spec template ep tok k =
    (Map.empty(KEY_SANDBOX_ID \<mapsto> sb_id sandbox, KEY_NAMESPACE \<mapsto> sb_namespace sandbox,
       KEY_WORKSPACE \<mapsto> sb_workspace sandbox)) k"
  unfolding base_config_def
  using assms env_entries_keys driver_environment_keys
  by (metis extend_notin)

lemma distinct_driver_environment: "distinct (map fst (driver_environment print sandbox spec ep tok))"
  by (simp add: driver_environment_def ENV_MAIN_PROCESS_SPEC_def)

lemma base_config_driver:
  assumes "(k, v) \<in> set (driver_environment print sandbox spec ep tok)"
  shows "base_config print sandbox spec template ep tok k = Some v"
  unfolding base_config_def
  using extend_map_lookup [OF distinct_driver_environment] map_of_is_SomeI [OF distinct_driver_environment assms]
  by simp

lemma dom_base_config:
  "k \<in> dom (base_config print sandbox spec template ep tok) \<Longrightarrow>
     k \<in> {KEY_SANDBOX_ID, KEY_NAMESPACE, KEY_WORKSPACE} \<or> starts_with k ENV_PREFIX"
  using base_config_marker by (cases "starts_with k ENV_PREFIX") (auto simp: dom_def split: if_splits)

text \<open>What a successful build is made of.\<close>

lemma build_create_config_Inr:
  assumes "build_create_config print sandbox spec template ep tok n = Inr c"
  obtains c1 c2 where
    "insert_labels (base_config print sandbox spec template ep tok) (tpl_labels template) = Inr c1"
    and "insert_resources (tpl_resources template) c1 = Inr c2"
    and "c = (if 0 < unwrap_or (max_processes template) n
              then c2(''limits.processes'' \<mapsto> dec (unwrap_or (max_processes template) n)) else c2)"
  using assms by (auto simp: build_create_config_def base_config_def Let_def result_bind_eq_Inr)

lemma build_create_config_keeps:
  assumes "build_create_config print sandbox spec template ep tok n = Inr c"
    and "\<not> starts_with k LABEL_PREFIX" and "\<not> starts_with k ''limits.''"
  shows "c k = base_config print sandbox spec template ep tok k"
proof -
  obtain c1 c2 where c1: "insert_labels (base_config print sandbox spec template ep tok) (tpl_labels template) = Inr c1"
    and c2: "insert_resources (tpl_resources template) c1 = Inr c2"
    and c: "c = (if 0 < unwrap_or (max_processes template) n
        then c2(''limits.processes'' \<mapsto> dec (unwrap_or (max_processes template) n)) else c2)"
    using build_create_config_Inr [OF assms(1)] by blast
  have "k \<noteq> ''limits.cpu''" "k \<noteq> ''limits.memory''" "k \<noteq> ''limits.processes''"
    using assms(3) by (auto simp: starts_with_iff)
  then show ?thesis
    using insert_labels_Inr [OF c1] insert_resources_Inr [OF c2] assms(2) unfolding c by simp
qed

lemma build_create_config_dom:
  assumes "build_create_config print sandbox spec template ep tok n = Inr c" and "k \<in> dom c"
  shows "k \<in> {KEY_SANDBOX_ID, KEY_NAMESPACE, KEY_WORKSPACE} \<or> starts_with k ENV_PREFIX
    \<or> (\<exists>key. k = LABEL_PREFIX @ key \<and> is_valid_label_key key)
    \<or> k \<in> {''limits.cpu'', ''limits.memory'', ''limits.processes''}"
proof -
  obtain c1 c2 where c1: "insert_labels (base_config print sandbox spec template ep tok) (tpl_labels template) = Inr c1"
    and c2: "insert_resources (tpl_resources template) c1 = Inr c2"
    and c: "c = (if 0 < unwrap_or (max_processes template) n
        then c2(''limits.processes'' \<mapsto> dec (unwrap_or (max_processes template) n)) else c2)"
    using build_create_config_Inr [OF assms(1)] by blast
  have "k \<in> {''limits.cpu'', ''limits.memory'', ''limits.processes''} \<or> k \<in> dom c1"
    using assms(2) insert_resources_Inr [OF c2] unfolding c by (auto split: if_splits)
  moreover have "k \<in> dom c1 \<Longrightarrow> k \<in> dom (base_config print sandbox spec template ep tok)
      \<or> (\<exists>key. k = LABEL_PREFIX @ key \<and> is_valid_label_key key)"
    using insert_labels_Inr [OF c1] by (auto simp: list_all_iff)
  ultimately show ?thesis using dom_base_config by blast
qed

section \<open>Properties\<close>



text \<open>A request that tries to smuggle an option through its environment and labels.\<close>

definition sample_template :: driver_sandbox_template where
  "sample_template = default_template\<lparr>tpl_labels := [(''team'', ''core'')],
     tpl_environment := [(''OPENSHELL_SANDBOX_ID'', ''forged''), (''HOME'', ''/root'')],
     tpl_resources := Some \<lparr>cpu_request = ''500m'', cpu_limit = [], memory_request = [], memory_limit = ''512Mi''\<rparr>\<rparr>"

definition sample_sandbox :: driver_sandbox where
  "sample_sandbox = default_sandbox\<lparr>sb_id := ''id-1'', sb_name := ''box'', sb_namespace := ''ns'',
     sb_workspace := ''ws''\<rparr>"

definition sample_config :: "config_map" where
  "sample_config = projr (build_create_config (\<lambda>_. ''spec'') sample_sandbox default_spec sample_template
     ''https://gw:1'' True 7)"

lemma sample_cpu: "cpu_limit_to_lxd ''500m'' = Inr ''1''"
proof -
  have "''500'' = dec 500" by (simp add: dec.simps)
  then have "''500m'' = dec 500 @ ''m''" by simp
  then have "cpu_limit_to_lxd ''500m'' = Inr (dec ((500 + 999) div 1000))"
    by (simp only:) (rule cpu_limit_millis_lemma; simp)
  also have "dec ((500 + 999) div 1000) = ''1''" by (simp add: dec.simps)
  finally show ?thesis .
qed

lemma sample_memory: "memory_limit_to_lxd ''512Mi'' = Inr ''512MiB''"
  by (simp add: memory_limit_to_lxd_def SUFFIXES_def strip_suffix_def is_ascii_digit_def)

lemma sample_config_ok:
  "build_create_config (\<lambda>_. ''spec'') sample_sandbox default_spec sample_template ''https://gw:1'' True 7
     = Inr sample_config"
proof -
  have "\<exists>c. build_create_config (\<lambda>_. ''spec'') sample_sandbox default_spec sample_template ''https://gw:1'' True 7 = Inr c"
    by (simp add: build_create_config_def sample_template_def default_template_def is_valid_label_key_def
        char_class_defs insert_resources_def insert_limit_def result_bind_def map_err_def sample_cpu sample_memory
        Let_def)
  then show ?thesis by (auto simp: sample_config_def)
qed




text \<open>A request the mapping refuses is the caller's mistake: every error it returns is an \<open>InvalidArgument\<close>
  status.\<close>

lemma insert_labels_Inl: "insert_labels c kvs = Inl e \<Longrightarrow> \<exists>m. e = InvalidArgument m"
  by (induction c kvs rule: insert_labels.induct) (auto split: if_splits)

lemma insert_limit_Inl:
  "insert_limit key f q c = Inl e \<Longrightarrow> (\<And>e. f q = Inl e \<Longrightarrow> \<exists>r. e = InvalidQuantity q r)
   \<Longrightarrow> \<exists>q r. e = Lxd (InvalidQuantity q r)"
  by (cases "f q") (auto simp: insert_limit_def result_bind_def map_err_def split: if_splits)

lemma cpu_limit_Inl: "cpu_limit_to_lxd q = Inl e \<Longrightarrow> \<exists>r. e = InvalidQuantity q r"
  by (auto simp: cpu_limit_to_lxd_def cpu_cores_def result_bind_def ok_or_def invalid_def
      split: sum.splits option.splits if_splits)

lemma insert_resources_Inl: "insert_resources r c = Inl e \<Longrightarrow> \<exists>q r. e = Lxd (InvalidQuantity q r)"
  by (auto simp: insert_resources_def result_bind_def split: option.splits sum.splits
      dest!: insert_limit_Inl intro: cpu_limit_Inl memory_limit_Inl)

lemma create_config_errors_invalid_argument:
  assumes "build_create_config print sandbox spec template ep tok n = Inl e"
  shows "status_code (status_of_error e) = Code_InvalidArgument"
proof -
  have "(\<exists>m. e = InvalidArgument m) \<or> (\<exists>q r. e = Lxd (InvalidQuantity q r))"
    using assms unfolding build_create_config_def Let_def
    by (auto simp: result_bind_def split: sum.splits dest: insert_labels_Inl insert_resources_Inl)
  then show ?thesis by (auto simp: status_invalid_argument)
qed

text \<open>Claim C22. An instance that carries the config a request was turned into is observed as the
  sandbox that was asked for: same id, name, namespace and workspace.\<close>

theorem create_observe_roundtrip:
  assumes "build_create_config print sandbox spec template ep tok n = Inr c"
    and "inst_name i = sb_name sandbox"
    and "\<And>k. k \<in> {KEY_SANDBOX_ID, KEY_NAMESPACE, KEY_WORKSPACE} \<Longrightarrow> inst_config i k = c k"
  shows "sb_id (to_driver_sandbox i seen) = sb_id sandbox \<and> sb_name (to_driver_sandbox i seen) = sb_name sandbox
    \<and> sb_namespace (to_driver_sandbox i seen) = sb_namespace sandbox
    \<and> sb_workspace (to_driver_sandbox i seen) = sb_workspace sandbox"
proof -
  have "c k = base_config print sandbox spec template ep tok k" if "k \<in> {KEY_SANDBOX_ID, KEY_NAMESPACE, KEY_WORKSPACE}" for k
    by (rule build_create_config_keeps [OF assms(1)]) (use that in \<open>auto simp: key_defs starts_with_iff\<close>)
  moreover have "base_config print sandbox spec template ep tok KEY_SANDBOX_ID = Some (sb_id sandbox)"
    "base_config print sandbox spec template ep tok KEY_NAMESPACE = Some (sb_namespace sandbox)"
    "base_config print sandbox spec template ep tok KEY_WORKSPACE = Some (sb_workspace sandbox)"
    by (subst base_config_marker; simp add: key_defs starts_with_iff)+
  ultimately show ?thesis using assms(2,3) by (simp add: to_driver_sandbox_def unwrap_or_def)
qed

definition sample_instance :: lxd_instance where
  "sample_instance = \<lparr>inst_name = ''box'', inst_description = [], inst_status = ''Running'',
     inst_status_code = 103, inst_architecture = ''x86_64'', inst_ephemeral = False, inst_profiles = [],
     inst_config = sample_config, inst_devices = Map.empty, inst_type = ''container'', inst_project = []\<rparr>"

theorem create_observe_roundtrip_witness:
  "sb_id (to_driver_sandbox sample_instance Live) = ''id-1'' \<and> sb_name (to_driver_sandbox sample_instance Live) = ''box''
   \<and> sb_namespace (to_driver_sandbox sample_instance Live) = ''ns''
   \<and> sb_workspace (to_driver_sandbox sample_instance Live) = ''ws''"
  using create_observe_roundtrip [OF sample_config_ok, of sample_instance Live]
  by (simp add: sample_instance_def sample_sandbox_def default_sandbox_def)


end
