(* ===== verification/Gc.thy ===== *)
theory Gc
  imports Image Mapping
begin

text \<open>
  Clean-up (\<open>openshell-driver-lxd/src/gc.rs\<close>): which images and volumes are stale, and the collector
  that removes them from LXD and from the host. Failures are logged and skipped, so the collector
  itself returns no error.
\<close>

section \<open>What is stale\<close>

definition STALE_SCRATCH_AGE :: nat where
  "STALE_SCRATCH_AGE = 24 * 60 * 60"

definition SCRATCH_PREFIXES :: "string list" where
  "SCRATCH_PREFIXES = [''openshell-oci-import-'', ''openshell-supervisor-extract-'']"

record collected =
  col_images :: nat
  col_volumes :: nat

definition is_digest :: "string \<Rightarrow> bool" where
  "is_digest s \<longleftrightarrow> length s = 64 \<and> list_all is_ascii_hexdigit s"

definition is_older_revision_alias :: "string \<Rightarrow> string \<Rightarrow> bool" where
  "is_older_revision_alias alias prefix = (case strip_prefix prefix alias of
      None \<Rightarrow> False
    | Some rest \<Rightarrow>
        (case Option.bind (strip_prefix ''r'' rest) (split_once (CHR ''-'')) of
           Some (revision, digest) \<Rightarrow>
             (case parse_u32 revision of
                Some n \<Rightarrow> n < CONVERSION_REVISION \<and> is_digest digest
              | None \<Rightarrow> is_digest rest)
         | None \<Rightarrow> is_digest rest))"

definition is_stale_image :: "image \<Rightarrow> string \<Rightarrow> string \<Rightarrow> bool" where
  "is_stale_image i project prefix \<longleftrightarrow>
     img_project i = project \<and> img_aliases i \<noteq> []
     \<and> list_all (\<lambda>a. is_older_revision_alias a prefix) (img_aliases i)"

definition is_unused_aux_volume :: "storage_volume \<Rightarrow> string \<Rightarrow> string list \<Rightarrow> bool" where
  "is_unused_aux_volume v project keep \<longleftrightarrow>
     vol_project v = project
     \<and> (starts_with (vol_name v) (supervisor_volume_name [])
        \<or> starts_with (vol_name v) (dhcp_client_volume_name []))
     \<and> vol_used_by v = [] \<and> vol_name v \<notin> set keep"

section \<open>Collecting\<close>

fun collect_images :: "env \<Rightarrow> lxd_client \<Rightarrow> image list \<Rightarrow> collected \<Rightarrow> collected action" where
  "collect_images E cl [] c = return c"
| "collect_images E cl (i # rest) c =
     await (await_ok (delete_image E cl (img_fingerprint i)) (\<lambda>op. lxd_wait_operation E cl (op_id op))) (\<lambda>r. case r of
        Inr _ \<Rightarrow> collect_images E cl rest (c\<lparr>col_images := col_images c + 1\<rparr>)
      | Inl _ \<Rightarrow> collect_images E cl rest c)"

fun collect_volumes :: "env \<Rightarrow> lxd_client \<Rightarrow> string \<Rightarrow> storage_volume list \<Rightarrow> collected \<Rightarrow> collected action" where
  "collect_volumes E cl pool [] c = return c"
| "collect_volumes E cl pool (v # rest) c =
     await (delete_custom_volume E cl pool (vol_name v) (vol_location v)) (\<lambda>r. case r of
        Inr _ \<Rightarrow> collect_volumes E cl pool rest (c\<lparr>col_volumes := col_volumes c + 1\<rparr>)
      | Inl _ \<Rightarrow> collect_volumes E cl pool rest c)"

fun collect_pools :: "env \<Rightarrow> lxd_client \<Rightarrow> string list \<Rightarrow> string list \<Rightarrow> collected \<Rightarrow> collected action" where
  "collect_pools E cl keep [] c = return c"
| "collect_pools E cl keep (pool # pools) c =
     await (list_custom_volumes E cl pool) (\<lambda>r. case r of
        Inl _ \<Rightarrow> collect_pools E cl keep pools c
      | Inr volumes \<Rightarrow>
          await (collect_volumes E cl pool
              (filter (\<lambda>v. is_unused_aux_volume v (cl_project cl) keep) volumes) c) (\<lambda>c'.
          collect_pools E cl keep pools c'))"

definition collect :: "env \<Rightarrow> lxd_client \<Rightarrow> string \<Rightarrow> string list option \<Rightarrow> collected action" where
  "collect E cl alias_prefix keep_volumes =
     await (await (list_images E cl) (\<lambda>r. case r of
         Inr images \<Rightarrow> collect_images E cl
           (filter (\<lambda>i. is_stale_image i (cl_project cl) alias_prefix) images) \<lparr>col_images = 0, col_volumes = 0\<rparr>
       | Inl _ \<Rightarrow> return \<lparr>col_images = 0, col_volumes = 0\<rparr>)) (\<lambda>c.
     case keep_volumes of
       None \<Rightarrow> return c
     | Some keep \<Rightarrow>
         await (list_storage_pools E cl) (\<lambda>p. case p of
            Inl _ \<Rightarrow> return c
          | Inr pools \<Rightarrow> collect_pools E cl keep pools c))"

definition collect_lxd :: "env \<Rightarrow> lxd_client \<Rightarrow> string \<Rightarrow> string list \<Rightarrow> collected action" where
  "collect_lxd E cl alias_prefix keep_volumes = collect E cl alias_prefix (Some keep_volumes)"

definition collect_lxd_images_only :: "env \<Rightarrow> lxd_client \<Rightarrow> string \<Rightarrow> collected action" where
  "collect_lxd_images_only E cl alias_prefix = collect E cl alias_prefix None"

section \<open>The host\<close>

definition gc_read_dir :: "env \<Rightarrow> string \<Rightarrow> string list action" where
  "gc_read_dir E dir =
     await (fs_names E (Read_Dir dir)) (\<lambda>r. case r of
        Inr entries \<Rightarrow> return (List.map_filter (\<lambda>e. case e of Inr n \<Rightarrow> Some n | Inl _ \<Rightarrow> None) entries)
      | Inl _ \<Rightarrow> return [])"

definition gc_remove :: "env \<Rightarrow> string \<Rightarrow> bool action" where
  "gc_remove E path = await (fs_do E (Remove_Dir_All path)) (\<lambda>r. return (succeeded r))"

fun remove_binaries :: "env \<Rightarrow> string \<Rightarrow> string \<Rightarrow> string list \<Rightarrow> nat \<Rightarrow> nat action" where
  "remove_binaries E dir current [] removed = return removed"
| "remove_binaries E dir current (name # names) removed =
     (if is_digest name \<and> name \<noteq> current then
        await (gc_remove E (path_join dir name)) (\<lambda>b.
        remove_binaries E dir current names (if b then removed + 1 else removed))
      else remove_binaries E dir current names removed)"

fun remove_scratch :: "env \<Rightarrow> string \<Rightarrow> string list \<Rightarrow> nat \<Rightarrow> nat action" where
  "remove_scratch E dir [] removed = return removed"
| "remove_scratch E dir (name # names) removed =
     (if \<not> list_ex (\<lambda>p. starts_with name p) SCRATCH_PREFIXES then remove_scratch E dir names removed
      else
        await (fs_stat E (Symlink_Metadata (path_join dir name))) (\<lambda>m.
        let age = (case m of Inr metadata \<Rightarrow> meta_age_secs metadata | Inl _ \<Rightarrow> None)
        in if is_some_and age (\<lambda>a. STALE_SCRATCH_AGE < a) then
             await (gc_remove E (path_join dir name)) (\<lambda>b.
             remove_scratch E dir names (if b then removed + 1 else removed))
           else remove_scratch E dir names removed))"

definition collect_host :: "env \<Rightarrow> string \<Rightarrow> string option \<Rightarrow> string \<Rightarrow> nat action" where
  "collect_host E supervisor_cache_dir current_supervisor_digest work_dir =
     await (case current_supervisor_digest of
         None \<Rightarrow> return 0
       | Some current \<Rightarrow>
           await (gc_read_dir E supervisor_cache_dir) (\<lambda>names.
           remove_binaries E supervisor_cache_dir (clean_digest current) names 0)) (\<lambda>removed.
     await (gc_read_dir E work_dir) (\<lambda>names.
     remove_scratch E work_dir names removed))"

section \<open>Laws\<close>

text \<open>The alias of the current revision is not an older one, whatever the digest.\<close>

lemma parse_revision: "parse_u32 (dec CONVERSION_REVISION) = Some CONVERSION_REVISION"
  by (rule parse_dec) (simp add: CONVERSION_REVISION_def)

lemma current_alias_kept: "\<not> is_older_revision_alias (cache_alias_with_prefix prefix digest) prefix"
proof -
  have "CHR ''-'' \<notin> set (dec CONVERSION_REVISION)" by (rule sep_not_in_dec) (simp add: is_ascii_digit_def)
  then have "split_once (CHR ''-'') (dec CONVERSION_REVISION @ CHR ''-'' # d) = Some (dec CONVERSION_REVISION, d)" for d
    by (rule split_once_append)
  then show ?thesis
    using parse_revision
    by (simp add: is_older_revision_alias_def cache_alias_with_prefix_def)
qed

text \<open>An older alias is one of a lower revision or of the releases without one.\<close>

lemma older_alias_iff:
  assumes "n < 2 ^ 32" and "is_digest d"
  shows "is_older_revision_alias (prefix @ ''r'' @ dec n @ ''-'' @ d) prefix \<longleftrightarrow> n < CONVERSION_REVISION"
proof -
  have "CHR ''-'' \<notin> set (dec n)" by (rule sep_not_in_dec) (simp add: is_ascii_digit_def)
  then have "split_once (CHR ''-'') (dec n @ CHR ''-'' # d) = Some (dec n, d)" by (rule split_once_append)
  then show ?thesis using parse_dec [OF assms(1)] assms(2) by (simp add: is_older_revision_alias_def)
qed

lemma unused_volume_not_kept: "is_unused_aux_volume v project keep \<Longrightarrow> vol_name v \<notin> set keep"
  by (simp add: is_unused_aux_volume_def)

end
