(* ===== verification/Acls.thy ===== *)
theory Acls
  imports Lxd_Api
begin

text \<open>
  Network ACLs (\<open>lxd-client/src/acls.rs\<close>): the rules, their JSON form, and the idempotent
  \<open>ensure_network_acl\<close>. A \<open>serde_json\<close> map keeps its keys sorted, so two objects with the same
  entries are the same value; the objects here are written in that order.
\<close>

section \<open>Rules\<close>

datatype acl_action = Allow | Drop | Reject
datatype acl_protocol = Tcp | Udp | Icmp
datatype acl_state = Enabled | Disabled

definition show_action :: "acl_action \<Rightarrow> string" where
  "show_action a = (case a of Allow \<Rightarrow> ''allow'' | Drop \<Rightarrow> ''drop'' | Reject \<Rightarrow> ''reject'')"

definition show_protocol :: "acl_protocol \<Rightarrow> string" where
  "show_protocol p = (case p of Tcp \<Rightarrow> ''tcp'' | Udp \<Rightarrow> ''udp'' | Icmp \<Rightarrow> ''icmp'')"

definition show_state :: "acl_state \<Rightarrow> string" where
  "show_state s = (case s of Enabled \<Rightarrow> ''enabled'' | Disabled \<Rightarrow> ''disabled'')"

record lxd_network_acl_rule =
  rule_action :: acl_action
  rule_destination :: string
  rule_destination_port :: string
  rule_protocol :: "acl_protocol option"
  rule_description :: string
  rule_state :: acl_state

definition allow_egress :: "string \<Rightarrow> acl_protocol option \<Rightarrow> string \<Rightarrow> lxd_network_acl_rule" where
  "allow_egress destination protocol destination_port =
     \<lparr>rule_action = Allow, rule_destination = destination, rule_destination_port = destination_port,
      rule_protocol = protocol, rule_description = [], rule_state = Enabled\<rparr>"

definition allow_egress_tcp :: "string \<Rightarrow> nat \<Rightarrow> lxd_network_acl_rule" where
  "allow_egress_tcp dest_cidr dest_port = allow_egress dest_cidr (Some Tcp) (dec dest_port)"

definition described :: "lxd_network_acl_rule \<Rightarrow> string \<Rightarrow> lxd_network_acl_rule" where
  "described r description = r\<lparr>rule_description := description\<rparr>"

definition rule_to_json :: "lxd_network_acl_rule \<Rightarrow> json" where
  "rule_to_json r = Object (map (\<lambda>(k, v). (k, Str v)) (filter (\<lambda>(k, v). v \<noteq> [])
     [(''action'', show_action (rule_action r)),
      (''description'', rule_description r),
      (''destination'', rule_destination r),
      (''destination_port'', rule_destination_port r),
      (''protocol'', unwrap_or (map_option show_protocol (rule_protocol r)) []),
      (''state'', show_state (rule_state r))]))"

section \<open>Ensuring an ACL\<close>

definition acl_description :: json where
  "acl_description = Str ''OpenShell sandbox egress policy''"

definition acl_update_body :: "lxd_network_acl_rule list \<Rightarrow> json" where
  "acl_update_body egress = Object [(''config'', Object []), (''description'', acl_description),
     (''egress'', Array (map rule_to_json egress)), (''ingress'', Array [])]"

definition acl_create_body :: "string \<Rightarrow> lxd_network_acl_rule list \<Rightarrow> json" where
  "acl_create_body name egress = Object [(''config'', Object []), (''description'', acl_description),
     (''egress'', Array (map rule_to_json egress)), (''ingress'', Array []), (''name'', Str name)]"

definition acl_rules :: "json \<Rightarrow> string \<Rightarrow> json list" where
  "acl_rules acl key = unwrap_or (Option.bind (get acl key) as_array) []"

definition acl_matches :: "json \<Rightarrow> json \<Rightarrow> bool" where
  "acl_matches current desired \<longleftrightarrow>
     get current ''description'' = get desired ''description''
     \<and> acl_rules current ''egress'' = acl_rules desired ''egress''
     \<and> acl_rules current ''ingress'' = acl_rules desired ''ingress''"

definition acl_path :: "string \<Rightarrow> string" where
  "acl_path name = ''/1.0/network-acls/'' @ name"

text \<open>Replacing the rules of an existing ACL and waiting for it.\<close>

definition acl_put_and_wait :: "env \<Rightarrow> lxd_client \<Rightarrow> string \<Rightarrow> json \<Rightarrow> (lxd_error, unit) fallible" where
  "acl_put_and_wait E cl name body =
     await_ok (metadata_of (lxd_put E cl de_operation (acl_path name) body)) (\<lambda>op.
     await_ok (lxd_wait_operation E cl (op_id op)) (\<lambda>_. ok ()))"

definition ensure_network_acl ::
  "env \<Rightarrow> lxd_client \<Rightarrow> string \<Rightarrow> lxd_network_acl_rule list \<Rightarrow> (lxd_error, unit) fallible" where
  "ensure_network_acl E cl name egress =
     await (lxd_get E cl de_value (acl_path name)) (\<lambda>r. case r of
        Inr response \<Rightarrow>
          lift_ok (into_metadata response) (\<lambda>current.
          if acl_matches current (acl_update_body egress) then ok ()
          else acl_put_and_wait E cl name (acl_update_body egress))
      | Inl (Api code msg) \<Rightarrow>
          if code = 404 then
            await (lxd_post E cl de_operation ''/1.0/network-acls'' (acl_create_body name egress)) (\<lambda>c. case c of
               Inr resp \<Rightarrow>
                 lift_ok (into_metadata resp) (\<lambda>op.
                 await_ok (lxd_wait_operation E cl (op_id op)) (\<lambda>_. ok ()))
             | Inl (Api code' msg') \<Rightarrow>
                 if code' = 409 then acl_put_and_wait E cl name (acl_update_body egress)
                 else err (Api code' msg')
             | Inl e \<Rightarrow> err e)
          else err (Api code msg)
      | Inl e \<Rightarrow> err e)"

definition delete_network_acl :: "env \<Rightarrow> lxd_client \<Rightarrow> string \<Rightarrow> (lxd_error, unit) fallible" where
  "delete_network_acl E cl name = delete_and_wait E cl (acl_path name)"

section \<open>Laws\<close>

text \<open>A rule written to LXD and read back compares equal, and different rules stay different.\<close>

lemma show_inject:
  "show_action a = show_action b \<longleftrightarrow> a = b" "show_protocol p = show_protocol q \<longleftrightarrow> p = q"
  "show_state s = show_state t \<longleftrightarrow> s = t" "show_action a \<noteq> []" "show_protocol p \<noteq> []" "show_state s \<noteq> []"
  by (auto simp: show_action_def show_protocol_def show_state_def
      split: acl_action.splits acl_protocol.splits acl_state.splits)

lemma get_rule_json:
  "get (rule_to_json r) ''description'' = (if rule_description r = [] then None else Some (Str (rule_description r)))"
  "get (rule_to_json r) ''destination'' = (if rule_destination r = [] then None else Some (Str (rule_destination r)))"
  "get (rule_to_json r) ''destination_port'' =
     (if rule_destination_port r = [] then None else Some (Str (rule_destination_port r)))"
  "get (rule_to_json r) ''action'' = Some (Str (show_action (rule_action r)))"
  "get (rule_to_json r) ''protocol'' = map_option (\<lambda>p. Str (show_protocol p)) (rule_protocol r)"
  "get (rule_to_json r) ''state'' = Some (Str (show_state (rule_state r)))"
  by (cases "rule_protocol r"; simp add: rule_to_json_def show_inject)+

lemma rule_to_json_inject: "rule_to_json r = rule_to_json s \<longleftrightarrow> r = (s :: lxd_network_acl_rule)"
proof
  assume eq: "rule_to_json r = rule_to_json s"
  have "rule_description r = rule_description s" "rule_destination r = rule_destination s"
    "rule_destination_port r = rule_destination_port s"
    using get_rule_json(1-3) [of r] get_rule_json(1-3) [of s] eq by (auto split: if_splits)
  moreover have "rule_action r = rule_action s" "rule_state r = rule_state s"
    using get_rule_json(4,6) [of r] get_rule_json(4,6) [of s] eq by (simp_all add: show_inject)
  moreover have "rule_protocol r = rule_protocol s"
    using get_rule_json(5) [of r] get_rule_json(5) [of s] eq
    by (cases "rule_protocol r"; cases "rule_protocol s") (simp_all add: show_inject)
  ultimately show "r = s" by simp
qed simp

lemma acl_rules_update_body [simp]:
  "acl_rules (acl_update_body egress) ''egress'' = map rule_to_json egress"
  "acl_rules (acl_update_body egress) ''ingress'' = []"
  by (simp_all add: acl_rules_def acl_update_body_def)

lemma acl_matches_update_body:
  "acl_matches (acl_update_body rs) (acl_update_body egress) \<longleftrightarrow> rs = egress"
proof -
  have "map rule_to_json rs = map rule_to_json egress \<longleftrightarrow> rs = egress"
    by (rule inj_map_eq_map) (auto simp: inj_def rule_to_json_inject)
  then show ?thesis unfolding acl_matches_def acl_rules_update_body
    by (simp add: acl_update_body_def)
qed

end
