(* ===== verification/Egress.thy ===== *)
theory Egress
  imports Acls "HOL-Library.List_Lexorder"
begin

text \<open>
  The egress ACL (\<open>openshell-driver-lxd/src/egress.rs\<close>): the rules that let a sandbox reach the gateway
  and the public internet, and the computation of the public IPv4 internet as CIDR blocks. Addresses
  and range bounds are natural numbers; every intermediate value stays below \<open>2 ^ 33\<close>, so the code's
  \<open>u64\<close> arithmetic does not wrap.
\<close>

section \<open>Constants\<close>

definition ACL_PREFIX :: string where
  "ACL_PREFIX = ''openshell-egress-''"

definition ipv4 :: "nat \<Rightarrow> nat \<Rightarrow> nat \<Rightarrow> nat \<Rightarrow> nat" where
  "ipv4 a b c d = of_octets [a, b, c, d]"

definition NON_PUBLIC_IPV4 :: "(nat \<times> nat) list" where
  "NON_PUBLIC_IPV4 =
     [(ipv4 0 0 0 0, 8), (ipv4 10 0 0 0, 8), (ipv4 100 64 0 0, 10), (ipv4 127 0 0 0, 8),
      (ipv4 169 254 0 0, 16), (ipv4 172 16 0 0, 12), (ipv4 192 0 0 0, 24), (ipv4 192 0 2 0, 24),
      (ipv4 192 88 99 0, 24), (ipv4 192 168 0 0, 16), (ipv4 198 18 0 0, 15), (ipv4 198 51 100 0, 24),
      (ipv4 203 0 113 0, 24), (ipv4 224 0 0 0, 4), (ipv4 240 0 0 0, 4)]"

definition PUBLIC_IPV6 :: string where
  "PUBLIC_IPV6 = ''2000::/3''"

definition acl_name :: "string \<Rightarrow> string" where
  "acl_name network = ACL_PREFIX @ network"

section \<open>The public IPv4 internet\<close>

text \<open>Removing \<open>[start, end]\<close> from \<open>[lo, hi]\<close>, both inclusive.\<close>

definition subtract_range :: "nat \<times> nat \<Rightarrow> nat \<times> nat \<Rightarrow> (nat \<times> nat) list" where
  "subtract_range gap r = (let (start, end') = gap; (lo, hi) = r in
     if end' < lo \<or> hi < start then [(lo, hi)]
     else (if lo < start then [(lo, start - 1)] else []) @ (if end' < hi then [(end' + 1, hi)] else []))"

definition cidr_range :: "nat \<times> nat \<Rightarrow> nat \<times> nat" where
  "cidr_range cidr = (let (address, prefix) = cidr in (address, address + 2 ^ (32 - prefix) - 1))"

definition public_ranges :: "(nat \<times> nat) list" where
  "public_ranges = foldl (\<lambda>ranges cidr. concat (map (subtract_range (cidr_range cidr)) ranges))
     [(0, 2 ^ 32 - 1)] NON_PUBLIC_IPV4"

fun trailing_zeros :: "nat \<Rightarrow> nat" where
  "trailing_zeros n = (if n = 0 then 64 else if even n then Suc (trailing_zeros (n div 2)) else 0)"

declare trailing_zeros.simps [simp del]

fun shrink :: "nat \<Rightarrow> nat \<Rightarrow> nat" where
  "shrink sz avail = (if avail < sz then shrink (sz div 2) avail else sz)"

declare shrink.simps [simp del]

definition block_size :: "nat \<Rightarrow> nat \<Rightarrow> nat" where
  "block_size start end' =
     shrink (if start = 0 then 2 ^ 32 else 2 ^ trailing_zeros start) (end' - start + 1)"

lemma shrink_power:
  "0 < avail \<Longrightarrow> \<exists>j\<le>k. shrink (2 ^ k) avail = 2 ^ j \<and> 2 ^ j \<le> avail"
proof (induction k)
  case 0
  then show ?case by (simp add: shrink.simps)
next
  case (Suc k)
  show ?case
  proof (cases "avail < 2 ^ Suc k")
    case True
    then have "shrink (2 ^ Suc k) avail = shrink (2 ^ k) avail" by (subst shrink.simps) simp
    with Suc show ?thesis by (metis le_SucI)
  next
    case False
    then show ?thesis by (intro exI [of _ "Suc k"]) (subst shrink.simps, simp)
  qed
qed

lemma block_size_power:
  assumes "start \<le> end'"
  obtains j where "block_size start end' = 2 ^ j" and "2 ^ j \<le> end' - start + 1"
    and "j \<le> (if start = 0 then 32 else trailing_zeros start)"
proof -
  let ?k = "if start = 0 then 32 else trailing_zeros start"
  have "block_size start end' = shrink (2 ^ ?k) (end' - start + 1)" by (simp add: block_size_def)
  then show thesis using shrink_power [of "end' - start + 1" ?k] that by force
qed

text \<open>The blocks of one range: address and prefix length.\<close>

function cidr_blocks :: "nat \<Rightarrow> nat \<Rightarrow> (nat \<times> nat) list" where
  "cidr_blocks start end' =
     (if start \<le> end' then
        (let sz = block_size start end'
         in (start, 32 - trailing_zeros sz) # cidr_blocks (start + sz) end')
      else [])"
  by pat_completeness auto

termination
proof (relation "measure (\<lambda>(start, end'). end' + 1 - start)")
  fix start end' sz :: nat
  assume "start \<le> end'" "sz = block_size start end'"
  moreover obtain j where "block_size start end' = 2 ^ j" using block_size_power [OF \<open>start \<le> end'\<close>] .
  ultimately have "0 < sz" by simp
  then show "((start + sz, end'), start, end') \<in> measure (\<lambda>(start, end'). end' + 1 - start)"
    using \<open>start \<le> end'\<close> by simp
qed simp

declare cidr_blocks.simps [simp del]

definition public_ipv4_blocks :: "(nat \<times> nat) list" where
  "public_ipv4_blocks = concat (map (\<lambda>(start, end'). cidr_blocks start end') public_ranges)"

definition show_cidr :: "nat \<times> nat \<Rightarrow> string" where
  "show_cidr block = show_ipv4 (fst block) @ ''/'' @ dec (snd block)"

definition public_ipv4_cidrs :: "string list" where
  "public_ipv4_cidrs = map show_cidr public_ipv4_blocks"

section \<open>The rules\<close>

definition join_addresses :: "ip_addr list \<Rightarrow> string" where
  "join_addresses addresses = join_str '','' (dedup (sort (map show_ip addresses)))"

definition gateway_rule :: "socket_addr list \<Rightarrow> nat \<Rightarrow> lxd_network_acl_rule" where
  "gateway_rule gateway port =
     described (allow_egress (join_addresses (map sa_ip (filter (\<lambda>a. sa_port a = port) gateway)))
       (Some Tcp) (dec port)) ''OpenShell gateway''"

definition egress_rules :: "socket_addr list \<Rightarrow> lxd_network_acl_rule list" where
  "egress_rules gateway =
     map (gateway_rule gateway) (dedup (sort (map sa_port gateway)))
     @ [described (allow_egress (join_str '','' public_ipv4_cidrs) None []) ''public IPv4 internet'',
        described (allow_egress PUBLIC_IPV6 None []) ''public IPv6 internet'']"

section \<open>Membership\<close>

definition in_ranges :: "nat \<Rightarrow> (nat \<times> nat) list \<Rightarrow> bool" where
  "in_ranges ip rs \<longleftrightarrow> list_ex (\<lambda>(lo, hi). lo \<le> ip \<and> ip \<le> hi) rs"

text \<open>An address is in a CIDR block when it has the same first \<open>prefix\<close> bits.\<close>

definition in_cidr :: "nat \<Rightarrow> nat \<times> nat \<Rightarrow> bool" where
  "in_cidr ip cidr \<longleftrightarrow> ip div 2 ^ (32 - snd cidr) = fst cidr div 2 ^ (32 - snd cidr)"

lemma in_ranges_simps [simp]:
  "in_ranges ip []  = False"
  "in_ranges ip ((lo, hi) # rs) \<longleftrightarrow> lo \<le> ip \<and> ip \<le> hi \<or> in_ranges ip rs"
  "in_ranges ip (rs @ rs') \<longleftrightarrow> in_ranges ip rs \<or> in_ranges ip rs'"
  by (auto simp: in_ranges_def)

lemma in_ranges_subtract:
  assumes "s \<le> e"
  shows "in_ranges ip (concat (map (subtract_range (s, e)) rs)) \<longleftrightarrow> in_ranges ip rs \<and> \<not> (s \<le> ip \<and> ip \<le> e)"
proof (induction rs)
  case (Cons r rs)
  obtain lo hi where r: "r = (lo, hi)" by (cases r)
  have "in_ranges ip (subtract_range (s, e) (lo, hi)) \<longleftrightarrow> lo \<le> ip \<and> ip \<le> hi \<and> \<not> (s \<le> ip \<and> ip \<le> e)"
    using assms by (auto simp: subtract_range_def)
  with Cons r show ?case by auto
qed simp

lemma in_ranges_foldl:
  assumes "list_all (\<lambda>c. fst (cidr_range c) \<le> snd (cidr_range c)) cs"
  shows "in_ranges ip (foldl (\<lambda>rs c. concat (map (subtract_range (cidr_range c)) rs)) rs0 cs)
    \<longleftrightarrow> in_ranges ip rs0 \<and> \<not> list_ex (\<lambda>c. fst (cidr_range c) \<le> ip \<and> ip \<le> snd (cidr_range c)) cs"
  using assms
proof (induction cs arbitrary: rs0)
  case (Cons c cs)
  obtain s e where c: "cidr_range c = (s, e)" by (cases "cidr_range c")
  with Cons.prems have "s \<le> e" by simp
  from in_ranges_subtract [OF this] Cons c show ?case by (auto simp: list_ex_iff)
qed simp

text \<open>A block aligned to its size is the range its address starts.\<close>

lemma in_cidr_aligned:
  assumes "2 ^ (32 - p) dvd a"
  shows "in_cidr ip (a, p) \<longleftrightarrow> a \<le> ip \<and> ip \<le> a + 2 ^ (32 - p) - 1"
proof -
  define m :: nat where "m = 2 ^ (32 - p)"
  have m: "0 < m" by (simp add: m_def)
  obtain q where q: "a = m * q" using assms by (auto simp: m_def dvd_def)
  have "ip div m = q \<longleftrightarrow> m * q \<le> ip \<and> ip < m * q + m"
    using m by (metis add.commute div_nat_eqI div_times_less_eq_dividend dividend_less_div_times
        mult.commute mult_Suc_right)
  then show ?thesis using m by (auto simp: in_cidr_def q m_def [symmetric])
qed

definition aligned_cidr :: "nat \<times> nat \<Rightarrow> bool" where
  "aligned_cidr cidr \<longleftrightarrow> snd cidr \<le> 32 \<and> 2 ^ (32 - snd cidr) dvd fst cidr
     \<and> fst cidr + 2 ^ (32 - snd cidr) \<le> 2 ^ 32"

lemma non_public_aligned: "list_all aligned_cidr NON_PUBLIC_IPV4"
  by (simp add: NON_PUBLIC_IPV4_def aligned_cidr_def ipv4_def of_octets_def)

lemma in_ranges_cidrs:
  assumes "list_all aligned_cidr cs"
  shows "in_ranges ip (foldl (\<lambda>rs c. concat (map (subtract_range (cidr_range c)) rs)) [(0, 2 ^ 32 - 1)] cs)
    \<longleftrightarrow> ip < 2 ^ 32 \<and> \<not> list_ex (in_cidr ip) cs"
proof -
  have "fst (cidr_range c) \<le> snd (cidr_range c)" for c
  proof -
    have "m \<le> m + k - 1" if "0 < k" for m k :: nat using that by linarith
    then show ?thesis by (simp add: cidr_range_def split_beta del: One_nat_def)
  qed
  then have "list_all (\<lambda>c. fst (cidr_range c) \<le> snd (cidr_range c)) cs"
    by (simp add: list_all_iff)
  moreover have "fst (cidr_range c) \<le> ip \<and> ip \<le> snd (cidr_range c) \<longleftrightarrow> in_cidr ip c" if "c \<in> set cs" for c
    using assms that in_cidr_aligned [of "snd c" "fst c" ip]
    by (cases c) (auto simp: list_all_iff aligned_cidr_def cidr_range_def)
  ultimately show ?thesis by (auto simp: in_ranges_foldl list_ex_iff)
qed

lemma in_public_ranges: "in_ranges ip public_ranges \<longleftrightarrow> ip < 2 ^ 32 \<and> \<not> list_ex (in_cidr ip) NON_PUBLIC_IPV4"
  unfolding public_ranges_def by (rule in_ranges_cidrs [OF non_public_aligned])

section \<open>The blocks cover the ranges exactly\<close>

lemma trailing_zeros_dvd: "0 < n \<Longrightarrow> 2 ^ trailing_zeros n dvd n"
proof (induction n rule: trailing_zeros.induct)
  case (1 n)
  show ?case
  proof (cases "even n")
    case True
    with 1 have "2 ^ trailing_zeros (n div 2) dvd n div 2" by (auto elim!: evenE)
    then have "2 * 2 ^ trailing_zeros (n div 2) dvd 2 * (n div 2)" by (rule mult_dvd_mono [OF dvd_refl])
    with True 1(2) show ?thesis by (subst trailing_zeros.simps) simp
  next
    case False
    then show ?thesis by (subst trailing_zeros.simps) auto
  qed
qed

lemma trailing_zeros_power: "trailing_zeros (2 ^ j) = j"
proof (induction j)
  case 0
  show ?case by (simp add: trailing_zeros.simps)
next
  case (Suc j)
  then show ?case by (subst trailing_zeros.simps) simp
qed

lemma block_size_props:
  assumes "start \<le> end'" and "end' < 2 ^ 32"
  obtains j where "block_size start end' = 2 ^ j" and "j \<le> 32" and "2 ^ j dvd start"
    and "start + 2 ^ j \<le> end' + 1"
proof -
  obtain j where j: "block_size start end' = 2 ^ j" "2 ^ j \<le> end' - start + 1"
    "j \<le> (if start = 0 then 32 else trailing_zeros start)"
    using block_size_power [OF assms(1)] .
  have dvd: "2 ^ j dvd start"
    using j(3) trailing_zeros_dvd [of start] by (cases "start = 0") (auto intro: power_le_dvd)
  have "2 ^ j \<le> end' + 1" using j(2) assms(1) by linarith
  then have "(2 :: nat) ^ j \<le> 2 ^ 32" using assms(2) by linarith
  then have "j \<le> 32" by (rule power_le_imp_le_exp [rotated]) simp
  with j(1,2) dvd assms(1) show thesis by (intro that) auto
qed

lemma cidr_blocks_aligned: "end' < 2 ^ 32 \<Longrightarrow> list_all aligned_cidr (cidr_blocks start end')"
proof (induction start end' rule: cidr_blocks.induct)
  case (1 start end')
  show ?case
  proof (cases "start \<le> end'")
    case True
    obtain j where j: "block_size start end' = 2 ^ j" "j \<le> 32" "2 ^ j dvd start" "start + 2 ^ j \<le> end' + 1"
      using block_size_props [OF True 1(2)] .
    then have "aligned_cidr (start, 32 - j)" using 1(2) by (simp add: aligned_cidr_def)
    with True j 1 show ?thesis by (subst cidr_blocks.simps) (simp add: Let_def trailing_zeros_power)
  qed (simp add: cidr_blocks.simps)
qed

lemma cidr_blocks_cover:
  "end' < 2 ^ 32 \<Longrightarrow> list_ex (in_cidr ip) (cidr_blocks start end') \<longleftrightarrow> start \<le> ip \<and> ip \<le> end'"
proof (induction start end' rule: cidr_blocks.induct)
  case (1 start end')
  show ?case
  proof (cases "start \<le> end'")
    case True
    obtain j where j: "block_size start end' = 2 ^ j" "j \<le> 32" "2 ^ j dvd start" "start + 2 ^ j \<le> end' + 1"
      using block_size_props [OF True 1(2)] .
    have blocks: "cidr_blocks start end' = (start, 32 - j) # cidr_blocks (start + 2 ^ j) end'"
      using True j by (subst cidr_blocks.simps) (simp add: Let_def trailing_zeros_power)
    have "in_cidr ip (start, 32 - j) \<longleftrightarrow> start \<le> ip \<and> ip \<le> start + 2 ^ j - 1"
      using j(2,3) in_cidr_aligned [of "32 - j" start ip] by simp
    moreover have "list_ex (in_cidr ip) (cidr_blocks (start + 2 ^ j) end') \<longleftrightarrow> start + 2 ^ j \<le> ip \<and> ip \<le> end'"
      using 1 True j(1) by metis
    moreover have "(0 :: nat) < 2 ^ j" by simp
    ultimately show ?thesis unfolding blocks using j(4) by auto
  next
    case False
    then show ?thesis by (simp add: cidr_blocks.simps)
  qed
qed

lemma subtract_range_bound:
  "snd r < b \<Longrightarrow> r' \<in> set (subtract_range gap r) \<Longrightarrow> snd r' < b"
  by (auto simp: subtract_range_def split: if_splits prod.splits)

lemma subtract_all_bound:
  assumes "\<And>r. r \<in> set rs0 \<Longrightarrow> snd r < b"
    and "r \<in> set (foldl (\<lambda>rs c. concat (map (subtract_range (cidr_range c)) rs)) rs0 cs)"
  shows "snd r < b"
  using assms
proof (induction cs arbitrary: rs0)
  case (Cons c cs)
  have "snd r' < b" if "r' \<in> set (concat (map (subtract_range (cidr_range c)) rs0))" for r'
    using that Cons.prems(1) by (auto dest: subtract_range_bound [rotated])
  then show ?case using Cons.prems(2) by (intro Cons.IH [of "concat (map (subtract_range (cidr_range c)) rs0)"]) auto
qed simp

lemma public_ranges_bound: "r \<in> set public_ranges \<Longrightarrow> snd r < 2 ^ 32"
  unfolding public_ranges_def by (rule subtract_all_bound [rotated]) auto

lemma public_blocks_cover: "list_ex (in_cidr ip) public_ipv4_blocks \<longleftrightarrow> in_ranges ip public_ranges"
proof -
  have "list_ex (in_cidr ip) public_ipv4_blocks
    \<longleftrightarrow> (\<exists>r \<in> set public_ranges. list_ex (in_cidr ip) (cidr_blocks (fst r) (snd r)))"
    unfolding public_ipv4_blocks_def list_ex_iff set_concat set_map split_beta by blast
  also have "\<dots> \<longleftrightarrow> (\<exists>r \<in> set public_ranges. fst r \<le> ip \<and> ip \<le> snd r)"
    using cidr_blocks_cover public_ranges_bound by (intro bex_cong) auto
  also have "\<dots> \<longleftrightarrow> in_ranges ip public_ranges"
    unfolding in_ranges_def list_ex_iff by (intro bex_cong) auto
  finally show ?thesis .
qed

lemma public_blocks_aligned: "list_all aligned_cidr public_ipv4_blocks"
proof -
  have "list_all aligned_cidr (cidr_blocks (fst r) (snd r))" if "r \<in> set public_ranges" for r
    by (rule cidr_blocks_aligned [OF public_ranges_bound [OF that]])
  then show ?thesis unfolding public_ipv4_blocks_def list_all_iff set_concat set_map split_beta by blast
qed

section \<open>Properties\<close>

text \<open>Claim C15. The CIDR blocks the egress ACL allows are exactly the IPv4 addresses outside the
  non-public ranges: an address is in one of the blocks if and only if it is an IPv4 address that no
  non-public range contains.\<close>

theorem public_cidrs_are_complement:
  "list_ex (in_cidr ip) public_ipv4_blocks \<longleftrightarrow> ip < 2 ^ 32 \<and> \<not> list_ex (in_cidr ip) NON_PUBLIC_IPV4"
  by (simp only: public_blocks_cover in_public_ranges)

lemma split_comma_join:
  "ws \<noteq> [] \<Longrightarrow> (\<And>w. w \<in> set ws \<Longrightarrow> CHR '','' \<notin> set w) \<Longrightarrow> split_char (CHR '','') (join_str '','' ws) = ws"
  using split_join [of ws "CHR '',''"] by simp

lemma show_cidr_no_comma: "CHR '','' \<notin> set (show_cidr b)"
proof -
  have "CHR '','' \<notin> set (dec k)" for k by (rule sep_not_in_dec) (simp add: is_ascii_digit_def)
  then show ?thesis by (simp add: show_cidr_def show_ipv4_def octets_def)
qed

lemma show_cidr_parses:
  assumes "aligned_cidr b"
  shows "parse_ipv4 (split_first (CHR ''/'') (show_cidr b)) = Some (fst b)"
proof -
  have "CHR ''/'' \<notin> set (dec k)" for k by (rule sep_not_in_dec) (simp add: is_ascii_digit_def)
  then have "CHR ''/'' \<notin> set (show_ipv4 (fst b))" by (simp add: show_ipv4_def octets_def)
  then have "split_first (CHR ''/'') (show_cidr b) = show_ipv4 (fst b)"
    by (simp add: show_cidr_def split_first_def takeWhile_append)
  moreover have "fst b < 2 ^ 32"
  proof -
    have "fst b + 2 ^ (32 - snd b) \<le> 2 ^ 32" using assms by (simp add: aligned_cidr_def)
    moreover have "(0 :: nat) < 2 ^ (32 - snd b)" by simp
    ultimately show ?thesis by linarith
  qed
  ultimately show ?thesis by (simp only: parse_show_ipv4)
qed

text \<open>Claim C34. Every block of the ACL is well formed: its prefix length is at most 32, its address is
  aligned to it, and the text the rule carries reads back as that address.\<close>

theorem public_cidrs_well_formed:
  "list_all (\<lambda>b. snd b \<le> 32 \<and> 2 ^ (32 - snd b) dvd fst b \<and> fst b + 2 ^ (32 - snd b) \<le> 2 ^ 32
     \<and> parse_ipv4 (split_first (CHR ''/'') (show_cidr b)) = Some (fst b)) public_ipv4_blocks"
  using public_blocks_aligned show_cidr_parses unfolding list_all_iff aligned_cidr_def by blast

end
