(* ===== verification/Config.thy ===== *)
theory Config
  imports Ip
begin

text \<open>
  The configuration (\<open>openshell-driver-lxd/src/config.rs\<close>): the fields of the command line, the checks
  \<open>validate\<close> makes before the driver starts, and the value parsers of three options. What the
  \<open>url\<close> crate makes of a string is a parameter.
\<close>

section \<open>Defaults and the configuration record\<close>

definition DEFAULT_STORAGE_POOL :: string where
  "DEFAULT_STORAGE_POOL = ''default''"

definition DEFAULT_NETWORK :: string where
  "DEFAULT_NETWORK = ''lxdbr0''"

definition DEFAULT_MAX_PROCESSES :: nat where
  "DEFAULT_MAX_PROCESSES = 4096"

definition DEFAULT_START_RETRIES :: nat where
  "DEFAULT_START_RETRIES = 1"

definition DEFAULT_IMAGE_CACHE_ALIAS_PREFIX :: string where
  "DEFAULT_IMAGE_CACHE_ALIAS_PREFIX = ''openshell-oci-''"

record config =
  cfg_socket :: string
  cfg_lxd_socket :: string
  cfg_log_level :: string
  cfg_default_image :: string
  cfg_project :: string
  cfg_default_network :: string
  cfg_default_storage_pool :: string
  cfg_supervisor_image :: string
  cfg_supervisor_bin :: "string option"
  cfg_dhcp_client_bin :: "string option"
  cfg_supervisor_cache_dir :: string
  cfg_supervisor_storage_pool :: "string option"
  cfg_image_work_dir :: string
  cfg_default_max_processes :: nat
  cfg_start_retries :: nat
  cfg_stop_timeout_secs :: int
  cfg_image_pull_timeout_secs :: nat
  cfg_cleanup_interval_secs :: nat
  cfg_image_cache_alias_prefix :: string
  cfg_skopeo_path :: "string option"
  cfg_umoci_path :: "string option"
  cfg_mksquashfs_path :: "string option"
  cfg_lxd_url :: "string option"
  cfg_lxd_client_cert :: "string option"
  cfg_lxd_client_key :: "string option"
  cfg_lxd_server_ca :: "string option"
  cfg_lxd_server_cert :: "string option"
  cfg_lxd_server_fingerprint :: "string option"
  cfg_gateway_grpc_port :: nat
  cfg_gateway_endpoint :: "string option"
  cfg_gateway_callback_listener :: "socket_addr option"
  cfg_sandbox_nesting :: bool
  cfg_restrict_sandbox_egress :: bool
  cfg_guest_tls_ca :: "string option"
  cfg_guest_tls_cert :: "string option"
  cfg_guest_tls_key :: "string option"
  cfg_gateway_tls_server_name :: "string option"
  cfg_allow_plaintext_gateway :: bool
  cfg_operation_timeout_secs :: nat

text \<open>What clap enforces on the options before \<open>validate\<close> runs (\<open>requires_all\<close>,
  \<open>conflicts_with_all\<close>).\<close>

definition clap_accepts :: "config \<Rightarrow> bool" where
  "clap_accepts c \<longleftrightarrow>
     (cfg_guest_tls_ca c = None \<longleftrightarrow> cfg_guest_tls_cert c = None)
     \<and> (cfg_guest_tls_ca c = None \<longleftrightarrow> cfg_guest_tls_key c = None)
     \<and> (cfg_allow_plaintext_gateway c \<longrightarrow> cfg_guest_tls_ca c = None)
     \<and> (cfg_lxd_url c = None \<longleftrightarrow> cfg_lxd_client_cert c = None)
     \<and> (cfg_lxd_url c = None \<longleftrightarrow> cfg_lxd_client_key c = None)
     \<and> (cfg_lxd_url c = None \<longrightarrow> cfg_lxd_server_ca c = None \<and> cfg_lxd_server_cert c = None
          \<and> cfg_lxd_server_fingerprint c = None)
     \<and> length (filter (\<lambda>o'. o' \<noteq> None)
          [cfg_lxd_server_ca c, cfg_lxd_server_cert c, cfg_lxd_server_fingerprint c]) \<le> 1"

section \<open>TLS towards the gateway\<close>

record guest_tls =
  tls_ca :: string
  tls_cert :: string
  tls_key :: string

definition guest_tls :: "config \<Rightarrow> guest_tls option" where
  "guest_tls c =
     Option.bind (cfg_guest_tls_ca c) (\<lambda>ca.
     Option.bind (cfg_guest_tls_cert c) (\<lambda>cert.
     Option.bind (cfg_guest_tls_key c) (\<lambda>key.
       Some \<lparr>tls_ca = ca, tls_cert = cert, tls_key = key\<rparr>)))"

definition gateway_scheme :: "config \<Rightarrow> string" where
  "gateway_scheme c = (if guest_tls c \<noteq> None then ''https'' else ''http'')"

definition validate :: "config \<Rightarrow> (string, unit) result" where
  "validate c =
     (let tls = (guest_tls c \<noteq> None)
      in if \<not> tls \<and> \<not> cfg_allow_plaintext_gateway c then
           Inl (''sandboxes connect to the gateway over TLS: set --guest-tls-ca, --guest-tls-cert and --guest-tls-key ''
                @ ''(--allow-plaintext-gateway permits a plaintext gateway for local testing)'')
         else if \<not> tls \<and> cfg_gateway_tls_server_name c \<noteq> None then
           Inl (''--gateway-tls-server-name needs --guest-tls-ca, --guest-tls-cert and --guest-tls-key: ''
                @ ''without TLS there is no certificate to verify'')
         else (case cfg_gateway_endpoint c of
           Some endpoint \<Rightarrow>
             if tls \<and> \<not> starts_with endpoint ''https://'' then
               Inl (''--gateway-endpoint '' @ endpoint @ '' is not https, but sandboxes are given TLS materials; use an https:// endpoint'')
             else if \<not> tls \<and> \<not> starts_with endpoint ''http://'' then
               Inl (''--gateway-endpoint '' @ endpoint @ '' is https, which needs --guest-tls-ca, --guest-tls-cert and --guest-tls-key'')
             else Inr ()
         | None \<Rightarrow> Inr ()))"

section \<open>Value parsers\<close>

definition valid_label :: "string \<Rightarrow> bool" where
  "valid_label label \<longleftrightarrow> label \<noteq> [] \<and> length label \<le> 63 \<and> \<not> starts_with label ''-''
     \<and> \<not> ends_with label ''-'' \<and> list_all (\<lambda>b. is_ascii_alphanumeric b \<or> b = CHR ''-'') label"

definition parse_tls_server_name :: "string \<Rightarrow> (string, string) result" where
  "parse_tls_server_name v =
     (if parse_ip v \<noteq> None then Inr v
      else if length v \<le> 253 \<and> list_all valid_label (split_char (CHR ''.'') v) then Inr v
      else Inl (debug_str v @ '' is not a DNS name or an IP address''))"

definition parse_callback_listener :: "string \<Rightarrow> (string, socket_addr) result" where
  "parse_callback_listener v = (case parse_socket_addr v of
      None \<Rightarrow> Inl (''not an IP:port address: '' @ ''invalid socket address syntax'')
    | Some address \<Rightarrow>
        if is_unspecified (sa_ip address) \<or> is_multicast (sa_ip address)
        then Inl (show_ip (sa_ip address) @ '' is not a single unicast address'')
        else if sa_port address = 0 then Inl ''the port must not be 0''
        else Inr address)"

text \<open>The parts of a URL the driver looks at.\<close>

record url =
  url_scheme :: string
  url_host :: "string option"
  url_path :: string
  url_query :: "string option"
  url_fragment :: "string option"
  url_username :: string
  url_password :: "string option"
  url_text :: string

type_synonym url_parser = "string \<Rightarrow> (string, url) result"

definition parse_gateway_endpoint :: "url_parser \<Rightarrow> string \<Rightarrow> (string, string) result" where
  "parse_gateway_endpoint parse v =
     result_bind (map_err (\<lambda>e. ''not a URL: '' @ e) (parse v)) (\<lambda>url.
     if url_scheme url \<noteq> ''http'' \<and> url_scheme url \<noteq> ''https'' then
       Inl (''scheme must be http or https, not '' @ debug_str (url_scheme url))
     else if \<not> is_some_and (url_host url) (\<lambda>host. host \<noteq> []) then Inl ''the URL names no host''
     else if url_path url \<noteq> ''/'' \<or> url_query url \<noteq> None \<or> url_fragment url \<noteq> None then
       Inl ''the URL must not have a path, query or fragment''
     else if url_username url \<noteq> [] \<or> url_password url \<noteq> None then
       Inl ''the URL must not carry credentials''
     else Inr (trim_end_matches (CHR ''/'') (url_text url)))"

text \<open>What the \<open>url\<close> crate documents of a parsed URL without credentials, query and fragment: its
  text is \<open>scheme://host[:port]\<close> followed by the path, and the authority ends in no slash.\<close>

definition url_text_spec :: "url_parser \<Rightarrow> bool" where
  "url_text_spec parse \<longleftrightarrow> (\<forall>v url. parse v = Inr url \<longrightarrow> url_query url = None \<longrightarrow> url_fragment url = None
     \<longrightarrow> url_username url = [] \<longrightarrow> url_password url = None \<longrightarrow> is_some_and (url_host url) (\<lambda>h. h \<noteq> [])
     \<longrightarrow> (\<exists>authority. url_text url = url_scheme url @ ''://'' @ authority @ url_path url
           \<and> authority \<noteq> [] \<and> CHR ''/'' \<notin> set authority))"

section \<open>Laws\<close>

lemma guest_tls_None:
  "guest_tls c = None \<longleftrightarrow> cfg_guest_tls_ca c = None \<or> cfg_guest_tls_cert c = None \<or> cfg_guest_tls_key c = None"
  by (auto simp: guest_tls_def bind_eq_None_conv)

lemma validate_ok_iff:
  "validate c = Inr () \<longleftrightarrow>
     (guest_tls c = None \<longrightarrow> cfg_allow_plaintext_gateway c \<and> cfg_gateway_tls_server_name c = None)
     \<and> (case cfg_gateway_endpoint c of None \<Rightarrow> True
        | Some e \<Rightarrow> starts_with e (gateway_scheme c @ ''://''))"
  by (auto simp: validate_def Let_def gateway_scheme_def split: option.splits)

lemma trim_end_matches_snoc:
  "xs \<noteq> [] \<Longrightarrow> last xs \<noteq> d \<Longrightarrow> trim_end_matches d (xs @ [d]) = xs"
  by (cases xs rule: rev_cases) (simp_all add: trim_end_matches_def)

lemma parse_gateway_endpoint_shape:
  assumes spec: "url_text_spec parse" and ok: "parse_gateway_endpoint parse v = Inr e"
  shows "\<exists>scheme authority. e = scheme @ ''://'' @ authority \<and> (scheme = ''http'' \<or> scheme = ''https'')
    \<and> authority \<noteq> [] \<and> CHR ''/'' \<notin> set authority"
proof -
  obtain url where url: "parse v = Inr url" "url_scheme url = ''http'' \<or> url_scheme url = ''https''"
    "is_some_and (url_host url) (\<lambda>h. h \<noteq> [])" "url_path url = ''/''" "url_query url = None"
    "url_fragment url = None" "url_username url = []" "url_password url = None"
    and e: "e = trim_end_matches (CHR ''/'') (url_text url)"
    using ok by (cases "parse v")
      (auto simp: parse_gateway_endpoint_def result_bind_def map_err_def split: if_splits)
  obtain authority where a: "url_text url = url_scheme url @ ''://'' @ authority @ ''/''"
    "authority \<noteq> []" "CHR ''/'' \<notin> set authority"
    using spec url unfolding url_text_spec_def by metis
  have "last (url_scheme url @ ''://'' @ authority) \<noteq> CHR ''/''"
    using a(2,3) by (metis append_is_Nil_conv last_appendR last_in_set)
  then have "e = url_scheme url @ ''://'' @ authority"
    unfolding e a(1) using trim_end_matches_snoc [of "url_scheme url @ ''://'' @ authority" "CHR ''/''"]
    by simp
  then show ?thesis using a url(2) by blast
qed

end
