(* ===== verification/Driver.thy ===== *)
theory Driver
  imports Gc Egress Config
begin

text \<open>
  The driver (\<open>openshell-driver-lxd/src/driver.rs\<close>): every operation of \<open>LxdComputeDriver\<close> as the
  effects it performs, in order, with each guard and early return. The maps of per-key mutexes are
  the keys of \<open>with_lock\<close>; a lock of the \<open>volume_use\<close> \<open>RwLock\<close> is \<open>volume_use:read\<close> or
  \<open>volume_use:write\<close>.
\<close>

section \<open>The driver\<close>

definition DRIVER_NAME :: string where
  "DRIVER_NAME = ''lxd''"

definition SETTLE_DELAY :: nat where
  "SETTLE_DELAY = 3000"

definition RUNTIME_RESTART_SETTLE :: nat where
  "RUNTIME_RESTART_SETTLE = 2250"

definition is_already_stopped :: "lxd_error \<Rightarrow> bool" where
  "is_already_stopped e =
     (let says = (\<lambda>message. contains_str message ''not running'' \<or> contains_str message ''already stopped'')
      in case e of
           Api status message \<Rightarrow> status = 400 \<and> says message
         | OperationFailed _ msg \<Rightarrow> says msg
         | _ \<Rightarrow> False)"

record lxd_compute_driver =
  drv_config :: config
  drv_lxd :: lxd_client
  drv_image_cache :: image_cache

definition driver_new :: "env \<Rightarrow> config \<Rightarrow> lxd_client \<Rightarrow> lxd_compute_driver" where
  "driver_new E c lxd =
     (let importer = skopeo_new lxd (cfg_skopeo_path c) (cfg_umoci_path c) (cfg_mksquashfs_path c)
            (cfg_image_work_dir c) (cfg_image_pull_timeout_secs c)
      in \<lparr>drv_config = c, drv_lxd = lxd,
          drv_image_cache = image_cache_new E lxd (skopeo_oci_importer E importer) (cfg_image_cache_alias_prefix c)\<rparr>)"

definition ensure_default_image :: "lxd_compute_driver \<Rightarrow> (driver_error, string) fallible" where
  "ensure_default_image d = resolve_alias (drv_image_cache d) (cfg_default_image (drv_config d))"

definition resolve_supervisor :: "env \<Rightarrow> lxd_compute_driver \<Rightarrow> (driver_error, string \<times> string) fallible" where
  "resolve_supervisor E d = (case cfg_supervisor_bin (drv_config d) of
      Some path \<Rightarrow> await_ok (digest_of_file E path) (\<lambda>digest. ok (path, digest))
    | None \<Rightarrow>
        await_map (\<lambda>e. ImageImport (''supervisor binary extraction failed: '' @ show_driver_error e))
          (extract_supervisor_binary E (drv_image_cache d) (cfg_supervisor_image (drv_config d))
             (cfg_supervisor_cache_dir (drv_config d))) ok)"

definition to_option :: "('e, 'a) result \<Rightarrow> 'a option" where
  "to_option r = (case r of Inr a \<Rightarrow> Some a | Inl _ \<Rightarrow> None)"

definition collect_garbage :: "env \<Rightarrow> lxd_compute_driver \<Rightarrow> unit action" where
  "collect_garbage E d =
     await (resolve_supervisor E d) (\<lambda>s.
     let supervisor_digest = map_option snd (to_option s) in
     await (load_dhcp_client E (cfg_dhcp_client_bin (drv_config d))) (\<lambda>c.
     let dhcp_digest = map_option snd (to_option c) in
     await (with_lock ''volume_use:write'' (case (supervisor_digest, dhcp_digest) of
         (Some supervisor, Some dhcp) \<Rightarrow>
           collect_lxd E (drv_lxd d) (cfg_image_cache_alias_prefix (drv_config d))
             [supervisor_volume_name supervisor, dhcp_client_volume_name dhcp]
       | _ \<Rightarrow> collect_lxd_images_only E (drv_lxd d) (cfg_image_cache_alias_prefix (drv_config d)))) (\<lambda>_.
     await (collect_host E (cfg_supervisor_cache_dir (drv_config d))
         (if cfg_supervisor_bin (drv_config d) \<noteq> None then None else supervisor_digest)
         (cfg_image_work_dir (drv_config d))) (\<lambda>_. return ()))))"

section \<open>Capabilities\<close>

definition gateway_listener_requirements :: "lxd_compute_driver \<Rightarrow> gateway_listener_requirement list" where
  "gateway_listener_requirements d = (case cfg_gateway_callback_listener (drv_config d) of
      None \<Rightarrow> []
    | Some address \<Rightarrow>
        [\<lparr>req_reason = ''sandboxes reach the gateway here; serve sandbox-callable RPCs only'',
          req_selector = Some (ExactBindAddress (show_socket_addr address))\<rparr>])"

definition capabilities :: "string \<Rightarrow> lxd_compute_driver \<Rightarrow> get_capabilities_response" where
  "capabilities version d =
     \<lparr>cap_driver_name = DRIVER_NAME, cap_driver_version = version,
      cap_default_image = cfg_default_image (drv_config d), cap_gateway_manages_lifecycle = False,
      cap_supports_sandbox_authentication = False\<rparr>"

section \<open>Validation\<close>

definition invalid_label_error :: "string \<Rightarrow> driver_error" where
  "invalid_label_error key =
     InvalidArgument (''invalid label key '' @ debug_str key @ '': must match [a-zA-Z0-9._-]+'')"

definition spec_of :: "driver_sandbox \<Rightarrow> (driver_error, driver_sandbox_spec) result" where
  "spec_of sandbox = ok_or (sb_spec sandbox) (InvalidArgument ''sandbox.spec is required'')"

definition template_of :: "driver_sandbox_spec \<Rightarrow> (driver_error, driver_sandbox_template) result" where
  "template_of spec = ok_or (spec_template spec) (InvalidArgument ''sandbox.spec.template is required'')"

definition gpu_of :: "driver_sandbox_spec \<Rightarrow> gpu_resource_requirements option" where
  "gpu_of spec = Option.bind (spec_resource_requirements spec) rr_gpu"

definition validate_sandbox_create :: "driver_sandbox \<Rightarrow> (driver_error, unit) result" where
  "validate_sandbox_create sandbox =
     (if sb_name sandbox = [] then Inl (InvalidArgument ''sandbox.name is required'')
      else if sb_id sandbox = [] then Inl (InvalidArgument ''sandbox.id is required'')
      else result_bind (spec_of sandbox) (\<lambda>spec.
           result_bind (template_of spec) (\<lambda>template.
           result_bind (if tpl_image template \<noteq> [] then validate_reference (tpl_image template) else Inr ()) (\<lambda>_.
           case find (\<lambda>kv. \<not> is_valid_label_key (fst kv)) (tpl_labels template) of
             Some (key, _) \<Rightarrow> Inl (invalid_label_error key)
           | None \<Rightarrow>
               if Option.bind (gpu_of spec) gpu_count = Some 0 then
                 Inl (InvalidArgument (''sandbox.spec.resource_requirements.gpu.count must be at least 1 if set; ''
                        @ ''omit it to request the default GPU assignment''))
               else Inr ()))))"

section \<open>Instances\<close>

definition wait_operation :: "env \<Rightarrow> lxd_compute_driver \<Rightarrow> string \<Rightarrow> (driver_error, unit) fallible" where
  "wait_operation E d i =
     await (timeout_secs E (cfg_operation_timeout_secs (drv_config d)) (lxd_wait_operation E (drv_lxd d) i)) (\<lambda>r. case r of
        None \<Rightarrow> err Timeout
      | Some (Inl e) \<Rightarrow> err (Lxd e)
      | Some (Inr _) \<Rightarrow> ok ())"

definition sandbox_not_found :: "string \<Rightarrow> driver_error" where
  "sandbox_not_found name = NotFoundError (''sandbox '' @ debug_str name @ '' not found'')"

definition get_managed_instance :: "env \<Rightarrow> lxd_compute_driver \<Rightarrow> string \<Rightarrow> (driver_error, lxd_instance) fallible" where
  "get_managed_instance E d name =
     await (get_instance E (drv_lxd d) name) (\<lambda>r. case r of
        Inr i \<Rightarrow> if inst_config i KEY_SANDBOX_ID = None then err (sandbox_not_found name) else ok i
      | Inl (Api code msg) \<Rightarrow> if code = 404 then err (sandbox_not_found name) else err (Lxd (Api code msg))
      | Inl e \<Rightarrow> err (Lxd e))"

definition confirm_runtime_restart :: "env \<Rightarrow> lxd_compute_driver \<Rightarrow> lxd_instance \<Rightarrow> lxd_instance action" where
  "confirm_runtime_restart E d i =
     (if \<not> stopped_by_the_runtime i then return i
      else
        await (sleep RUNTIME_RESTART_SETTLE) (\<lambda>_.
        await (get_instance E (drv_lxd d) (inst_name i)) (\<lambda>r.
        return (case r of Inr i' \<Rightarrow> i' | Inl _ \<Rightarrow> i))))"

definition get_sandbox :: "env \<Rightarrow> lxd_compute_driver \<Rightarrow> string \<Rightarrow> (driver_error, driver_sandbox) fallible" where
  "get_sandbox E d name =
     await_ok (get_managed_instance E d name) (\<lambda>i.
     await (confirm_runtime_restart E d i) (\<lambda>i'.
     ok (instance_to_driver_sandbox i')))"

definition is_managed :: "lxd_instance \<Rightarrow> bool" where
  "is_managed i \<longleftrightarrow> inst_config i KEY_SANDBOX_ID \<noteq> None"

text \<open>The second read of the sandboxes at the given positions.\<close>

fun reread_unsettled ::
  "env \<Rightarrow> lxd_compute_driver \<Rightarrow> nat list \<Rightarrow> driver_sandbox list \<Rightarrow> driver_sandbox list action" where
  "reread_unsettled E d [] sandboxes = return sandboxes"
| "reread_unsettled E d (n # rest) sandboxes =
     await (get_instance E (drv_lxd d) (sb_name (sandboxes ! n))) (\<lambda>r. case r of
        Inr i \<Rightarrow> reread_unsettled E d rest (sandboxes[n := instance_to_driver_sandbox i])
      | Inl _ \<Rightarrow> reread_unsettled E d rest sandboxes)"

definition list_sandboxes :: "env \<Rightarrow> lxd_compute_driver \<Rightarrow> (driver_error, driver_sandbox list) fallible" where
  "list_sandboxes E d =
     await_map Lxd (list_instances E (drv_lxd d)) (\<lambda>instances.
     let managed = filter is_managed instances;
         sandboxes = map instance_to_driver_sandbox managed;
         unsettled = filter (\<lambda>n. stopped_by_the_runtime (managed ! n)) [0..<length managed]
     in if unsettled = [] then ok sandboxes
        else
          await (sleep RUNTIME_RESTART_SETTLE) (\<lambda>_.
          await (reread_unsettled E d unsettled sandboxes) ok))"

definition find_name_by_sandbox_id ::
  "env \<Rightarrow> lxd_compute_driver \<Rightarrow> string \<Rightarrow> (driver_error, string option) fallible" where
  "find_name_by_sandbox_id E d sandbox_id =
     await_map Lxd (list_instances E (drv_lxd d)) (\<lambda>instances.
     ok (map_option inst_name (find (\<lambda>i. inst_config i KEY_SANDBOX_ID = Some sandbox_id) instances)))"

section \<open>Placement and the gateway endpoint\<close>

definition check_placement :: "env \<Rightarrow> lxd_compute_driver \<Rightarrow> placement \<Rightarrow> (driver_error, network) fallible" where
  "check_placement E d placement =
     await_ok (await (get_network E (drv_lxd d) (pl_network placement)) (\<lambda>r. case r of
         Inr network \<Rightarrow> ok network
       | Inl (Api code msg) \<Rightarrow>
           if code = 404 then
             err (FailedPrecondition (''LXD network '' @ debug_str (pl_network placement) @ '' does not exist in project ''
               @ debug_str (cfg_project (drv_config d)) @ ''; set the sandbox'' @ [CHR 0x27]
               @ ''s driver_config.network or the driver'' @ [CHR 0x27] @ ''s --default-network to an existing one''))
           else err (Lxd (Api code msg))
       | Inl e \<Rightarrow> err (Lxd e))) (\<lambda>network.
     await_map Lxd (storage_pool_exists E (drv_lxd d) (pl_storage_pool placement)) (\<lambda>present.
     if \<not> present then
       err (FailedPrecondition (''LXD storage pool '' @ debug_str (pl_storage_pool placement)
         @ '' does not exist; set the sandbox'' @ [CHR 0x27] @ ''s driver_config.storage_pool or the driver''
         @ [CHR 0x27] @ ''s --default-storage-pool to an existing one''))
     else ok network))"

definition resolve_gateway_endpoint :: "lxd_compute_driver \<Rightarrow> string \<Rightarrow> network \<Rightarrow> (driver_error, string) result" where
  "resolve_gateway_endpoint d network_name network = (case cfg_gateway_endpoint (drv_config d) of
      Some endpoint \<Rightarrow> Inr endpoint
    | None \<Rightarrow>
        if net_type network = ''ovn'' then
          Inl (FailedPrecondition (''network '' @ debug_str network_name @ '' is an OVN network, whose address belongs to its ''
            @ ''virtual router rather than the gateway; set the driver'' @ [CHR 0x27] @ ''s --gateway-endpoint to the URL sandboxes reach the gateway at''))
        else (case net_config network ''ipv4.address'' of
            None \<Rightarrow> Inl (FailedPrecondition (''network '' @ debug_str network_name @ '' has no ipv4.address configured''))
          | Some cidr \<Rightarrow> Inr (gateway_scheme (drv_config d) @ ''://'' @ split_first (CHR ''/'') cidr @ '':''
              @ dec (cfg_gateway_grpc_port (drv_config d)))))"

definition gateway_addresses ::
  "env \<Rightarrow> url_host option \<Rightarrow> nat \<Rightarrow> (driver_error, socket_addr list) fallible" where
  "gateway_addresses E host port = (case host of
      Some (Host_V4 ip) \<Rightarrow> ok [\<lparr>sa_ip = V4 ip, sa_port = port, sa_scope = 0\<rparr>]
    | Some (Host_V6 ip) \<Rightarrow> ok [\<lparr>sa_ip = V6 ip, sa_port = port, sa_scope = 0\<rparr>]
    | Some (Host_Domain name) \<Rightarrow>
        await_map (\<lambda>e. FailedPrecondition (''cannot resolve gateway endpoint host '' @ debug_str name
            @ '' for the egress ACL: '' @ ext_show_io E e)) (lookup_host E name port) ok
    | None \<Rightarrow> ok [])"

definition ensure_egress_acl ::
  "env \<Rightarrow> lxd_compute_driver \<Rightarrow> string \<Rightarrow> network \<Rightarrow> string \<Rightarrow> (driver_error, string) fallible" where
  "ensure_egress_acl E d network_name network gateway_endpoint =
     (if net_type network \<noteq> ''ovn'' then
        err (FailedPrecondition (''--restrict-sandbox-egress needs sandboxes on an OVN network, where LXD applies ACLs to each NIC; ''
          @ debug_str network_name @ '' is a '' @ net_type network @ '' network''))
      else
        lift_ok (map_err (\<lambda>e. FailedPrecondition (''gateway endpoint '' @ debug_str gateway_endpoint @ '' is not a URL: '' @ e))
          (ext_url_host E gateway_endpoint)) (\<lambda>(host, port).
        await_ok (gateway_addresses E host (unwrap_or port 443)) (\<lambda>gateway.
        if gateway = [] then
          err (FailedPrecondition (''gateway endpoint '' @ debug_str gateway_endpoint @ '' names no address for the egress ACL''))
        else
          await_map Lxd (ensure_network_acl E (drv_lxd d) (acl_name network_name) (egress_rules gateway)) (\<lambda>_.
          ok (acl_name network_name)))))"

section \<open>Files for the guest\<close>

fun read_files :: "env \<Rightarrow> (string \<times> string) list \<Rightarrow> (driver_error, (string \<times> string) list) fallible" where
  "read_files E [] = ok []"
| "read_files E ((guest_path, host_path) # rest) =
     await_map (\<lambda>e. FailedPrecondition (''could not read the sandbox TLS material '' @ host_path @ '': '' @ ext_show_io E e))
       (read_file E host_path) (\<lambda>content.
     await_ok (read_files E rest) (\<lambda>files. ok ((guest_path, content) # files)))"

definition read_guest_tls_files :: "env \<Rightarrow> lxd_compute_driver \<Rightarrow> (driver_error, (string \<times> string) list) fallible" where
  "read_guest_tls_files E d = (case guest_tls (drv_config d) of
      None \<Rightarrow> ok []
    | Some tls \<Rightarrow> read_files E [(GUEST_TLS_CA_PATH, tls_ca tls), (GUEST_TLS_CERT_PATH, tls_cert tls),
        (GUEST_TLS_KEY_PATH, tls_key tls)])"

definition push_guest_files ::
  "env \<Rightarrow> lxd_compute_driver \<Rightarrow> string \<Rightarrow> (string \<times> string) list \<Rightarrow> (driver_error, unit) fallible" where
  "push_guest_files E d name files =
     for_ok files (\<lambda>(guest_path, content).
       await_map Lxd (push_file_into_instance E (drv_lxd d) name guest_path content) (\<lambda>_. ok ()))"

section \<open>Starting\<close>

definition lifecycle_lock :: "string \<Rightarrow> string" where
  "lifecycle_lock name = ''lifecycle:'' @ name"

text \<open>One attempt to bring back an init that exited; \<open>True\<close> when it was started again.\<close>

definition settle_attempt ::
  "env \<Rightarrow> lxd_compute_driver \<Rightarrow> string \<Rightarrow> string \<Rightarrow> (driver_error, bool) fallible" where
  "settle_attempt E d name expected_sandbox_id =
     await (get_instance E (drv_lxd d) name) (\<lambda>r. case r of
        Inr i \<Rightarrow>
          if inst_config i KEY_SANDBOX_ID \<noteq> Some expected_sandbox_id then ok False
          else if \<not> eq_ignore_ascii_case (inst_status i) ''Stopped'' then ok False
          else if inst_config i KEY_STOP_INTENT \<noteq> None then ok False
          else
            await_map Lxd (start_instance E (drv_lxd d) name) (\<lambda>op.
            await_ok (wait_operation E d (op_id op)) (\<lambda>_. ok True))
      | Inl (Api code msg) \<Rightarrow> if code = 404 then ok False else err (Lxd (Api code msg))
      | Inl e \<Rightarrow> err (Lxd e))"

fun settle_loop :: "nat \<Rightarrow> env \<Rightarrow> lxd_compute_driver \<Rightarrow> string \<Rightarrow> string \<Rightarrow> (driver_error, unit) fallible" where
  "settle_loop 0 E d name i = ok ()"
| "settle_loop (Suc n) E d name i =
     await (sleep SETTLE_DELAY) (\<lambda>_.
     await_ok (with_lock (lifecycle_lock name) (settle_attempt E d name i)) (\<lambda>again.
     if again then settle_loop n E d name i else ok ()))"

definition settle_after_start :: "env \<Rightarrow> lxd_compute_driver \<Rightarrow> string \<Rightarrow> string \<Rightarrow> (driver_error, unit) fallible" where
  "settle_after_start E d name expected_sandbox_id =
     settle_loop (cfg_start_retries (drv_config d)) E d name expected_sandbox_id"

definition set_stop_intent :: "env \<Rightarrow> lxd_compute_driver \<Rightarrow> string \<Rightarrow> unit action" where
  "set_stop_intent E d name =
     await (patch_instance_config E (drv_lxd d) name [(KEY_STOP_INTENT, Some CONDITION_STOPPED)]) (\<lambda>_. return ())"

definition clear_stop_intent :: "env \<Rightarrow> lxd_compute_driver \<Rightarrow> string \<Rightarrow> unit action" where
  "clear_stop_intent E d name =
     await (patch_instance_config E (drv_lxd d) name [(KEY_STOP_INTENT, None)]) (\<lambda>_. return ())"

definition start_and_settle :: "env \<Rightarrow> lxd_compute_driver \<Rightarrow> string \<Rightarrow> string \<Rightarrow> (driver_error, unit) fallible" where
  "start_and_settle E d name sandbox_id =
     await_map Lxd (start_instance E (drv_lxd d) name) (\<lambda>op.
     await_ok (wait_operation E d (op_id op)) (\<lambda>_.
     settle_after_start E d name sandbox_id))"

definition start_sandbox :: "env \<Rightarrow> lxd_compute_driver \<Rightarrow> string \<Rightarrow> (driver_error, unit) fallible" where
  "start_sandbox E d name =
     await_ok (get_managed_instance E d name) (\<lambda>i.
     let sandbox_id = unwrap_or (inst_config i KEY_SANDBOX_ID) []; s = inst_status i
     in if s = ''Running'' \<or> s = ''Ready'' \<or> s = ''Starting'' then ok ()
        else if s \<noteq> ''Stopped'' then
          err (FailedPrecondition (''sandbox instance is '' @ s @ '', not stopped; it can be started once it has stopped''))
        else
          await_ok (read_guest_tls_files E d) (\<lambda>tls_files.
          await_ok (push_guest_files E d name tls_files) (\<lambda>_.
          await_map Lxd (patch_instance_config E (drv_lxd d) name [(KEY_STOP_INTENT, None)]) (\<lambda>_.
          start_and_settle E d name sandbox_id))))"

section \<open>Creating\<close>

text \<open>The config of the instance and the files pushed into it before it starts.\<close>

definition add_guest_tls :: "config \<Rightarrow> config_map \<Rightarrow> config_map" where
  "add_guest_tls c m =
     (let m = insert_guest_tls_environment m
      in case cfg_gateway_tls_server_name c of
           Some name \<Rightarrow> m(''environment.OPENSHELL_GATEWAY_TLS_SERVER_NAME'' \<mapsto> name)
         | None \<Rightarrow> m)"

definition add_nesting :: "config \<Rightarrow> config_map \<Rightarrow> config_map" where
  "add_nesting c m = (if cfg_sandbox_nesting c then m(''security.nesting'' \<mapsto> ''true'') else m)"

definition token_files :: "driver_sandbox_spec \<Rightarrow> (string \<times> string) list" where
  "token_files spec = (if spec_sandbox_token spec \<noteq> [] then [(GUEST_SANDBOX_TOKEN_PATH, spec_sandbox_token spec)] else [])"

definition prepare_guest ::
  "env \<Rightarrow> lxd_compute_driver \<Rightarrow> driver_sandbox_spec \<Rightarrow> config_map
   \<Rightarrow> (driver_error, config_map \<times> (string \<times> string) list) fallible" where
  "prepare_guest E d spec m =
     await_ok (if guest_tls (drv_config d) \<noteq> None
       then await_ok (read_guest_tls_files E d) (\<lambda>tls_files.
              ok (add_guest_tls (drv_config d) m, token_files spec @ tls_files))
       else ok (m, token_files spec)) (\<lambda>(m', files).
     ok (add_nesting (drv_config d) m', files))"

definition aux_pool_of :: "config \<Rightarrow> placement \<Rightarrow> string" where
  "aux_pool_of c placement = unwrap_or (cfg_supervisor_storage_pool c) (pl_storage_pool placement)"

definition provision_supervisor ::
  "env \<Rightarrow> lxd_compute_driver \<Rightarrow> string \<Rightarrow> string \<Rightarrow> string \<Rightarrow> (driver_error, unit) fallible" where
  "provision_supervisor E d aux_pool digest binary_path =
     with_lock (''supervisor-volume:'' @ aux_pool @ ''/'' @ digest) (
       await_map (\<lambda>e. ImageImport (''supervisor binary volume provisioning failed on pool '' @ debug_str aux_pool
           @ '': '' @ show_lxd_error e))
         (ensure_supervisor_volume E (drv_lxd d) aux_pool (supervisor_volume_name digest) binary_path) ok)"

definition provision_dhcp_client ::
  "env \<Rightarrow> lxd_compute_driver \<Rightarrow> string \<Rightarrow> string \<Rightarrow> string \<Rightarrow> (driver_error, unit) fallible" where
  "provision_dhcp_client E d aux_pool dhcp_digest dhcp_binary_bytes =
     with_lock (''dhcp-client-volume:'' @ aux_pool @ ''/'' @ dhcp_digest) (
       await_map (\<lambda>e. ImageImport (''DHCP client volume provisioning failed on pool '' @ debug_str aux_pool
           @ '': '' @ show_lxd_error e))
         (ensure_dhcp_client_volume E (drv_lxd d) aux_pool (dhcp_client_volume_name dhcp_digest)
            dhcp_binary_bytes (asset_dhcp_script E)) ok)"

text \<open>From provisioning the volumes until the instance uses them, under the shared lock.\<close>

definition create_with_volumes ::
  "env \<Rightarrow> lxd_compute_driver \<Rightarrow> driver_sandbox \<Rightarrow> driver_sandbox_spec \<Rightarrow> driver_sandbox_template \<Rightarrow> placement
   \<Rightarrow> string option \<Rightarrow> config_map \<Rightarrow> string \<Rightarrow> string \<Rightarrow> string \<Rightarrow> (driver_error, unit) fallible"
where
  "create_with_volumes E d sandbox spec template placement egress_acl m binary_path digest image_alias =
     (let aux_pool = aux_pool_of (drv_config d) placement in
      with_lock ''volume_use:read'' (
        await_ok (provision_supervisor E d aux_pool digest binary_path) (\<lambda>_.
        await_ok (load_dhcp_client E (cfg_dhcp_client_bin (drv_config d))) (\<lambda>(dhcp_binary_bytes, dhcp_digest).
        await_ok (provision_dhcp_client E d aux_pool dhcp_digest dhcp_binary_bytes) (\<lambda>_.
        await_map Lxd (create_instance E (drv_lxd d) (sb_name sandbox) image_alias m
            (build_create_devices placement egress_acl (gpu_of spec \<noteq> None) aux_pool (supervisor_volume_name digest)
               aux_pool (dhcp_client_volume_name dhcp_digest))
            (build_profiles template) False) (\<lambda>op.
        wait_operation E d (op_id op)))))))"

definition post_create ::
  "env \<Rightarrow> lxd_compute_driver \<Rightarrow> driver_sandbox \<Rightarrow> (string \<times> string) list \<Rightarrow> (driver_error, unit) fallible" where
  "post_create E d sandbox guest_files =
     await_ok (push_guest_files E d (sb_name sandbox) guest_files) (\<lambda>_.
     start_and_settle E d (sb_name sandbox) (sb_id sandbox))"

definition cleanup_instance :: "env \<Rightarrow> lxd_compute_driver \<Rightarrow> string \<Rightarrow> (driver_error, unit) fallible" where
  "cleanup_instance E d name =
     await (stop_instance E (drv_lxd d) name True) (\<lambda>s.
     await (case s of Inr op \<Rightarrow> await (wait_operation E d (op_id op)) (\<lambda>_. return ()) | Inl _ \<Rightarrow> return ()) (\<lambda>_.
     await_map Lxd (delete_instance E (drv_lxd d) name) (\<lambda>op.
     wait_operation E d (op_id op))))"

definition create_sandbox :: "env \<Rightarrow> lxd_compute_driver \<Rightarrow> driver_sandbox \<Rightarrow> (driver_error, unit) fallible" where
  "create_sandbox E d sandbox =
     lift_ok (validate_sandbox_create sandbox) (\<lambda>_.
     lift_ok (spec_of sandbox) (\<lambda>spec.
     lift_ok (template_of spec) (\<lambda>template.
     let placement = placement_resolve template (cfg_default_network (drv_config d)) (cfg_default_storage_pool (drv_config d)) in
     await_ok (check_placement E d placement) (\<lambda>network.
     lift_ok (resolve_gateway_endpoint d (pl_network placement) network) (\<lambda>gateway_endpoint.
     await_ok (if cfg_restrict_sandbox_egress (drv_config d)
       then await_ok (ensure_egress_acl E d (pl_network placement) network gateway_endpoint) (\<lambda>a. ok (Some a))
       else ok None) (\<lambda>egress_acl.
     lift_ok (build_create_config (ext_json_print E) sandbox spec template gateway_endpoint
         (spec_sandbox_token spec \<noteq> []) (cfg_default_max_processes (drv_config d))) (\<lambda>m.
     await_ok (prepare_guest E d spec m) (\<lambda>(m', guest_files).
     await_ok (resolve_supervisor E d) (\<lambda>(binary_path, digest).
     await_ok (resolve_alias (drv_image_cache d)
         (if tpl_image template = [] then cfg_default_image (drv_config d) else tpl_image template)) (\<lambda>image_alias.
     await_ok (create_with_volumes E d sandbox spec template placement egress_acl m' binary_path digest image_alias) (\<lambda>_.
     await (post_create E d sandbox guest_files) (\<lambda>r. case r of
        Inr _ \<Rightarrow> ok ()
      | Inl post_err \<Rightarrow> await (cleanup_instance E d (sb_name sandbox)) (\<lambda>_. err post_err)))))))))))))"

section \<open>Stopping and deleting\<close>

definition already_stopped :: "driver_error \<Rightarrow> bool" where
  "already_stopped e = (case e of Lxd l \<Rightarrow> is_already_stopped l | _ \<Rightarrow> False)"

definition graceful_stop :: "env \<Rightarrow> lxd_compute_driver \<Rightarrow> string \<Rightarrow> (driver_error, unit) fallible" where
  "graceful_stop E d name =
     await_map Lxd (stop_instance_timeout E (drv_lxd d) name False (cfg_stop_timeout_secs (drv_config d))) (\<lambda>op.
     wait_operation E d (op_id op))"

definition forced_stop :: "env \<Rightarrow> lxd_compute_driver \<Rightarrow> string \<Rightarrow> (driver_error, unit) fallible" where
  "forced_stop E d name =
     await (stop_instance E (drv_lxd d) name True) (\<lambda>s. case s of
        Inl e \<Rightarrow>
          if is_already_stopped e then ok ()
          else await (clear_stop_intent E d name) (\<lambda>_. err (Lxd e))
      | Inr op \<Rightarrow>
          await (wait_operation E d (op_id op)) (\<lambda>w. case w of
             Inr _ \<Rightarrow> ok ()
           | Inl e \<Rightarrow>
               if \<not> already_stopped e then await (clear_stop_intent E d name) (\<lambda>_. err e) else ok ()))"

definition stop_sandbox :: "env \<Rightarrow> lxd_compute_driver \<Rightarrow> string \<Rightarrow> (driver_error, unit) fallible" where
  "stop_sandbox E d name =
     with_lock (lifecycle_lock name) (
       await_ok (get_managed_instance E d name) (\<lambda>i.
       if eq_ignore_ascii_case (inst_status i) ''Stopped'' then ok ()
       else
         await (set_stop_intent E d name) (\<lambda>_.
         await (graceful_stop E d name) (\<lambda>g. case g of
            Inr _ \<Rightarrow> ok ()
          | Inl e \<Rightarrow> if already_stopped e then ok () else forced_stop E d name))))"

text \<open>The forced stop before a deletion: \<open>False\<close> when the instance is gone.\<close>

definition stop_before_delete :: "env \<Rightarrow> lxd_compute_driver \<Rightarrow> string \<Rightarrow> (driver_error, bool) fallible" where
  "stop_before_delete E d name =
     await (stop_instance E (drv_lxd d) name True) (\<lambda>s. case s of
        Inr op \<Rightarrow>
          await (wait_operation E d (op_id op)) (\<lambda>w. case w of
             Inr _ \<Rightarrow> ok True
           | Inl e \<Rightarrow> if \<not> already_stopped e then err e else ok True)
      | Inl e \<Rightarrow>
          if is_already_stopped e then ok True
          else (case e of Api code msg \<Rightarrow> if code = 404 then ok False else err (Lxd e) | _ \<Rightarrow> err (Lxd e)))"

definition delete_sandbox :: "env \<Rightarrow> lxd_compute_driver \<Rightarrow> string \<Rightarrow> (driver_error, string option) fallible" where
  "delete_sandbox E d name =
     with_lock (lifecycle_lock name) (
       await (get_instance E (drv_lxd d) name) (\<lambda>r. case r of
          Inl (Api code msg) \<Rightarrow> if code = 404 then ok None else err (Lxd (Api code msg))
        | Inl e \<Rightarrow> err (Lxd e)
        | Inr i \<Rightarrow> (case inst_config i KEY_SANDBOX_ID of
            None \<Rightarrow> ok None
          | Some sandbox_id \<Rightarrow>
              await_ok (stop_before_delete E d name) (\<lambda>present.
              if \<not> present then ok None
              else
                await (delete_instance E (drv_lxd d) name) (\<lambda>x. case x of
                   Inl (Api code msg) \<Rightarrow> if code = 404 then ok None else err (Lxd (Api code msg))
                 | Inl e \<Rightarrow> err (Lxd e)
                 | Inr op \<Rightarrow>
                     await_ok (wait_operation E d (op_id op)) (\<lambda>_. ok (Some sandbox_id)))))))"

end
