(* ===== verification/Watcher.thy ===== *)
theory Watcher
  imports Driver "HOL-Library.AList"
begin

text \<open>
  The lifecycle watcher (\<open>openshell-driver-lxd/src/watcher.rs\<close>): it follows LXD's event stream and
  publishes snapshots and deletions. The map of known sandboxes is an association list with distinct
  names, in the order the program happens to iterate over it. The task reconnects for ever; the model
  observes \<open>env_rounds\<close> connections.
\<close>

section \<open>Constants\<close>

definition RESUBSCRIBE_DELAY :: nat where
  "RESUBSCRIBE_DELAY = 2000"

definition WATCHED_ACTIONS :: "string list" where
  "WATCHED_ACTIONS = [''instance-created'', ''instance-started'', ''instance-shutdown'', ''instance-stopped'',
     ''instance-restarted'', ''instance-paused'', ''instance-resumed'']"

definition DELETED_ACTION :: string where
  "DELETED_ACTION = ''instance-deleted''"

definition RECENT_EVENTS :: nat where
  "RECENT_EVENTS = 64"

section \<open>Recent events\<close>

definition event_key :: "env \<Rightarrow> lxd_event \<Rightarrow> string" where
  "event_key E ev = ev_timestamp ev @ '' '' @ ext_json_print E (ev_metadata ev)"

text \<open>\<open>RecentEvents::first_sighting\<close> on the queue of keys, oldest first.\<close>

definition first_sighting :: "env \<Rightarrow> string list \<Rightarrow> lxd_event \<Rightarrow> bool \<times> string list" where
  "first_sighting E keys ev =
     (let key = event_key E ev
      in if key \<in> set keys then (False, keys)
         else (True, (if length keys = RECENT_EVENTS then tl keys else keys) @ [key]))"

section \<open>Reading an event\<close>

definition instance_name :: "json \<Rightarrow> string option" where
  "instance_name metadata =
     (case Option.bind (get metadata ''name'') as_str of
        Some name \<Rightarrow> if name \<noteq> [] then Some name else
          Option.bind (Option.bind (get metadata ''source'') as_str) (\<lambda>source.
            let name = split_last (CHR ''/'') (split_first (CHR ''?'') source)
            in if name \<noteq> [] then Some name else None)
      | None \<Rightarrow>
          Option.bind (Option.bind (get metadata ''source'') as_str) (\<lambda>source.
            let name = split_last (CHR ''/'') (split_first (CHR ''?'') source)
            in if name \<noteq> [] then Some name else None))"

definition action_of :: "json \<Rightarrow> string option" where
  "action_of metadata = Option.bind (get metadata ''action'') as_str"

section \<open>Known sandboxes\<close>

type_synonym known_ids = "(string \<times> string) list"

definition managed_sandbox_ids :: "env \<Rightarrow> lxd_client \<Rightarrow> (lxd_error, known_ids) fallible" where
  "managed_sandbox_ids E cl =
     await_ok (list_instances E cl) (\<lambda>instances.
     ok (fold (\<lambda>(n, i). AList.update n i) (List.map_filter (\<lambda>i. map_option (Pair (inst_name i)) (inst_config i KEY_SANDBOX_ID)) instances) []))"

definition extend_ids :: "known_ids \<Rightarrow> known_ids \<Rightarrow> known_ids" where
  "extend_ids known ids = fold (\<lambda>(n, i). AList.update n i) ids known"

definition reconcile_and_seed_sandbox_ids ::
  "known_ids \<Rightarrow> known_ids \<Rightarrow> known_ids \<Rightarrow> string list \<times> known_ids" where
  "reconcile_and_seed_sandbox_ids known pre_ids post_ids =
     (let gone = (\<lambda>(n, _). map_of pre_ids n = None \<and> map_of post_ids n = None)
      in (map snd (filter gone known),
          extend_ids (extend_ids (filter (\<lambda>kv. \<not> gone kv) known) pre_ids) post_ids))"

fun publish_all :: "watch_event list \<Rightarrow> unit action" where
  "publish_all [] = return ()"
| "publish_all (w # ws) = await (publish w) (\<lambda>_. publish_all ws)"

section \<open>The event loop\<close>

text \<open>One event that was not seen before: the new map of known sandboxes.\<close>

definition handle_event :: "env \<Rightarrow> lxd_client \<Rightarrow> known_ids \<Rightarrow> lxd_event \<Rightarrow> known_ids action" where
  "handle_event E cl known ev =
     (case action_of (ev_metadata ev) of None \<Rightarrow> return known | Some action \<Rightarrow>
     (case instance_name (ev_metadata ev) of None \<Rightarrow> return known | Some name \<Rightarrow>
        if action = DELETED_ACTION then
          (case map_of known name of
             Some sandbox_id \<Rightarrow> await (publish (Deleted sandbox_id)) (\<lambda>_. return (AList.delete name known))
           | None \<Rightarrow> return known)
        else if action \<notin> set WATCHED_ACTIONS then return known
        else
          await (get_instance E cl name) (\<lambda>r. case r of
             Inl _ \<Rightarrow> return known
           | Inr i \<Rightarrow> (case inst_config i KEY_SANDBOX_ID of
               None \<Rightarrow> return known
             | Some sandbox_id \<Rightarrow>
                 await (publish (Sandbox (instance_to_driver_sandbox_live i))) (\<lambda>_.
                 return (AList.update name sandbox_id known))))))"

fun watch_events ::
  "env \<Rightarrow> lxd_client \<Rightarrow> bool \<Rightarrow> (lxd_error, lxd_event) result list \<Rightarrow> string list \<Rightarrow> known_ids
   \<Rightarrow> ((lxd_error, unit) result \<times> known_ids) action"
where
  "watch_events E cl closes [] recent known = (if closes then return (Inr (), known) else hang)"
| "watch_events E cl closes (item # items) recent known = (case item of
      Inl e \<Rightarrow> return (Inl e, known)
    | Inr ev \<Rightarrow>
        (let (fresh, recent') = first_sighting E recent ev
         in if \<not> fresh then watch_events E cl closes items recent' known
            else await (handle_event E cl known ev) (\<lambda>known'.
                 watch_events E cl closes items recent' known')))"

definition run_once :: "env \<Rightarrow> lxd_client \<Rightarrow> known_ids \<Rightarrow> ((lxd_error, unit) result \<times> known_ids) action" where
  "run_once E cl known =
     await (managed_sandbox_ids E cl) (\<lambda>p. case p of Inl e \<Rightarrow> return (Inl e, known) | Inr pre_ids \<Rightarrow>
     await (subscribe_events E cl [''lifecycle'']) (\<lambda>s. case s of Inl e \<Rightarrow> return (Inl e, known) | Inr stream \<Rightarrow>
     await (managed_sandbox_ids E cl) (\<lambda>q. case q of Inl e \<Rightarrow> return (Inl e, known) | Inr post_ids \<Rightarrow>
       (let (deleted, known') = reconcile_and_seed_sandbox_ids known pre_ids post_ids
        in await (publish_all (map Deleted deleted)) (\<lambda>_.
           watch_events E cl (es_closes stream) (es_items stream) [] known')))))"

fun watch_forever :: "nat \<Rightarrow> env \<Rightarrow> lxd_client \<Rightarrow> known_ids \<Rightarrow> unit action" where
  "watch_forever 0 E cl known = hang"
| "watch_forever (Suc n) E cl known =
     await (run_once E cl known) (\<lambda>(_, known').
     await (sleep RESUBSCRIBE_DELAY) (\<lambda>_. watch_forever n E cl known'))"

definition watcher_spawn :: "env \<Rightarrow> lxd_client \<Rightarrow> unit action" where
  "watcher_spawn E cl = watch_forever (env_rounds E) E cl []"

section \<open>Laws\<close>

text \<open>The queue of recent keys never grows beyond its bound and never holds a key twice.\<close>

definition recent_inv :: "string list \<Rightarrow> bool" where
  "recent_inv keys \<longleftrightarrow> length keys \<le> RECENT_EVENTS \<and> distinct keys"

lemma first_sighting_inv:
  "recent_inv keys \<Longrightarrow> recent_inv (snd (first_sighting E keys ev))"
  by (cases keys) (auto simp: recent_inv_def first_sighting_def Let_def RECENT_EVENTS_def)

lemma first_sighting_recorded: "event_key E ev \<in> set (snd (first_sighting E keys ev))"
  by (simp add: first_sighting_def Let_def)

text \<open>A repeated event is dropped as long as fewer than 64 distinct ones came in between.\<close>

fun sightings :: "env \<Rightarrow> string list \<Rightarrow> lxd_event list \<Rightarrow> string list" where
  "sightings E keys [] = keys"
| "sightings E keys (ev # evs) = sightings E (snd (first_sighting E keys ev)) evs"

lemma sightings_keep:
  assumes "recent_inv (u @ k # v)" and "length v + length evs < RECENT_EVENTS"
  shows "k \<in> set (sightings E (u @ k # v) evs)"
  using assms
proof (induction evs arbitrary: u v)
  case (Cons ev evs)
  let ?key = "event_key E ev"
  show ?case
  proof (cases "?key \<in> set (u @ k # v)")
    case True
    then have "snd (first_sighting E (u @ k # v) ev) = u @ k # v" by (simp add: first_sighting_def Let_def)
    with Cons show ?thesis by simp
  next
    case False
    define u' where "u' = (if length (u @ k # v) = RECENT_EVENTS then tl u else u)"
    have "Suc (length v) \<noteq> RECENT_EVENTS" using Cons.prems(2) by simp
    then have next_keys: "snd (first_sighting E (u @ k # v) ev) = u' @ k # (v @ [?key])"
      using False by (cases u) (simp_all add: first_sighting_def Let_def u'_def)
    have "recent_inv (u' @ k # (v @ [?key]))"
      using first_sighting_inv [OF Cons.prems(1), of E ev] next_keys by simp
    then show ?thesis using Cons.IH [of u' "v @ [?key]"] Cons.prems(2) next_keys by simp
  qed
qed simp

text \<open>Every sandbox known before is either still listed or reported as deleted.\<close>

lemma map_of_update_keys: "fst ` set (AList.update k v al) = insert k (fst ` set al)"
  by (metis (no_types) dom_update image_set set_map Un_insert_left insert_is_Un dom_map_of_conv_image_fst
      dom_fun_upd update_conv' option.distinct(1))

lemma extend_ids_keys: "fst ` set (extend_ids known ids) = fst ` set known \<union> fst ` set ids"
  unfolding extend_ids_def
proof (induction ids arbitrary: known)
  case (Cons kv ids)
  then show ?case by (cases kv) (simp add: map_of_update_keys)
qed simp

end
