(* ===== verification/Grpc.thy ===== *)
theory Grpc
  imports Watcher
begin

text \<open>
  The gRPC service (\<open>openshell-driver-lxd/src/grpc.rs\<close>): each handler of \<open>ComputeDriver\<close> over the
  driver, with errors as statuses. Requests that address a sandbox are its name and id; responses without fields are unit. What the broadcast channel delivers
  to a watcher is a parameter.
\<close>

section \<open>The service\<close>

text \<open>The sending end of the channel of events is known by its capacity: what is sent on it are the
  \<open>Publish\<close> events of the history. A new service comes with the task of its watcher.\<close>

record compute_driver_service =
  svc_driver :: lxd_compute_driver
  svc_event_capacity :: nat

definition service_new :: "env \<Rightarrow> lxd_compute_driver \<Rightarrow> compute_driver_service \<times> unit action" where
  "service_new E driver =
     (\<lparr>svc_driver = driver, svc_event_capacity = 64\<rparr>, watcher_spawn E (drv_lxd driver))"

definition without_watcher :: "lxd_compute_driver \<Rightarrow> compute_driver_service" where
  "without_watcher driver = \<lparr>svc_driver = driver, svc_event_capacity = 64\<rparr>"

section \<open>Addressing a sandbox\<close>

definition no_such_id :: "string \<Rightarrow> status" where
  "no_such_id sandbox_id = mk_status Code_NotFound (''no sandbox found with sandbox_id '' @ debug_str sandbox_id)"

definition resolve_name :: "env \<Rightarrow> lxd_compute_driver \<Rightarrow> string \<Rightarrow> string \<Rightarrow> (status, string) fallible" where
  "resolve_name E d sandbox_name sandbox_id =
     (if sandbox_name \<noteq> [] then ok sandbox_name
      else if sandbox_id = [] then
        err (status_of_error (InvalidArgument ''sandbox_name or sandbox_id is required''))
      else
        await_map status_of_error (find_name_by_sandbox_id E d sandbox_id) (\<lambda>n.
        return (ok_or n (no_such_id sandbox_id))))"

section \<open>Handlers\<close>

definition grpc_get_capabilities :: "string \<Rightarrow> lxd_compute_driver \<Rightarrow> (status, get_capabilities_response) fallible" where
  "grpc_get_capabilities version d = ok (capabilities version d)"

definition grpc_authenticate_sandbox :: "(status, unit) fallible" where
  "grpc_authenticate_sandbox =
     err (status_of_error (Unimplemented ''the LXD driver does not authenticate sandbox credentials''))"

definition grpc_get_gateway_listener_requirements ::
  "lxd_compute_driver \<Rightarrow> (status, gateway_listener_requirement list) fallible" where
  "grpc_get_gateway_listener_requirements d = ok (gateway_listener_requirements d)"

definition grpc_start_sandbox :: "env \<Rightarrow> lxd_compute_driver \<Rightarrow> string \<Rightarrow> string \<Rightarrow> (status, unit) fallible" where
  "grpc_start_sandbox E d sandbox_name sandbox_id =
     await_ok (resolve_name E d sandbox_name sandbox_id) (\<lambda>name.
     await_map status_of_error (start_sandbox E d name) ok)"

definition grpc_ensure_workspace :: "(status, unit) fallible" where
  "grpc_ensure_workspace = ok ()"

definition grpc_delete_workspace :: "(status, unit) fallible" where
  "grpc_delete_workspace = ok ()"

definition required_sandbox :: "driver_sandbox option \<Rightarrow> (status, driver_sandbox) result" where
  "required_sandbox s = ok_or s (status_of_error (InvalidArgument ''sandbox is required''))"

definition grpc_validate_sandbox_create :: "driver_sandbox option \<Rightarrow> (status, unit) fallible" where
  "grpc_validate_sandbox_create s =
     lift_ok (required_sandbox s) (\<lambda>sandbox.
     return (map_err status_of_error (validate_sandbox_create sandbox)))"

definition grpc_get_sandbox :: "env \<Rightarrow> lxd_compute_driver \<Rightarrow> string \<Rightarrow> string \<Rightarrow> (status, driver_sandbox) fallible" where
  "grpc_get_sandbox E d sandbox_name sandbox_id =
     await_ok (resolve_name E d sandbox_name sandbox_id) (\<lambda>name.
     await_map status_of_error (get_sandbox E d name) ok)"

definition grpc_list_sandboxes :: "env \<Rightarrow> lxd_compute_driver \<Rightarrow> (status, driver_sandbox list) fallible" where
  "grpc_list_sandboxes E d = await_map status_of_error (list_sandboxes E d) ok"

definition grpc_create_sandbox :: "env \<Rightarrow> lxd_compute_driver \<Rightarrow> driver_sandbox option \<Rightarrow> (status, unit) fallible" where
  "grpc_create_sandbox E d s =
     lift_ok (required_sandbox s) (\<lambda>sandbox.
     await_map status_of_error (create_sandbox E d sandbox) ok)"

definition grpc_stop_sandbox :: "env \<Rightarrow> lxd_compute_driver \<Rightarrow> string \<Rightarrow> string \<Rightarrow> (status, unit) fallible" where
  "grpc_stop_sandbox E d sandbox_name sandbox_id =
     await_ok (resolve_name E d sandbox_name sandbox_id) (\<lambda>name.
     await_map status_of_error (stop_sandbox E d name) ok)"

definition grpc_delete_sandbox :: "env \<Rightarrow> lxd_compute_driver \<Rightarrow> string \<Rightarrow> string \<Rightarrow> (status, bool) fallible" where
  "grpc_delete_sandbox E d sandbox_name sandbox_id =
     await (resolve_name E d sandbox_name sandbox_id) (\<lambda>r. case r of
        Inl status \<Rightarrow> if status_code status = Code_NotFound then ok False else err status
      | Inr name \<Rightarrow>
          await_map status_of_error (delete_sandbox E d name) (\<lambda>deleted. case deleted of
             Some sandbox_id \<Rightarrow>
               await (if sandbox_id \<noteq> [] then publish (Deleted sandbox_id) else return ()) (\<lambda>_. ok True)
           | None \<Rightarrow> ok False))"

text \<open>\<open>WatchSandboxes\<close>: subscribe, then stream the current sandboxes followed by what the channel delivers
  to this receiver.\<close>

datatype received = Received watch_event | Lagged nat

definition lagged :: "nat \<Rightarrow> status" where
  "lagged n = mk_status Code_DataLoss (''WatchSandboxes receiver lagged and missed '' @ dec n
     @ '' event(s); reconnect and re-list to resync'')"

definition live_event :: "received \<Rightarrow> (status, watch_event) result" where
  "live_event r = (case r of Received w \<Rightarrow> Inr w | Lagged n \<Rightarrow> Inl (lagged n))"

definition grpc_watch_sandboxes ::
  "env \<Rightarrow> lxd_compute_driver \<Rightarrow> received list \<Rightarrow> (status, (status, watch_event) result list) fallible" where
  "grpc_watch_sandboxes E d live =
     await (note_event Watch_Subscribed) (\<lambda>_.
     await_map status_of_error (list_sandboxes E d) (\<lambda>current.
     ok (map (\<lambda>sandbox. Inr (Sandbox sandbox)) current @ map live_event live)))"

end
