(* ===== verification/Startup.thy ===== *)
theory Startup
  imports Grpc
begin

text \<open>
  Start-up (\<open>openshell-driver-lxd/src/main.rs\<close>): the checks before the driver serves, its socket, the
  client of LXD, and the task that pre-warms the default image and cleans up. \<open>Exit n\<close> is
  \<open>std::process::exit\<close>, \<open>Main_Error\<close> an error that \<open>main\<close> returns. Logging and serving requests are
  left to the runtime.
\<close>

section \<open>Start-up\<close>

text \<open>\<open>main\<close>: the endpoint of LXD.\<close>

definition endpoint_of :: "config \<Rightarrow> (string, lxd_endpoint) result" where
  "endpoint_of c = (case cfg_lxd_url c of
      Some url \<Rightarrow>
        result_bind (ok_or (cfg_lxd_client_cert c) ''--lxd-client-cert is required when --lxd-url is set'') (\<lambda>client_cert.
        result_bind (ok_or (cfg_lxd_client_key c) ''--lxd-client-key is required when --lxd-url is set'') (\<lambda>client_key.
        Inr (Https \<lparr>https_url = url, https_client_cert = client_cert, https_client_key = client_key,
          https_server_ca = cfg_lxd_server_ca c, https_server_cert = cfg_lxd_server_cert c,
          https_server_fingerprint = cfg_lxd_server_fingerprint c\<rparr>)))
    | None \<Rightarrow> Inr (UnixSocket (cfg_lxd_socket c)))"

datatype startup_failure = Exit nat | Main_Error string

text \<open>The checks before the driver serves: the configuration and the TLS files, then the project and the
  architecture.\<close>

definition check_config :: "env \<Rightarrow> config \<Rightarrow> (startup_failure, unit) fallible" where
  "check_config E c =
     lift_ok (map_err (\<lambda>_. Exit 2) (validate c)) (\<lambda>_.
     case guest_tls c of
       None \<Rightarrow> ok ()
     | Some tls \<Rightarrow> for_ok [tls_ca tls, tls_cert tls, tls_key tls] (\<lambda>path.
         await_map (\<lambda>_. Exit 2) (fs_do E (Open_File path)) ok))"

definition check_lxd :: "env \<Rightarrow> config \<Rightarrow> lxd_client \<Rightarrow> (startup_failure, unit) fallible" where
  "check_lxd E c lxd =
     await (project_exists E lxd (cfg_project c)) (\<lambda>p.
     if p = Inr False then err (Exit 1)
     else
       await_map (\<lambda>_. Exit 1) (verify_architecture E lxd (host_lxd_arch E)) ok)"

text \<open>The socket: an old one is removed, anything else in its place is an error, and only the owner may
  connect.\<close>

definition SOCKET_MODE :: nat where
  "SOCKET_MODE = 384"

definition main_io :: "env \<Rightarrow> io_error \<Rightarrow> startup_failure" where
  "main_io E e = Main_Error (ext_show_io E e)"

definition prepare_socket :: "env \<Rightarrow> config \<Rightarrow> (startup_failure, unit) fallible" where
  "prepare_socket E c =
     (let socket = cfg_socket c in
      await_ok (case path_parent socket of
          Some parent \<Rightarrow> if parent \<noteq> [] then await_map (main_io E) (fs_do E (Create_Dir_All parent)) ok else ok ()
        | None \<Rightarrow> ok ()) (\<lambda>_.
      await_ok (await (fs_stat E (Symlink_Metadata socket)) (\<lambda>r. case r of
          Inr metadata \<Rightarrow>
            if meta_is_socket metadata then await_map (main_io E) (fs_do E (Remove_File socket)) ok
            else err (Main_Error (''refusing to remove existing non-socket path at '' @ socket))
        | Inl (NotFound _) \<Rightarrow> ok ()
        | Inl e \<Rightarrow> err (main_io E e))) (\<lambda>_.
      await_map (main_io E) (fs_do E (Bind_Socket socket)) (\<lambda>_.
      await_map (main_io E) (fs_do E (Set_Mode socket SOCKET_MODE)) ok))))"

definition startup :: "env \<Rightarrow> config \<Rightarrow> (startup_failure, lxd_compute_driver) fallible" where
  "startup E c =
     await_ok (check_config E c) (\<lambda>_.
     await_ok (prepare_socket E c) (\<lambda>_.
     lift_ok (map_err Main_Error (endpoint_of c)) (\<lambda>endpoint.
     await_map (\<lambda>e. Main_Error (show_lxd_error e)) (lxd_client_new E endpoint) (\<lambda>client.
     let lxd = with_project client (cfg_project c) in
     await_ok (check_lxd E c lxd) (\<lambda>_. ok (driver_new E c lxd))))))"

text \<open>The background task: pre-warm the default image, then clean up at every interval.\<close>

fun cleanup_loop :: "nat \<Rightarrow> env \<Rightarrow> lxd_compute_driver \<Rightarrow> unit action" where
  "cleanup_loop 0 E d = hang"
| "cleanup_loop (Suc n) E d =
     await (collect_garbage E d) (\<lambda>_.
     await (sleep (1000 * cfg_cleanup_interval_secs (drv_config d))) (\<lambda>_. cleanup_loop n E d))"

definition background_task :: "env \<Rightarrow> lxd_compute_driver \<Rightarrow> unit action" where
  "background_task E d =
     await (ensure_default_image d) (\<lambda>_.
     if cfg_cleanup_interval_secs (drv_config d) = 0 then return ()
     else cleanup_loop (env_rounds E) E d)"

end
