(* ===== verification/Api_Laws.thy ===== *)
theory Api_Laws
  imports Acls
begin

text \<open>
  What the client methods put on the wire: for every method, which events it can emit. A rule's
  premises say that the allowed events include the requests of the method, so that a component's
  guarantee follows by applying the rules to its definition.
\<close>

section \<open>Errors by case\<close>

lemma emits_case_lxd_error [emits_rules]:
  "(\<And>a b. emits p (f1 a b)) \<Longrightarrow> (\<And>a b. emits p (f2 a b)) \<Longrightarrow> (\<And>a b. emits p (f3 a b)) \<Longrightarrow>
   (\<And>a. emits p (f4 a)) \<Longrightarrow> (\<And>a. emits p (f5 a)) \<Longrightarrow> (\<And>a. emits p (f6 a)) \<Longrightarrow> (\<And>a. emits p (f7 a)) \<Longrightarrow>
   (\<And>a. emits p (f8 a)) \<Longrightarrow> (\<And>a. emits p (f9 a)) \<Longrightarrow>
   emits p (case_lxd_error f1 f2 f3 f4 f5 f6 f7 f8 f9 e)"
  by (cases e) simp_all

lemma emits_let [emits_rules]: "emits p (f x) \<Longrightarrow> emits p (let y = x in f y)"
  by simp

section \<open>Waiting\<close>

lemma emits_wait_operation [emits_rules]:
  "(\<And>e. observing e \<Longrightarrow> p e) \<Longrightarrow> emits p (lxd_wait_operation E cl i)"
  by (rule emits_weaken [OF observing_wait.emits_lxd_wait])

section \<open>Instances\<close>

lemma emits_create_instance [emits_rules]:
  "(\<And>r a. is_request E cl POST ''/1.0/instances'' (Instance_Body n i c ds ps s) r \<Longrightarrow> p (Exchange r a))
   \<Longrightarrow> emits p (create_instance E cl n i c ds ps s)"
  unfolding create_instance_def by (intro emits_rules)

lemma emits_get_instance [emits_rules]:
  "(\<And>r a. is_request E cl GET (instance_path n) No_Body r \<Longrightarrow> p (Exchange r a)) \<Longrightarrow> emits p (get_instance E cl n)"
  unfolding get_instance_def by (intro emits_rules)

lemma emits_list_instances [emits_rules]:
  "(\<And>r a. is_request E cl GET ''/1.0/instances?recursion=1'' No_Body r \<Longrightarrow> p (Exchange r a))
   \<Longrightarrow> emits p (list_instances E cl)"
  unfolding list_instances_def by (intro emits_rules)

lemma emits_start_instance [emits_rules]:
  "(\<And>r a. is_request E cl PUT (state_path n) (Json_Body start_body) r \<Longrightarrow> p (Exchange r a))
   \<Longrightarrow> emits p (start_instance E cl n)"
  unfolding start_instance_def by (intro emits_rules)

lemma emits_stop_instance_timeout [emits_rules]:
  "(\<And>r a. is_request E cl PUT (state_path n) (Json_Body (stop_body f t)) r \<Longrightarrow> p (Exchange r a))
   \<Longrightarrow> emits p (stop_instance_timeout E cl n f t)"
  unfolding stop_instance_timeout_def by (intro emits_rules)

lemma emits_stop_instance [emits_rules]:
  "(\<And>r a. is_request E cl PUT (state_path n) (Json_Body (stop_body f 0)) r \<Longrightarrow> p (Exchange r a))
   \<Longrightarrow> emits p (stop_instance E cl n f)"
  unfolding stop_instance_def by (intro emits_rules)

lemma emits_patch_instance_config [emits_rules]:
  "(\<And>r a. is_request E cl PATCH (''/1.0/instances/'' @ ext_encode E n) (Json_Body (patch_body c)) r \<Longrightarrow> p (Exchange r a))
   \<Longrightarrow> emits p (patch_instance_config E cl n c)"
  unfolding patch_instance_config_def by (intro emits_rules)

lemma emits_delete_instance [emits_rules]:
  "(\<And>r a. is_request E cl DELETE (instance_path n) No_Body r \<Longrightarrow> p (Exchange r a))
   \<Longrightarrow> emits p (delete_instance E cl n)"
  unfolding delete_instance_def by (intro emits_rules)

lemma emits_push_file [emits_rules]:
  "(\<And>r a g b. is_request E cl POST (files_path E n g) b r \<Longrightarrow> p (Exchange r a)) \<Longrightarrow>
   (\<And>r a g. is_request E cl GET (files_path E n g) No_Body r \<Longrightarrow> p (Exchange r a))
   \<Longrightarrow> emits p (push_file_into_instance E cl n g content)"
  unfolding push_file_into_instance_def create_parent_dirs_in_instance_def path_is_dir_in_instance_def
  by (intro emits_rules)

section \<open>Reads\<close>

lemma emits_exists_at [emits_rules]:
  "(\<And>r a. is_request E cl GET path No_Body r \<Longrightarrow> p (Exchange r a)) \<Longrightarrow> emits p (exists_at E cl path)"
  unfolding exists_at_def by (intro emits_rules)

lemma emits_get_network [emits_rules]:
  "(\<And>r a. is_request E cl GET (''/1.0/networks/'' @ n) No_Body r \<Longrightarrow> p (Exchange r a)) \<Longrightarrow> emits p (get_network E cl n)"
  unfolding get_network_def by (intro emits_rules)

lemma observing_GET: "is_request E cl GET path body r \<Longrightarrow> observing (Exchange r a)"
  by (simp add: is_request_def)

lemma emits_reads [emits_rules]:
  "(\<And>e. observing e \<Longrightarrow> p e) \<Longrightarrow> emits p (project_exists E cl n)"
  "(\<And>e. observing e \<Longrightarrow> p e) \<Longrightarrow> emits p (image_alias_exists E cl n)"
  "(\<And>e. observing e \<Longrightarrow> p e) \<Longrightarrow> emits p (storage_pool_exists E cl n)"
  "(\<And>e. observing e \<Longrightarrow> p e) \<Longrightarrow> emits p (storage_pool_volume_exists E cl pool ty n)"
  "(\<And>e. observing e \<Longrightarrow> p e) \<Longrightarrow> emits p (list_images E cl)"
  "(\<And>e. observing e \<Longrightarrow> p e) \<Longrightarrow> emits p (get_image_aliases E cl n)"
  "(\<And>e. observing e \<Longrightarrow> p e) \<Longrightarrow> emits p (list_storage_pools E cl)"
  "(\<And>e. observing e \<Longrightarrow> p e) \<Longrightarrow> emits p (list_custom_volumes E cl pool)"
  "(\<And>e. observing e \<Longrightarrow> p e) \<Longrightarrow> emits p (get_storage_pool_volume E cl pool ty n)"
  "(\<And>e. observing e \<Longrightarrow> p e) \<Longrightarrow> emits p (server_architectures E cl)"
  "(\<And>e. observing e \<Longrightarrow> p e) \<Longrightarrow> emits p (verify_architecture E cl n)"
  unfolding project_exists_def image_alias_exists_def storage_pool_exists_def storage_pool_volume_exists_def
    list_images_def get_image_aliases_def list_storage_pools_def list_custom_volumes_def
    get_storage_pool_volume_def verify_architecture_def server_architectures_def
  by (intro emits_rules; simp add: is_request_def)+

section \<open>Images and volumes\<close>

lemma emits_create_image_alias [emits_rules]:
  "(\<And>r a b. is_request E cl POST ''/1.0/images/aliases'' b r \<Longrightarrow> p (Exchange r a))
   \<Longrightarrow> emits p (create_image_alias E cl al fp ds)"
  unfolding create_image_alias_def by (intro emits_rules)

lemma emits_delete_image [emits_rules]:
  "(\<And>r a. is_request E cl DELETE (''/1.0/images/'' @ ext_encode E fp) No_Body r \<Longrightarrow> p (Exchange r a))
   \<Longrightarrow> emits p (delete_image E cl fp)"
  unfolding delete_image_def by (intro emits_rules)

lemma emits_create_image_from_split [emits_rules]:
  "(\<And>r a b. is_request E cl POST ''/1.0/images'' b r \<Longrightarrow> p (Exchange r a)) \<Longrightarrow> (\<And>c b. p (Fs c b))
   \<Longrightarrow> emits p (create_image_from_split E cl mf mb rf rp)"
  unfolding create_image_from_split_def by (intro emits_rules)

lemma emits_delete_custom_volume [emits_rules]:
  "(\<And>r a. is_request E cl DELETE (volume_delete_path E pool n l) No_Body r \<Longrightarrow> p (Exchange r a)) \<Longrightarrow>
   (\<And>e. observing e \<Longrightarrow> p e) \<Longrightarrow> emits p (delete_custom_volume E cl pool n l)"
  unfolding delete_custom_volume_def by (intro emits_rules)

lemma emits_ensure_shifted [emits_rules]:
  "(\<And>e. observing e \<Longrightarrow> p e) \<Longrightarrow>
   (\<And>r a b. is_request E cl PATCH (volume_path E pool ty n) b r \<Longrightarrow> p (Exchange r a))
   \<Longrightarrow> emits p (ensure_storage_pool_volume_shifted E cl pool ty n)"
  unfolding ensure_storage_pool_volume_shifted_def update_storage_pool_volume_config_def
  by (intro emits_rules)

lemma emits_ensure_single_file_volume [emits_rules]:
  "(\<And>e. observing e \<Longrightarrow> p e) \<Longrightarrow>
   (\<And>r a b. is_request E cl PATCH (volume_path E pool ''custom'' n) b r \<Longrightarrow> p (Exchange r a)) \<Longrightarrow>
   (\<And>r a b. is_request E cl POST (''/1.0/storage-pools/'' @ ext_encode E pool @ ''/volumes'') b r \<Longrightarrow> p (Exchange r a))
   \<Longrightarrow> emits p (ensure_single_file_volume E cl pool n entries)"
  unfolding ensure_single_file_volume_def create_storage_pool_volume_from_tarball_def
  by (intro emits_rules)

section \<open>Network ACLs\<close>

lemma emits_ensure_network_acl [emits_rules]:
  "(\<And>e. observing e \<Longrightarrow> p e) \<Longrightarrow>
   (\<And>r a. is_request E cl PUT (acl_path n) (Json_Body (acl_update_body rs)) r \<Longrightarrow> p (Exchange r a)) \<Longrightarrow>
   (\<And>r a. is_request E cl POST ''/1.0/network-acls'' (Json_Body (acl_create_body n rs)) r \<Longrightarrow> p (Exchange r a))
   \<Longrightarrow> emits p (ensure_network_acl E cl n rs)"
  unfolding ensure_network_acl_def acl_put_and_wait_def
  by (intro emits_rules) (simp_all add: is_request_def)

section \<open>Which methods return\<close>

text \<open>Every method that does not wait for an operation returns; a wait returns only under a time limit.\<close>

lemma returns_transport [returns_rules]:
  "returns (exchange E cl m path hs body)" "returns (request E cl f m path v)" "returns (lxd_get E cl f path)"
  "returns (lxd_post E cl f path j)" "returns (lxd_put E cl f path j)" "returns (lxd_patch E cl f path j)"
  "returns (lxd_delete E cl f path)" "returns (post_raw E cl path ct hs b)"
  "returns (get_raw_with_headers E cl path)"
  unfolding request_def lxd_get_def lxd_post_def lxd_put_def lxd_patch_def lxd_delete_def post_raw_def
    get_raw_with_headers_def exchange_def
  by (intro returns_rules)+

lemma returns_metadata_of [returns_rules]: "returns m \<Longrightarrow> returns (metadata_of m)"
  unfolding metadata_of_def by (intro returns_rules)

lemma returns_case_lxd_error [returns_rules]:
  "(\<And>a b. returns (f1 a b)) \<Longrightarrow> (\<And>a b. returns (f2 a b)) \<Longrightarrow> (\<And>a b. returns (f3 a b)) \<Longrightarrow>
   (\<And>a. returns (f4 a)) \<Longrightarrow> (\<And>a. returns (f5 a)) \<Longrightarrow> (\<And>a. returns (f6 a)) \<Longrightarrow> (\<And>a. returns (f7 a)) \<Longrightarrow>
   (\<And>a. returns (f8 a)) \<Longrightarrow> (\<And>a. returns (f9 a)) \<Longrightarrow>
   returns (case_lxd_error f1 f2 f3 f4 f5 f6 f7 f8 f9 e)"
  by (cases e) simp_all

lemma returns_instances [returns_rules]:
  "returns (get_instance E cl n)" "returns (list_instances E cl)" "returns (start_instance E cl n)"
  "returns (stop_instance_timeout E cl n f t)" "returns (stop_instance E cl n f)"
  "returns (patch_instance_config E cl n c)" "returns (delete_instance E cl n)"
  unfolding get_instance_def list_instances_def start_instance_def stop_instance_def
    stop_instance_timeout_def patch_instance_config_def delete_instance_def
  by (intro returns_rules)+

lemma returns_push_file [returns_rules]: "returns (push_file_into_instance E cl n g content)"
  unfolding push_file_into_instance_def create_parent_dirs_in_instance_def path_is_dir_in_instance_def
  by (intro returns_rules)

section \<open>What an answer shows\<close>

text \<open>The events \<open>es\<close> hold an answer of LXD to a GET of \<open>path\<close> that decodes to \<open>x\<close>.\<close>

definition answered :: "env \<Rightarrow> lxd_client \<Rightarrow> 'a decoder \<Rightarrow> string \<Rightarrow> 'a \<Rightarrow> event list \<Rightarrow> bool" where
  "answered E cl f path x es \<longleftrightarrow> (\<exists>r resp reply. Exchange r (Inr resp) \<in> set es
     \<and> is_request E cl GET path No_Body r \<and> decode_reply E f resp = Inr reply \<and> into_metadata reply = Inr x)"

lemma answered_append: "answered E cl f path x es \<Longrightarrow> answered E cl f path x (es @ fs)"
  unfolding answered_def by fastforce

lemma run_get_metadata:
  "run (\<lambda>h. h = h0) (\<lambda>_. observing) (metadata_of (lxd_get E cl f path))
     (\<lambda>r h. \<exists>es. h = h0 @ es \<and> (\<forall>x. r = Inr x \<longrightarrow> answered E cl f path x es))"
  unfolding metadata_of_def lxd_get_def request_def option.case
proof (intro run_await_ok [where R = "\<lambda>r h. \<exists>es. h = h0 @ es \<and> (\<forall>reply. r = Inr reply \<longrightarrow>
      (\<exists>q resp. Exchange q (Inr resp) \<in> set es \<and> is_request E cl GET path No_Body q
        \<and> decode_reply E f resp = Inr reply))"]
    run_await_ok [where R = "\<lambda>a h. \<exists>es. h = h0 @ es \<and> (\<forall>resp. a = Inr resp \<longrightarrow>
      (\<exists>q. Exchange q (Inr resp) \<in> set es \<and> is_request E cl GET path No_Body q))"] run_exchange run_return)
  show "observing (Exchange r a) \<and> (\<exists>es. h @ [Exchange r a] = h0 @ es \<and> (\<forall>resp. a = Inr resp \<longrightarrow>
      (\<exists>q. Exchange q (Inr resp) \<in> set es \<and> is_request E cl GET path No_Body q)))"
    if "h = h0" "is_request E cl GET path No_Body r" for h r a
    using that by (auto simp: is_request_def)
qed (fastforce simp: answered_def is_request_def)+

end
