(* ===== verification/Guards.thy ===== *)
theory Guards
  imports Api_Laws
begin

text \<open>
  Guarantees about the order of events, over the program logic: what a computation changes only after
  it has seen a certain answer, and events that come before others.
\<close>

abbreviation anything :: "event list \<Rightarrow> event \<Rightarrow> bool" where
  "anything \<equiv> \<lambda>_ _. True"

section \<open>Acting only after a check\<close>

text \<open>\<open>only_after seen allowed m\<close>: whatever changes something in LXD is an allowed event, and the
  events \<open>m\<close> itself emitted before it show what \<open>seen\<close> asks for.\<close>

definition only_after :: "(event list \<Rightarrow> bool) \<Rightarrow> (event \<Rightarrow> bool) \<Rightarrow> 'a action \<Rightarrow> bool" where
  "only_after seen allowed m \<longleftrightarrow> (\<forall>h. \<exists>es. snd (m h) = h @ es
     \<and> (\<forall>k < length es. \<not> observing (es ! k) \<longrightarrow> allowed (es ! k) \<and> seen (take k es)))"

lemma only_afterI:
  assumes "\<And>h0. run (\<lambda>h. h = h0) (\<lambda>h e. observing e \<or> allowed e \<and> seen (drop (length h0) h)) m (\<lambda>_ _. True)"
  shows "only_after seen allowed m"
  unfolding only_after_def
proof
  fix h
  obtain es where es: "snd (m h) = h @ es"
    "guarded (\<lambda>h' e. observing e \<or> allowed e \<and> seen (drop (length h) h')) h es"
    using assms [of h] by (auto elim: runD)
  show "\<exists>es. snd (m h) = h @ es
     \<and> (\<forall>k < length es. \<not> observing (es ! k) \<longrightarrow> allowed (es ! k) \<and> seen (take k es))"
    using es(1) guarded_nth [OF es(2)] by (intro exI [of _ es]) auto
qed

lemma only_after_reading:
  assumes m: "emits observing m" and f: "\<And>a. only_after seen allowed (f a)"
    and seen: "\<And>es fs. seen es \<Longrightarrow> seen (fs @ es)"
  shows "only_after seen allowed (await_ok m f)"
  unfolding only_after_def
proof
  fix h
  obtain es where es: "snd (m h) = h @ es" "list_all observing es" using m unfolding emits_iff by blast
  have reads: "\<forall>k < length es. \<not> observing (es ! k) \<longrightarrow> Q k" for Q using es(2) by (simp add: list_all_length)
  show "\<exists>es. snd (await_ok m f h) = h @ es
     \<and> (\<forall>k < length es. \<not> observing (es ! k) \<longrightarrow> allowed (es ! k) \<and> seen (take k es))"
  proof (cases "\<exists>a. fst (m h) = Some (Inr a)")
    case True
    then obtain a where a: "fst (m h) = Some (Inr a)" by blast
    obtain fs where fs: "snd (f a (h @ es)) = (h @ es) @ fs"
      and ok: "\<forall>k < length fs. \<not> observing (fs ! k) \<longrightarrow> allowed (fs ! k) \<and> seen (take k fs)"
      using f [of a] unfolding only_after_def by blast
    have "await_ok m f h = f a (h @ es)" using a es(1) by (cases "m h") (simp add: await_ok_def await_def)
    moreover have "\<forall>k < length (es @ fs). \<not> observing ((es @ fs) ! k)
        \<longrightarrow> allowed ((es @ fs) ! k) \<and> seen (take k (es @ fs))"
      using es(2) ok seen by (auto simp: nth_append list_all_length)
    ultimately show ?thesis using fs by (intro exI [of _ "es @ fs"]) simp
  next
    case False
    then have "snd (await_ok m f h) = h @ es"
      using es(1) by (cases "m h") (auto simp: await_ok_def await_def err_def return_def split: option.splits sum.splits)
    then show ?thesis using reads by blast
  qed
qed

text \<open>A check and what a client may rely on once it has passed.\<close>

locale checked_first =
  fixes check :: "'b action" and good :: "'b \<Rightarrow> bool" and seen :: "event list \<Rightarrow> bool"
  assumes check_shows: "run (\<lambda>h. h = h0) (\<lambda>_. observing) check
      (\<lambda>b h. \<exists>es. h = h0 @ es \<and> (good b \<longrightarrow> seen es))"
    and seen_append: "seen es \<Longrightarrow> seen (es @ fs)"
begin

abbreviation changes_after :: "(event \<Rightarrow> bool) \<Rightarrow> event list \<Rightarrow> event list \<Rightarrow> event \<Rightarrow> bool" where
  "changes_after allowed h0 \<equiv> \<lambda>h e. observing e \<or> allowed e \<and> seen (drop (length h0) h)"

lemma run_body:
  assumes "good b \<Longrightarrow> emits (\<lambda>e. observing e \<or> allowed e) body"
    and "\<not> good b \<Longrightarrow> emits observing body"
  shows "run (\<lambda>h. \<exists>es. h = h0 @ es \<and> (good b \<longrightarrow> seen es)) (changes_after allowed h0) body
    (\<lambda>_ h. \<exists>es. h = h0 @ es)"
proof (cases "good b")
  case True
  have "run (\<lambda>h. \<exists>es. h = h0 @ es \<and> seen es) (changes_after allowed h0) body
      (\<lambda>_ h. \<exists>es. h = h0 @ es \<and> seen es)"
    by (rule run_stable [OF assms(1) [OF True]]) (auto intro: seen_append)
  then show ?thesis by (rule run_weaken) (use True in auto)
next
  case False
  have "run (\<lambda>h. \<exists>es. h = h0 @ es) (changes_after allowed h0) body (\<lambda>_ h. \<exists>es. h = h0 @ es)"
    by (rule run_stable [OF assms(2) [OF False]]) auto
  then show ?thesis by (rule run_pre) auto
qed

lemma run_checked:
  assumes "\<And>b. good b \<Longrightarrow> emits (\<lambda>e. observing e \<or> allowed e) (body b)"
    and "\<And>b. \<not> good b \<Longrightarrow> emits observing (body b)"
  shows "run (\<lambda>h. h = h0) (changes_after allowed h0) (await check body) (\<lambda>_ h. \<exists>es. h = h0 @ es)"
  by (rule run_await [OF run_weaken [OF check_shows] run_body]) (use assms in auto)

lemma only_after_checked:
  assumes "\<And>b. good b \<Longrightarrow> emits (\<lambda>e. observing e \<or> allowed e) (body b)"
    and "\<And>b. \<not> good b \<Longrightarrow> emits observing (body b)"
  shows "only_after seen allowed (await check body)"
  by (rule only_afterI, rule run_post, rule run_checked) (use assms in auto)

lemma seen_lock: "run (\<lambda>h. h = h0 @ [Lock k]) (\<lambda>_. observing) check
    (\<lambda>b h. \<exists>es. h = h0 @ es \<and> (good b \<longrightarrow> seen es))" if lock: "\<And>es. seen es \<Longrightarrow> seen (Lock k # es)"
  by (rule run_post, rule check_shows) (use lock in auto)

lemma only_after_locked:
  assumes body: "\<And>b. good b \<Longrightarrow> emits (\<lambda>e. observing e \<or> allowed e) (body b)"
    "\<And>b. \<not> good b \<Longrightarrow> emits observing (body b)"
    and lock: "\<And>es. seen es \<Longrightarrow> seen (Lock k # es)"
  shows "only_after seen allowed (with_lock k (await check body))"
proof (rule only_afterI)
  fix h0
  have "run (\<lambda>h. h = h0 @ [Lock k]) (changes_after allowed h0) (await check body) (\<lambda>_ h. \<exists>es. h = h0 @ es)"
    by (rule run_await [OF run_weaken [OF seen_lock [OF lock]] run_body]) (use body in auto)
  then show "run (\<lambda>h. h = h0) (changes_after allowed h0) (with_lock k (await check body)) (\<lambda>_ _. True)"
    by (rule run_with_lock [rotated]) simp_all
qed

end

section \<open>Histories and connections\<close>

abbreviation since :: "event list \<Rightarrow> event list \<Rightarrow> bool" where
  "since h0 \<equiv> \<lambda>h. \<exists>es. h = h0 @ es"

lemma exchange_no_connect: "connect_raw E cl = Inl e \<Longrightarrow> exchange E cl m path hs body = err e"
  by (simp add: exchange_def lift_ok_def)

lemma get_instance_no_connect: "connect_raw E cl = Inl e \<Longrightarrow> get_instance E cl name = err e"
  by (simp add: get_instance_def metadata_of_def lxd_get_def request_def exchange_no_connect)

section \<open>Order\<close>

text \<open>\<open>preceded first later m\<close>: among the events of \<open>m\<close>, a \<open>later\<close> one has a \<open>first\<close> one before it.\<close>

definition preceded :: "(event \<Rightarrow> bool) \<Rightarrow> (event \<Rightarrow> bool) \<Rightarrow> 'a action \<Rightarrow> bool" where
  "preceded first later m \<longleftrightarrow> (\<forall>h. \<exists>es. snd (m h) = h @ es
     \<and> (\<forall>k < length es. later (es ! k) \<longrightarrow> list_ex first (take k es)))"

lemma precededI:
  assumes "\<And>h0. run (\<lambda>h. h = h0) (\<lambda>h e. later e \<longrightarrow> list_ex first (drop (length h0) h)) m (\<lambda>_ _. True)"
  shows "preceded first later m"
  unfolding preceded_def
proof
  fix h
  obtain es where es: "snd (m h) = h @ es"
    "guarded (\<lambda>h' e. later e \<longrightarrow> list_ex first (drop (length h) h')) h es"
    using assms [of h] by (auto elim: runD)
  show "\<exists>es. snd (m h) = h @ es \<and> (\<forall>k < length es. later (es ! k) \<longrightarrow> list_ex first (take k es))"
    using es(1) guarded_nth [OF es(2)] by (intro exI [of _ es]) auto
qed

lemma run_anything: "emits p m \<Longrightarrow> run (since h0) anything m (\<lambda>_. since h0)"
  by (erule run_stable) auto

lemma run_after:
  "emits p m \<Longrightarrow> run (\<lambda>h. \<exists>es. h = h0 @ es \<and> list_ex first es)
     (\<lambda>h e. later e \<longrightarrow> list_ex first (drop (length h0) h)) m (\<lambda>_. since h0)"
  by (rule run_post, erule run_stable) auto

end
