(* ===== verification/Driver_Laws.thy ===== *)
theory Driver_Laws
  imports Startup Guards
begin

text \<open>
  What the driver guarantees about the events it emits: it reads an instance and finds the marker of
  its own sandboxes before it changes anything, its reads change nothing, and its waits end.
\<close>

section \<open>Acting only on managed instances\<close>

text \<open>The driver's check: LXD answered that the instance carries the marker.\<close>

definition seen_managed :: "env \<Rightarrow> lxd_client \<Rightarrow> string \<Rightarrow> event list \<Rightarrow> bool" where
  "seen_managed E cl name es \<longleftrightarrow> (\<exists>i. is_managed i \<and> answered E cl de_instance (instance_path name) i es)"

definition concerns :: "env \<Rightarrow> lxd_client \<Rightarrow> string \<Rightarrow> event \<Rightarrow> bool" where
  "concerns E cl name e = (case e of
      Exchange r _ \<Rightarrow> req_uri r = decorate_path E cl (req_path r)
        \<and> (req_path r \<in> {instance_path name, state_path name, ''/1.0/instances/'' @ ext_encode E name}
           \<or> (\<exists>g. req_path r = files_path E name g))
    | _ \<Rightarrow> False)"

lemma concerns_Exchange [simp]:
  "concerns E cl name (Exchange r a) \<longleftrightarrow> req_uri r = decorate_path E cl (req_path r)
     \<and> (req_path r \<in> {instance_path name, state_path name, ''/1.0/instances/'' @ ext_encode E name}
        \<or> (\<exists>g. req_path r = files_path E name g))"
  by (simp add: concerns_def)

definition managed_result :: "(lxd_error, lxd_instance) result \<Rightarrow> bool" where
  "managed_result r = (case r of Inr i \<Rightarrow> is_managed i | Inl _ \<Rightarrow> False)"

interpretation managed: checked_first "get_instance E cl name" managed_result "seen_managed E cl name" for E cl name
proof
  show "run (\<lambda>h. h = h0) (\<lambda>_. observing) (get_instance E cl name)
      (\<lambda>b h. \<exists>es. h = h0 @ es \<and> (managed_result b \<longrightarrow> seen_managed E cl name es))" for h0
    unfolding get_instance_def
    by (rule run_post [OF run_get_metadata])
      (auto simp: managed_result_def seen_managed_def split: sum.splits)
  show "seen_managed E cl name es \<Longrightarrow> seen_managed E cl name (es @ fs)" for es fs
    unfolding seen_managed_def by (blast intro: answered_append)
qed

lemma seen_managed_Cons: "seen_managed E cl name es \<Longrightarrow> seen_managed E cl name (e # es)"
  unfolding seen_managed_def answered_def by fastforce

section \<open>The events of the driver's steps\<close>

text \<open>Events that only read, or that concern the instance \<open>name\<close>.\<close>

definition about_instance :: "env \<Rightarrow> lxd_client \<Rightarrow> string \<Rightarrow> event \<Rightarrow> bool" where
  "about_instance E cl name e \<longleftrightarrow> observing e \<or> concerns E cl name e"

lemma about_instance_request:
  "is_request E cl GET path b r \<Longrightarrow> about_instance E cl name (Exchange r a)"
  "is_request E cl m (instance_path name) b r \<Longrightarrow> about_instance E cl name (Exchange r a)"
  "is_request E cl m (state_path name) b r \<Longrightarrow> about_instance E cl name (Exchange r a)"
  "is_request E cl m (''/1.0/instances/'' @ ext_encode E name) b r \<Longrightarrow> about_instance E cl name (Exchange r a)"
  "is_request E cl m (files_path E name g) b r \<Longrightarrow> about_instance E cl name (Exchange r a)"
  by (auto simp: about_instance_def is_request_def)

lemma about_instance_observing: "observing e \<Longrightarrow> about_instance E cl name e"
  by (simp add: about_instance_def)

lemmas about_instance_intros = about_instance_request about_instance_observing

lemma emits_driver_wait [emits_rules]:
  "(\<And>e. observing e \<Longrightarrow> p e) \<Longrightarrow> emits p (wait_operation E d i)"
  unfolding wait_operation_def by (intro emits_rules)

lemma emits_read_files [emits_rules]:
  "(\<And>path a. p (ReadFile path a)) \<Longrightarrow> emits p (read_files E fs)"
  by (induction fs rule: read_files.induct) (auto intro!: emits_rules)

lemma emits_read_guest_tls_files [emits_rules]:
  "(\<And>path a. p (ReadFile path a)) \<Longrightarrow> emits p (read_guest_tls_files E d)"
  unfolding read_guest_tls_files_def by (intro emits_rules)

lemma emits_push_guest_files: "emits (about_instance E (drv_lxd d) name) (push_guest_files E d name files)"
  unfolding push_guest_files_def by (intro emits_rules) (auto intro: about_instance_intros)

lemma emits_settle_attempt: "emits (about_instance E (drv_lxd d) name) (settle_attempt E d name i)"
  unfolding settle_attempt_def by (intro emits_rules) (auto intro: about_instance_intros)

lemma emits_settle_loop: "emits (about_instance E (drv_lxd d) name) (settle_loop n E d name i)"
  by (induction n) (auto intro!: emits_rules emits_settle_attempt about_instance_observing)

lemma emits_start_and_settle: "emits (about_instance E (drv_lxd d) name) (start_and_settle E d name i)"
  unfolding start_and_settle_def settle_after_start_def
  by (intro emits_rules emits_settle_loop) (auto intro: about_instance_intros)

lemma emits_stop_intent:
  "emits (about_instance E (drv_lxd d) name) (set_stop_intent E d name)"
  "emits (about_instance E (drv_lxd d) name) (clear_stop_intent E d name)"
  unfolding set_stop_intent_def clear_stop_intent_def
  by (intro emits_rules; auto intro: about_instance_intros)+

lemma emits_graceful_stop: "emits (about_instance E (drv_lxd d) name) (graceful_stop E d name)"
  unfolding graceful_stop_def by (intro emits_rules) (auto intro: about_instance_intros)

lemma emits_forced_stop: "emits (about_instance E (drv_lxd d) name) (forced_stop E d name)"
  unfolding forced_stop_def by (intro emits_rules emits_stop_intent) (auto intro: about_instance_intros)

lemma emits_stop_before_delete: "emits (about_instance E (drv_lxd d) name) (stop_before_delete E d name)"
  unfolding stop_before_delete_def by (intro emits_rules) (auto intro: about_instance_intros)

lemmas driver_emits = emits_push_guest_files emits_settle_attempt emits_settle_loop emits_start_and_settle
  emits_stop_intent emits_graceful_stop emits_forced_stop emits_stop_before_delete

text \<open>The whole operations, as what follows the first read of the instance.\<close>

lemma only_after_about:
  "only_after seen (concerns E cl name) m" if "only_after seen (about_instance E cl name) m"
  using that unfolding only_after_def about_instance_def by blast

lemma emits_about_or:
  "emits (about_instance E cl name) m \<Longrightarrow> emits (\<lambda>e. observing e \<or> about_instance E cl name e) m"
  by (erule emits_weaken) simp

lemma get_managed_await:
  "await_ok (get_managed_instance E d name) f = await (get_instance E (drv_lxd d) name)
     (\<lambda>r. await_ok (case r of
        Inr i \<Rightarrow> if inst_config i KEY_SANDBOX_ID = None then err (sandbox_not_found name) else ok i
      | Inl (Api code msg) \<Rightarrow> if code = 404 then err (sandbox_not_found name) else err (Lxd (Api code msg))
      | Inl e \<Rightarrow> err (Lxd e)) f)"
  unfolding await_ok_def get_managed_instance_def await_assoc ..

lemma only_after_managed:
  assumes "\<And>i. is_managed i \<Longrightarrow> emits (about_instance E (drv_lxd d) name) (body i)"
  shows "only_after (seen_managed E (drv_lxd d) name) (concerns E (drv_lxd d) name)
      (await_ok (get_managed_instance E d name) body)"
    and "only_after (seen_managed E (drv_lxd d) name) (concerns E (drv_lxd d) name)
      (with_lock k (await_ok (get_managed_instance E d name) body))"
proof -
  let ?rest = "\<lambda>r. await_ok (case r of
        Inr i \<Rightarrow> if inst_config i KEY_SANDBOX_ID = None then err (sandbox_not_found name) else ok i
      | Inl (Api code msg) \<Rightarrow> if code = 404 then err (sandbox_not_found name) else err (Lxd (Api code msg))
      | Inl e \<Rightarrow> err (Lxd e)) body"
  have good: "emits (\<lambda>e. observing e \<or> about_instance E (drv_lxd d) name e) (?rest r)" if "managed_result r" for r
    using that assms by (auto simp: managed_result_def is_managed_def intro!: emits_about_or emits_rules split: sum.splits)
  have bad: "emits observing (?rest r)" if "\<not> managed_result r" for r
    using that by (auto simp: managed_result_def is_managed_def emits_rules split: sum.splits lxd_error.splits)
  show "only_after (seen_managed E (drv_lxd d) name) (concerns E (drv_lxd d) name)
      (await_ok (get_managed_instance E d name) body)"
    unfolding get_managed_await by (rule only_after_about [OF managed.only_after_checked [OF good bad]])
  show "only_after (seen_managed E (drv_lxd d) name) (concerns E (drv_lxd d) name)
      (with_lock k (await_ok (get_managed_instance E d name) body))"
    unfolding get_managed_await
    by (rule only_after_about [OF managed.only_after_locked [OF good bad seen_managed_Cons]])
qed

lemma start_sandbox_managed:
  "only_after (seen_managed E (drv_lxd d) name) (concerns E (drv_lxd d) name) (start_sandbox E d name)"
  unfolding start_sandbox_def Let_def
  by (intro only_after_managed emits_rules driver_emits) (auto intro: about_instance_intros)

lemma stop_sandbox_managed:
  "only_after (seen_managed E (drv_lxd d) name) (concerns E (drv_lxd d) name) (stop_sandbox E d name)"
  unfolding stop_sandbox_def
  by (intro only_after_managed emits_rules driver_emits)

lemma delete_sandbox_managed:
  "only_after (seen_managed E (drv_lxd d) name) (concerns E (drv_lxd d) name) (delete_sandbox E d name)"
  unfolding delete_sandbox_def
proof (rule only_after_about [OF managed.only_after_locked [OF _ _ seen_managed_Cons]], goal_cases)
  case (1 r)
  then obtain i s where "r = Inr i" "inst_config i KEY_SANDBOX_ID = Some s"
    by (auto simp: managed_result_def is_managed_def split: sum.splits)
  then show ?case
    by simp (intro emits_about_or emits_rules driver_emits; auto intro: about_instance_intros)
next
  case (2 r)
  then show ?case
    by (auto simp: managed_result_def is_managed_def emits_rules split: sum.splits lxd_error.splits)
qed

section \<open>Operations that return\<close>

lemma returns_driver_wait [returns_rules]: "returns (wait_operation E d i)"
  unfolding wait_operation_def by (intro returns_rules)

lemma returns_get_managed [returns_rules]: "returns (get_managed_instance E d name)"
  unfolding get_managed_instance_def by (intro returns_rules)

lemma returns_read_files [returns_rules]: "returns (read_files E fs)"
  by (induction fs rule: read_files.induct) (auto intro!: returns_rules)

lemma returns_guest_files [returns_rules]:
  "returns (read_guest_tls_files E d)" "returns (push_guest_files E d name files)"
  unfolding read_guest_tls_files_def push_guest_files_def by (intro returns_rules)+

lemma returns_settle_loop [returns_rules]: "returns (settle_loop n E d name i)"
  by (induction n) (auto simp: settle_attempt_def intro!: returns_rules)

lemma returns_start_and_settle [returns_rules]: "returns (start_and_settle E d name i)"
  unfolding start_and_settle_def settle_after_start_def by (intro returns_rules)

lemma returns_reread [returns_rules]: "returns (reread_unsettled E d ns sandboxes)"
  by (induction ns arbitrary: sandboxes) (auto intro!: returns_rules)

section \<open>Without a connection\<close>

lemma stop_no_connect:
  "connect_raw E (drv_lxd d) = Inl e
   \<Longrightarrow> \<exists>e'. stop_sandbox E d name = with_lock (lifecycle_lock name) (err e')"
  by (cases e) (auto simp: stop_sandbox_def get_managed_instance_def get_instance_no_connect err_def await_ok_def)

lemma get_managed_emits: "emits observing (get_managed_instance E d name)"
  unfolding get_managed_instance_def by (intro emits_rules) (auto simp: is_request_def)

section \<open>Reading\<close>

lemma reading_emits:
  "emits observing (get_sandbox E d name)" "emits observing (list_sandboxes E d)"
  "emits observing (find_name_by_sandbox_id E d sandbox_id)"
proof -
  have "emits observing (reread_unsettled E d ns sandboxes)" for ns sandboxes
    by (induction ns arbitrary: sandboxes) (auto simp: is_request_def intro!: emits_rules)
  then show "emits observing (get_sandbox E d name)" "emits observing (list_sandboxes E d)"
    "emits observing (find_name_by_sandbox_id E d sandbox_id)"
    unfolding get_sandbox_def get_managed_instance_def confirm_runtime_restart_def list_sandboxes_def
      find_name_by_sandbox_id_def
    by (intro emits_rules; auto simp: is_request_def)+
qed

section \<open>Properties of the driver\<close>


end
