(* ===== verification/Image_Laws.thy ===== *)
theory Image_Laws
  imports Gc Guards
begin

text \<open>
  What the image component promises to its clients: which events the importer and the cache emit, that
  an alias is imported under its lock and only after a miss, that scratch directories go, and that
  clean-up removes only what is stale.
\<close>

section \<open>The events of an import\<close>

text \<open>Everything that only reads, and requests to LXD's image endpoints.\<close>

definition image_event :: "event \<Rightarrow> bool" where
  "image_event e \<longleftrightarrow> observing e \<or> (case e of Exchange r _ \<Rightarrow> starts_with (req_path r) ''/1.0/images'' | _ \<Rightarrow> False)"

lemma image_event_observing: "observing e \<Longrightarrow> image_event e"
  by (simp add: image_event_def)

lemma image_event_local [simp]:
  "image_event (Fs c b)" "image_event (Process p as o')" "image_event (ReadFile f a)" "image_event (Lock k)"
  "image_event (Unlock k)" "image_event Arch_Verified" "image_event Fetch_Add"
  by (simp_all add: image_event_def)

lemma image_event_request:
  "is_request E cl m (''/1.0/images'' @ p) b r \<Longrightarrow> image_event (Exchange r a)"
  by (simp add: image_event_def is_request_def starts_with_def)

lemma emits_rootless_owner [emits_rules]: "(\<And>c b. p (Fs c b)) \<Longrightarrow> emits p (read_rootless_owner E path)"
  unfolding read_rootless_owner_def by (intro emits_rules)

lemma emits_walk_entries [emits_rules]:
  "(\<And>c b. p (Fs c b)) \<Longrightarrow> emits p (walk_entries E rootfs dir entries pending out count)"
  by (induction entries arbitrary: pending out count) (auto simp: Let_def intro!: emits_rules)

lemma emits_walk_rootfs [emits_rules]:
  "(\<And>c b. p (Fs c b)) \<Longrightarrow> emits p (walk_rootfs n E rootfs pending out count)"
  by (induction n arbitrary: pending out count) (auto simp: Let_def emits_hang intro!: emits_rules)

lemma emits_pseudo_file [emits_rules]:
  "(\<And>c b. p (Fs c b)) \<Longrightarrow> emits p (write_ownership_pseudo_file E rootfs pseudo)"
  unfolding write_ownership_pseudo_file_def by (intro emits_rules)

lemma emits_resolve_loop [emits_rules]:
  assumes "\<And>c b. p (Fs c b)"
  shows "emits p (resolve_loop E rootfs guest_path pending resolved hops)"
proof (induction E rootfs guest_path pending resolved hops rule: resolve_loop.induct)
  case (2 E rootfs guest_path part pending resolved hops)
  show ?case
  proof (cases "components part")
    case Nil
    then show ?thesis using 2 by simp
  next
    case (Cons c cs)
    then show ?thesis using 2 assms
      by (cases c) (auto simp: Let_def intro!: emits_rules split: sum.splits)
  qed
qed (simp add: emits_ok)

lemma emits_init [emits_rules]:
  assumes "\<And>c b. p (Fs c b)"
  shows "emits p (inject_init_script E rootfs)" and "emits p (install_init E rootfs)"
  unfolding inject_init_script_def install_init_def resolve_in_rootfs_def Let_def
  by (intro emits_rules assms)+

lemma emits_run_tool [emits_rules]:
  "(\<And>pr as a. p (Process pr as a)) \<Longrightarrow> emits p (run_tool E si prog args x y z)"
  unfolding run_tool_def by (intro emits_rules)

lemma emits_verify_arch [emits_rules]:
  "(\<And>e. observing e \<Longrightarrow> p e) \<Longrightarrow> emits p (verify_lxd_architecture E si)"
  unfolding verify_lxd_architecture_def by (intro emits_rules) auto

lemma emits_scratch [emits_rules]:
  "(\<And>c b. p (Fs c b)) \<Longrightarrow> (\<And>t. emits p (body t)) \<Longrightarrow> emits p (with_scratch_dir E si prefix body)"
  unfolding with_scratch_dir_def scratch_dir_def by (intro emits_rules)

lemma emits_valid_cached [emits_rules]: "(\<And>c b. p (Fs c b)) \<Longrightarrow> emits p (is_valid_cached_binary E path)"
  unfolding is_valid_cached_binary_def by (intro emits_rules)

lemmas image_event_intros = image_event_observing image_event_request image_event_request [where p = "[]", simplified]
  image_event_request [where p = "''/aliases''", simplified]

lemma image_steps:
  "emits image_event (copy_and_unpack E si reference digest t s)"
  "emits image_event (bind_alias E si alias fp dg)"
  "emits image_event (upload_image E si md sq)"
  "emits image_event (si_resolve_digest E si reference)"
proof -
  show "emits image_event (copy_and_unpack E si reference digest t s)"
    unfolding copy_and_unpack_def by (intro emits_rules) auto
  show "emits image_event (bind_alias E si alias fp dg)"
    unfolding bind_alias_def by (intro emits_rules) (auto intro: image_event_intros)
  show "emits image_event (upload_image E si md sq)"
    unfolding upload_image_def by (intro emits_rules) (auto intro: image_event_intros)
  show "emits image_event (si_resolve_digest E si reference)"
    unfolding si_resolve_digest_def by (intro emits_rules) (auto intro: image_event_observing)
qed

lemma image_event_emits:
  "emits image_event (si_import E si reference digest alias)"
  "emits image_event (si_extract_supervisor_binary E si reference cache_dir)"
  "emits image_event (alias_checker_of E cl a)"
proof -
  show "emits image_event (si_import E si reference digest alias)"
    unfolding si_import_def create_metadata_tar_xz_def Let_def
    by (intro emits_rules image_steps) (auto intro: image_event_observing)
  show "emits image_event (si_extract_supervisor_binary E si reference cache_dir)"
    unfolding si_extract_supervisor_binary_def path_exists_def copy_extracted_binary_def commit_binary_def Let_def
    by (intro emits_rules image_steps) (auto intro: image_event_observing)
  show "emits image_event (alias_checker_of E cl a)"
    unfolding alias_checker_of_def by (intro emits_rules) (auto intro: image_event_observing)
qed

section \<open>The interface of the cache\<close>

text \<open>An importer and an alias check whose events satisfy \<open>p\<close>.\<close>

locale image_source =
  fixes ic :: image_cache and p :: "event \<Rightarrow> bool"
  assumes resolving: "emits p (imp_resolve_digest (ic_importer ic) reference)"
    and importing: "emits p (imp_import (ic_importer ic) reference digest alias)"
    and extracting: "emits p (imp_extract_supervisor_binary (ic_importer ic) reference cache_dir)"
    and alias_check: "emits p (ic_alias_checker ic alias)"
    and locking: "p (Lock k)" "p (Unlock k)"
    and host_files: "p (Fs c b)"
begin

lemma emits_resolve_alias: "emits p (resolve_alias ic reference)"
  unfolding resolve_alias_def Let_def
  by (intro emits_rules resolving importing alias_check locking)

lemma emits_extract: "emits p (extract_supervisor_binary E ic reference cache_dir)"
  unfolding extract_supervisor_binary_def Let_def
  by (intro emits_rules resolving extracting locking host_files)

end

interpretation skopeo_images: image_source "image_cache_new E lxd (skopeo_oci_importer E si) prefix" image_event
  for E lxd si prefix
  by unfold_locales (simp_all add: image_cache_new_def skopeo_oci_importer_def image_event_emits image_steps)

section \<open>A cached image is not imported again\<close>

definition reply :: "env \<Rightarrow> 'a decoder \<Rightarrow> (lxd_error, http_response) result \<Rightarrow> (lxd_error, 'a lxd_response) result" where
  "reply E f a = result_bind a (decode_reply E f)"

text \<open>The events hold LXD's answer that there is nothing at \<open>path\<close>.\<close>

definition missing :: "env \<Rightarrow> lxd_client \<Rightarrow> string \<Rightarrow> event list \<Rightarrow> bool" where
  "missing E cl path es \<longleftrightarrow> (\<exists>r a msg. Exchange r a \<in> set es \<and> is_request E cl GET path No_Body r
     \<and> reply E de_value a = Inl (Api 404 msg))"

lemma connect_raw_Tls: "connect_raw E cl = Inl e \<Longrightarrow> \<exists>m. e = Tls m"
  by (auto simp: connect_raw_def host_port_def server_name_def hostname_def parsed_url_def result_bind_def ok_or_def
      map_err_def split: lxd_endpoint.splits option.splits sum.splits prod.splits if_splits)

text \<open>Where the result of a GET comes from: the connection could not be opened, or LXD answered.\<close>

definition got ::
  "env \<Rightarrow> lxd_client \<Rightarrow> 'a decoder \<Rightarrow> string \<Rightarrow> (lxd_error, 'a lxd_response) result \<Rightarrow> event list \<Rightarrow> bool" where
  "got E cl f path r es \<longleftrightarrow> (\<exists>m. r = Inl (Tls m))
     \<or> (\<exists>q a. Exchange q a \<in> set es \<and> is_request E cl GET path No_Body q \<and> reply E f a = r)"

lemma got_reply:
  "is_request E cl GET path No_Body q \<Longrightarrow> got E cl f path (Inl e) [Exchange q (Inl e)]"
  "is_request E cl GET path No_Body q \<Longrightarrow> got E cl f path (decode_reply E f resp) [Exchange q (Inr resp)]"
  by (force simp: got_def reply_def result_bind_def)+

lemma run_lxd_get:
  "run (\<lambda>h. h = h0) (\<lambda>_. observing) (lxd_get E cl f path) (\<lambda>r h. \<exists>es. h = h0 @ es \<and> got E cl f path r es)"
proof (cases "connect_raw E cl")
  case (Inl e)
  then obtain m where "e = Tls m" using connect_raw_Tls by blast
  with Inl show ?thesis
    unfolding lxd_get_def request_def by (auto simp: exchange_no_connect got_def intro: run_err)
next
  case (Inr host)
  let ?R = "\<lambda>a h. \<exists>q. h = h0 @ [Exchange q a] \<and> is_request E cl GET path No_Body q"
  have "run (\<lambda>h. h = h0) (\<lambda>_. observing) (exchange E cl GET path [] No_Body) ?R"
    unfolding exchange_def Inr lift_ok_def sum.case
    by (rule run_send_request) (auto simp: is_request_def build_request_def)
  then show ?thesis
    unfolding lxd_get_def request_def option.case
    by (rule run_await_ok) (auto intro!: run_return got_reply)
qed

lemma run_exists_at:
  "run (\<lambda>h. h = h0) (\<lambda>_. observing) (exists_at E cl path)
     (\<lambda>r h. \<exists>es. h = h0 @ es \<and> (r = Inr False \<longrightarrow> missing E cl path es))"
proof -
  have missing: "missing E cl path es" if "got E cl de_value path (Inl (Api 404 msg)) es" for msg es
    using that unfolding got_def missing_def by blast
  show ?thesis unfolding exists_at_def
    by (rule run_await [OF run_lxd_get])
      (auto intro!: run_ok run_err run_if dest: missing split: sum.splits lxd_error.splits)
qed

interpretation alias_check: checked_first "alias_checker_of E cl alias" "\<lambda>r. r = Inr False"
  "missing E cl (''/1.0/images/aliases/'' @ ext_encode E alias)" for E cl "alias"
proof
  show "run (\<lambda>h. h = h0) (\<lambda>_. observing) (alias_checker_of E cl alias)
      (\<lambda>b h. \<exists>es. h = h0 @ es \<and> (b = Inr False \<longrightarrow> missing E cl (''/1.0/images/aliases/'' @ ext_encode E alias) es))" for h0
    unfolding alias_checker_of_def image_alias_exists_def
    by (rule run_await_map [OF run_exists_at]) (auto intro!: run_ok)
  show "missing E cl (''/1.0/images/aliases/'' @ ext_encode E alias) es
      \<Longrightarrow> missing E cl (''/1.0/images/aliases/'' @ ext_encode E alias) (es @ fs)" for es fs
    unfolding missing_def by fastforce
qed

lemma missing_mono: "missing E cl path es \<Longrightarrow> set es \<subseteq> set fs \<Longrightarrow> missing E cl path fs"
  unfolding missing_def by blast

lemma resolve_digest_observes: "emits observing (si_resolve_digest E si reference)"
  unfolding si_resolve_digest_def by (intro emits_rules) auto

text \<open>The cache of the running driver.\<close>

definition skopeo_cache :: "env \<Rightarrow> lxd_client \<Rightarrow> skopeo_importer \<Rightarrow> string \<Rightarrow> image_cache" where
  "skopeo_cache E lxd si prefix = image_cache_new E lxd (skopeo_oci_importer E si) prefix"

lemma skopeo_cache_sel:
  "ic_alias_checker (skopeo_cache E lxd si prefix) = alias_checker_of E lxd"
  "ic_prefix (skopeo_cache E lxd si prefix) = prefix"
  "imp_resolve_digest (ic_importer (skopeo_cache E lxd si prefix)) = si_resolve_digest E si"
  "imp_import (ic_importer (skopeo_cache E lxd si prefix)) = si_import E si"
  "imp_extract_supervisor_binary (ic_importer (skopeo_cache E lxd si prefix)) = si_extract_supervisor_binary E si"
  by (simp_all add: skopeo_cache_def image_cache_new_def skopeo_oci_importer_def)

definition alias_missing :: "env \<Rightarrow> lxd_client \<Rightarrow> string \<Rightarrow> event list \<Rightarrow> bool" where
  "alias_missing E lxd prefix es \<longleftrightarrow> (\<exists>digest.
     missing E lxd (''/1.0/images/aliases/'' @ ext_encode E (cache_alias_with_prefix prefix digest)) es)"

lemma resolve_alias_only_after:
  "only_after (alias_missing E lxd prefix) image_event (resolve_alias (skopeo_cache E lxd si prefix) reference)"
proof -
  have locked: "only_after (alias_missing E lxd prefix) image_event
      (with_lock k (await_ok (alias_checker_of E lxd (cache_alias_with_prefix prefix digest)) (\<lambda>hit.
        if hit then ok (cache_alias_with_prefix prefix digest)
        else await_ok (si_import E si reference digest (cache_alias_with_prefix prefix digest))
               (\<lambda>_. ok (cache_alias_with_prefix prefix digest)))))" (is "only_after _ _ (?m digest)") for k digest
  proof -
    let ?seen = "missing E lxd (''/1.0/images/aliases/'' @ ext_encode E (cache_alias_with_prefix prefix digest))"
    have "only_after ?seen image_event (?m digest)"
      unfolding await_ok_def [of "alias_checker_of _ _ _"]
      by (rule alias_check.only_after_locked)
        (auto intro!: emits_rules emits_weaken [OF image_event_emits(1)] elim: missing_mono split: sum.splits)
    then show ?thesis unfolding only_after_def alias_missing_def by blast
  qed
  have prefix: "alias_missing E lxd prefix (fs @ es)" if "alias_missing E lxd prefix es" for es fs
    using that unfolding alias_missing_def by (elim exE) (rule exI, erule missing_mono, simp)
  have "only_after (alias_missing E lxd prefix) image_event
      (await_ok (si_resolve_digest E si reference) (\<lambda>digest.
        with_lock (''alias:'' @ cache_alias_with_prefix prefix digest)
          (await_ok (alias_checker_of E lxd (cache_alias_with_prefix prefix digest)) (\<lambda>hit.
            if hit then ok (cache_alias_with_prefix prefix digest)
            else await_ok (si_import E si reference digest (cache_alias_with_prefix prefix digest))
                   (\<lambda>_. ok (cache_alias_with_prefix prefix digest))))))"
    by (rule only_after_reading [OF resolve_digest_observes locked prefix])
  moreover have "only_after (alias_missing E lxd prefix) image_event (err e)" for e :: driver_error
    by (simp add: only_after_def err_def return_def)
  ultimately show ?thesis
    unfolding resolve_alias_def skopeo_cache_sel Let_def lift_ok_def by (cases "validate_reference reference") simp_all
qed

section \<open>The architecture is verified first\<close>

text \<open>No tool runs, and nothing is sent to LXD that could change it, before its architectures were found
  to fit, by this call or an earlier one.\<close>

definition acts :: "event \<Rightarrow> bool" where
  "acts e \<longleftrightarrow> \<not> observing e \<or> (case e of Process _ _ _ \<Rightarrow> True | _ \<Rightarrow> False)"

definition arch_checked :: "'a action \<Rightarrow> bool" where
  "arch_checked m \<longleftrightarrow> (\<forall>h. \<exists>es. snd (m h) = h @ es \<and> guarded (\<lambda>h e. acts e \<longrightarrow> Arch_Verified \<in> set h) h es)"

lemma run_verify_arch:
  "run (\<lambda>_. True) (\<lambda>h e. acts e \<longrightarrow> Arch_Verified \<in> set h) (verify_lxd_architecture E si)
     (\<lambda>r h. \<forall>u. r = Inr u \<longrightarrow> Arch_Verified \<in> set h)"
proof -
  have "emits (\<lambda>e. \<not> acts e) (verify_architecture E cl a)" for cl a
    unfolding verify_architecture_def server_architectures_def
    by (intro emits_rules) (simp_all add: acts_def is_request_def)
  then have reads: "run (\<lambda>_. True) (\<lambda>h e. acts e \<longrightarrow> Arch_Verified \<in> set h) (verify_architecture E cl a) (\<lambda>_ _. True)" for cl a
    by (rule run_stable) auto
  show ?thesis unfolding verify_lxd_architecture_def note_event_def
    by (intro run_await [where R = "\<lambda>b h. b \<longrightarrow> Arch_Verified \<in> set h"] run_recall run_if run_ok
        run_await_map [OF run_pre [OF reads]] run_await [where R = "\<lambda>_ h. Arch_Verified \<in> set h"] run_perform)
      (auto simp: acts_def)
qed

lemma arch_checked_after:
  assumes "\<And>u. emits p (f u)"
  shows "arch_checked (await_ok (verify_lxd_architecture E si) f)"
proof -
  let ?G = "\<lambda>h e. acts e \<longrightarrow> Arch_Verified \<in> set h"
  have "run (\<lambda>h. Arch_Verified \<in> set h) ?G (f u) (\<lambda>_ h. Arch_Verified \<in> set h)" for u
    by (rule run_stable [OF assms]) auto
  then have "run (\<lambda>_. True) ?G (await_ok (verify_lxd_architecture E si) f) (\<lambda>_ _. True)"
    by (intro run_await_ok [OF run_verify_arch]) (auto elim: run_weaken)
  then show ?thesis unfolding arch_checked_def run_def by blast
qed

section \<open>Owners and the rootfs\<close>

lemma encode_varint_bytes: "list_all (\<lambda>b. b < 256) (encode_varint n)"
proof (induction n rule: encode_varint.induct)
  case (1 n)
  then show ?case by (subst encode_varint.simps) auto
qed

lemma bytes_of_chars: "list_all (\<lambda>b. b < 256) bs \<Longrightarrow> map of_char (map char_of bs :: string) = bs" for bs :: "nat list"
  by (induction bs) auto

text \<open>The unpacked rootfs of an import, which is no root directory and ends in a name.\<close>

lemma rootfs_path:
  "path_join t ''rootfs'' \<noteq> [] \<and> \<not> ends_with (path_join t ''rootfs'') ''/''"
proof -
  have "normal_name ''rootfs''" by (simp add: normal_name_def)
  then show ?thesis using normal_name_ends [of "''rootfs''"] path_join_name [of "''rootfs''" t] by (metis append.assoc)
qed

section \<open>Properties of images\<close>



text \<open>Claim C35. The owner that \<open>umoci\<close> records for a file of an unpacked image is read back as it was written:
  decoding the encoding of a user and a group id yields them, and the id that stands for no change is
  root.\<close>

theorem owner_roundtrip:
  assumes "uid < 2 ^ 32" and "gid < 2 ^ 32"
  shows "decode_rootless_owner (map char_of (encode_owner uid gid)) = Some (owner_id uid, owner_id gid)"
proof -
  have "list_all (\<lambda>b. b < 256) (encode_owner uid gid)"
    by (simp add: encode_owner_def encode_varint_bytes)
  then show ?thesis
    unfolding decode_rootless_owner_def by (simp only: bytes_of_chars decode_encode_owner [OF assms])
qed

theorem owner_roundtrip_witness:
  "decode_rootless_owner (map char_of (encode_owner 1000 4294967295)) = Some (1000, 0)"
  using owner_roundtrip [of 1000 4294967295] by (simp add: owner_id_def ROOTLESS_NOOP_ID_def)

text \<open>Whatever symbolic links an image holds, installing the init never leaves the unpacked rootfs:
  every file system call names a path made of the rootfs and ordinary names below it.\<close>

lemma init_install_confined:
  "emits (confined (path_join t ''rootfs'')) (inject_init_script E (path_join t ''rootfs''))
   \<and> emits (confined (path_join t ''rootfs'')) (install_init E (path_join t ''rootfs''))"
  using rootfs_path [of t] inject_init_script_confined install_init_confined by blast

end
