(* ===== verification/Gc_Laws.thy ===== *)
theory Gc_Laws
  imports Gc Guards
begin

text \<open>
  What clean-up promises: in LXD it deletes only images and volumes that LXD itself listed, in the same
  pass, and that are stale by the driver's rules; on the host it removes only old scratch directories
  and binaries of other supervisors.
\<close>

section \<open>Deletions and their reasons\<close>

definition deletes_image :: "env \<Rightarrow> lxd_client \<Rightarrow> image \<Rightarrow> event \<Rightarrow> bool" where
  "deletes_image E cl i e = (case e of
      Exchange r _ \<Rightarrow> is_request E cl DELETE (''/1.0/images/'' @ ext_encode E (img_fingerprint i)) No_Body r
    | _ \<Rightarrow> False)"

definition deletes_volume :: "env \<Rightarrow> lxd_client \<Rightarrow> string \<Rightarrow> storage_volume \<Rightarrow> event \<Rightarrow> bool" where
  "deletes_volume E cl pool v e = (case e of
      Exchange r _ \<Rightarrow> is_request E cl DELETE (volume_delete_path E pool (vol_name v) (vol_location v)) No_Body r
    | _ \<Rightarrow> False)"

text \<open>A deletion is justified by the events before it when they hold a listing of LXD that names the
  image or the volume and shows that it is stale.\<close>

definition justified_image :: "env \<Rightarrow> lxd_client \<Rightarrow> string \<Rightarrow> event list \<Rightarrow> event \<Rightarrow> bool" where
  "justified_image E cl prefix es e \<longleftrightarrow> (\<exists>images i.
     answered E cl (de_list de_image) ''/1.0/images?recursion=1'' images es \<and> i \<in> set images
     \<and> is_stale_image i (cl_project cl) prefix \<and> deletes_image E cl i e)"

definition justified_volume :: "env \<Rightarrow> lxd_client \<Rightarrow> string list option \<Rightarrow> event list \<Rightarrow> event \<Rightarrow> bool" where
  "justified_volume E cl keep es e \<longleftrightarrow> (\<exists>ks pool volumes v. keep = Some ks
     \<and> answered E cl (de_list de_storage_volume) (custom_volumes_path E pool @ ''?recursion=1'') volumes es
     \<and> v \<in> set volumes \<and> is_unused_aux_volume v (cl_project cl) ks \<and> deletes_volume E cl pool v e)"

definition justified :: "env \<Rightarrow> lxd_client \<Rightarrow> string \<Rightarrow> string list option \<Rightarrow> event list \<Rightarrow> event \<Rightarrow> bool" where
  "justified E cl prefix keep es e \<longleftrightarrow>
     observing e \<or> justified_image E cl prefix es e \<or> justified_volume E cl keep es e"

abbreviation justified_since ::
  "env \<Rightarrow> lxd_client \<Rightarrow> string \<Rightarrow> string list option \<Rightarrow> event list \<Rightarrow> event list \<Rightarrow> event \<Rightarrow> bool" where
  "justified_since E cl prefix keep h0 \<equiv> \<lambda>h e. justified E cl prefix keep (drop (length h0) h) e"

section \<open>The passes over a listing\<close>

lemma emits_collect_images:
  "emits (\<lambda>e. observing e \<or> (\<exists>i \<in> set is. deletes_image E cl i e)) (collect_images E cl is c)"
proof (induction "is" arbitrary: c)
  case (Cons i "is")
  have rest: "emits (\<lambda>e. observing e \<or> (\<exists>i \<in> set (i # is). deletes_image E cl i e)) (collect_images E cl is c)" for c
    by (rule emits_weaken [OF Cons.IH]) auto
  show ?case unfolding collect_images.simps
    by (intro emits_rules rest) (auto simp: deletes_image_def)
qed (auto intro: emits_rules)

lemma emits_collect_volumes:
  "emits (\<lambda>e. observing e \<or> (\<exists>v \<in> set vs. deletes_volume E cl pool v e)) (collect_volumes E cl pool vs c)"
proof (induction vs arbitrary: c)
  case (Cons v vs)
  have rest: "emits (\<lambda>e. observing e \<or> (\<exists>v \<in> set (v # vs). deletes_volume E cl pool v e)) (collect_volumes E cl pool vs c)" for c
    by (rule emits_weaken [OF Cons.IH]) auto
  show ?case unfolding collect_volumes.simps
    by (intro emits_rules rest) (auto simp: deletes_volume_def)
qed (auto intro: emits_rules)

text \<open>A listing, seen from the start of the pass.\<close>

lemma run_point: "(\<And>h1. P h1 \<Longrightarrow> run (\<lambda>h. h = h1) G m Q) \<Longrightarrow> run P G m Q"
  unfolding run_def by blast

lemma answered_prefix: "answered E cl f path x es \<Longrightarrow> answered E cl f path x (fs @ es)"
  unfolding answered_def by fastforce

lemma run_listing:
  "run (since h0) (justified_since E cl prefix keep h0) (metadata_of (lxd_get E cl f path))
     (\<lambda>r h. \<exists>es. h = h0 @ es \<and> (\<forall>x. r = Inr x \<longrightarrow> answered E cl f path x es))"
proof (rule run_point)
  fix h1 assume "since h0 h1"
  then obtain es where h1: "h1 = h0 @ es" by blast
  show "run (\<lambda>h. h = h1) (justified_since E cl prefix keep h0) (metadata_of (lxd_get E cl f path))
     (\<lambda>r h. \<exists>es. h = h0 @ es \<and> (\<forall>x. r = Inr x \<longrightarrow> answered E cl f path x es))"
    by (rule run_weaken [OF run_get_metadata [where ?h0.0 = h1]]) (auto simp: justified_def h1 intro: answered_prefix)
qed

text \<open>What follows a listing, for either kind of deletion.\<close>

lemma run_pass:
  assumes "emits (\<lambda>e. observing e \<or> (\<exists>x \<in> set xs. del x e)) m"
    and "\<And>es x e. answered E cl f path ys es \<Longrightarrow> x \<in> set xs \<Longrightarrow> del x e \<Longrightarrow> justified E cl prefix keep es e"
  shows "run (\<lambda>h. \<exists>es. h = h0 @ es \<and> answered E cl f path ys es) (justified_since E cl prefix keep h0) m
     (\<lambda>_. since h0)"
proof (rule run_post)
  show "run (\<lambda>h. \<exists>es. h = h0 @ es \<and> answered E cl f path ys es) (justified_since E cl prefix keep h0) m
     (\<lambda>_ h. \<exists>es. h = h0 @ es \<and> answered E cl f path ys es)"
    by (rule run_stable [OF assms(1)]) (auto simp: justified_def [of _ _ _ _ _ e for e] intro: answered_append dest: assms(2))
qed auto

lemma run_collect_images:
  "run (\<lambda>h. \<exists>es. h = h0 @ es \<and> answered E cl (de_list de_image) ''/1.0/images?recursion=1'' images es)
     (justified_since E cl prefix keep h0)
     (collect_images E cl (filter (\<lambda>i. is_stale_image i (cl_project cl) prefix) images) c) (\<lambda>_. since h0)"
  by (rule run_pass [OF emits_collect_images]) (auto simp: justified_def justified_image_def)

lemma run_collect_pools:
  "run (since h0) (justified_since E cl prefix (Some ks) h0) (collect_pools E cl ks pools c) (\<lambda>_. since h0)"
proof (induction pools arbitrary: c)
  case Nil
  show ?case by (auto intro: run_return)
next
  case (Cons pool pools)
  have volumes: "run (\<lambda>h. \<exists>es. h = h0 @ es
        \<and> answered E cl (de_list de_storage_volume) (custom_volumes_path E pool @ ''?recursion=1'') volumes es)
      (justified_since E cl prefix (Some ks) h0)
      (collect_volumes E cl pool (filter (\<lambda>v. is_unused_aux_volume v (cl_project cl) ks) volumes) c) (\<lambda>_. since h0)"
    for volumes c
    by (rule run_pass [OF emits_collect_volumes]) (auto simp: justified_def justified_volume_def)
  show ?case unfolding collect_pools.simps list_custom_volumes_def
    by (intro run_await [OF run_listing] run_case_sum run_pre [OF Cons.IH]
        run_pre [OF run_await [OF volumes Cons.IH]]) auto
qed

lemma run_collect:
  "run (\<lambda>h. h = h0) (justified_since E cl prefix keep h0) (collect E cl prefix keep) (\<lambda>_. since h0)"
proof -
  have images: "run (since h0) (justified_since E cl prefix keep h0) (await (list_images E cl) (\<lambda>r. case r of
         Inr images \<Rightarrow> collect_images E cl
           (filter (\<lambda>i. is_stale_image i (cl_project cl) prefix) images) \<lparr>col_images = 0, col_volumes = 0\<rparr>
       | Inl _ \<Rightarrow> return \<lparr>col_images = 0, col_volumes = 0\<rparr>)) (\<lambda>_. since h0)"
    unfolding list_images_def
    by (intro run_await [OF run_listing] run_case_sum run_return run_pre [OF run_collect_images]) auto
  have pools: "run (since h0) (justified_since E cl prefix keep h0) (list_storage_pools E cl) (\<lambda>_. since h0)" for keep
    by (rule run_stable [where p = observing]) (auto simp: justified_def intro: emits_rules)
  show ?thesis unfolding collect_def
    by (rule run_pre [OF run_await [OF images]])
      (auto intro!: run_return run_await [OF pools] run_case_sum run_collect_pools split: option.splits)
qed

section \<open>The host\<close>

text \<open>The directories that clean-up may remove: scratch directories of the work directory, and in the
  cache of supervisors those of other digests than the current one.\<close>

definition removable :: "string \<Rightarrow> string option \<Rightarrow> string \<Rightarrow> string \<Rightarrow> bool" where
  "removable cache_dir current work_dir path \<longleftrightarrow>
     (\<exists>name digest. current = Some digest \<and> path = path_join cache_dir name \<and> is_digest name \<and> name \<noteq> clean_digest digest)
     \<or> (\<exists>name. path = path_join work_dir name \<and> list_ex (starts_with name) SCRATCH_PREFIXES)"

definition host_event :: "string \<Rightarrow> string option \<Rightarrow> string \<Rightarrow> event \<Rightarrow> bool" where
  "host_event cache_dir current work_dir e = (case e of
      Fs (Read_Dir _) _ \<Rightarrow> True
    | Fs (Symlink_Metadata _) _ \<Rightarrow> True
    | Fs (Remove_Dir_All path) _ \<Rightarrow> removable cache_dir current work_dir path
    | _ \<Rightarrow> False)"

lemma host_events: "emits (host_event cache_dir current work_dir) (collect_host E cache_dir current work_dir)"
proof -
  have dir: "emits (host_event cache_dir current work_dir) (gc_read_dir E d)" for d
    unfolding gc_read_dir_def by (intro emits_rules) (simp add: host_event_def)
  have remove: "emits (host_event cache_dir cur work_dir) (gc_remove E path)" if "removable cache_dir cur work_dir path" for path cur
    using that unfolding gc_remove_def by (intro emits_rules) (simp add: host_event_def)
  have binaries: "emits (host_event cache_dir (Some digest) work_dir) (remove_binaries E cache_dir (clean_digest digest) names n)"
    for digest names n
    by (induction names arbitrary: n) (auto simp: removable_def intro!: emits_rules remove)
  have scratch: "emits (host_event cache_dir current work_dir) (remove_scratch E work_dir names n)" for names n
    by (induction names arbitrary: n) (auto simp: removable_def Let_def host_event_def intro!: emits_rules remove)
  show ?thesis unfolding collect_host_def by (intro emits_rules dir scratch) (auto intro!: emits_rules dir binaries)
qed

section \<open>Properties of clean-up\<close>

text \<open>Claim C11. Clean-up deletes nothing in LXD without a reason that LXD gave in the same pass: each
  request that changes something deletes an image that LXD listed and that is stale (it is of the
  driver's project and all its aliases are of older conversion revisions), or an auxiliary volume that
  LXD listed as unused and that is not one of those to keep; without a list of volumes to keep no volume
  is deleted.\<close>

theorem cleanup_deletes_only_stale:
  "\<exists>es. snd (collect E cl prefix keep h) = h @ es
     \<and> guarded (\<lambda>past e. justified E cl prefix keep (drop (length h) past) e) h es"
  using runD [OF run_collect refl] by metis

text \<open>An image or volume that the running driver uses is never stale: an image that carries the
  alias the cache gives to a digest is not collected, nor is a volume in the list to keep, whatever
  else LXD reports about them.\<close>

lemma current_images_are_kept:
  "\<not> (is_stale_image i project prefix \<and> cache_alias_with_prefix prefix digest \<in> set (img_aliases i))
   \<and> \<not> (is_unused_aux_volume v project keep \<and> vol_name v \<in> set keep)"
  using current_alias_kept by (auto simp: is_stale_image_def is_unused_aux_volume_def list_all_iff)


end
