(* ===== verification/Create_Laws.thy ===== *)
theory Create_Laws
  imports Driver_Laws Image_Laws Gc_Laws
begin

text \<open>
  Creating a sandbox: what it may change, and how it excludes the collector of volumes.
\<close>

section \<open>The events of a creation\<close>

definition path_of :: "event \<Rightarrow> string" where
  "path_of e = (case e of Exchange r _ \<Rightarrow> req_path r | _ \<Rightarrow> [])"

text \<open>Before the instance: reads, and requests to LXD's images, network ACLs and storage pools.\<close>

definition setup_event :: "event \<Rightarrow> bool" where
  "setup_event e \<longleftrightarrow> observing e
     \<or> list_ex (starts_with (path_of e)) [''/1.0/images'', ''/1.0/network-acls'', ''/1.0/storage-pools/'']"

definition creates_instance :: "env \<Rightarrow> lxd_client \<Rightarrow> string \<Rightarrow> event \<Rightarrow> bool" where
  "creates_instance E cl name e = (case e of
      Exchange r _ \<Rightarrow> \<exists>i m ds ps. is_request E cl POST ''/1.0/instances'' (Instance_Body name i m ds ps False) r
    | _ \<Rightarrow> False)"

lemma emits_case_host [emits_rules]:
  "(\<And>a. emits p (f a)) \<Longrightarrow> (\<And>a. emits p (g a)) \<Longrightarrow> (\<And>a. emits p (k a)) \<Longrightarrow> emits p (case_url_host f g k x)"
  by (cases x) simp_all

lemma setup_event_observing: "observing e \<Longrightarrow> setup_event e"
  by (simp add: setup_event_def)

lemma setup_event_request:
  "is_request E cl m (''/1.0/images'' @ p) b r \<Longrightarrow> setup_event (Exchange r a)"
  "is_request E cl m (''/1.0/network-acls'' @ p) b r \<Longrightarrow> setup_event (Exchange r a)"
  "is_request E cl m (''/1.0/storage-pools/'' @ p) b r \<Longrightarrow> setup_event (Exchange r a)"
  by (auto simp: setup_event_def path_of_def is_request_def starts_with_def)

lemma setup_event_image: "image_event e \<Longrightarrow> setup_event e"
  by (auto simp: image_event_def setup_event_def path_of_def split: event.splits)

lemmas setup_intros = setup_event_observing setup_event_request
  setup_event_request(2) [where p = "[]", simplified] setup_event_image

lemma setup_steps:
  "emits setup_event (check_placement E d pl)"
  "emits setup_event (ensure_egress_acl E d n net ep)"
  "emits setup_event (prepare_guest E d spec m)"
  "emits setup_event (provision_supervisor E d pool dg path)"
  "emits setup_event (provision_dhcp_client E d pool dg bs)"
proof -
  show "emits setup_event (check_placement E d pl)"
    unfolding check_placement_def by (intro emits_rules) (auto intro: setup_intros observing_GET)
  show "emits setup_event (ensure_egress_acl E d n net ep)"
    unfolding ensure_egress_acl_def gateway_addresses_def
    by (intro emits_rules) (auto simp: acl_path_def intro: setup_intros)
  show "emits setup_event (prepare_guest E d spec m)"
    unfolding prepare_guest_def by (intro emits_rules) (auto intro: setup_intros)
  show "emits setup_event (provision_supervisor E d pool dg path)"
    unfolding provision_supervisor_def ensure_supervisor_volume_def
    by (intro emits_rules) (auto simp: volume_path_def intro: setup_intros)
  show "emits setup_event (provision_dhcp_client E d pool dg bs)"
    unfolding provision_dhcp_client_def ensure_dhcp_client_volume_def
    by (intro emits_rules) (auto simp: volume_path_def intro: setup_intros)
qed

text \<open>The driver of the running program, whose cache imports with \<open>skopeo\<close>.\<close>

lemma driver_new_sel [simp]: "drv_config (driver_new E c lxd) = c" "drv_lxd (driver_new E c lxd) = lxd"
  by (simp_all add: driver_new_def Let_def)

lemma image_supervisor: "emits image_event (resolve_supervisor E (driver_new E c lxd))"
proof -
  have "emits image_event (extract_supervisor_binary E (drv_image_cache (driver_new E c lxd)) reference dir)" for reference dir
    unfolding driver_new_def Let_def lxd_compute_driver.simps by (rule skopeo_images.emits_extract)
  then show ?thesis unfolding resolve_supervisor_def digest_of_file_def by (intro emits_rules) auto
qed

lemma setup_images:
  "emits setup_event (resolve_alias (drv_image_cache (driver_new E c lxd)) reference)"
  "emits setup_event (resolve_supervisor E (driver_new E c lxd))"
proof -
  show "emits setup_event (resolve_alias (drv_image_cache (driver_new E c lxd)) reference)"
    unfolding driver_new_def Let_def lxd_compute_driver.simps
    by (rule emits_weaken [OF skopeo_images.emits_resolve_alias setup_event_image])
  show "emits setup_event (resolve_supervisor E (driver_new E c lxd))"
    by (rule emits_weaken [OF image_supervisor setup_event_image])
qed

section \<open>The shape of a creation\<close>

text \<open>What happens once the instance exists: files, start, and the clean-up when either fails.\<close>

definition finish_create ::
  "env \<Rightarrow> lxd_compute_driver \<Rightarrow> driver_sandbox \<Rightarrow> (string \<times> string) list \<Rightarrow> (driver_error, unit) fallible" where
  "finish_create E d sandbox guest_files =
     await (post_create E d sandbox guest_files) (\<lambda>r. case r of
        Inr _ \<Rightarrow> ok ()
      | Inl post_err \<Rightarrow> await (cleanup_instance E d (sb_name sandbox)) (\<lambda>_. err post_err))"

text \<open>Every fact about a creation follows from what setting up keeps (\<open>I\<close>), what creating the instance
  with its volumes establishes (\<open>J\<close>) and what finishing it does.\<close>

lemma run_create_sandbox:
  assumes stable: "\<And>h e. I h \<Longrightarrow> setup_event e \<Longrightarrow> I (h @ [e]) \<and> G h e"
    and fails: "\<And>h e. I h \<Longrightarrow> Q (Inl e) h"
    and create: "\<And>spec template placement acl m bin dg img.
      run I G (create_with_volumes E (driver_new E c lxd) sandbox spec template placement acl m bin dg img)
        (\<lambda>r h. case r of Inr _ \<Rightarrow> J h | Inl e \<Rightarrow> Q (Inl e) h)"
    and finish: "\<And>files. run J G (finish_create E (driver_new E c lxd) sandbox files) Q"
  shows "run I G (create_sandbox E (driver_new E c lxd) sandbox) Q"
proof -
  have step: "run I G m (\<lambda>_. I)" if "emits setup_event m" for m :: "'b action" by (rule run_stable [OF that], rule stable)
  have acl: "emits setup_event (if b then await_ok (ensure_egress_acl E d n net ep) (\<lambda>a. ok (Some a)) else ok None)"
    for b d n net ep by (intro emits_rules setup_steps)
  show ?thesis
    unfolding create_sandbox_def Let_def
    by (intro run_lift_ok run_case_prod run_await_ok [OF step [OF setup_steps(1)]] run_await_ok [OF step [OF acl]]
        run_await_ok [OF step [OF setup_steps(3)]] run_await_ok [OF step [OF setup_images(2)]]
        run_await_ok [OF step [OF setup_images(1)]] run_await_ok [OF create])
      (use fails finish [unfolded finish_create_def] in auto)
qed

section \<open>The lock around the volumes\<close>

lemma emits_conj: "emits p m \<Longrightarrow> emits q m \<Longrightarrow> emits (\<lambda>e. p e \<and> q e) m"
  unfolding emits_iff by (metis (mono_tags, lifting) list_all_iff same_append_eq)

interpretation unlocking_wait: wait_events E cl i "\<lambda>e. e \<noteq> Unlock k" for E cl i k
  by unfold_locales auto

lemma wait_keeps_lock: "emits (\<lambda>e. e \<noteq> Unlock k) (wait_operation E d i)"
  unfolding wait_operation_def
  by (intro emits_await emits_timeout_secs unlocking_wait.emits_lxd_wait emits_case_option emits_case_sum emits_ok emits_err)

text \<open>Nothing between the two ends of a creation's shared lock releases it.\<close>

lemma keeps_lock:
  "emits (\<lambda>e. e \<noteq> Unlock ''volume_use:read'') (provision_supervisor E d pool dg path)"
  "emits (\<lambda>e. e \<noteq> Unlock ''volume_use:read'') (provision_dhcp_client E d pool dg bs)"
  "emits (\<lambda>e. e \<noteq> Unlock ''volume_use:read'') (load_dhcp_client E bin)"
proof -
  note emits_wait_operation [emits_rules del] and emits_ensure_shifted [emits_rules del]
    and emits_ensure_single_file_volume [emits_rules del]
  note waiting = unlocking_wait.emits_lxd_wait
  have "emits (\<lambda>e. e \<noteq> Unlock k) (ensure_storage_pool_volume_shifted E cl pool ty n)" for k E cl pool ty n
    unfolding ensure_storage_pool_volume_shifted_def get_storage_pool_volume_def update_storage_pool_volume_config_def
    by (intro emits_rules waiting) simp_all
  then have vol: "emits (\<lambda>e. e \<noteq> Unlock k) (ensure_single_file_volume E cl pool n entries)" for k E cl pool n entries
    unfolding ensure_single_file_volume_def storage_pool_volume_exists_def create_storage_pool_volume_from_tarball_def
    by (intro emits_rules waiting) simp_all
  show "emits (\<lambda>e. e \<noteq> Unlock ''volume_use:read'') (provision_supervisor E d pool dg path)"
    unfolding provision_supervisor_def ensure_supervisor_volume_def by (intro emits_rules vol) simp_all
  show "emits (\<lambda>e. e \<noteq> Unlock ''volume_use:read'') (provision_dhcp_client E d pool dg bs)"
    unfolding provision_dhcp_client_def ensure_dhcp_client_volume_def by (intro emits_rules vol) simp_all
  show "emits (\<lambda>e. e \<noteq> Unlock ''volume_use:read'') (load_dhcp_client E bin)"
    by (intro emits_rules) simp_all
qed

text \<open>Creating the instance: the shared lock is held around provisioning and the request.\<close>

lemma run_create_with_volumes:
  assumes stable: "\<And>h e. I h \<Longrightarrow> setup_event e \<Longrightarrow> e \<noteq> Unlock ''volume_use:read'' \<Longrightarrow> I (h @ [e]) \<and> G h e"
    and request: "\<And>h e. I h \<Longrightarrow> creates_instance E (drv_lxd d) (sb_name sandbox) e \<Longrightarrow> I (h @ [e]) \<and> G h e"
    and enter: "\<And>h. P h \<Longrightarrow> G h (Lock ''volume_use:read'') \<and> I (h @ [Lock ''volume_use:read''])"
    and leave: "\<And>r h. I h \<Longrightarrow> G h (Unlock ''volume_use:read'') \<and> Q r (h @ [Unlock ''volume_use:read''])"
  shows "run P G (create_with_volumes E d sandbox spec template placement acl m bin dg img) Q"
proof -
  let ?p = "\<lambda>e. (setup_event e \<and> e \<noteq> Unlock ''volume_use:read'') \<or> creates_instance E (drv_lxd d) (sb_name sandbox) e"
  have step: "emits ?p n" if "emits setup_event n" "emits (\<lambda>e. e \<noteq> Unlock ''volume_use:read'') n" for n :: "'x action"
    by (rule emits_weaken [OF emits_conj [OF that]]) simp
  have request': "emits ?p (create_instance E (drv_lxd d) (sb_name sandbox) img m ds ps False)" for ds ps
    by (intro emits_rules) (auto simp: creates_instance_def)
  have dhcp: "emits setup_event (load_dhcp_client E b)" for b by (intro emits_rules) (auto intro: setup_intros)
  have wait: "emits setup_event (wait_operation E d i)" for i by (intro emits_rules) (auto intro: setup_intros)
  show ?thesis unfolding create_with_volumes_def Let_def
  proof (rule run_with_lock [where P' = I and R = "\<lambda>_. I"], erule enter, rule run_stable)
    show "emits ?p (await_ok (provision_supervisor E d (aux_pool_of (drv_config d) placement) dg bin) (\<lambda>_.
        await_ok (load_dhcp_client E (cfg_dhcp_client_bin (drv_config d))) (\<lambda>(dhcp_binary_bytes, dhcp_digest).
        await_ok (provision_dhcp_client E d (aux_pool_of (drv_config d) placement) dhcp_digest dhcp_binary_bytes) (\<lambda>_.
        await_map Lxd (create_instance E (drv_lxd d) (sb_name sandbox) img m
            (build_create_devices placement acl (gpu_of spec \<noteq> None) (aux_pool_of (drv_config d) placement)
               (supervisor_volume_name dg) (aux_pool_of (drv_config d) placement) (dhcp_client_volume_name dhcp_digest))
            (build_profiles template) False) (\<lambda>op.
        wait_operation E d (op_id op))))))"
      by (intro emits_rules request' step [OF setup_steps(4) keeps_lock(1)] step [OF setup_steps(5) keeps_lock(2)]
          step [OF dhcp keeps_lock(3)] step [OF wait wait_keeps_lock])
  qed (use stable request leave in auto)
qed

section \<open>Order and locks\<close>

text \<open>\<open>under_lock k p m\<close>: whenever \<open>m\<close> emits an event of \<open>p\<close>, it holds the lock \<open>k\<close>.\<close>

definition holding :: "string \<Rightarrow> event list \<Rightarrow> bool" where
  "holding k es \<longleftrightarrow> (\<exists>as bs. es = as @ Lock k # bs \<and> Unlock k \<notin> set bs)"

definition under_lock :: "string \<Rightarrow> (event \<Rightarrow> bool) \<Rightarrow> 'a action \<Rightarrow> bool" where
  "under_lock k p m \<longleftrightarrow> (\<forall>h. \<exists>es. snd (m h) = h @ es
     \<and> guarded (\<lambda>past e. p e \<longrightarrow> holding k (drop (length h) past)) h es)"

lemma holding_append: "holding k es \<Longrightarrow> e \<noteq> Unlock k \<Longrightarrow> holding k (es @ [e])"
  unfolding holding_def by (metis (no_types) Un_iff append.assoc append_Cons set_ConsD set_append set_empty2 empty_iff set_ConsD)

lemma holding_Lock: "holding k (es @ [Lock k])"
  unfolding holding_def by (rule exI [of _ es]) simp

lemma concerns_path: "concerns E cl name e \<Longrightarrow> starts_with (path_of e) ''/1.0/instances/''"
  by (auto simp: concerns_def path_of_def instance_path_def state_path_def files_path_def starts_with_def split: event.splits)

lemma finish_events:
  "emits (about_instance E (drv_lxd d) (sb_name sandbox)) (post_create E d sandbox files)"
  "emits (about_instance E (drv_lxd d) name) (cleanup_instance E d name)"
  "emits (about_instance E (drv_lxd d) (sb_name sandbox)) (finish_create E d sandbox files)"
proof -
  show post: "emits (about_instance E (drv_lxd d) (sb_name sandbox)) (post_create E d sandbox files)"
    unfolding post_create_def by (intro emits_rules driver_emits)
  show cleanup: "emits (about_instance E (drv_lxd d) name) (cleanup_instance E d name)" for name
    unfolding cleanup_instance_def by (intro emits_rules) (auto intro: about_instance_intros)
  show "emits (about_instance E (drv_lxd d) (sb_name sandbox)) (finish_create E d sandbox files)"
    unfolding finish_create_def by (intro emits_rules post cleanup)
qed

section \<open>Volumes in use\<close>

lemma under_lockI:
  assumes "\<And>h0. run (\<lambda>h. h = h0) (\<lambda>h e. p e \<longrightarrow> holding k (drop (length h0) h)) m (\<lambda>_ _. True)"
  shows "under_lock k p m"
  unfolding under_lock_def using runD [OF assms refl] by metis

text \<open>A lock scope: outside it nothing of \<open>p\<close>, inside it nothing that releases the lock.\<close>

lemma run_outside:
  "emits (\<lambda>e. \<not> p e) m \<Longrightarrow> run (since h0) (\<lambda>h e. p e \<longrightarrow> holding k (drop (length h0) h)) m (\<lambda>_. since h0)"
  by (erule run_stable) auto

lemma run_inside:
  assumes "emits (\<lambda>e. e \<noteq> Unlock k) m" and "\<not> p (Lock k)" and "\<not> p (Unlock k)"
  shows "run (since h0) (\<lambda>h e. p e \<longrightarrow> holding k (drop (length h0) h)) (with_lock k m) (\<lambda>_. since h0)"
proof (rule run_with_lock [where P' = "\<lambda>h. \<exists>es. h = h0 @ es \<and> holding k es"])
  show "run (\<lambda>h. \<exists>es. h = h0 @ es \<and> holding k es) (\<lambda>h e. p e \<longrightarrow> holding k (drop (length h0) h)) m
      (\<lambda>_ h. \<exists>es. h = h0 @ es \<and> holding k es)"
    by (rule run_stable [OF assms(1)]) (auto intro: holding_append)
qed (use assms in \<open>auto intro: holding_Lock\<close>)

lemma locks_not_create:
  "\<not> creates_instance E cl name (Lock k)" "\<not> creates_instance E cl name (Unlock k)"
  "creates_instance E cl name e \<Longrightarrow> e \<noteq> Unlock k"
  by (auto simp: creates_instance_def)

lemma create_under_lock:
  "under_lock ''volume_use:read'' (creates_instance E lxd (sb_name sandbox)) (create_sandbox E (driver_new E c lxd) sandbox)"
proof (rule under_lockI)
  fix h0 :: "event list"
  let ?G = "\<lambda>h e. creates_instance E lxd (sb_name sandbox) e \<longrightarrow> holding ''volume_use:read'' (drop (length h0) h)"
  let ?H = "\<lambda>h. \<exists>es. h = h0 @ es \<and> holding ''volume_use:read'' es"
  have before: "\<not> creates_instance E lxd (sb_name sandbox) e" if "setup_event e" for e
    using that by (auto simp: setup_event_def creates_instance_def path_of_def is_request_def starts_with_iff split: event.splits)
  have about: "\<not> creates_instance E lxd (sb_name sandbox) e" if "about_instance E lxd name e" for e name
    using that concerns_path [of E lxd name e]
    by (auto simp: about_instance_def creates_instance_def path_of_def is_request_def starts_with_iff split: event.splits)
  have "run (since h0) ?G (create_sandbox E (driver_new E c lxd) sandbox) (\<lambda>_ _. True)"
  proof (rule run_create_sandbox [where J = "since h0"])
    show "run (since h0) ?G (create_with_volumes E (driver_new E c lxd) sandbox spec template placement acl m bin dg img)
        (\<lambda>r h. case r of Inr _ \<Rightarrow> since h0 h | Inl e \<Rightarrow> True)" for spec template placement acl m bin dg img
      by (rule run_create_with_volumes [where I = ?H])
        (auto simp: before locks_not_create(1,2) intro: holding_append holding_append [OF _ locks_not_create(3)] holding_Lock split: sum.splits)
    show "run (since h0) ?G (finish_create E (driver_new E c lxd) sandbox files) (\<lambda>_ _. True)" for files
      by (rule run_post [OF run_outside [OF emits_weaken [OF finish_events(3)]]]) (auto dest: about)
  qed (auto simp: before)
  then show "run (\<lambda>h. h = h0) ?G (create_sandbox E (driver_new E c lxd) sandbox) (\<lambda>_ _. True)"
    by (rule run_pre) auto
qed


text \<open>The collector: its requests come in its own scope.\<close>

lemma collect_keeps_lock: "emits (\<lambda>e. e \<noteq> Unlock k) (collect E cl prefix keep)"
proof -
  note emits_wait_operation [emits_rules del] and emits_reads [emits_rules del] and emits_delete_custom_volume [emits_rules del]
  note waiting = unlocking_wait.emits_lxd_wait
  have images: "emits (\<lambda>e. e \<noteq> Unlock k) (collect_images E cl is c)" for "is" c
    by (induction "is" arbitrary: c) (auto intro!: emits_rules waiting)
  have volumes: "emits (\<lambda>e. e \<noteq> Unlock k) (collect_volumes E cl pool vs c)" for pool vs c
    by (induction vs arbitrary: c) (auto simp: delete_custom_volume_def intro!: emits_rules waiting)
  have pools: "emits (\<lambda>e. e \<noteq> Unlock k) (collect_pools E cl ks ps c)" for ks ps c
    by (induction ps arbitrary: c) (auto simp: list_custom_volumes_def intro!: emits_rules volumes)
  show ?thesis unfolding collect_def list_images_def list_storage_pools_def
    by (intro emits_rules images pools) simp_all
qed

lemma collect_under_lock:
  "under_lock ''volume_use:write'' (\<lambda>e. \<exists>pool v. deletes_volume E lxd pool v e) (collect_garbage E (driver_new E c lxd))"
proof (rule under_lockI)
  fix h0 :: "event list"
  let ?p = "\<lambda>e. \<exists>pool v. deletes_volume E lxd pool v e"
  let ?G = "\<lambda>h e. ?p e \<longrightarrow> holding ''volume_use:write'' (drop (length h0) h)"
  have local: "\<not> ?p e" if "image_event e" for e
    using that by (auto simp: image_event_def deletes_volume_def is_request_def starts_with_iff volume_delete_path_def
        custom_volumes_path_def split: event.splits)
  have supervisor: "emits (\<lambda>e. \<not> ?p e) (resolve_supervisor E (driver_new E c lxd))"
    by (rule emits_weaken [OF image_supervisor local])
  have dhcp: "emits (\<lambda>e. \<not> ?p e) (load_dhcp_client E b)" for b by (intro emits_rules local) simp_all
  have host: "emits (\<lambda>e. \<not> ?p e) (collect_host E dir cur work)" for dir cur work
    by (rule emits_weaken [OF host_events local]) (auto simp: image_event_def host_event_def split: event.splits)
  have "run (since h0) ?G (collect_garbage E (driver_new E c lxd)) (\<lambda>_. since h0)"
    unfolding collect_garbage_def Let_def collect_lxd_def collect_lxd_images_only_def
    by (intro run_await [OF run_outside [OF supervisor]] run_await [OF run_outside [OF dhcp]]
        run_await [OF run_inside] run_await [OF run_outside [OF host]] run_return)
      (auto simp: deletes_volume_def intro!: collect_keeps_lock split: option.splits)
  then show "run (\<lambda>h. h = h0) ?G (collect_garbage E (driver_new E c lxd)) (\<lambda>_ _. True)" by (rule run_weaken) auto
qed

end
