(* ===== verification/Service_Laws.thy ===== *)
theory Service_Laws
  imports Create_Laws
begin

text \<open>
  What the service around the driver promises: the start-up checks, the endpoint that sandboxes are given,
  the network ACL, the watcher's stream and its reconciliation.
\<close>

section \<open>Success\<close>

text \<open>\<open>on_success P m\<close>: when \<open>m\<close> returns a value, the value and the events of \<open>m\<close> satisfy \<open>P\<close>.\<close>

definition on_success :: "('a \<Rightarrow> event list \<Rightarrow> bool) \<Rightarrow> ('e, 'a) fallible \<Rightarrow> bool" where
  "on_success P m \<longleftrightarrow> (\<forall>h a. fst (m h) = Some (Inr a) \<longrightarrow> (\<exists>es. snd (m h) = h @ es \<and> P a es))"

lemma on_successI:
  assumes "\<And>h0. run (\<lambda>h. h = h0) anything m (\<lambda>r h. \<forall>a. r = Inr a \<longrightarrow> (\<exists>es. h = h0 @ es \<and> P a es))"
  shows "on_success P m"
  unfolding on_success_def
proof (intro allI impI)
  fix h a assume "fst (m h) = Some (Inr a)"
  moreover obtain es where "snd (m h) = h @ es"
    and "\<And>r. fst (m h) = Some r \<Longrightarrow> \<forall>a. r = Inr a \<longrightarrow> (\<exists>fs. h @ es = h @ fs \<and> P a fs)"
    using runD [OF assms [of h] refl] by metis
  ultimately show "\<exists>es. snd (m h) = h @ es \<and> P a es" by auto
qed

section \<open>Start-up\<close>

lemma run_fs_recorded:
  "run (\<lambda>h. h = h0 @ es) anything (fs_do E c) (\<lambda>r h. h = h0 @ es @ [Fs c (succeeded r)])"
  by (rule run_fs_do) auto

text \<open>The socket that the gateway connects to is new, and only its owner may use it.\<close>

definition socket_ready :: "string \<Rightarrow> event list \<Rightarrow> bool" where
  "socket_ready socket es \<longleftrightarrow> (\<exists>before after.
     es = before @ [Fs (Bind_Socket socket) True, Fs (Set_Mode socket SOCKET_MODE) True] @ after)"

lemma socket_ready_append: "socket_ready socket es \<Longrightarrow> socket_ready socket (es @ [e])"
  unfolding socket_ready_def by (metis append.assoc)

lemma run_prepare_socket:
  "run (since h0) anything (prepare_socket E c)
     (\<lambda>r h. \<exists>es. h = h0 @ es \<and> (\<forall>u. r = Inr u \<longrightarrow> socket_ready (cfg_socket c) es))"
proof -
  have parent: "emits observing (case path_parent (cfg_socket c) of
          Some parent \<Rightarrow> if parent \<noteq> [] then await_map (main_io E) (fs_do E (Create_Dir_All parent)) ok else ok ()
        | None \<Rightarrow> ok ())"
    by (intro emits_rules) simp
  have old: "emits observing (await (fs_stat E (Symlink_Metadata (cfg_socket c))) (\<lambda>r. case r of
          Inr metadata \<Rightarrow>
            if meta_is_socket metadata then await_map (main_io E) (fs_do E (Remove_File (cfg_socket c))) ok
            else err (Main_Error (''refusing to remove existing non-socket path at '' @ cfg_socket c))
        | Inl (NotFound _) \<Rightarrow> ok ()
        | Inl e \<Rightarrow> err (main_io E e)))"
    by (intro emits_rules) simp_all
  let ?B = "\<lambda>r h. \<exists>es. h = h0 @ es @ [Fs (Bind_Socket (cfg_socket c)) (succeeded r)]"
  have bind: "run (since h0) anything (fs_do E (Bind_Socket (cfg_socket c))) ?B"
    by (rule run_fs_do) auto
  have mode: "run (?B (Inr u)) anything (fs_do E (Set_Mode (cfg_socket c) SOCKET_MODE))
      (\<lambda>r h. \<exists>es. h = h0 @ es \<and> (\<forall>u. r = Inr u \<longrightarrow> socket_ready (cfg_socket c) es))" for u :: unit
    by (rule run_fs_do) (fastforce simp: socket_ready_def succeeded_def)
  show ?thesis unfolding prepare_socket_def Let_def
    by (intro run_await_ok [OF run_anything [OF parent]] run_await_ok [OF run_anything [OF old]]
        run_await_map [OF bind] run_await_map [OF mode] run_ok) auto
qed

text \<open>What a started driver can rely on.\<close>

definition started_well :: "config \<Rightarrow> lxd_compute_driver \<Rightarrow> event list \<Rightarrow> bool" where
  "started_well c d es \<longleftrightarrow> validate c = Inr () \<and> socket_ready (cfg_socket c) es
     \<and> drv_config d = c \<and> cl_project (drv_lxd d) = cfg_project c"

lemma run_startup:
  "run (\<lambda>h. h = h0) anything (startup E c) (\<lambda>r h. \<forall>d. r = Inr d \<longrightarrow> (\<exists>es. h = h0 @ es \<and> started_well c d es))"
proof (cases "validate c")
  case (Inl e)
  then show ?thesis by (simp add: startup_def check_config_def map_err_def lift_ok_def run_err)
next
  case (Inr u)
  let ?S = "\<lambda>h. \<exists>es. h = h0 @ es \<and> socket_ready (cfg_socket c) es"
  have config: "emits observing (check_config E c)"
    unfolding check_config_def by (intro emits_rules) simp
  have keep: "run ?S anything m (\<lambda>_. ?S)" if "emits p m" for p and m :: "'x action"
    by (rule run_stable [OF that]) (auto intro: socket_ready_append)
  have client: "emits observing (lxd_client_new E ep)" for ep
    unfolding lxd_client_new_def build_connector_def server_trust_of_def read_certs_def read_key_def
    by (cases ep) (auto intro!: emits_rules)
  have lxd: "emits observing (check_lxd E c cl)" for cl
    unfolding check_lxd_def by (intro emits_rules)
  have "run (since h0) anything (startup E c) (\<lambda>r h. \<forall>d. r = Inr d \<longrightarrow> (\<exists>es. h = h0 @ es \<and> started_well c d es))"
    unfolding startup_def Let_def
    by (intro run_await_ok [OF run_anything [OF config]] run_await_ok [OF run_prepare_socket] run_lift_ok
        run_await_map [OF run_pre [OF keep [OF client]]] run_await_ok [OF keep [OF lxd]] run_ok)
      (auto simp: Inr started_well_def with_project_def)
  then show ?thesis by (rule run_pre) auto
qed

section \<open>The network ACL\<close>

text \<open>The events hold an answer of LXD about the ACL that is not the wanted one, or none at all.\<close>

definition acl_outdated :: "env \<Rightarrow> lxd_client \<Rightarrow> string \<Rightarrow> lxd_network_acl_rule list \<Rightarrow> event list \<Rightarrow> bool" where
  "acl_outdated E cl name egress es \<longleftrightarrow> missing E cl (acl_path name) es
     \<or> (\<exists>current. answered E cl de_value (acl_path name) current es \<and> \<not> acl_matches current (acl_update_body egress))"

definition changes_acl :: "env \<Rightarrow> lxd_client \<Rightarrow> string \<Rightarrow> lxd_network_acl_rule list \<Rightarrow> event \<Rightarrow> bool" where
  "changes_acl E cl name egress e = (case e of
      Exchange r _ \<Rightarrow> is_request E cl PUT (acl_path name) (Json_Body (acl_update_body egress)) r
        \<or> is_request E cl POST ''/1.0/network-acls'' (Json_Body (acl_create_body name egress)) r
    | _ \<Rightarrow> False)"

definition acl_needs_change :: "lxd_network_acl_rule list \<Rightarrow> (lxd_error, json lxd_response) result \<Rightarrow> bool" where
  "acl_needs_change egress r = (case r of
      Inr response \<Rightarrow> (case into_metadata response of Inr current \<Rightarrow> \<not> acl_matches current (acl_update_body egress) | Inl _ \<Rightarrow> False)
    | Inl (Api code _) \<Rightarrow> code = 404
    | Inl _ \<Rightarrow> False)"

lemma got_outdated:
  assumes "got E cl de_value (acl_path name) r es" and needs: "acl_needs_change egress r"
  shows "acl_outdated E cl name egress es"
proof -
  have "r \<noteq> Inl (Tls m)" for m using needs by (auto simp: acl_needs_change_def)
  with assms(1) obtain q a where q: "Exchange q a \<in> set es" "is_request E cl GET (acl_path name) No_Body q" "reply E de_value a = r"
    unfolding got_def by blast
  show ?thesis
  proof (cases r)
    case (Inl e)
    then obtain msg where "r = Inl (Api 404 msg)"
      using needs by (auto simp: acl_needs_change_def split: lxd_error.splits)
    with q show ?thesis unfolding acl_outdated_def missing_def by blast
  next
    case (Inr response)
    then obtain current where c: "into_metadata response = Inr current" "\<not> acl_matches current (acl_update_body egress)"
      using needs by (auto simp: acl_needs_change_def split: sum.splits)
    obtain resp where "a = Inr resp" "decode_reply E de_value resp = Inr response"
      using q(3) Inr by (cases a) (auto simp: reply_def result_bind_def)
    with q c show ?thesis unfolding acl_outdated_def answered_def by blast
  qed
qed

interpretation acl_check: checked_first "lxd_get E cl de_value (acl_path name)" "acl_needs_change egress"
  "acl_outdated E cl name egress" for E cl name egress
proof
  show "run (\<lambda>h. h = h0) (\<lambda>_. observing) (lxd_get E cl de_value (acl_path name))
      (\<lambda>b h. \<exists>es. h = h0 @ es \<and> (acl_needs_change egress b \<longrightarrow> acl_outdated E cl name egress es))" for h0
    by (rule run_post [OF run_lxd_get]) (auto intro: got_outdated)
  show "acl_outdated E cl name egress es \<Longrightarrow> acl_outdated E cl name egress (es @ fs)" for es fs
    unfolding acl_outdated_def by (auto intro: answered_append missing_mono)
qed

lemma ensure_acl_only_after:
  "only_after (acl_outdated E cl name egress) (changes_acl E cl name egress) (ensure_network_acl E cl name egress)"
proof -
  have put: "emits (\<lambda>e. observing e \<or> changes_acl E cl name egress e) (acl_put_and_wait E cl name (acl_update_body egress))"
    unfolding acl_put_and_wait_def by (intro emits_rules) (auto simp: changes_acl_def)
  have post: "emits (\<lambda>e. observing e \<or> changes_acl E cl name egress e)
      (lxd_post E cl de_operation ''/1.0/network-acls'' (acl_create_body name egress))"
    by (intro emits_rules) (auto simp: changes_acl_def)
  show ?thesis unfolding ensure_network_acl_def
    by (rule acl_check.only_after_checked)
      (auto simp: acl_needs_change_def lift_ok_def intro!: emits_rules put post split: sum.splits lxd_error.splits)
qed

section \<open>Properties of the service\<close>


text \<open>Claim C29. An egress ACL is written only when it has to be: LXD changes only after it answered, in the same
  call, that the ACL is missing or does not match the wanted rules, and the only changes are to create it
  or to replace its rules; and an ACL that holds the rules the driver wrote matches them and no others.\<close>

theorem acl_written_when_outdated:
  "only_after (acl_outdated E cl name egress) (changes_acl E cl name egress) (ensure_network_acl E cl name egress)
   \<and> (acl_matches (acl_update_body rules) (acl_update_body egress) \<longleftrightarrow> rules = egress)"
  by (intro conjI ensure_acl_only_after acl_matches_update_body)

text \<open>Claim C14. A sandbox is given a plaintext endpoint only when that was asked for: with a configuration that
  start-up accepts, the endpoint is \<open>https\<close> when the sandbox is given TLS materials, and otherwise it is
  \<open>http\<close> and the operator allowed a plaintext gateway.\<close>

theorem gateway_endpoint_scheme:
  assumes "validate (drv_config d) = Inr ()" and "resolve_gateway_endpoint d network_name network = Inr endpoint"
  shows "(guest_tls (drv_config d) \<noteq> None \<and> starts_with endpoint ''https://'')
    \<or> (guest_tls (drv_config d) = None \<and> cfg_allow_plaintext_gateway (drv_config d) \<and> starts_with endpoint ''http://'')"
  using assms unfolding validate_ok_iff resolve_gateway_endpoint_def
  by (auto simp: gateway_scheme_def starts_with_iff split: option.splits if_splits)

definition sample_driver_config :: config where
  "sample_driver_config =
     \<lparr>cfg_socket = ''/run/openshell/driver.sock'', cfg_lxd_socket = ''/var/lib/lxd/unix.socket'', cfg_log_level = ''info'',
      cfg_default_image = ''ghcr.io/openshell/base:latest'', cfg_project = ''openshell'', cfg_default_network = DEFAULT_NETWORK,
      cfg_default_storage_pool = DEFAULT_STORAGE_POOL, cfg_supervisor_image = ''ghcr.io/openshell/supervisor:latest'',
      cfg_supervisor_bin = None, cfg_dhcp_client_bin = None, cfg_supervisor_cache_dir = ''/var/cache/openshell'',
      cfg_supervisor_storage_pool = None, cfg_image_work_dir = ''/var/tmp/openshell'',
      cfg_default_max_processes = DEFAULT_MAX_PROCESSES, cfg_start_retries = DEFAULT_START_RETRIES,
      cfg_stop_timeout_secs = 30, cfg_image_pull_timeout_secs = 600, cfg_cleanup_interval_secs = 3600,
      cfg_image_cache_alias_prefix = DEFAULT_IMAGE_CACHE_ALIAS_PREFIX, cfg_skopeo_path = None, cfg_umoci_path = None,
      cfg_mksquashfs_path = None, cfg_lxd_url = None, cfg_lxd_client_cert = None, cfg_lxd_client_key = None,
      cfg_lxd_server_ca = None, cfg_lxd_server_cert = None, cfg_lxd_server_fingerprint = None,
      cfg_gateway_grpc_port = 8080, cfg_gateway_endpoint = None, cfg_gateway_callback_listener = None,
      cfg_sandbox_nesting = False, cfg_restrict_sandbox_egress = False, cfg_guest_tls_ca = Some ''/etc/ca.pem'',
      cfg_guest_tls_cert = Some ''/etc/cert.pem'', cfg_guest_tls_key = Some ''/etc/key.pem'',
      cfg_gateway_tls_server_name = None, cfg_allow_plaintext_gateway = False, cfg_operation_timeout_secs = 60\<rparr>"

definition sample_network :: network where
  "sample_network = \<lparr>net_name = ''lxdbr0'', net_type = ''bridge'', net_config = [''ipv4.address'' \<mapsto> ''10.0.0.1/24'']\<rparr>"

theorem gateway_endpoint_scheme_witness:
  "\<forall>E lxd. \<exists>endpoint. resolve_gateway_endpoint (driver_new E sample_driver_config lxd) ''lxdbr0'' sample_network = Inr endpoint
     \<and> starts_with endpoint ''https://''"
proof (intro allI)
  fix E lxd
  let ?d = "driver_new E sample_driver_config lxd"
  have valid: "validate (drv_config ?d) = Inr ()" and tls: "guest_tls (drv_config ?d) \<noteq> None"
    by (simp_all add: validate_def guest_tls_def sample_driver_config_def Let_def)
  obtain endpoint where ep: "resolve_gateway_endpoint ?d ''lxdbr0'' sample_network = Inr endpoint"
    by (simp add: resolve_gateway_endpoint_def sample_network_def sample_driver_config_def)
  with gateway_endpoint_scheme [OF valid ep] tls
  show "\<exists>endpoint. resolve_gateway_endpoint ?d ''lxdbr0'' sample_network = Inr endpoint \<and> starts_with endpoint ''https://''"
    by blast
qed

end
