(* ===== verification/Watch_Laws.thy ===== *)
theory Watch_Laws
  imports Service_Laws
begin

text \<open>
  The watcher announces only what LXD reported: every snapshot is of a managed instance that LXD answered
  with, and every deletion is of a sandbox that LXD had listed or returned before. Its queue of recent
  events drops repetitions, and its reconciliation after a gap reports every instance that is gone.
\<close>

section \<open>What LXD reported\<close>

text \<open>The events hold an answer of LXD with an instance of the sandbox \<open>sandbox_id\<close>.\<close>

definition reported :: "env \<Rightarrow> lxd_client \<Rightarrow> event list \<Rightarrow> string \<Rightarrow> bool" where
  "reported E cl es sandbox_id \<longleftrightarrow> (\<exists>i. inst_config i KEY_SANDBOX_ID = Some sandbox_id
     \<and> ((\<exists>name. answered E cl de_instance (instance_path name) i es)
        \<or> (\<exists>is. i \<in> set is \<and> answered E cl (de_list de_instance) ''/1.0/instances?recursion=1'' is es)))"

definition announces_reported :: "env \<Rightarrow> lxd_client \<Rightarrow> event list \<Rightarrow> event \<Rightarrow> bool" where
  "announces_reported E cl es e \<longleftrightarrow> observing e \<and> (case e of
      Publish (Sandbox s) \<Rightarrow> \<exists>i name. is_managed i \<and> answered E cl de_instance (instance_path name) i es
        \<and> s = instance_to_driver_sandbox_live i
    | Publish (Deleted sandbox_id) \<Rightarrow> reported E cl es sandbox_id
    | _ \<Rightarrow> True)"

abbreviation watch_guard :: "env \<Rightarrow> lxd_client \<Rightarrow> event list \<Rightarrow> event list \<Rightarrow> event \<Rightarrow> bool" where
  "watch_guard E cl h0 \<equiv> \<lambda>h e. announces_reported E cl (drop (length h0) h) e"

text \<open>Every sandbox in the map was reported since \<open>h0\<close>.\<close>

definition all_reported :: "env \<Rightarrow> lxd_client \<Rightarrow> event list \<Rightarrow> known_ids \<Rightarrow> event list \<Rightarrow> bool" where
  "all_reported E cl h0 known h \<longleftrightarrow> (\<exists>es. h = h0 @ es \<and> (\<forall>kv \<in> set known. reported E cl es (snd kv)))"

lemma reported_append: "reported E cl es x \<Longrightarrow> reported E cl (es @ fs) x"
  unfolding reported_def by (blast intro: answered_append)

lemma all_reported_append: "all_reported E cl h0 known h \<Longrightarrow> all_reported E cl h0 known (h @ fs)"
  unfolding all_reported_def by (metis append.assoc reported_append)

lemma all_reported_subset: "all_reported E cl h0 known h \<Longrightarrow> set ids \<subseteq> set known \<Longrightarrow> all_reported E cl h0 ids h"
  unfolding all_reported_def by blast

lemma all_reported_Un:
  "all_reported E cl h0 a h \<Longrightarrow> all_reported E cl h0 b h \<Longrightarrow> set c \<subseteq> set a \<union> set b \<Longrightarrow> all_reported E cl h0 c h"
  unfolding all_reported_def by (metis (no_types, lifting) UnE same_append_eq subsetD)

section \<open>The map of known sandboxes\<close>

lemma set_alist_update: "set (AList.update k v al) \<subseteq> insert (k, v) (set al)"
  by (induction al) auto

lemma set_extend_ids: "set (extend_ids known ids) \<subseteq> set known \<union> set ids"
  unfolding extend_ids_def
proof (induction ids arbitrary: known)
  case (Cons kv ids)
  then show ?case using set_alist_update [of "fst kv" "snd kv" known] by (cases kv) fastforce
qed simp

text \<open>The association list refines a map: extending it overrides, the later entry of a name winning.\<close>

lemma map_of_extend_ids: "map_of (extend_ids known ids) = map_of known ++ map_of (rev ids)"
  unfolding extend_ids_def
proof (induction ids arbitrary: known)
  case (Cons kv ids)
  then show ?case by (cases kv) (simp add: update_conv' map_add_def fun_eq_iff split: option.splits)
qed simp

lemma reconcile_sets:
  assumes "reconcile_and_seed_sandbox_ids known pre post = (deleted, known')"
  shows "set deleted \<subseteq> snd ` set known" and "set known' \<subseteq> set known \<union> set pre \<union> set post"
  using assms set_extend_ids [of "extend_ids (filter p known) pre" post for p] set_extend_ids [of "filter p known" pre for p]
  by (fastforce simp: reconcile_and_seed_sandbox_ids_def Let_def)+

section \<open>Every announcement has its report\<close>

lemma run_quiet:
  "emits (\<lambda>e. observing e \<and> (\<forall>w. e \<noteq> Publish w)) m
   \<Longrightarrow> run (all_reported E cl h0 known) (watch_guard E cl h0) m (\<lambda>_. all_reported E cl h0 known)"
  by (erule run_stable) (auto simp: announces_reported_def intro: all_reported_append split: event.splits)

lemma run_watch_answer:
  "run (all_reported E cl h0 known) (watch_guard E cl h0) (metadata_of (lxd_get E cl f path))
     (\<lambda>r h. all_reported E cl h0 known h \<and> (\<forall>x. r = Inr x \<longrightarrow> answered E cl f path x (drop (length h0) h)))"
proof -
  have "emits (\<lambda>e. observing e \<and> (\<forall>w. e \<noteq> Publish w)) (metadata_of (lxd_get E cl f path))"
    by (intro emits_rules) (simp add: is_request_def)
  note quiet = run_quiet [OF this, of E cl h0 known]
  have answer: "run (all_reported E cl h0 known) anything (metadata_of (lxd_get E cl f path))
      (\<lambda>r h. \<forall>x. r = Inr x \<longrightarrow> answered E cl f path x (drop (length h0) h))"
  proof (rule run_point)
    fix h1 assume "all_reported E cl h0 known h1"
    then show "run (\<lambda>h. h = h1) anything (metadata_of (lxd_get E cl f path))
        (\<lambda>r h. \<forall>x. r = Inr x \<longrightarrow> answered E cl f path x (drop (length h0) h))"
      by (intro run_weaken [OF run_get_metadata [where ?h0.0 = h1]])
        (auto simp: all_reported_def intro: answered_prefix)
  qed
  show ?thesis by (rule run_weaken [OF run_conj [OF quiet answer]]) auto
qed

lemma run_managed_ids:
  "run (all_reported E cl h0 known) (watch_guard E cl h0) (managed_sandbox_ids E cl)
     (\<lambda>r h. all_reported E cl h0 known h \<and> (\<forall>ids. r = Inr ids \<longrightarrow> all_reported E cl h0 ids h))"
proof -
  have ids: "all_reported E cl h0 (extend_ids [] (List.map_filter (\<lambda>i. map_option (Pair (inst_name i)) (inst_config i KEY_SANDBOX_ID)) is)) h"
    if "all_reported E cl h0 known h" "answered E cl (de_list de_instance) ''/1.0/instances?recursion=1'' is (drop (length h0) h)" for "is" h
  proof -
    have "set (extend_ids [] (List.map_filter (\<lambda>i. map_option (Pair (inst_name i)) (inst_config i KEY_SANDBOX_ID)) is))
        \<subseteq> {(inst_name i, s) |i s. i \<in> set is \<and> inst_config i KEY_SANDBOX_ID = Some s}"
      by (rule order_trans [OF set_extend_ids]) (auto simp: List.map_filter_def)
    with that show ?thesis unfolding all_reported_def reported_def by (elim exE conjE) fastforce
  qed
  show ?thesis unfolding managed_sandbox_ids_def list_instances_def
    by (rule run_await_ok [OF run_watch_answer]) (auto intro!: run_ok ids [unfolded extend_ids_def])
qed

lemma run_publish_all:
  "set ids \<subseteq> snd ` set known \<Longrightarrow>
   run (all_reported E cl h0 known) (watch_guard E cl h0) (publish_all (map Deleted ids)) (\<lambda>_. all_reported E cl h0 known)"
proof (induction ids)
  case Nil
  show ?case by (auto intro: run_return)
next
  case (Cons x ids)
  then obtain n where "(n, x) \<in> set known" by auto
  then have "run (all_reported E cl h0 known) (watch_guard E cl h0) (publish (Deleted x)) (\<lambda>_. all_reported E cl h0 known)"
    by (intro run_publish) (force simp: all_reported_def announces_reported_def intro: reported_append)
  with Cons show ?case by (auto intro: run_await)
qed

lemma run_handle_event:
  "run (all_reported E cl h0 known) (watch_guard E cl h0) (handle_event E cl known ev) (all_reported E cl h0)"
proof -
  have deletion: "run (all_reported E cl h0 known) (watch_guard E cl h0)
      (await (publish (Deleted x)) (\<lambda>_. return (AList.delete name known))) (all_reported E cl h0)"
    if "map_of known name = Some x" for name x
  proof -
    have "set [x] \<subseteq> snd ` set known" using map_of_SomeD [OF that] by force
    from run_publish_all [OF this, of E cl h0]
    have "run (all_reported E cl h0 known) (watch_guard E cl h0) (publish (Deleted x)) (\<lambda>_. all_reported E cl h0 known)"
      by simp
    then show ?thesis
      by (rule run_await) (auto intro!: run_return elim!: all_reported_subset simp: AList.delete_eq)
  qed
  have snapshot: "run (\<lambda>h. all_reported E cl h0 known h \<and> answered E cl de_instance (instance_path name) i (drop (length h0) h))
      (watch_guard E cl h0)
      (await (publish (Sandbox (instance_to_driver_sandbox_live i))) (\<lambda>_. return (AList.update name x known)))
      (all_reported E cl h0)"
    if "inst_config i KEY_SANDBOX_ID = Some x" for name i x
  proof -
    let ?A = "\<lambda>h. all_reported E cl h0 (AList.update name x known) h"
    have reported: "?A h" if "all_reported E cl h0 known h" "answered E cl de_instance (instance_path name) i (drop (length h0) h)" for h
    proof -
      have "reported E cl (drop (length h0) h) x"
        using \<open>inst_config i KEY_SANDBOX_ID = Some x\<close> that(2) unfolding reported_def by blast
      then have new: "all_reported E cl h0 [(name, x)] h" using that(1) by (auto simp: all_reported_def)
      show ?thesis by (rule all_reported_Un [OF that(1) new]) (use set_alist_update in fastforce)
    qed
    have "is_managed i" using that by (simp add: is_managed_def)
    then have "run (\<lambda>h. all_reported E cl h0 known h \<and> answered E cl de_instance (instance_path name) i (drop (length h0) h))
        (watch_guard E cl h0) (publish (Sandbox (instance_to_driver_sandbox_live i))) (\<lambda>_. ?A)"
      by (intro run_publish) (auto simp: announces_reported_def intro!: all_reported_append reported)
    then show ?thesis by (rule run_await) (auto intro: run_return)
  qed
  show ?thesis unfolding handle_event_def get_instance_def
    by (intro run_case_option run_return run_if deletion run_await [OF run_watch_answer] run_case_sum)
      (auto intro!: run_return run_pre [OF snapshot])
qed

lemma run_watch_events:
  "run (all_reported E cl h0 known) (watch_guard E cl h0) (watch_events E cl closes items recent known)
     (\<lambda>(_, known') h. all_reported E cl h0 known' h)"
proof (induction items arbitrary: recent known)
  case (Cons item items)
  then show ?case
    by (cases item) (auto simp: split_def Let_def intro!: run_return run_if run_await [OF run_handle_event])
qed (auto intro!: run_return run_hang)

lemma run_run_once:
  "run (all_reported E cl h0 known) (watch_guard E cl h0) (run_once E cl known)
     (\<lambda>(_, known') h. all_reported E cl h0 known' h)"
proof -
  have list: "run (all_reported E cl h0 k) (watch_guard E cl h0) (managed_sandbox_ids E cl)
      (\<lambda>r h. all_reported E cl h0 k h \<and> (\<forall>ids. r = Inr ids \<longrightarrow> all_reported E cl h0 (k @ ids) h))" for k
    by (rule run_post [OF run_managed_ids]) (auto simp: all_reported_def)
  have stream: "run (all_reported E cl h0 k) (watch_guard E cl h0) (subscribe_events E cl tys) (\<lambda>_. all_reported E cl h0 k)" for k tys
    by (rule run_quiet) (intro emits_rules; simp)
  have last: "run (all_reported E cl h0 ((known @ pre) @ post)) (watch_guard E cl h0)
      (let (deleted, known') = reconcile_and_seed_sandbox_ids known pre post
        in await (publish_all (map Deleted deleted)) (\<lambda>_. watch_events E cl closes items [] known'))
      (\<lambda>(_, known') h. all_reported E cl h0 known' h)" for pre post closes items
  proof -
    obtain deleted known' where r: "reconcile_and_seed_sandbox_ids known pre post = (deleted, known')" by fastforce
    have deleted: "set deleted \<subseteq> snd ` set ((known @ pre) @ post)" using reconcile_sets(1) [OF r] by auto
    have "set known' \<subseteq> set ((known @ pre) @ post)" using reconcile_sets(2) [OF r] by auto
    then have "all_reported E cl h0 ((known @ pre) @ post) h \<Longrightarrow> all_reported E cl h0 known' h" for h
      by (rule all_reported_subset [rotated])
    then show ?thesis unfolding r Let_def prod.case
      by (rule run_await [OF run_publish_all [OF deleted] run_pre [OF run_watch_events]])
  qed
  have rest: "run (all_reported E cl h0 (known @ pre)) (watch_guard E cl h0)
      (await (subscribe_events E cl [''lifecycle'']) (\<lambda>s. case s of Inl e \<Rightarrow> return (Inl e, known) | Inr stream \<Rightarrow>
       await (managed_sandbox_ids E cl) (\<lambda>q. case q of Inl e \<Rightarrow> return (Inl e, known) | Inr post_ids \<Rightarrow>
         (let (deleted, known') = reconcile_and_seed_sandbox_ids known pre post_ids
          in await (publish_all (map Deleted deleted)) (\<lambda>_.
             watch_events E cl (es_closes stream) (es_items stream) [] known')))))
      (\<lambda>(_, known') h. all_reported E cl h0 known' h)" for pre
    by (intro run_await [OF stream] run_case_sum run_return run_await [OF list [where k = "known @ pre"]] run_pre [OF last])
      (auto elim: all_reported_subset)
  show ?thesis unfolding run_once_def
    by (intro run_await [OF list] run_case_sum run_return run_pre [OF rest]) auto
qed

lemma run_watch_forever:
  "run (all_reported E cl h0 known) (watch_guard E cl h0) (watch_forever n E cl known) (\<lambda>_ _. True)"
proof (induction n arbitrary: known)
  case (Suc n)
  have sleep: "run (all_reported E cl h0 k) (watch_guard E cl h0) (sleep m) (\<lambda>_. all_reported E cl h0 k)" for k m
    by (rule run_quiet) (intro emits_rules; simp)
  show ?case unfolding watch_forever.simps
    by (rule run_await [OF run_run_once]) (auto intro!: run_await [OF sleep] Suc.IH)
qed (simp add: run_hang)

section \<open>Properties of the watcher\<close>


text \<open>Claim C24. After a gap every sandbox whose instance is gone is reported: the sandboxes reported as deleted
  are exactly the known ones for which neither of the two listings around the subscription has an instance
  of that name, and the map that is kept refines the override of the first listing by the second. A sandbox
  whose name was taken by another one during the gap is not reported.\<close>

theorem reconcile_reports_vanished:
  "set (fst (reconcile_and_seed_sandbox_ids known pre post))
     = {sandbox_id. \<exists>n. (n, sandbox_id) \<in> set known \<and> n \<notin> fst ` set pre \<and> n \<notin> fst ` set post}
   \<and> map_of (snd (reconcile_and_seed_sandbox_ids known pre post)) = map_of (rev pre) ++ map_of (rev post)"
proof
  show "set (fst (reconcile_and_seed_sandbox_ids known pre post))
     = {sandbox_id. \<exists>n. (n, sandbox_id) \<in> set known \<and> n \<notin> fst ` set pre \<and> n \<notin> fst ` set post}"
    by (auto simp: reconcile_and_seed_sandbox_ids_def Let_def map_of_eq_None_iff; force)
  let ?kept = "filter (\<lambda>kv. \<not> (case kv of (n, _) \<Rightarrow> map_of pre n = None \<and> map_of post n = None)) known"
  have listed: "map_of ?kept n = None" if "map_of (rev pre) n = None" "map_of (rev post) n = None" for n
    using that by (auto simp: map_of_eq_None_iff; force)
  have "map_of ?kept ++ map_of (rev pre) ++ map_of (rev post) = map_of (rev pre) ++ map_of (rev post)"
    using listed by (auto simp: fun_eq_iff map_add_def split: option.splits)
  then show "map_of (snd (reconcile_and_seed_sandbox_ids known pre post)) = map_of (rev pre) ++ map_of (rev post)"
    by (simp add: reconcile_and_seed_sandbox_ids_def Let_def map_of_extend_ids)
qed

text \<open>Claim C25. LXD may deliver an event twice: an event that was just handled is dropped when it comes again,
  as long as fewer than \<open>RECENT_EVENTS\<close> other events came in between.\<close>

theorem repeated_event_dropped:
  assumes "recent_inv keys" and fresh: "fst (first_sighting E keys ev)" and "length evs < RECENT_EVENTS"
  shows "\<not> fst (first_sighting E (sightings E (snd (first_sighting E keys ev)) evs) ev)"
proof -
  obtain u where u: "snd (first_sighting E keys ev) = u @ event_key E ev # []"
    using fresh by (auto simp: first_sighting_def Let_def split: if_splits)
  have "recent_inv (u @ event_key E ev # [])" using first_sighting_inv [OF assms(1), of E ev] u by simp
  then have "event_key E ev \<in> set (sightings E (u @ event_key E ev # []) evs)"
    by (rule sightings_keep) (use assms(3) in simp)
  then show ?thesis unfolding u by (simp add: first_sighting_def Let_def)
qed

definition sample_event :: lxd_event where
  "sample_event = \<lparr>ev_timestamp = ''t1'', ev_type = ''lifecycle'', ev_metadata = Object [(''action'', Str ''instance-started'')]\<rparr>"

theorem repeated_event_dropped_witness:
  "\<forall>E. \<not> fst (first_sighting E (sightings E (snd (first_sighting E [] sample_event))
     [sample_event\<lparr>ev_timestamp := ''t2''\<rparr>]) sample_event)"
proof
  fix E
  show "\<not> fst (first_sighting E (sightings E (snd (first_sighting E [] sample_event))
     [sample_event\<lparr>ev_timestamp := ''t2''\<rparr>]) sample_event)"
    by (rule repeated_event_dropped) (simp_all add: recent_inv_def first_sighting_def RECENT_EVENTS_def Let_def)
qed

end
