(* ===== verification/Schedules.thy ===== *)
theory Schedules
  imports Watch_Laws
begin

text \<open>
  Tasks that run at the same time. The handlers, the clean-up task and the watcher are computations of
  their own; the runtime interleaves their events and grants a lock only when no other task holds one that
  excludes it. A schedule is such an interleaving, as a list of events with the task that emitted each; what
  a task did is its own part of it.
\<close>

section \<open>Schedules\<close>

type_synonym schedule = "(nat \<times> event) list"

definition own :: "nat \<Rightarrow> schedule \<Rightarrow> event list" where
  "own t s = map snd (filter (\<lambda>(t', _). t' = t) s)"

lemma own_simps [simp]:
  "own t [] = []" "own t (s @ [(t, e)]) = own t s @ [e]" "t' \<noteq> t \<Longrightarrow> own t (s @ [(t', e)]) = own t s"
  by (simp_all add: own_def)

text \<open>Mutexes exclude themselves; the two ends of the \<open>RwLock\<close> over the volumes exclude each other, and only
  writing excludes itself.\<close>

definition excludes :: "string \<Rightarrow> string \<Rightarrow> bool" where
  "excludes k k' \<longleftrightarrow> (k = k' \<and> k \<noteq> ''volume_use:read'')
     \<or> (k = ''volume_use:read'' \<and> k' = ''volume_use:write'') \<or> (k = ''volume_use:write'' \<and> k' = ''volume_use:read'')"

lemma excludes_sym: "excludes k k' \<Longrightarrow> excludes k' k"
  by (auto simp: excludes_def)

definition grantable :: "schedule \<Rightarrow> nat \<Rightarrow> string \<Rightarrow> bool" where
  "grantable s t k \<longleftrightarrow> (\<forall>t' k'. t' \<noteq> t \<longrightarrow> excludes k k' \<longrightarrow> \<not> holding k' (own t' s))"

inductive schedule :: "schedule \<Rightarrow> bool" where
  start: "schedule []"
| lock: "schedule s \<Longrightarrow> grantable s t k \<Longrightarrow> schedule (s @ [(t, Lock k)])"
| other: "schedule s \<Longrightarrow> (\<And>k. e \<noteq> Lock k) \<Longrightarrow> schedule (s @ [(t, e)])"

inductive_cases schedule_snocE: "schedule (s @ [(t, e)])"

lemma holding_snoc: "holding k (es @ [e]) \<longleftrightarrow> e = Lock k \<or> (holding k es \<and> e \<noteq> Unlock k)"
proof
  assume "holding k (es @ [e])"
  then obtain as bs where s: "es @ [e] = as @ Lock k # bs" "Unlock k \<notin> set bs" unfolding holding_def by blast
  show "e = Lock k \<or> (holding k es \<and> e \<noteq> Unlock k)"
  proof (cases bs rule: rev_cases)
    case (snoc cs b)
    then have "es = as @ Lock k # cs" "e = b" using s(1) by auto
    then show ?thesis using s(2) snoc by (auto simp: holding_def)
  qed (use s in auto)
next
  assume "e = Lock k \<or> (holding k es \<and> e \<noteq> Unlock k)"
  then show "holding k (es @ [e])" by (auto intro: holding_Lock holding_append)
qed

lemma holding_Nil [simp]: "\<not> holding k []"
  by (simp add: holding_def)

text \<open>The invariant: two tasks never hold locks that exclude each other.\<close>

definition exclusive :: "schedule \<Rightarrow> bool" where
  "exclusive s \<longleftrightarrow> (\<forall>t t' k k'. t \<noteq> t' \<longrightarrow> excludes k k' \<longrightarrow> \<not> (holding k (own t s) \<and> holding k' (own t' s)))"

lemma own_snoc: "own t (s @ [(u, e)]) = (if t = u then own t s @ [e] else own t s)"
  by simp

lemma schedule_exclusive: "schedule s \<Longrightarrow> exclusive s"
proof (induction rule: schedule.induct)
  case start
  show ?case by (simp add: exclusive_def)
next
  case (lock s u k)
  have taken: "holding k' (own t (s @ [(u, Lock k)])) \<Longrightarrow> holding k' (own t s) \<or> (t = u \<and> k' = k)" for t k'
    by (cases "t = u") (auto simp: holding_snoc)
  show ?case
    using lock.IH lock.hyps(2) taken excludes_sym unfolding exclusive_def grantable_def by metis
next
  case (other s e u)
  then show ?case unfolding exclusive_def own_snoc by (metis holding_snoc)
qed

section \<open>What a task of a schedule does\<close>

text \<open>The events \<open>es\<close> are the beginning of a run of \<open>m\<close>, from some history.\<close>

definition executes :: "'a action \<Rightarrow> event list \<Rightarrow> bool" where
  "executes m es \<longleftrightarrow> (\<exists>h rest. snd (m h) = h @ es @ rest)"

lemma executes_under_lock:
  assumes "under_lock k p m" and "executes m (es @ [e])" and "p e"
  shows "holding k es"
proof -
  obtain h rest where m: "snd (m h) = h @ (es @ [e]) @ rest" using assms(2) unfolding executes_def by blast
  obtain fs where "snd (m h) = h @ fs" "guarded (\<lambda>past e. p e \<longrightarrow> holding k (drop (length h) past)) h fs"
    using assms(1) unfolding under_lock_def by blast
  with m have "guarded (\<lambda>past e. p e \<longrightarrow> holding k (drop (length h) past)) h ((es @ [e]) @ rest)"
    by (metis same_append_eq)
  then show ?thesis using assms(3) by simp
qed

lemma not_while_held:
  assumes "under_lock k p m" and "schedule (s @ [(t, e)])" and "executes m (own t (s @ [(t, e)]))" and "p e"
    and "excludes k k'" and "t' \<noteq> t"
  shows "\<not> holding k' (own t' s)"
proof -
  have "holding k (own t s)" using executes_under_lock [OF assms(1) _ assms(4)] assms(3) by simp
  moreover have "schedule s" using assms(2) by (rule schedule_snocE) auto
  ultimately show ?thesis using schedule_exclusive assms(5,6) unfolding exclusive_def by metis
qed

section \<open>Lifecycle operations on one instance\<close>

lemma lifecycle_under_lock:
  "under_lock (lifecycle_lock name) (\<lambda>e. \<not> observing e) (stop_sandbox E d name)"
  "under_lock (lifecycle_lock name) (\<lambda>e. \<not> observing e) (delete_sandbox E d name)"
proof -
  note emits_driver_wait [emits_rules del]
  note steps = emits_rules wait_keeps_lock
  have scope: "under_lock k (\<lambda>e. \<not> observing e) (with_lock k m)" if "emits (\<lambda>e. e \<noteq> Unlock k) m" for k and m :: "'a action"
    by (rule under_lockI, rule run_weaken [OF run_inside [OF that]]) auto
  show "under_lock (lifecycle_lock name) (\<lambda>e. \<not> observing e) (stop_sandbox E d name)"
    unfolding stop_sandbox_def get_managed_instance_def set_stop_intent_def clear_stop_intent_def graceful_stop_def forced_stop_def
    by (rule scope) (intro steps; simp)
  show "under_lock (lifecycle_lock name) (\<lambda>e. \<not> observing e) (delete_sandbox E d name)"
    unfolding delete_sandbox_def stop_before_delete_def
    by (rule scope) (intro steps; simp)
qed

lemma lifecycle_lock_excludes: "excludes (lifecycle_lock name) (lifecycle_lock name)"
  by (simp add: excludes_def lifecycle_lock_def)

end
