(* ===== verification/Server.thy ===== *)
theory Server
  imports Startup
begin

text \<open>
  The serving program: the calls of the gRPC service (\<open>proto/compute_driver.proto\<close>), the handler of
  \<open>openshell-driver-lxd/src/grpc.rs\<close> that answers each of them, and the tasks that \<open>main\<close> leaves running: the
  pre-warm and clean-up task, the watcher of the service and one task for each call.
\<close>

section \<open>Calls and their handlers\<close>

text \<open>A call with its arguments: a sandbox is addressed by name and id, and a watch carries what the channel
  will deliver to it.\<close>

datatype rpc =
    Get_Capabilities
  | Authenticate_Sandbox
  | Get_Gateway_Listener_Requirements
  | Validate_Sandbox_Create "driver_sandbox option"
  | Get_Sandbox string string
  | List_Sandboxes
  | Create_Sandbox "driver_sandbox option"
  | Stop_Sandbox string string
  | Start_Sandbox string string
  | Delete_Sandbox string string
  | Watch_Sandboxes "received list"
  | Ensure_Workspace
  | Delete_Workspace

datatype rpc_response =
    Capabilities get_capabilities_response
  | Requirements "gateway_listener_requirement list"
  | Sandbox_Found driver_sandbox
  | Sandboxes "driver_sandbox list"
  | Sandbox_Deleted bool
  | Event_Stream "(status, watch_event) result list"
  | Empty

definition responding :: "('a \<Rightarrow> rpc_response) \<Rightarrow> (status, 'a) fallible \<Rightarrow> (status, rpc_response) fallible" where
  "responding f m = await_ok m (\<lambda>a. ok (f a))"

definition answer_call ::
  "env \<Rightarrow> string \<Rightarrow> compute_driver_service \<Rightarrow> rpc \<Rightarrow> (status, rpc_response) fallible" where
  "answer_call E version svc call = (let d = svc_driver svc in case call of
      Get_Capabilities \<Rightarrow> responding Capabilities (grpc_get_capabilities version d)
    | Authenticate_Sandbox \<Rightarrow> responding (\<lambda>_. Empty) grpc_authenticate_sandbox
    | Get_Gateway_Listener_Requirements \<Rightarrow> responding Requirements (grpc_get_gateway_listener_requirements d)
    | Validate_Sandbox_Create s \<Rightarrow> responding (\<lambda>_. Empty) (grpc_validate_sandbox_create s)
    | Get_Sandbox n i \<Rightarrow> responding Sandbox_Found (grpc_get_sandbox E d n i)
    | List_Sandboxes \<Rightarrow> responding Sandboxes (grpc_list_sandboxes E d)
    | Create_Sandbox s \<Rightarrow> responding (\<lambda>_. Empty) (grpc_create_sandbox E d s)
    | Stop_Sandbox n i \<Rightarrow> responding (\<lambda>_. Empty) (grpc_stop_sandbox E d n i)
    | Start_Sandbox n i \<Rightarrow> responding (\<lambda>_. Empty) (grpc_start_sandbox E d n i)
    | Delete_Sandbox n i \<Rightarrow> responding Sandbox_Deleted (grpc_delete_sandbox E d n i)
    | Watch_Sandboxes live \<Rightarrow> responding Event_Stream (grpc_watch_sandboxes E d live)
    | Ensure_Workspace \<Rightarrow> responding (\<lambda>_. Empty) grpc_ensure_workspace
    | Delete_Workspace \<Rightarrow> responding (\<lambda>_. Empty) grpc_delete_workspace)"

section \<open>The tasks of the program\<close>

datatype task = Background | Watching | Handling rpc

text \<open>What each task does once \<open>main\<close> has built the driver.\<close>

definition task_action :: "env \<Rightarrow> string \<Rightarrow> config \<Rightarrow> lxd_client \<Rightarrow> task \<Rightarrow> unit action" where
  "task_action E version c lxd t =
     (let driver = driver_new E c lxd; (service, watcher) = service_new E driver in case t of
        Background \<Rightarrow> background_task E driver
      | Watching \<Rightarrow> watcher
      | Handling call \<Rightarrow> await (answer_call E version service call) (\<lambda>_. return ()))"

end
