(* ===== verification/Sample_World.thy ===== *)
theory Sample_World
  imports World
begin

text \<open>
  A small world to run the model in: LXD answers with a table of JSON values by path, the host has no files
  and no programs, and the packages are stand-ins that are easy to evaluate. Instances of general theorems are
  checked in it.
\<close>

section \<open>Answers\<close>

text \<open>LXD's reply to a request: the payload is the path itself, and parsing it looks the path up.\<close>

definition reply_ok :: "string \<Rightarrow> (lxd_error, http_response) result" where
  "reply_ok path = Inr \<lparr>http_status = 200, http_headers = [], http_payload = path\<rparr>"

definition sync_envelope :: "json \<Rightarrow> json" where
  "sync_envelope metadata = Object [(''type'', Str ''sync''), (''status_code'', Number 200), (''metadata'', metadata)]"

definition lookup_table :: "(string \<times> json) list \<Rightarrow> string \<Rightarrow> (string, json) result" where
  "lookup_table table s = (case map_of table s of Some v \<Rightarrow> Inr (sync_envelope v) | None \<Rightarrow> Inl ''not JSON'')"

definition absent :: "(io_error, 'a) result" where
  "absent = Inl (NotFound ''no such file or directory'')"

section \<open>The world\<close>

definition sample_world :: "(string \<times> json) list \<Rightarrow> ws_stream \<Rightarrow> env" where
  "sample_world table stream =
     \<lparr>env_http = \<lambda>_ r. reply_ok (req_path r),
      env_subscribe = \<lambda>_ _. Inr stream,
      env_read_file = \<lambda>_ _. absent,
      env_lookup_host = \<lambda>_ _ _. absent,
      env_fs_do = \<lambda>_ _. absent,
      env_fs_stat = \<lambda>_ _. absent,
      env_fs_text = \<lambda>_ _. absent,
      env_fs_names = \<lambda>_ _. absent,
      env_fs_xattr = \<lambda>_ _. absent,
      env_process = \<lambda>_ _ _. absent,
      env_now = length,
      env_var = \<lambda>_. None,
      env_arch = ''x86_64'',
      env_uid = 1000,
      asset_init_script = [],
      asset_dhcp_script = [],
      env_pid = 1,
      env_budget = \<lambda>secs _. 10 * secs,
      env_rounds = 3,
      ext_json_parse = lookup_table table,
      ext_json_print = \<lambda>_. [],
      ext_decode_error = \<lambda>_. ''unexpected value'',
      ext_status_text = dec,
      ext_url_join = \<lambda>path. (path, None),
      ext_append_pair = \<lambda>_ k v. Some (k @ ''='' @ v),
      ext_uri_parse = \<lambda>_. Inl ''not a URL'',
      ext_server_name = \<lambda>_. Inl ''not a name'',
      ext_encode = id,
      ext_decode = Some,
      ext_sha256 = \<lambda>_. replicate 32 (CHR 0x00),
      ext_show_io = \<lambda>e. (case e of NotFound s \<Rightarrow> s | IoError s \<Rightarrow> s),
      ext_url_host = \<lambda>_. Inl ''not a URL'',
      ext_pem_certs = \<lambda>_. Inl ''no certificate'',
      ext_pem_key = \<lambda>_. Inl ''no key'',
      ext_tls_versions = Inr (),
      ext_root_add = \<lambda>_. Inr (),
      ext_client_auth = \<lambda>_ _. Inr (),
      ext_tar_append = \<lambda>b _ p d. Inr (b @ p @ d),
      ext_tar_finish = Inr\<rparr>"

end
