(* ===== verification/Wait_Laws.thy ===== *)
theory Wait_Laws
  imports Lxd_Operations Sample_World
begin

text \<open>
  Waiting for an operation ends when LXD finishes it (\<open>lxd-client/src/operations.rs\<close>). The stream of events is
  opened before the operation is read, so an operation that finishes in between is seen one way or the
  other: in the reading, or as an event of the stream.
\<close>

section \<open>What LXD says of an operation\<close>

definition finished :: "operation \<Rightarrow> bool" where
  "finished op \<longleftrightarrow> op_status op = Success \<or> op_failed op"

definition outcome_of :: "operation \<Rightarrow> (lxd_error, operation) result" where
  "outcome_of op = (if op_status op = Success then Inr op else Inl (operation_failure op))"

text \<open>The first verdict on the operation that the stream delivers before it breaks.\<close>

fun announced :: "string \<Rightarrow> (lxd_error, lxd_event) result list \<Rightarrow> verdict option" where
  "announced i [] = None"
| "announced i (Inr ev # items) = (case judge_event i ev of Some v \<Rightarrow> Some v | None \<Rightarrow> announced i items)"
| "announced i (Inl (JsonError _) # items) = announced i items"
| "announced i (Inl _ # items) = None"

section \<open>The loops end\<close>

text \<open>One step of a computation whose answer is known.\<close>

lemma await_step: "m h = (Some a, h') \<Longrightarrow> await m f h = f a h'"
  by (simp add: await_def)

lemma await_ok_step: "m h = (Some (Inr a), h') \<Longrightarrow> await_ok m f h = f a h'"
  by (simp add: await_ok_def await_def)

lemma reconcile_read:
  assumes "get_operation E cl i h = (Some (Inr op), h')"
  shows "reconcile_operation E cl i h = (Some (Inr (if finished op then Done (outcome_of op) else StillPending)), h')"
  using assms by (simp add: reconcile_operation_def await_def ok_def return_def finished_def outcome_of_def)

lemma get_operation_returns: "\<exists>r. fst (get_operation E cl i h) = Some r"
proof -
  have "returns (get_operation E cl i)"
    unfolding get_operation_def metadata_of_def lxd_get_def request_def exchange_def by (intro returns_rules)
  then show ?thesis by (simp add: returns_def)
qed

lemma drain_succeeded:
  "announced i items = Some Succeeded
   \<Longrightarrow> drain_events E cl i closes items = await (get_operation E cl i) (\<lambda>r. return (Some r))"
  by (induction i items rule: announced.induct) (auto split: option.splits verdict.splits)

lemma drain_failed:
  "announced i items = Some (Failed d e)
   \<Longrightarrow> drain_events E cl i closes items = return (Some (Inl (OperationFailed d e)))"
  by (induction i items rule: announced.induct) (auto split: option.splits verdict.splits)

text \<open>The result of the wait when the reading or the stream tells of the end.\<close>

definition told :: "env \<Rightarrow> lxd_client \<Rightarrow> string \<Rightarrow> operation \<Rightarrow> (lxd_error, lxd_event) result list \<Rightarrow> event list
    \<Rightarrow> (lxd_error, operation) result option" where
  "told E cl i op items h =
     (if finished op then Some (outcome_of op)
      else case announced i items of
             None \<Rightarrow> None
           | Some Succeeded \<Rightarrow> fst (get_operation E cl i h)
           | Some (Failed d e) \<Rightarrow> Some (Inl (OperationFailed d e)))"

lemma wait_loop_told:
  assumes sub: "subscribe_events E cl [''operation''] h = (Some (Inr events), h1)"
    and read: "get_operation E cl i h1 = (Some (Inr op), h2)"
    and end_told: "told E cl i op (es_items events) h2 = Some r"
  shows "fst (wait_loop (Suc n) E cl i h) = Some r"
proof -
  have "wait_loop (Suc n) E cl i h =
      (if finished op then return (outcome_of op)
       else await (drain_events E cl i (es_closes events) (es_items events)) (\<lambda>d. case d of
                Some outcome \<Rightarrow> return outcome
              | None \<Rightarrow>
                  await_ok (reconcile_operation E cl i) (\<lambda>after. case after of
                    Done outcome \<Rightarrow> return outcome
                  | StillPending \<Rightarrow>
                      await (sleep RECONCILE_RETRY_INTERVAL) (\<lambda>_. wait_loop n E cl i)))) h2"
    unfolding wait_loop.simps await_step [of "subscribe_events E cl [''operation'']", OF sub] sum.case
      await_ok_step [of "reconcile_operation E cl i", OF reconcile_read [OF read]]
    by simp
  then show ?thesis
    using end_told
    by (auto simp: told_def drain_succeeded drain_failed return_def await_def
        split: if_splits option.splits verdict.splits prod.splits)
qed

section \<open>Properties\<close>


section \<open>A sample\<close>

definition local_client :: lxd_client where
  "local_client = \<lparr>cl_endpoint = UnixSocket ''/unix.socket'', cl_tls_connector = None, cl_project = DEFAULT_PROJECT\<rparr>"

lemmas sample_world_simps = sample_world_def reply_ok_def lookup_table_def sync_envelope_def absent_def local_client_def

lemmas run_simps = perform_def await_def await_ok_def await_map_def lift_ok_def return_def ok_def err_def

lemmas transport_simps = metadata_of_def lxd_get_def request_def exchange_def connect_raw_def send_request_def build_request_def
  decode_reply_def is_success_def from_slice_def ok_or_def de_response_def into_metadata_def

text \<open>An operation that is running when it is read and fails afterwards.\<close>

definition failing_lxd :: env where
  "failing_lxd = sample_world
     [(''/1.0/operations/x'', Object [(''id'', Str ''x''), (''status'', Str ''Running''), (''status_code'', Number 103)])]
     \<lparr>ws_messages = [NonText, Text ''event''], ws_closes = False\<rparr>"

definition failing_lxd_events :: env where
  "failing_lxd_events = failing_lxd\<lparr>ext_json_parse := (\<lambda>s. if s = ''event'' then
     Inr (Object [(''timestamp'', Str ''t''), (''type'', Str ''operation''),
       (''metadata'', Object [(''id'', Str ''x''), (''status'', Str ''Failure''), (''err'', Str ''no space'')])])
     else ext_json_parse failing_lxd s)\<rparr>"

definition running_operation :: operation where
  "running_operation = \<lparr>op_id = ''x'', op_class = [], op_description = [], op_status = Running, op_status_code = 103,
     op_resources = Map.empty, op_err = [], op_location = [], op_metadata = None\<rparr>"

definition failing_events :: event_stream where
  "failing_events = \<lparr>es_items = [Inr \<lparr>ev_timestamp = ''t'', ev_type = ''operation'',
      ev_metadata = Object [(''id'', Str ''x''), (''status'', Str ''Failure''), (''err'', Str ''no space'')]\<rparr>], es_closes = False\<rparr>"


end
