(* ===== verification/Watch_Stream.thy ===== *)
theory Watch_Stream
  imports Watch_Laws Server Wait_Laws "HOL-Library.Sublist"
begin

text \<open>
  The stream of \<open>WatchSandboxes\<close>. The broadcast channel is \<open>tokio\<close>'s; \<open>delivers\<close> is what its documentation
  promises a receiver. The handler subscribes before it lists, so an event published while the list is read
  is in the stream, and it turns a gap in what it received into an error of the stream.
\<close>

section \<open>The broadcast channel\<close>

text \<open>\<open>delivers capacity sent rs\<close>: a receiver that subscribed before \<open>sent\<close> was published has received \<open>rs\<close> so
  far. Values arrive in the order they were sent; a receiver that falls behind is told how many values it
  missed and goes on with the oldest one the channel retains, of which there are \<open>capacity\<close>.\<close>

inductive delivers :: "nat \<Rightarrow> watch_event list \<Rightarrow> received list \<Rightarrow> bool" for capacity where
  waiting: "delivers capacity sent []"
| next_value: "delivers capacity sent rs \<Longrightarrow> delivers capacity (w # sent) (Received w # rs)"
| lag: "skipped \<noteq> [] \<Longrightarrow> capacity \<le> length sent \<Longrightarrow> delivers capacity sent rs
    \<Longrightarrow> delivers capacity (skipped @ sent) (Lagged (length skipped) # rs)"

fun values_of :: "received list \<Rightarrow> watch_event list" where
  "values_of [] = []"
| "values_of (Received w # rs) = w # values_of rs"
| "values_of (Lagged _ # rs) = values_of rs"

fun missed :: "received list \<Rightarrow> nat" where
  "missed [] = 0"
| "missed (Received _ # rs) = missed rs"
| "missed (Lagged n # rs) = n + missed rs"

text \<open>Nothing is reordered or invented, and every value before the last one received is counted: it was
  received or missed.\<close>

lemma delivers_subseq: "delivers capacity sent rs \<Longrightarrow> subseq (values_of rs) sent"
  by (induction rule: delivers.induct) (auto intro: list_emb_append2)

lemma delivers_counted: "delivers capacity sent rs \<Longrightarrow> length (values_of rs) + missed rs \<le> length sent"
  by (induction rule: delivers.induct) auto

lemma delivers_without_lag:
  "delivers capacity sent rs \<Longrightarrow> missed rs = 0 \<Longrightarrow> prefix rs (map Received sent)"
  by (induction rule: delivers.induct) auto

lemma delivers_few:
  "delivers capacity sent rs \<Longrightarrow> length sent \<le> capacity \<Longrightarrow> prefix rs (map Received sent)"
  by (induction rule: delivers.induct) (auto simp: neq_Nil_conv)

section \<open>The stream\<close>

lemma live_event_received: "map live_event (map Received ws) = map Inr ws"
  by (simp add: live_event_def)

lemma watch_result:
  "fst (grpc_watch_sandboxes E d live h) = Some (Inr items)
   \<Longrightarrow> \<exists>current. fst (list_sandboxes E d (h @ [Watch_Subscribed])) = Some (Inr current)
        \<and> items = map (\<lambda>s. Inr (Sandbox s)) current @ map live_event live"
  by (auto simp: grpc_watch_sandboxes_def await_def await_map_def note_event_def perform_def err_def ok_def return_def
      split: prod.splits option.splits sum.splits)

definition exchanging :: "event \<Rightarrow> bool" where
  "exchanging e = (case e of Exchange _ _ \<Rightarrow> True | _ \<Rightarrow> False)"

lemma watch_subscribes_first:
  "preceded (\<lambda>e. e = Watch_Subscribed) exchanging (grpc_watch_sandboxes E d live)"
proof (rule precededI)
  fix h0 :: "event list"
  let ?G = "\<lambda>h e. exchanging e \<longrightarrow> list_ex (\<lambda>e. e = Watch_Subscribed) (drop (length h0) h)"
  have listing: "emits observing (await_map status_of_error (list_sandboxes E d) f)"
    if "\<And>a. emits observing (f a)" for f :: "_ \<Rightarrow> (status, (status, watch_event) result list) fallible"
    by (intro emits_await_map reading_emits that)
  show "run (\<lambda>h. h = h0) ?G (grpc_watch_sandboxes E d live) (\<lambda>_ _. True)"
    unfolding grpc_watch_sandboxes_def note_event_def
    by (intro run_await [where R = "\<lambda>_ h. \<exists>es. h = h0 @ es \<and> list_ex (\<lambda>e. e = Watch_Subscribed) es"] run_perform
        run_post [OF run_after [OF listing]] emits_ok)
      (auto simp: exchanging_def intro!: exI [of _ "[Watch_Subscribed]"])
qed

text \<open>The events and the errors of the live part.\<close>

definition events_of :: "(status, watch_event) result list \<Rightarrow> watch_event list" where
  "events_of items = List.map_filter (\<lambda>r. case r of Inr w \<Rightarrow> Some w | Inl _ \<Rightarrow> None) items"

lemma events_of_live: "events_of (map live_event rs) = values_of rs"
  by (induction rs rule: values_of.induct) (simp_all add: events_of_def live_event_def List.map_filter_simps)

lemma live_errors: "Inl s \<in> set (map live_event rs) \<Longrightarrow> status_code s = Code_DataLoss"
  by (auto simp: live_event_def lagged_def mk_status_def split: received.splits)

lemma no_live_error: "(\<forall>s. Inl s \<notin> set (map live_event rs)) \<Longrightarrow> missed rs = 0"
  by (induction rs rule: missed.induct) (auto simp: live_event_def)

lemma live_prefix: "prefix rs (map Received sent) \<Longrightarrow> prefix (map live_event rs) (map Inr sent)"
  using map_mono_prefix [of rs "map Received sent" live_event] unfolding live_event_received .

text \<open>Claim C7. A watcher misses nothing silently. The handler subscribes before its first request to LXD, so
  every event published from then on is among \<open>sent\<close>. The stream it returns is the list of sandboxes read
  after subscribing, followed by published events in the order of publication; the only errors are
  \<open>DATA_LOSS\<close>. As long as the stream shows no error, and in any case while at most 64 events have been
  published, its live part is exactly the published events so far, none left out.\<close>

theorem watch_stream_complete:
  assumes "fst (grpc_watch_sandboxes E d live h) = Some (Inr items)"
    and "delivers (svc_event_capacity (fst (service_new E d))) sent live"
  shows "preceded (\<lambda>e. e = Watch_Subscribed) exchanging (grpc_watch_sandboxes E d live)
    \<and> (\<exists>current tail. items = map (\<lambda>s. Inr (Sandbox s)) current @ tail
         \<and> fst (list_sandboxes E d (h @ [Watch_Subscribed])) = Some (Inr current)
         \<and> subseq (events_of tail) sent
         \<and> (\<forall>s. Inl s \<in> set tail \<longrightarrow> status_code s = Code_DataLoss)
         \<and> ((\<forall>s. Inl s \<notin> set tail) \<or> length sent \<le> 64 \<longrightarrow> prefix tail (map Inr sent)))"
proof -
  obtain current where "fst (list_sandboxes E d (h @ [Watch_Subscribed])) = Some (Inr current)"
    and "items = map (\<lambda>s. Inr (Sandbox s)) current @ map live_event live"
    using watch_result [OF assms(1)] by blast
  moreover have "prefix live (map Received sent)"
    if "(\<forall>s. Inl s \<notin> set (map live_event live)) \<or> length sent \<le> 64"
    using that delivers_without_lag [OF assms(2) no_live_error] delivers_few [OF assms(2)]
    by (auto simp: service_new_def)
  ultimately show ?thesis
    using watch_subscribes_first delivers_subseq [OF assms(2)] live_errors live_prefix events_of_live
    by (intro conjI exI [of _ current] exI [of _ "map live_event live"]) auto
qed

text \<open>An empty LXD, and a receiver that has read one of two events.\<close>

definition empty_lxd :: env where
  "empty_lxd = sample_world [(''/1.0/instances?recursion=1'', Array [])] \<lparr>ws_messages = [], ws_closes = False\<rparr>"

definition sample_driver :: lxd_compute_driver where
  "sample_driver = driver_new empty_lxd sample_driver_config local_client"

lemma list_sandboxes_empty:
  "list_sandboxes empty_lxd sample_driver h = (Some (Inr []), snd (list_sandboxes empty_lxd sample_driver h))"
  by (simp add: list_sandboxes_def list_instances_def sample_driver_def driver_new_def Let_def run_simps transport_simps
      empty_lxd_def sample_world_simps decode_simps)

theorem watch_stream_complete_witness:
  "prefix [Inr (Deleted ''a'')] (map Inr [Deleted ''a'', Deleted ''b''] :: (status, watch_event) result list)"
proof -
  have items: "fst (grpc_watch_sandboxes empty_lxd sample_driver [Received (Deleted ''a'')] []) = Some (Inr [Inr (Deleted ''a'')])"
    using list_sandboxes_empty [of "[Watch_Subscribed]"]
    by (cases "list_sandboxes empty_lxd sample_driver [Watch_Subscribed]")
      (simp add: grpc_watch_sandboxes_def note_event_def run_simps live_event_def)
  have sent: "delivers (svc_event_capacity (fst (service_new empty_lxd sample_driver))) [Deleted ''a'', Deleted ''b''] [Received (Deleted ''a'')]"
    by (intro delivers.intros)
  show ?thesis using watch_stream_complete [OF items sent] list_sandboxes_empty [of "[Watch_Subscribed]"] by auto
qed

end
