(* ===== verification/Program.thy ===== *)
theory Program
  imports Schedules Watch_Stream
begin

text \<open>
  The whole program: any number of calls, the clean-up task and the watcher, interleaved in any way the locks
  allow. Every task may see answers of its own, so the environment is a family indexed by the task.
\<close>

section \<open>Changes with a reason\<close>

text \<open>\<open>justified_changes J m\<close>: whatever \<open>m\<close> changes in LXD satisfies \<open>J\<close>, given what \<open>m\<close> did before.\<close>

definition justified_changes :: "(event list \<Rightarrow> event \<Rightarrow> bool) \<Rightarrow> 'a action \<Rightarrow> bool" where
  "justified_changes J m \<longleftrightarrow> (\<forall>h. \<exists>es. snd (m h) = h @ es
     \<and> (\<forall>k < length es. \<not> observing (es ! k) \<longrightarrow> J (take k es) (es ! k)))"

lemma justified_emits:
  assumes "emits p m" and "\<And>past e. p e \<Longrightarrow> observing e \<or> J past e"
  shows "justified_changes J m"
  unfolding justified_changes_def
proof
  fix h
  obtain es where "snd (m h) = h @ es" "list_all p es" using assms(1) unfolding emits_iff by blast
  then show "\<exists>es. snd (m h) = h @ es \<and> (\<forall>k < length es. \<not> observing (es ! k) \<longrightarrow> J (take k es) (es ! k))"
    using assms(2) by (fastforce simp: list_all_length)
qed

lemma justified_only_after: "only_after seen allowed m \<Longrightarrow> justified_changes (\<lambda>past e. allowed e \<and> seen past) m"
  unfolding only_after_def justified_changes_def by blast

lemma justified_mono:
  "justified_changes J m \<Longrightarrow> (\<And>past e. J past e \<Longrightarrow> J' past e) \<Longrightarrow> justified_changes J' m"
  unfolding justified_changes_def by meson

lemma justified_await:
  assumes m: "justified_changes J m" and f: "\<And>a. justified_changes J (f a)"
    and later: "\<And>before past e. J past e \<Longrightarrow> J (before @ past) e"
  shows "justified_changes J (await m f)"
  unfolding justified_changes_def
proof
  fix h
  obtain es where es: "snd (m h) = h @ es" "\<forall>k < length es. \<not> observing (es ! k) \<longrightarrow> J (take k es) (es ! k)"
    using m unfolding justified_changes_def by blast
  show "\<exists>es. snd (await m f h) = h @ es \<and> (\<forall>k < length es. \<not> observing (es ! k) \<longrightarrow> J (take k es) (es ! k))"
  proof (cases "fst (m h)")
    case None
    with es show ?thesis by (auto simp: await_def split: prod.splits)
  next
    case (Some a)
    obtain fs where fs: "snd (f a (h @ es)) = (h @ es) @ fs"
      "\<forall>k < length fs. \<not> observing (fs ! k) \<longrightarrow> J (take k fs) (fs ! k)"
      using f [of a] unfolding justified_changes_def by blast
    have "await m f h = f a (h @ es)" using Some es(1) by (cases "m h") (simp add: await_def)
    then show ?thesis using es(2) fs later by (intro exI [of _ "es @ fs"]) (auto simp: nth_append)
  qed
qed

lemma justified_observing: "emits observing m \<Longrightarrow> justified_changes J m"
  by (erule justified_emits) simp

lemma justified_await_map:
  assumes "justified_changes J m" and "\<And>a. justified_changes J (f a)"
    and "\<And>before past e. J past e \<Longrightarrow> J (before @ past) e"
  shows "justified_changes J (await_map c m f)"
  unfolding await_map_def
  by (rule justified_await [OF assms(1) _ assms(3)])
    (simp add: assms(2) justified_observing [OF emits_err] split: sum.split)

lemma await_ok_map: "await_ok = await_map (\<lambda>e. e)"
  by (simp add: fun_eq_iff await_ok_def await_map_def)

lemmas justified_await_ok = justified_await_map [where c = "\<lambda>e. e", folded await_ok_map]

section \<open>What each task may change\<close>

text \<open>A call addressed to a sandbox acts on the instance of that name, or of a name it looked up when none
  is given, and only after LXD answered the same call that the instance carries the marker.\<close>

definition acts_on_managed :: "env \<Rightarrow> lxd_client \<Rightarrow> string \<Rightarrow> event list \<Rightarrow> event \<Rightarrow> bool" where
  "acts_on_managed E lxd sandbox_name past e \<longleftrightarrow> (\<exists>name. (sandbox_name = [] \<or> name = sandbox_name)
     \<and> concerns E lxd name e \<and> seen_managed E lxd name past)"

text \<open>Everything a creation may change in LXD: images, network ACLs and volumes, and the one instance.\<close>

definition create_event :: "env \<Rightarrow> lxd_client \<Rightarrow> string \<Rightarrow> event \<Rightarrow> bool" where
  "create_event E cl name e \<longleftrightarrow> setup_event e \<or> creates_instance E cl name e \<or> concerns E cl name e"

definition permitted :: "env \<Rightarrow> lxd_client \<Rightarrow> task \<Rightarrow> event list \<Rightarrow> event \<Rightarrow> bool" where
  "permitted E lxd t past e = (case t of
      Background \<Rightarrow> image_event e \<or> (\<exists>keep. justified_volume E lxd keep past e)
    | Watching \<Rightarrow> False
    | Handling call \<Rightarrow> (case call of
        Create_Sandbox (Some sandbox) \<Rightarrow> create_event E lxd (sb_name sandbox) e
      | Start_Sandbox n _ \<Rightarrow> acts_on_managed E lxd n past e
      | Stop_Sandbox n _ \<Rightarrow> acts_on_managed E lxd n past e
      | Delete_Sandbox n _ \<Rightarrow> acts_on_managed E lxd n past e
      | _ \<Rightarrow> False))"

lemma seen_managed_prefix: "seen_managed E cl name es \<Longrightarrow> seen_managed E cl name (fs @ es)"
  unfolding seen_managed_def by (blast intro: answered_prefix)

lemma acts_on_managed_prefix: "acts_on_managed E lxd n past e \<Longrightarrow> acts_on_managed E lxd n (fs @ past) e"
  unfolding acts_on_managed_def by (blast intro: seen_managed_prefix)

lemma resolve_name_cases:
  "resolve_name E d n i = ok n \<or> n = [] \<and> emits observing (resolve_name E d n i)"
proof (cases "n = []")
  case True
  have "emits observing (resolve_name E d n i)"
    unfolding resolve_name_def by (intro emits_rules reading_emits)
  with True show ?thesis by blast
qed (simp add: resolve_name_def)

text \<open>The three calls addressed to a sandbox resolve the name and hand over to the driver.\<close>

lemma justified_addressed:
  assumes body: "\<And>name. n = [] \<or> name = n \<Longrightarrow> justified_changes (acts_on_managed E lxd n) (f (Inr name))"
    and fails: "\<And>e. emits observing (f (Inl e))"
  shows "justified_changes (acts_on_managed E lxd n) (await (resolve_name E d n i) f)"
proof (cases "n = []")
  case True
  have resolve: "emits observing (resolve_name E d n i)" using resolve_name_cases [of E d n i] by (auto intro: emits_ok)
  have "justified_changes (acts_on_managed E lxd n) (f r)" for r
    using True body justified_observing [OF fails] by (cases r) auto
  then show ?thesis by (intro justified_await justified_observing [OF resolve] acts_on_managed_prefix)
next
  case False
  then have "resolve_name E d n i = ok n" using resolve_name_cases by blast
  then show ?thesis using body by (simp add: ok_def)
qed

lemma justified_managed:
  assumes "only_after (seen_managed E lxd name) (concerns E lxd name) m" and "n = [] \<or> name = n"
  shows "justified_changes (acts_on_managed E lxd n) m"
  by (rule justified_mono [OF justified_only_after [OF assms(1)]]) (use assms(2) in \<open>auto simp: acts_on_managed_def\<close>)

lemma justified_lifecycle_calls:
  "justified_changes (acts_on_managed E lxd n) (grpc_start_sandbox E (driver_new E c lxd) n i)"
  "justified_changes (acts_on_managed E lxd n) (grpc_stop_sandbox E (driver_new E c lxd) n i)"
  "justified_changes (acts_on_managed E lxd n) (grpc_delete_sandbox E (driver_new E c lxd) n i)"
proof -
  let ?d = "driver_new E c lxd"
  note managed = start_sandbox_managed [of E ?d, simplified] stop_sandbox_managed [of E ?d, simplified]
    delete_sandbox_managed [of E ?d, simplified]
  note handing_over = justified_await_map [OF justified_managed justified_observing acts_on_managed_prefix]
  show "justified_changes (acts_on_managed E lxd n) (grpc_start_sandbox E ?d n i)"
    unfolding grpc_start_sandbox_def await_ok_def
    by (rule justified_addressed) (auto intro!: handing_over managed emits_rules)
  show "justified_changes (acts_on_managed E lxd n) (grpc_stop_sandbox E ?d n i)"
    unfolding grpc_stop_sandbox_def await_ok_def
    by (rule justified_addressed) (auto intro!: handing_over managed emits_rules)
  show "justified_changes (acts_on_managed E lxd n) (grpc_delete_sandbox E ?d n i)"
    unfolding grpc_delete_sandbox_def
    by (rule justified_addressed) (auto intro!: handing_over managed emits_rules)
qed

lemma create_events:
  "emits (create_event E lxd (sb_name sandbox)) (create_sandbox E (driver_new E c lxd) sandbox)"
proof -
  have finish: "emits (create_event E lxd (sb_name sandbox)) (finish_create E (driver_new E c lxd) sandbox files)" for files
    by (rule emits_weaken [OF finish_events(3)]) (auto simp: about_instance_def create_event_def intro: setup_intros)
  have create: "run (\<lambda>_. True) (\<lambda>_. create_event E lxd (sb_name sandbox))
      (create_with_volumes E (driver_new E c lxd) sandbox spec template placement acl m bin dg img) (\<lambda>_ _. True)"
    for spec template placement acl m bin dg img
    by (rule run_create_with_volumes [where I = "\<lambda>_. True"]) (auto simp: create_event_def intro: setup_event_observing)
  show ?thesis unfolding emits_def
    by (rule run_create_sandbox [where J = "\<lambda>_. True"])
      (use finish create in \<open>auto simp: emits_def create_event_def sum.case_eq_if\<close>)
qed

section \<open>The background task\<close>

lemma justifiedI:
  assumes "\<And>h0. run (\<lambda>h. h = h0) (\<lambda>h e. observing e \<or> J (drop (length h0) h) e) m (\<lambda>_ _. True)"
  shows "justified_changes J m"
  unfolding justified_changes_def
proof
  fix h
  obtain es where es: "snd (m h) = h @ es" "guarded (\<lambda>h' e. observing e \<or> J (drop (length h) h') e) h es"
    using assms [of h] by (auto elim: runD)
  then show "\<exists>es. snd (m h) = h @ es \<and> (\<forall>k < length es. \<not> observing (es ! k) \<longrightarrow> J (take k es) (es ! k))"
    using guarded_nth [OF es(2)] by (intro exI [of _ es]) auto
qed

lemma justified_with_lock:
  assumes "justified_changes J m" and "\<And>before past e. J past e \<Longrightarrow> J (before @ past) e"
  shows "justified_changes J (with_lock k m)"
  unfolding with_lock_def
  by (intro justified_await assms justified_observing [OF emits_perform] justified_observing [OF emits_return]) simp_all

abbreviation background_change :: "env \<Rightarrow> lxd_client \<Rightarrow> event list \<Rightarrow> event \<Rightarrow> bool" where
  "background_change E lxd \<equiv> \<lambda>past e. image_event e \<or> (\<exists>keep. justified_volume E lxd keep past e)"

lemma background_change_prefix: "background_change E lxd past e \<Longrightarrow> background_change E lxd (before @ past) e"
  unfolding justified_volume_def by (blast intro: answered_prefix)

lemma justified_collect: "justified_changes (background_change E lxd) (collect E lxd alias_prefix keep)"
proof (rule justifiedI)
  fix h0 :: "event list"
  have "image_event e" if "justified_image E lxd alias_prefix es e" for es e
    using that by (auto simp: justified_image_def deletes_image_def image_event_def is_request_def starts_with_def
        split: event.splits)
  then show "run (\<lambda>h. h = h0) (\<lambda>h e. observing e \<or> background_change E lxd (drop (length h0) h) e)
      (collect E lxd alias_prefix keep) (\<lambda>_ _. True)"
    by (intro run_weaken [OF run_collect]) (auto simp: justified_def)
qed

lemma justified_collect_garbage:
  "justified_changes (background_change E lxd) (collect_garbage E (driver_new E c lxd))"
proof -
  have images: "justified_changes (background_change E lxd) m" if "emits image_event m" for m :: "'a action"
    by (rule justified_emits [OF that]) simp
  have dhcp: "emits image_event (load_dhcp_client E b)" for b by (intro emits_rules) simp_all
  have host: "emits image_event (collect_host E dir cur work)" for dir cur work
    by (rule emits_weaken [OF host_events]) (auto simp: image_event_def host_event_def split: event.splits)
  show ?thesis
    unfolding collect_garbage_def Let_def
    by (intro justified_await images [OF image_supervisor] images [OF dhcp] images [OF host] images [OF emits_return]
        justified_with_lock background_change_prefix)
      (auto simp: collect_lxd_def collect_lxd_images_only_def justified_collect split: option.splits)
qed

lemma justified_background: "justified_changes (background_change E lxd) (background_task E (driver_new E c lxd))"
proof -
  have loop: "justified_changes (background_change E lxd) (cleanup_loop n E (driver_new E c lxd))" for n
  proof (induction n)
    case (Suc n)
    have pause: "justified_changes (background_change E lxd) (sleep ms)" for ms
      by (rule justified_observing) (intro emits_rules; simp)
    show ?case unfolding cleanup_loop.simps
      by (intro justified_await justified_collect_garbage pause Suc.IH background_change_prefix)
  qed (auto intro: justified_observing emits_rules)
  have "emits image_event (ensure_default_image (driver_new E c lxd))"
    unfolding ensure_default_image_def driver_new_def Let_def lxd_compute_driver.simps
    by (rule skopeo_images.emits_resolve_alias)
  then have "justified_changes (background_change E lxd) (ensure_default_image (driver_new E c lxd))"
    by (rule justified_emits) simp
  then show ?thesis unfolding background_task_def
    by (rule justified_await) (simp add: loop justified_observing [OF emits_return], erule background_change_prefix)
qed

section \<open>Calls and the watcher that only read\<close>

lemma watcher_observes: "emits observing (watcher_spawn E cl)"
  unfolding emits_def watcher_spawn_def
proof (rule run_point)
  fix h :: "event list"
  have "run (all_reported E cl h []) (watch_guard E cl h) (watch_forever (env_rounds E) E cl []) (\<lambda>_ _. True)"
    by (rule run_watch_forever)
  then show "run (\<lambda>h'. h' = h) (\<lambda>_. observing) (watch_forever (env_rounds E) E cl []) (\<lambda>_ _. True)"
    by (rule run_weaken) (auto simp: all_reported_def announces_reported_def)
qed

lemma reading_calls:
  "emits observing (grpc_get_sandbox E d n i)" "emits observing (grpc_list_sandboxes E d)"
  "emits observing (grpc_watch_sandboxes E d live)" "emits observing (grpc_validate_sandbox_create s)"
  "emits observing (grpc_create_sandbox E d None)"
proof -
  have "emits observing (resolve_name E d n i)" using resolve_name_cases [of E d n i] by (auto intro: emits_ok)
  then show "emits observing (grpc_get_sandbox E d n i)"
    unfolding grpc_get_sandbox_def by (intro emits_rules reading_emits)
  show "emits observing (grpc_list_sandboxes E d)" "emits observing (grpc_watch_sandboxes E d live)"
    "emits observing (grpc_validate_sandbox_create s)" "emits observing (grpc_create_sandbox E d None)"
    unfolding grpc_list_sandboxes_def grpc_watch_sandboxes_def grpc_validate_sandbox_create_def grpc_create_sandbox_def
      required_sandbox_def ok_or_def
    by (auto intro!: emits_rules reading_emits)
qed

section \<open>Every task\<close>

lemma justified_task: "justified_changes (permitted E lxd t) (task_action E version c lxd t)"
proof -
  let ?d = "driver_new E c lxd"
  have quiet: "justified_changes J (await (responding f m) (\<lambda>_. return ()))" if "emits observing m" for J f and m :: "(status, 'a) fallible"
    unfolding responding_def by (intro justified_observing emits_rules that)
  have finish: "justified_changes J (await (responding f m) (\<lambda>_. return ()))"
    if "justified_changes J m" and "\<And>before past e. J past e \<Longrightarrow> J (before @ past) e" for J f and m :: "(status, 'a) fallible"
    unfolding responding_def
    by (intro justified_await justified_await_ok that justified_observing [OF emits_return] justified_observing [OF emits_ok])
  have create: "justified_changes (\<lambda>_. create_event E lxd (sb_name s)) (grpc_create_sandbox E ?d (Some s))" for s
    by (rule justified_emits [where p = "create_event E lxd (sb_name s)"])
      (auto simp: grpc_create_sandbox_def required_sandbox_def ok_or_def lift_ok_def intro!: emits_rules create_events)
  show ?thesis
  proof (cases t)
    case Background
    then show ?thesis using justified_background [of E lxd c] by (simp add: task_action_def service_new_def permitted_def [abs_def])
  next
    case Watching
    then show ?thesis
      by (simp add: task_action_def service_new_def justified_observing [OF watcher_observes])
  next
    case (Handling call)
    have action: "task_action E version c lxd (Handling call) = await (answer_call E version \<lparr>svc_driver = ?d, svc_event_capacity = 64\<rparr> call) (\<lambda>_. return ())"
      by (simp add: task_action_def service_new_def)
    note trivial = grpc_get_capabilities_def grpc_authenticate_sandbox_def grpc_get_gateway_listener_requirements_def
      grpc_ensure_workspace_def grpc_delete_workspace_def
    note calls = quiet [OF reading_calls(1)] quiet [OF reading_calls(2)] quiet [OF reading_calls(3)] quiet [OF reading_calls(4)]
      quiet [OF reading_calls(5)] quiet [OF emits_ok] quiet [OF emits_err]
      finish [OF justified_lifecycle_calls(1) acts_on_managed_prefix] finish [OF justified_lifecycle_calls(2) acts_on_managed_prefix]
      finish [OF justified_lifecycle_calls(3) acts_on_managed_prefix] finish [OF create]
    show ?thesis unfolding Handling action
    proof (cases call)
      case (Create_Sandbox s)
      then show "justified_changes (permitted E lxd (Handling call))
          (await (answer_call E version \<lparr>svc_driver = ?d, svc_event_capacity = 64\<rparr> call) (\<lambda>_. return ()))"
        by (cases s) (simp_all add: answer_call_def permitted_def [abs_def] calls)
    qed (simp_all add: answer_call_def trivial permitted_def [abs_def] calls)
  qed
qed

section \<open>Runs of the program\<close>

text \<open>The events \<open>s\<close> are the beginning of a run of the serving program when the locks are respected and every
  task does what its code does.\<close>

definition program_run ::
  "(nat \<Rightarrow> env) \<Rightarrow> string \<Rightarrow> config \<Rightarrow> lxd_client \<Rightarrow> (nat \<Rightarrow> task) \<Rightarrow> schedule \<Rightarrow> bool" where
  "program_run Es version c lxd tasks s \<longleftrightarrow>
     schedule s \<and> (\<forall>t. executes (task_action (Es t) version c lxd (tasks t)) (own t s))"

lemma justified_executes:
  assumes "justified_changes J m" and "executes m (es @ [e])" and "\<not> observing e"
  shows "J es e"
proof -
  obtain h rest where m: "snd (m h) = h @ (es @ [e]) @ rest" using assms(2) unfolding executes_def by blast
  obtain fs where fs: "snd (m h) = h @ fs" "\<forall>k < length fs. \<not> observing (fs ! k) \<longrightarrow> J (take k fs) (fs ! k)"
    using assms(1) unfolding justified_changes_def by blast
  have "fs = es @ e # rest" using m fs(1) by simp
  then show ?thesis using fs(2) assms(3) by (auto dest: spec [where x = "length es"])
qed

text \<open>Claim C1. The whole program changes nothing it has no business with. However the calls, the clean-up task and
  the watcher are interleaved, every request that changes something in LXD is one of these: a call that
  starts, stops or deletes a sandbox sends it to the named instance after LXD answered that very call that the
  instance carries the driver's marker; a creation sends it to its own instance, or to the images, network
  ACLs and volumes it needs; the background task imports or deletes an image, or deletes a volume that LXD
  listed to it as unused. The watcher and the other calls change nothing.\<close>

theorem program_changes_permitted:
  "\<not> (program_run Es version c lxd tasks (s @ [(t, e)]) \<and> \<not> observing e \<and> \<not> permitted (Es t) lxd (tasks t) (own t s) e)"
proof -
  have "executes (task_action (Es t) version c lxd (tasks t)) (own t s @ [e])"
    if "program_run Es version c lxd tasks (s @ [(t, e)])"
    using that unfolding program_run_def by (metis own_simps(2))
  then show ?thesis using justified_executes [OF justified_task] by blast
qed

end
