(* ===== verification/Protocol.thy ===== *)
theory Protocol
  imports Create_Laws
begin

text \<open>
  The lifecycle operations as protocols. Seen from LXD, an operation of the driver is the sequence of changes
  it asks for: create, push a file, mark or unmark a stop, start, stop, delete. Each operation has an
  automaton over these changes, its abstract specification, and the code refines it: in every run the
  changes are a walk of the automaton, and the phase the walk ends in agrees with what the operation
  returns.
\<close>

section \<open>Changes\<close>

datatype change = Create | Push | Mark | Unmark | Start | Graceful_Stop | Forced_Stop | Delete | Unrelated

text \<open>The two ways to stop, by the body of the request.\<close>

definition stop_change :: "json \<Rightarrow> change" where
  "stop_change body =
     (if get body ''action'' = Some (Str ''stop'') \<and> get body ''force'' = Some (Bool True) then Forced_Stop
      else if get body ''action'' = Some (Str ''stop'') \<and> get body ''force'' = Some (Bool False) then Graceful_Stop
      else if get body ''action'' = Some (Str ''start'') then Start
      else Unrelated)"

definition request_change :: "env \<Rightarrow> string \<Rightarrow> http_request \<Rightarrow> change" where
  "request_change E name r = (case (req_method r, req_body r) of
      (POST, Instance_Body n _ _ _ _ running) \<Rightarrow>
        if req_path r = ''/1.0/instances'' \<and> n = name \<and> \<not> running then Create else Unrelated
    | (POST, Bytes_Body _) \<Rightarrow>
        if starts_with (req_path r) (''/1.0/instances/'' @ name @ ''/files?path='') then Push else Unrelated
    | (PATCH, Json_Body body) \<Rightarrow>
        if req_path r \<noteq> ''/1.0/instances/'' @ ext_encode E name then Unrelated
        else if body = patch_body [(KEY_STOP_INTENT, Some CONDITION_STOPPED)] then Mark
        else if body = patch_body [(KEY_STOP_INTENT, None)] then Unmark
        else Unrelated
    | (PUT, Json_Body body) \<Rightarrow> if req_path r = state_path name then stop_change body else Unrelated
    | (DELETE, No_Body) \<Rightarrow> if req_path r = instance_path name then Delete else Unrelated
    | _ \<Rightarrow> Unrelated)"

definition change_of :: "env \<Rightarrow> lxd_client \<Rightarrow> string \<Rightarrow> event \<Rightarrow> change option" where
  "change_of E cl name e = (case e of
      Exchange r _ \<Rightarrow>
        if req_method r = GET then None
        else if req_uri r = decorate_path E cl (req_path r) then Some (request_change E name r)
        else Some Unrelated
    | _ \<Rightarrow> None)"

definition changes :: "env \<Rightarrow> lxd_client \<Rightarrow> string \<Rightarrow> event list \<Rightarrow> change list" where
  "changes E cl name es = List.map_filter (change_of E cl name) es"

lemma changes_simps [simp]:
  "changes E cl name [] = []" "changes E cl name (es @ fs) = changes E cl name es @ changes E cl name fs"
  by (simp_all add: changes_def List.map_filter_def)

lemma change_of_observing [simp]: "observing e \<Longrightarrow> change_of E cl name e = None"
  by (auto simp: change_of_def split: event.splits)

lemma changes_observing: "list_all observing es \<Longrightarrow> changes E cl name es = []"
  by (auto simp: changes_def List.map_filter_def list_all_iff)

section \<open>Automata\<close>

fun walk :: "('p \<Rightarrow> 'c \<Rightarrow> 'p option) \<Rightarrow> 'p \<Rightarrow> 'c list \<Rightarrow> 'p option" where
  "walk step p [] = Some p"
| "walk step p (c # cs) = Option.bind (step p c) (\<lambda>q. walk step q cs)"

lemma walk_append [simp]: "walk step p (cs @ ds) = Option.bind (walk step p cs) (\<lambda>q. walk step q ds)"
  by (induction cs arbitrary: p) (auto simp: Option.bind_assoc)

text \<open>\<open>refines view step p fin m\<close>: from phase \<open>p\<close> the changes of \<open>m\<close> are a walk of the automaton, whether \<open>m\<close> returns
  or not, and if it returns, its result fits the phase it ends in.\<close>

definition refines ::
  "(event list \<Rightarrow> 'c list) \<Rightarrow> ('p \<Rightarrow> 'c \<Rightarrow> 'p option) \<Rightarrow> 'p \<Rightarrow> ('a \<Rightarrow> 'p \<Rightarrow> bool) \<Rightarrow> 'a action \<Rightarrow> bool" where
  "refines view step p fin m \<longleftrightarrow> (\<forall>h. \<exists>es q. snd (m h) = h @ es \<and> walk step p (view es) = Some q
     \<and> (\<forall>a. fst (m h) = Some a \<longrightarrow> fin a q))"

text \<open>An abstraction of traces that is a homomorphism: the changes of a run are those of its parts.\<close>

locale trace_abstraction =
  fixes view :: "event list \<Rightarrow> 'c list"
  assumes view_append: "view (es @ fs) = view es @ view fs" and view_Nil: "view [] = []"
    and view_observing: "list_all observing es \<Longrightarrow> view es = []"
begin

lemma refines_return: "fin a p \<Longrightarrow> refines view step p fin (return a)"
  by (simp add: refines_def return_def view_Nil)

lemma refines_ok: "fin (Inr a) p \<Longrightarrow> refines view step p fin (ok a)"
  and refines_err: "fin (Inl e) p \<Longrightarrow> refines view step p fin (err e)"
  by (simp_all add: ok_def err_def refines_return)

lemma refines_await:
  assumes m: "refines view step p mid m" and f: "\<And>a q. mid a q \<Longrightarrow> refines view step q fin (f a)"
  shows "refines view step p fin (await m f)"
  unfolding refines_def
proof
  fix h
  obtain es q where es: "snd (m h) = h @ es" "walk step p (view es) = Some q" "\<forall>a. fst (m h) = Some a \<longrightarrow> mid a q"
    using m unfolding refines_def by blast
  show "\<exists>es q. snd (await m f h) = h @ es \<and> walk step p (view es) = Some q \<and> (\<forall>a. fst (await m f h) = Some a \<longrightarrow> fin a q)"
  proof (cases "fst (m h)")
    case None
    with es show ?thesis by (auto simp: await_def split: prod.splits)
  next
    case (Some a)
    then have "mid a q" using es(3) by blast
    then obtain fs q' where fs: "snd (f a (h @ es)) = (h @ es) @ fs" "walk step q (view fs) = Some q'"
      "\<forall>b. fst (f a (h @ es)) = Some b \<longrightarrow> fin b q'"
      using f unfolding refines_def by blast
    have "await m f h = f a (h @ es)" using Some es(1) by (cases "m h") (simp add: await_def)
    then show ?thesis using es(2) fs by (intro exI [of _ "es @ fs"] exI [of _ q']) (simp add: view_append)
  qed
qed

lemma refines_await_map:
  assumes "refines view step p mid m" and "\<And>a q. mid (Inr a) q \<Longrightarrow> refines view step q fin (f a)"
    and "\<And>e q. mid (Inl e) q \<Longrightarrow> fin (Inl (c e)) q"
  shows "refines view step p fin (await_map c m f)"
  unfolding await_map_def
  by (rule refines_await [OF assms(1)]) (use assms(2,3) in \<open>auto split: sum.splits intro: refines_err\<close>)

lemma refines_await_ok:
  assumes "refines view step p mid m" and "\<And>a q. mid (Inr a) q \<Longrightarrow> refines view step q fin (f a)"
    and "\<And>e q. mid (Inl e) q \<Longrightarrow> fin (Inl e) q"
  shows "refines view step p fin (await_ok m f)"
  unfolding await_ok_def
  by (rule refines_await [OF assms(1)]) (use assms(2,3) in \<open>auto split: sum.splits intro: refines_err\<close>)

lemma refines_weaken:
  "refines view step p fin m \<Longrightarrow> (\<And>a q. fin a q \<Longrightarrow> fin' a q) \<Longrightarrow> refines view step p fin' m"
  unfolding refines_def by meson

lemma refines_lift_ok:
  "(\<And>a. r = Inr a \<Longrightarrow> refines view step p fin (f a)) \<Longrightarrow> (\<And>e. r = Inl e \<Longrightarrow> fin (Inl e) p)
   \<Longrightarrow> refines view step p fin (lift_ok r f)"
  by (cases r) (auto simp: lift_ok_def refines_err)

lemma refines_case_prod:
  "(\<And>a b. x = (a, b) \<Longrightarrow> refines view step p fin (f a b)) \<Longrightarrow> refines view step p fin (case x of (a, b) \<Rightarrow> f a b)"
  by (cases x) simp

lemma refines_observing: "emits observing m \<Longrightarrow> refines view step p (\<lambda>_ q. q = p) m"
  unfolding refines_def emits_iff by (metis view_observing walk.simps(1))

lemma refines_with_lock:
  "refines view step p fin m \<Longrightarrow> refines view step p fin (with_lock k m)"
  unfolding with_lock_def
  by (intro refines_await [OF refines_observing [OF emits_perform]] refines_await [where mid = fin]
      refines_return) simp_all

end

interpretation changes: trace_abstraction "changes E cl name" for E cl name
  by unfold_locales (simp_all add: changes_observing)

section \<open>The requests as changes\<close>

lemma walk_within:
  "p \<in> S \<Longrightarrow> (\<And>q c. q \<in> S \<Longrightarrow> c \<in> set cs \<Longrightarrow> \<exists>q' \<in> S. step q c = Some q') \<Longrightarrow> \<exists>q \<in> S. walk step p cs = Some q"
proof (induction cs arbitrary: p)
  case (Cons c cs)
  then obtain q where "q \<in> S" "step p c = Some q" by (meson list.set_intros(1))
  then show ?case using Cons.IH [of q] Cons.prems(2) by simp
qed simp

lemma refines_within:
  assumes "emits (\<lambda>e. \<forall>c. change_of E cl name e = Some c \<longrightarrow> c \<in> C) m" and "p \<in> S"
    and "\<And>q c. q \<in> S \<Longrightarrow> c \<in> C \<Longrightarrow> \<exists>q' \<in> S. step q c = Some q'"
  shows "refines (changes E cl name) step p (\<lambda>_ q. q \<in> S) m"
  unfolding refines_def
proof
  fix h
  obtain es where es: "snd (m h) = h @ es" "list_all (\<lambda>e. \<forall>c. change_of E cl name e = Some c \<longrightarrow> c \<in> C) es"
    using assms(1) unfolding emits_iff by blast
  then have "c \<in> C" if "c \<in> set (changes E cl name es)" for c
    using that by (auto simp: changes_def List.map_filter_def list_all_iff)
  then obtain q where "q \<in> S" "walk step p (changes E cl name es) = Some q"
    using walk_within [OF assms(2), of "changes E cl name es" step] assms(3) by blast
  with es(1) show "\<exists>es q. snd (m h) = h @ es \<and> walk step p (changes E cl name es) = Some q \<and> (\<forall>a. fst (m h) = Some a \<longrightarrow> q \<in> S)"
    by blast
qed

lemma refines_exchange:
  assumes "connect_raw E cl = Inr host" and "m \<noteq> GET"
    and "\<And>r. is_request E cl m path body r \<Longrightarrow> request_change E name r = c" and "step p c = Some q"
  shows "refines (changes E cl name) step p (\<lambda>_ p'. p' = q) (exchange E cl m path hs body)"
proof -
  have "changes E cl name [Exchange (build_request E cl m path hs body host) a] = [c]" for a
    using assms(2) assms(3) [OF is_request_build, of hs host]
    by (simp add: changes_def List.map_filter_def change_of_def build_request_def)
  then show ?thesis
    using assms(1,4) by (auto simp: refines_def exchange_def lift_ok_def send_request_def perform_def)
qed

lemma refines_then_pure:
  "refines (changes E cl name) step p (\<lambda>_ p'. p' = q) m
   \<Longrightarrow> refines (changes E cl name) step p (\<lambda>_ p'. p' = q) (await_ok m (\<lambda>a. return (f a)))"
  by (rule changes.refines_await_ok) (auto intro: changes.refines_return)

lemma refines_metadata:
  assumes "connect_raw E cl = Inr host" and "m \<noteq> GET"
    and "\<And>r. is_request E cl m path (case v of Some j \<Rightarrow> Json_Body j | None \<Rightarrow> No_Body) r \<Longrightarrow> request_change E name r = c"
    and "step p c = Some q"
  shows "refines (changes E cl name) step p (\<lambda>_ p'. p' = q) (metadata_of (request E cl f m path v))"
  unfolding metadata_of_def request_def
  by (intro refines_then_pure refines_exchange [OF assms(1,2)]) (use assms(3,4) in auto)

text \<open>Each client method the driver changes an instance with.\<close>

lemma refines_methods:
  assumes "connect_raw E cl = Inr host"
  shows "step p Start = Some q \<Longrightarrow> refines (changes E cl name) step p (\<lambda>_ p'. p' = q) (start_instance E cl name)"
    and "step p Graceful_Stop = Some q
      \<Longrightarrow> refines (changes E cl name) step p (\<lambda>_ p'. p' = q) (stop_instance_timeout E cl name False secs)"
    and "step p Forced_Stop = Some q \<Longrightarrow> refines (changes E cl name) step p (\<lambda>_ p'. p' = q) (stop_instance E cl name True)"
    and "step p Delete = Some q \<Longrightarrow> refines (changes E cl name) step p (\<lambda>_ p'. p' = q) (delete_instance E cl name)"
    and "step p Mark = Some q \<Longrightarrow> refines (changes E cl name) step p (\<lambda>_ p'. p' = q)
        (patch_instance_config E cl name [(KEY_STOP_INTENT, Some CONDITION_STOPPED)])"
    and "step p Unmark = Some q \<Longrightarrow> refines (changes E cl name) step p (\<lambda>_ p'. p' = q)
        (patch_instance_config E cl name [(KEY_STOP_INTENT, None)])"
    and "step p Create = Some q \<Longrightarrow> refines (changes E cl name) step p (\<lambda>_ p'. p' = q)
        (create_instance E cl name i m ds ps False)"
proof -
  note bodies = request_change_def stop_change_def is_request_def start_body_def stop_body_def patch_body_def
  show "step p Start = Some q \<Longrightarrow> refines (changes E cl name) step p (\<lambda>_ p'. p' = q) (start_instance E cl name)"
    unfolding start_instance_def lxd_put_def by (erule refines_metadata [OF assms, rotated 2]) (auto simp: bodies)
  show "step p Graceful_Stop = Some q
      \<Longrightarrow> refines (changes E cl name) step p (\<lambda>_ p'. p' = q) (stop_instance_timeout E cl name False secs)"
    unfolding stop_instance_timeout_def lxd_put_def by (erule refines_metadata [OF assms, rotated 2]) (auto simp: bodies)
  show "step p Forced_Stop = Some q \<Longrightarrow> refines (changes E cl name) step p (\<lambda>_ p'. p' = q) (stop_instance E cl name True)"
    unfolding stop_instance_def stop_instance_timeout_def lxd_put_def
    by (erule refines_metadata [OF assms, rotated 2]) (auto simp: bodies)
  show "step p Delete = Some q \<Longrightarrow> refines (changes E cl name) step p (\<lambda>_ p'. p' = q) (delete_instance E cl name)"
    unfolding delete_instance_def lxd_delete_def by (erule refines_metadata [OF assms, rotated 2]) (auto simp: bodies)
  have patch: "refines (changes E cl name) step p (\<lambda>_ p'. p' = q) (patch_instance_config E cl name [(KEY_STOP_INTENT, v)])"
    if "step p (if v = None then Unmark else Mark) = Some q" "v = None \<or> v = Some CONDITION_STOPPED" for v
    unfolding patch_instance_config_def lxd_patch_def request_def ok_def
    by (intro refines_then_pure refines_exchange [OF assms, where c = "if v = None then Unmark else Mark"] that(1))
      (use that(2) in \<open>auto simp: bodies\<close>)
  show "step p Mark = Some q \<Longrightarrow> refines (changes E cl name) step p (\<lambda>_ p'. p' = q)
        (patch_instance_config E cl name [(KEY_STOP_INTENT, Some CONDITION_STOPPED)])"
    "step p Unmark = Some q \<Longrightarrow> refines (changes E cl name) step p (\<lambda>_ p'. p' = q)
        (patch_instance_config E cl name [(KEY_STOP_INTENT, None)])"
    by (rule patch; simp)+
  show "step p Create = Some q \<Longrightarrow> refines (changes E cl name) step p (\<lambda>_ p'. p' = q)
        (create_instance E cl name i m ds ps False)"
    unfolding create_instance_def metadata_of_def
    by (intro refines_then_pure refines_exchange [OF assms]) (auto simp: bodies)
qed

section \<open>The protocols\<close>

text \<open>How far an operation on an instance has come. \<open>Started n\<close> counts the starts after the first one.\<close>

datatype phase = Idle | Marked | Asked | Forced | Withdrawn | Cleared | Created | Filled | Started nat | Removed

text \<open>Stopping: mark, ask, force, and withdraw the mark when forcing fails.\<close>

fun stop_step :: "phase \<Rightarrow> change \<Rightarrow> phase option" where
  "stop_step Idle Mark = Some Marked"
| "stop_step Marked Graceful_Stop = Some Asked"
| "stop_step Asked Forced_Stop = Some Forced"
| "stop_step Forced Unmark = Some Withdrawn"
| "stop_step _ _ = None"

definition stop_end :: "('e, 'a) result \<Rightarrow> phase \<Rightarrow> bool" where
  "stop_end r p = (case r of Inr _ \<Rightarrow> p \<in> {Idle, Asked, Forced} | Inl _ \<Rightarrow> p \<in> {Idle, Withdrawn})"

text \<open>Starting: refresh the files, clear the mark, start, and start again at most \<open>retries\<close> times.\<close>

fun start_step :: "nat \<Rightarrow> phase \<Rightarrow> change \<Rightarrow> phase option" where
  "start_step retries Idle Push = Some Idle"
| "start_step retries Idle Unmark = Some Cleared"
| "start_step retries Cleared Start = Some (Started 0)"
| "start_step retries (Started n) Start = (if n < retries then Some (Started (Suc n)) else None)"
| "start_step retries _ _ = None"

definition start_end :: "('e, 'a) result \<Rightarrow> phase \<Rightarrow> bool" where
  "start_end r p = (case r of Inr _ \<Rightarrow> p = Idle \<or> (\<exists>n. p = Started n) | Inl _ \<Rightarrow> True)"

text \<open>Deleting: force a stop, then delete.\<close>

fun delete_step :: "phase \<Rightarrow> change \<Rightarrow> phase option" where
  "delete_step Idle Forced_Stop = Some Forced"
| "delete_step Forced Delete = Some Removed"
| "delete_step _ _ = None"

definition delete_end :: "('e, 'a option) result \<Rightarrow> phase \<Rightarrow> bool" where
  "delete_end r p = (case r of Inr (Some _) \<Rightarrow> p = Removed | _ \<Rightarrow> True)"

text \<open>Creating: prepare what is not the instance, create it, push files, start it, and on a failure force a
  stop and delete it.\<close>

fun create_step :: "nat \<Rightarrow> phase \<Rightarrow> change \<Rightarrow> phase option" where
  "create_step retries Idle Unrelated = Some Idle"
| "create_step retries Idle Create = Some Created"
| "create_step retries Created Push = Some Filled"
| "create_step retries Created Start = Some (Started 0)"
| "create_step retries Created Forced_Stop = Some Forced"
| "create_step retries Filled Push = Some Filled"
| "create_step retries Filled Start = Some (Started 0)"
| "create_step retries Filled Forced_Stop = Some Forced"
| "create_step retries (Started n) Start = (if n < retries then Some (Started (Suc n)) else None)"
| "create_step retries (Started n) Forced_Stop = Some Forced"
| "create_step retries Forced Delete = Some Removed"
| "create_step retries _ _ = None"

definition create_end :: "('e, 'a) result \<Rightarrow> phase \<Rightarrow> bool" where
  "create_end r p = (case r of Inr _ \<Rightarrow> \<exists>n. p = Started n | Inl _ \<Rightarrow> p \<in> {Idle, Created, Removed})"

section \<open>Stopping and deleting\<close>

lemma emits_wait_observing: "emits observing (wait_operation E d i)"
  by (intro emits_rules)

lemma refines_stop_intent:
  assumes "connect_raw E (drv_lxd d) = Inr host"
  shows "step p Mark = Some q \<Longrightarrow> refines (changes E (drv_lxd d) name) step p (\<lambda>_ p'. p' = q) (set_stop_intent E d name)"
    and "step p Unmark = Some q \<Longrightarrow> refines (changes E (drv_lxd d) name) step p (\<lambda>_ p'. p' = q) (clear_stop_intent E d name)"
  unfolding set_stop_intent_def clear_stop_intent_def
  by (rule changes.refines_await, erule refines_methods [OF assms], rule changes.refines_return, assumption)+

lemma refines_withdraw:
  assumes "connect_raw E (drv_lxd d) = Inr host"
  shows "refines (changes E (drv_lxd d) name) stop_step Forced stop_end (await (clear_stop_intent E d name) (\<lambda>_. err e))"
  by (rule changes.refines_await [OF refines_stop_intent(2) [OF assms]])
    (auto simp: stop_end_def intro: changes.refines_err)

lemma refines_forced_stop:
  assumes "connect_raw E (drv_lxd d) = Inr host"
  shows "refines (changes E (drv_lxd d) name) stop_step Asked stop_end (forced_stop E d name)"
proof -
  let ?V = "changes E (drv_lxd d) name"
  have finished: "refines ?V stop_step Forced stop_end (ok ())" by (simp add: changes.refines_ok stop_end_def)
  have wait: "refines ?V stop_step Forced stop_end (await (wait_operation E d i) (\<lambda>w. case w of
      Inr _ \<Rightarrow> ok ()
    | Inl e \<Rightarrow> if \<not> already_stopped e then await (clear_stop_intent E d name) (\<lambda>_. err e) else ok ()))" for i
    by (rule changes.refines_await [OF changes.refines_observing [OF emits_wait_observing]])
      (auto simp: finished refines_withdraw [OF assms] split: sum.splits)
  show ?thesis unfolding forced_stop_def
    by (rule changes.refines_await [OF refines_methods(3) [OF assms, where q = Forced]])
      (auto simp: finished wait refines_withdraw [OF assms] simp del: unit_abs_eta_conv split: sum.splits)
qed

lemma stop_refines:
  "refines (changes E (drv_lxd d) name) stop_step Idle stop_end (stop_sandbox E d name)"
proof (cases "connect_raw E (drv_lxd d)")
  case (Inl e)
  then obtain e' where "stop_sandbox E d name = with_lock (lifecycle_lock name) (err e')"
    using stop_no_connect by blast
  then show ?thesis by (simp add: changes.refines_with_lock changes.refines_err stop_end_def)
next
  case (Inr host)
  let ?V = "changes E (drv_lxd d) name"
  have graceful: "refines ?V stop_step Marked (\<lambda>_ q. q = Asked) (graceful_stop E d name)"
    unfolding graceful_stop_def
    by (rule changes.refines_await_map [OF refines_methods(2) [OF Inr, where q = Asked]])
      (auto intro: changes.refines_observing emits_wait_observing)
  have ending: "refines ?V stop_step q stop_end (case g of
            Inr _ \<Rightarrow> ok () | Inl e \<Rightarrow> if already_stopped e then ok () else forced_stop E d name)" if "q = Asked" for q g
    using that
    by (auto simp: changes.refines_ok stop_end_def refines_forced_stop [OF Inr] split: sum.splits)
  have marked: "refines ?V stop_step Idle stop_end (await (set_stop_intent E d name) (\<lambda>_.
         await (graceful_stop E d name) (\<lambda>g. case g of
            Inr _ \<Rightarrow> ok () | Inl e \<Rightarrow> if already_stopped e then ok () else forced_stop E d name)))"
    using changes.refines_await [OF graceful ending]
    by (intro changes.refines_await [OF refines_stop_intent(1) [OF Inr, where q = Marked]]) simp_all
  show ?thesis unfolding stop_sandbox_def
    by (intro changes.refines_with_lock changes.refines_await_ok [OF changes.refines_observing [OF get_managed_emits]])
      (auto simp: marked changes.refines_ok stop_end_def simp del: unit_abs_eta_conv)
qed


lemma refines_stop_before_delete:
  assumes "connect_raw E (drv_lxd d) = Inr host"
  shows "refines (changes E (drv_lxd d) name) delete_step Idle (\<lambda>_ q. q = Forced) (stop_before_delete E d name)"
proof -
  let ?V = "changes E (drv_lxd d) name"
  have wait: "refines ?V delete_step Forced (\<lambda>_ q. q = Forced) (await (wait_operation E d i) (\<lambda>w. case w of
      Inr _ \<Rightarrow> ok True | Inl e \<Rightarrow> if \<not> already_stopped e then err e else ok True))" for i
    by (rule changes.refines_observing) (intro emits_rules)
  show ?thesis unfolding stop_before_delete_def
    by (rule changes.refines_await [OF refines_methods(3) [OF assms, where q = Forced]])
      (auto simp: wait changes.refines_ok changes.refines_err simp del: unit_abs_eta_conv split: sum.splits lxd_error.splits)
qed

lemma delete_refines:
  "refines (changes E (drv_lxd d) name) delete_step Idle delete_end (delete_sandbox E d name)"
proof (cases "connect_raw E (drv_lxd d)")
  case (Inl e)
  then obtain t where "e = Tls t" using connect_raw_Tls by blast
  then show ?thesis unfolding delete_sandbox_def get_instance_no_connect [OF Inl]
    by (simp add: err_def changes.refines_with_lock changes.refines_return delete_end_def)
next
  case (Inr host)
  let ?V = "changes E (drv_lxd d) name"
  have lookup: "emits observing (get_instance E (drv_lxd d) name)" by (intro emits_rules) (simp add: is_request_def)
  have removed: "refines ?V delete_step q delete_end (await_ok (wait_operation E d i) (\<lambda>_. ok (Some s)))" if "q = Removed" for q i s
    using that by (intro changes.refines_await_ok [OF changes.refines_observing [OF emits_wait_observing]])
      (auto simp: delete_end_def intro: changes.refines_ok)
  have delete: "refines ?V delete_step Forced delete_end (await (delete_instance E (drv_lxd d) name) (\<lambda>x. case x of
                   Inl (Api code msg) \<Rightarrow> if code = 404 then ok None else err (Lxd (Api code msg))
                 | Inl e \<Rightarrow> err (Lxd e)
                 | Inr op \<Rightarrow> await_ok (wait_operation E d (op_id op)) (\<lambda>_. ok (Some s))))" for s
    by (rule changes.refines_await [OF refines_methods(4) [OF Inr, where q = Removed]])
      (auto simp: removed delete_end_def changes.refines_ok changes.refines_err split: sum.splits lxd_error.splits)
  have stop: "refines ?V delete_step Idle delete_end (await_ok (stop_before_delete E d name) (\<lambda>present.
              if \<not> present then ok None
              else
                await (delete_instance E (drv_lxd d) name) (\<lambda>x. case x of
                   Inl (Api code msg) \<Rightarrow> if code = 404 then ok None else err (Lxd (Api code msg))
                 | Inl e \<Rightarrow> err (Lxd e)
                 | Inr op \<Rightarrow>
                     await_ok (wait_operation E d (op_id op)) (\<lambda>_. ok (Some s)))))" for s
    by (rule changes.refines_await_ok [OF refines_stop_before_delete [OF Inr]])
      (auto simp: delete delete_end_def changes.refines_ok)
  show ?thesis unfolding delete_sandbox_def
    by (intro changes.refines_with_lock changes.refines_await [OF changes.refines_observing [OF lookup]])
      (auto simp: stop delete_end_def changes.refines_ok changes.refines_err split: sum.splits lxd_error.splits option.splits)
qed

section \<open>Starting\<close>

text \<open>Starting and settling, for any protocol in which an instance may be started again a bounded number of
  times.\<close>

lemma refines_settle:
  assumes "connect_raw E (drv_lxd d) = Inr host"
    and again: "\<And>k. k < r \<Longrightarrow> step (Started k) Start = Some (Started (Suc k))"
  shows "n + k \<le> r \<Longrightarrow> refines (changes E (drv_lxd d) name) step (Started k) (\<lambda>_ q. \<exists>j. q = Started j) (settle_loop n E d name i)"
proof (induction n arbitrary: k)
  case 0
  then show ?case by (auto intro: changes.refines_ok)
next
  case (Suc n)
  let ?V = "changes E (drv_lxd d) name"
  let ?mid = "\<lambda>x q. q = Started k \<and> (\<forall>y. x = Inr y \<longrightarrow> \<not> y) \<or> q = Started (Suc k)"
  have lookup: "emits observing (get_instance E (drv_lxd d) name)" by (intro emits_rules) (simp add: is_request_def)
  have started: "refines ?V step (Started k) (\<lambda>_ q. q = Started (Suc k)) (start_instance E (drv_lxd d) name)"
    using refines_methods(1) [OF assms(1), of step "Started k"] again Suc.prems by simp
  have restart: "refines ?V step (Started k) ?mid (await_map Lxd (start_instance E (drv_lxd d) name) (\<lambda>op.
            await_ok (wait_operation E d (op_id op)) (\<lambda>_. ok True)))"
    by (rule changes.refines_await_map [OF started])
      (auto intro!: changes.refines_await_ok [OF changes.refines_observing [OF emits_wait_observing]] changes.refines_ok)
  have attempt: "refines ?V step (Started k) ?mid (settle_attempt E d name i)"
    unfolding settle_attempt_def
    by (rule changes.refines_await [OF changes.refines_observing [OF lookup]])
      (auto simp: restart intro!: changes.refines_ok changes.refines_err split: sum.splits lxd_error.splits)
  have body: "refines ?V step (Started k) (\<lambda>_ q. \<exists>j. q = Started j)
      (await_ok (with_lock (lifecycle_lock name) (settle_attempt E d name i)) (\<lambda>again.
       if again then settle_loop n E d name i else ok ()))"
    by (rule changes.refines_await_ok [OF changes.refines_with_lock [OF attempt]])
      (use Suc.IH [of "Suc k"] Suc.prems in \<open>auto intro!: changes.refines_ok\<close>)
  have pause: "emits observing (sleep SETTLE_DELAY)" by (intro emits_rules) simp
  show ?case unfolding settle_loop.simps
    by (rule changes.refines_await [OF changes.refines_observing [OF pause]]) (use body in simp)
qed

lemma refines_start_and_settle:
  assumes "connect_raw E (drv_lxd d) = Inr host" and "step p Start = Some (Started 0)"
    and "\<And>k. k < cfg_start_retries (drv_config d) \<Longrightarrow> step (Started k) Start = Some (Started (Suc k))"
  shows "refines (changes E (drv_lxd d) name) step p (\<lambda>_ q. \<exists>j. q = Started j) (start_and_settle E d name i)"
proof -
  let ?V = "changes E (drv_lxd d) name"
  have loop: "refines ?V step (Started 0) (\<lambda>_ q. \<exists>j. q = Started j) (settle_loop (cfg_start_retries (drv_config d)) E d name i)"
    by (rule refines_settle [OF assms(1), where r = "cfg_start_retries (drv_config d)"]) (use assms(3) in auto)
  have settle: "refines ?V step (Started 0) (\<lambda>_ q. \<exists>j. q = Started j) (await_ok (wait_operation E d x) (\<lambda>_. settle_after_start E d name i))" for x
    unfolding settle_after_start_def
    by (rule changes.refines_await_ok [OF changes.refines_observing [OF emits_wait_observing]])
      (auto simp: loop)
  show ?thesis unfolding start_and_settle_def
    using refines_methods(1) [OF assms(1), of step p "Started 0" name] assms(2)
    by (intro changes.refines_await_map [where mid = "\<lambda>_ q. q = Started 0"]) (auto simp: settle)
qed

lemma push_changes:
  "emits (\<lambda>e. \<forall>c. change_of E (drv_lxd d) name e = Some c \<longrightarrow> c \<in> {Push}) (push_guest_files E d name files)"
proof -
  have push: "is_request E cl POST (files_path E name g) (Bytes_Body b) r
      \<Longrightarrow> \<forall>c. change_of E cl name (Exchange r a) = Some c \<longrightarrow> c \<in> {Push}" for cl r a g b
    by (auto simp: change_of_def request_change_def is_request_def files_path_def starts_with_iff)
  have read: "is_request E cl GET path b r \<Longrightarrow> \<forall>c. change_of E cl name (Exchange r a) = Some c \<longrightarrow> c \<in> {Push}" for cl path b r a
    by (simp add: change_of_def is_request_def)
  show ?thesis
    unfolding push_guest_files_def push_file_into_instance_def create_parent_dirs_in_instance_def path_is_dir_in_instance_def
    by (intro emits_rules; erule push read)
qed

lemma start_refines:
  "refines (changes E (drv_lxd d) name) (start_step (cfg_start_retries (drv_config d))) Idle start_end (start_sandbox E d name)"
proof (cases "connect_raw E (drv_lxd d)")
  case (Inl e)
  then obtain t where "e = Tls t" using connect_raw_Tls by blast
  then show ?thesis unfolding start_sandbox_def get_managed_instance_def get_instance_no_connect [OF Inl]
    by (simp add: err_def changes.refines_return start_end_def await_ok_def)
next
  case (Inr host)
  let ?V = "changes E (drv_lxd d) name" and ?step = "start_step (cfg_start_retries (drv_config d))"
  have push: "refines ?V ?step Idle (\<lambda>_ q. q \<in> {Idle}) (push_guest_files E d name files)" for files
    by (rule refines_within [OF push_changes]) simp_all
  have tls: "emits observing (read_guest_tls_files E d)" by (intro emits_rules) simp
  have start: "refines ?V ?step Cleared start_end (start_and_settle E d name i)" for i
    by (rule changes.refines_weaken [OF refines_start_and_settle [OF Inr]]) (auto simp: start_end_def split: sum.splits)
  have cleared: "refines ?V ?step Idle start_end (await_map Lxd (patch_instance_config E (drv_lxd d) name [(KEY_STOP_INTENT, None)]) (\<lambda>_.
          start_and_settle E d name i))" for i
    by (rule changes.refines_await_map [OF refines_methods(6) [OF Inr, where q = Cleared]]) (auto simp: start start_end_def)
  have pushed: "refines ?V ?step Idle start_end (await_ok (push_guest_files E d name files) (\<lambda>_.
          await_map Lxd (patch_instance_config E (drv_lxd d) name [(KEY_STOP_INTENT, None)]) (\<lambda>_. start_and_settle E d name i)))" for i files
    by (rule changes.refines_await_ok [OF push]) (auto simp: cleared start_end_def)
  have prepared: "refines ?V ?step Idle start_end (await_ok (read_guest_tls_files E d) (\<lambda>tls_files.
          await_ok (push_guest_files E d name tls_files) (\<lambda>_.
          await_map Lxd (patch_instance_config E (drv_lxd d) name [(KEY_STOP_INTENT, None)]) (\<lambda>_. start_and_settle E d name i))))" for i
    by (rule changes.refines_await_ok [OF changes.refines_observing [OF tls]]) (auto simp: pushed start_end_def)
  show ?thesis unfolding start_sandbox_def Let_def
    by (rule changes.refines_await_ok [OF changes.refines_observing [OF get_managed_emits]])
      (auto simp: prepared start_end_def intro!: changes.refines_ok changes.refines_err)
qed

section \<open>Creating\<close>

lemma setup_change: "setup_event e \<Longrightarrow> change_of E cl name e = Some c \<Longrightarrow> c \<in> {Unrelated}"
  by (auto simp: setup_event_def change_of_def request_change_def path_of_def starts_with_iff state_path_def instance_path_def
      split: event.splits http_method.splits http_body.splits if_splits)

lemma refines_setup:
  assumes "emits setup_event m"
  shows "refines (changes E cl name) (create_step r) Idle (\<lambda>_ q. q \<in> {Idle}) m"
  by (rule refines_within [where C = "{Unrelated}", OF emits_weaken [OF assms]]) (use setup_change in auto)

lemma refines_after_setup:
  assumes "emits setup_event m" and "\<And>a. refines (changes E cl name) (create_step r) Idle fin (f a)" and "\<And>e. fin (Inl e) Idle"
  shows "refines (changes E cl name) (create_step r) Idle fin (await_ok m f)"
  by (rule changes.refines_await_ok [OF refines_setup [OF assms(1)]]) (use assms(2,3) in auto)

text \<open>The instance is created in the scope of the volumes' lock.\<close>

definition create_sent :: "('e, 'a) result \<Rightarrow> phase \<Rightarrow> bool" where
  "create_sent r q = (case r of Inr _ \<Rightarrow> q = Created | Inl _ \<Rightarrow> q \<in> {Idle, Created})"

lemma refines_create_with_volumes:
  assumes "connect_raw E (drv_lxd d) = Inr host"
  shows "refines (changes E (drv_lxd d) (sb_name sandbox)) (create_step r) Idle create_sent
     (create_with_volumes E d sandbox spec template placement acl m bin dg img)"
proof -
  let ?V = "changes E (drv_lxd d) (sb_name sandbox)" and ?step = "create_step r"
  have create: "refines ?V ?step Idle create_sent (await_map Lxd (create_instance E (drv_lxd d) (sb_name sandbox) img m ds ps False) (\<lambda>op.
      wait_operation E d (op_id op)))" for ds ps
    by (rule changes.refines_await_map [OF refines_methods(7) [OF assms, where q = Created]])
      (auto simp: create_sent_def split: sum.splits
        intro: changes.refines_weaken [OF changes.refines_observing [OF emits_wait_observing]])
  have dhcp: "emits setup_event (load_dhcp_client E b)" for b by (intro emits_rules setup_event_observing) simp_all
  show ?thesis unfolding create_with_volumes_def Let_def
    by (intro changes.refines_with_lock refines_after_setup setup_steps dhcp)
      (auto intro!: refines_after_setup setup_steps create simp: create_sent_def)
qed

text \<open>Once the instance exists: files, start, and the clean-up when either fails.\<close>

definition existing :: "phase set" where
  "existing = {Created, Filled} \<union> range Started"

lemma refines_post_create:
  assumes "connect_raw E (drv_lxd d) = Inr host"
  shows "refines (changes E (drv_lxd d) (sb_name sandbox)) (create_step (cfg_start_retries (drv_config d))) Created
     (\<lambda>r q. q \<in> existing \<and> (\<forall>a. r = Inr a \<longrightarrow> (\<exists>n. q = Started n))) (post_create E d sandbox files)"
proof -
  let ?V = "changes E (drv_lxd d) (sb_name sandbox)" and ?step = "create_step (cfg_start_retries (drv_config d))"
  have push: "refines ?V ?step Created (\<lambda>_ q. q \<in> {Created, Filled}) (push_guest_files E d (sb_name sandbox) files)"
    by (rule refines_within [OF push_changes]) auto
  have start: "refines ?V ?step q (\<lambda>r q. q \<in> existing \<and> (\<forall>a. r = Inr a \<longrightarrow> (\<exists>n. q = Started n)))
      (start_and_settle E d (sb_name sandbox) (sb_id sandbox))" if "q \<in> {Created, Filled}" for q
    by (rule changes.refines_weaken [OF refines_start_and_settle [OF assms]]) (use that in \<open>auto simp: existing_def\<close>)
  show ?thesis unfolding post_create_def
    by (rule changes.refines_await_ok [OF push], erule start) (auto simp: existing_def)
qed

lemma refines_cleanup:
  assumes "connect_raw E (drv_lxd d) = Inr host" and "p \<in> existing"
  shows "refines (changes E (drv_lxd d) name) (create_step r) p (\<lambda>_ q. q = Removed) (cleanup_instance E d name)"
proof -
  let ?V = "changes E (drv_lxd d) name" and ?step = "create_step r"
  have stop: "refines ?V ?step p (\<lambda>_ q. q = Forced) (stop_instance E (drv_lxd d) name True)"
    by (rule refines_methods(3) [OF assms(1)]) (use assms(2) in \<open>auto simp: existing_def\<close>)
  have settle: "emits observing (case s of Inr op \<Rightarrow> await (wait_operation E d (op_id op)) (\<lambda>_. return ()) | Inl _ \<Rightarrow> return ())"
    for s :: "(lxd_error, operation) result"
    by (intro emits_rules)
  have delete: "refines ?V ?step Forced (\<lambda>_ q. q = Removed) (await_map Lxd (delete_instance E (drv_lxd d) name) (\<lambda>op. wait_operation E d (op_id op)))"
    by (rule changes.refines_await_map [OF refines_methods(4) [OF assms(1), where q = Removed]])
      (auto intro: changes.refines_observing emits_wait_observing)
  have rest: "refines ?V ?step q (\<lambda>_ q. q = Removed)
      (await (case s of Inr op \<Rightarrow> await (wait_operation E d (op_id op)) (\<lambda>_. return ()) | Inl _ \<Rightarrow> return ()) (\<lambda>_.
       await_map Lxd (delete_instance E (drv_lxd d) name) (\<lambda>op. wait_operation E d (op_id op))))"
    if "q = Forced" for q and s :: "(lxd_error, operation) result"
    by (rule changes.refines_await [OF changes.refines_observing [OF settle]]) (simp add: that delete)
  show ?thesis unfolding cleanup_instance_def by (rule changes.refines_await [OF stop rest])
qed

lemma refines_finish_create:
  assumes "connect_raw E (drv_lxd d) = Inr host"
  shows "refines (changes E (drv_lxd d) (sb_name sandbox)) (create_step (cfg_start_retries (drv_config d))) Created create_end
     (finish_create E d sandbox files)"
proof -
  let ?V = "changes E (drv_lxd d) (sb_name sandbox)" and ?step = "create_step (cfg_start_retries (drv_config d))"
  have undo: "refines ?V ?step p create_end (await (cleanup_instance E d (sb_name sandbox)) (\<lambda>_. err e))" if "p \<in> existing" for p e
    by (rule changes.refines_await [OF refines_cleanup [OF assms that]]) (auto simp: create_end_def intro: changes.refines_err)
  show ?thesis unfolding finish_create_def
    by (rule changes.refines_await [OF refines_post_create [OF assms]])
      (auto simp: create_end_def undo intro: changes.refines_ok split: sum.splits)
qed

lemma create_refines:
  "refines (changes E lxd (sb_name sandbox)) (create_step (cfg_start_retries c)) Idle create_end
     (create_sandbox E (driver_new E c lxd) sandbox)"
proof -
  let ?d = "driver_new E c lxd"
  let ?V = "changes E lxd (sb_name sandbox)" and ?step = "create_step (cfg_start_retries c)"
  have fails: "create_end (Inl e) Idle" for e :: driver_error by (simp add: create_end_def)
  have acl: "emits setup_event (if b then await_ok (ensure_egress_acl E d n net ep) (\<lambda>a. ok (Some a)) else ok None)"
    for b d n net ep by (intro emits_rules setup_steps)
  show ?thesis
  proof (cases "connect_raw E lxd")
    case (Inl e)
    then obtain t where "e = Tls t" using connect_raw_Tls by blast
    then have "check_placement E ?d pl = err (Lxd (Tls t))" for pl
      by (simp add: check_placement_def get_network_def metadata_of_def lxd_get_def request_def
          exchange_no_connect [OF Inl] err_def await_ok_def)
    then show ?thesis unfolding create_sandbox_def Let_def
      by (intro changes.refines_lift_ok) (auto simp: fails intro: changes.refines_err)
  next
    case (Inr host)
    note finish = refines_finish_create [of E ?d, simplified, OF Inr, unfolded finish_create_def]
    have create: "refines ?V ?step Idle create_end
        (await_ok (create_with_volumes E ?d sandbox spec template placement acl m bin dg img) (\<lambda>_.
         await (post_create E ?d sandbox files) (\<lambda>r. case r of
           Inr _ \<Rightarrow> ok () | Inl e \<Rightarrow> await (cleanup_instance E ?d (sb_name sandbox)) (\<lambda>_. err e))))"
      for spec template placement acl m bin dg img files
      by (rule changes.refines_await_ok [OF refines_create_with_volumes [of E ?d, simplified, OF Inr]])
        (use finish in \<open>auto simp: create_sent_def create_end_def\<close>)
    show ?thesis unfolding create_sandbox_def Let_def
      by (intro changes.refines_lift_ok changes.refines_case_prod refines_after_setup [OF setup_steps(1)]
          refines_after_setup [OF acl] refines_after_setup [OF setup_steps(3)] refines_after_setup [OF setup_images(2)]
          refines_after_setup [OF setup_images(1)] create fails)
  qed
qed

section \<open>Properties of the protocols\<close>

text \<open>Claim C3. Stopping a sandbox refines its protocol, whatever LXD answers: the first change is the mark of the
  stop intent, then at most one graceful and one forced stop of that instance, and nothing else. A stop that
  reports success ends without withdrawing the mark; a stop that fails changed nothing, or forced the stop
  and ends by withdrawing the mark.\<close>

theorem stop_follows_protocol:
  "refines (changes E (drv_lxd d) name) stop_step Idle stop_end (stop_sandbox E d name)"
  by (rule stop_refines)

text \<open>Claim C4. Starting a sandbox refines its protocol: files are pushed first, then the mark of an earlier stop
  is cleared, then the instance is started, and however often its init exits, started again at most
  \<open>start_retries\<close> times. Nothing is pushed once the instance runs, and success means that it was running
  before or was started.\<close>

theorem start_follows_protocol:
  "refines (changes E (drv_lxd d) name) (start_step (cfg_start_retries (drv_config d))) Idle start_end (start_sandbox E d name)"
  by (rule start_refines)

text \<open>Claim C5. Deleting a sandbox refines its protocol: one forced stop of the instance before its one deletion, and
  the id of a deleted sandbox is returned only when the deletion was requested.\<close>

theorem delete_follows_protocol:
  "refines (changes E (drv_lxd d) name) delete_step Idle delete_end (delete_sandbox E d name)"
  by (rule delete_refines)

text \<open>Claim C2. Creating a sandbox refines its protocol: what it prepares besides the instance comes before the
  one request that creates the instance, stopped; files are pushed only before the first start; there are at
  most \<open>start_retries\<close> further starts. Success means that the instance was started. A creation that fails
  never asked for more than the instance itself, or ends by forcing a stop of the instance and deleting
  it.\<close>

theorem create_follows_protocol:
  "refines (changes E lxd (sb_name sandbox)) (create_step (cfg_start_retries c)) Idle create_end
     (create_sandbox E (driver_new E c lxd) sandbox)"
  by (rule create_refines)

end
