(* ===== verification/Cache_Findings.thy ===== *)
theory Cache_Findings
  imports Image_Laws Wait_Laws
begin

text \<open>
  A world in which the supervisor cache holds a symbolic link where the binary should be. The check in front of
  the cache rejects it, and the importer behind it takes any existing file as a hit, so the link is
  returned as the supervisor binary.
\<close>

definition link_metadata :: file_meta where
  "link_metadata = \<lparr>meta_is_symlink = True, meta_is_file = False, meta_is_dir = False, meta_is_socket = False,
     meta_mode = 511, meta_uid = 0, meta_len = 1, meta_age_secs = None\<rparr>"

definition planted_world :: env where
  "planted_world = (sample_world [(''/1.0'', Object [])] \<lparr>ws_messages = [], ws_closes = False\<rparr>)
     \<lparr>env_fs_stat := \<lambda>_ _. Inr link_metadata,
      env_process := \<lambda>_ _ _. Inr \<lparr>out_success = True, out_stdout = ''/1.0'', out_stderr = []\<rparr>\<rparr>"

definition planted_cache :: image_cache where
  "planted_cache = skopeo_cache planted_world local_client (skopeo_new local_client None None None ''/tmp'' 600) ''p''"

lemma planted_valid: "validate_reference ''docker://a/b'' = Inr ()"
  by code_simp

lemma planted_rejected: "fst (is_valid_cached_binary planted_world path h) = Some False"
  by (simp add: is_valid_cached_binary_def run_simps fs_stat_def planted_world_def link_metadata_def)

definition planted_digest :: string where
  "planted_digest = ''sha256:'' @ hex_digest (replicate 32 (CHR 0x00))"

lemma planted_architecture:
  "\<exists>es. verify_lxd_architecture planted_world (skopeo_new local_client None None None ''/tmp'' 600) h = (Some (Inr ()), h @ es)"
  by (auto simp: verify_lxd_architecture_def verify_architecture_def server_architectures_def recall_def note_event_def
      run_simps transport_simps planted_world_def sample_world_simps skopeo_new_def decode_simps)

lemma planted_resolve:
  "\<exists>es. si_resolve_digest planted_world (skopeo_new local_client None None None ''/tmp'' 600) reference h = (Some (Inr planted_digest), h @ es)"
proof -
  let ?si = "skopeo_new local_client None None None ''/tmp'' 600"
  obtain es where arch: "verify_lxd_architecture planted_world ?si h = (Some (Inr ()), h @ es)"
    using planted_architecture by blast
  show ?thesis unfolding si_resolve_digest_def await_ok_step [of "verify_lxd_architecture planted_world ?si", OF arch]
    by (simp add: run_tool_def timeout_secs_def timeout_def process_def run_simps planted_world_def sample_world_simps
        skopeo_new_def select_arch_digest_def planted_digest_def map_err_def)
qed

lemma planted_extract:
  "fst (si_extract_supervisor_binary planted_world (skopeo_new local_client None None None ''/tmp'' 600) ''docker://a/b'' ''/cache'' h)
     = Some (Inr (path_join (path_join ''/cache'' (clean_digest planted_digest)) ''openshell-sandbox'', planted_digest))"
proof -
  let ?si = "skopeo_new local_client None None None ''/tmp'' 600"
  obtain es where arch: "verify_lxd_architecture planted_world ?si h = (Some (Inr ()), h @ es)"
    using planted_architecture by blast
  obtain fs where digest: "si_resolve_digest planted_world ?si ''docker://a/b'' (h @ es) = (Some (Inr planted_digest), (h @ es) @ fs)"
    using planted_resolve by blast
  show ?thesis
    unfolding si_extract_supervisor_binary_def await_ok_step [of "verify_lxd_architecture planted_world ?si", OF arch]
      planted_valid lift_ok_def sum.case await_ok_step [of "si_resolve_digest planted_world ?si ''docker://a/b''", OF digest] Let_def
    by (simp add: path_exists_def fs_stat_def run_simps planted_world_def link_metadata_def succeeded_def)
qed

text \<open>Claim C37. A cached supervisor binary that the validity check rejects is used all the same: in a world where the
  file in the cache is a symbolic link owned by root, the check of \<open>ImageCache\<close> says no, and its
  \<open>extract_supervisor_binary\<close> returns that very path as the supervisor binary.\<close>

theorem rejected_binary_is_returned:
  "\<exists>path. fst (is_valid_cached_binary planted_world path h) = Some False
     \<and> fst (extract_supervisor_binary planted_world planted_cache ''docker://a/b'' ''/cache'' h) = Some (Inr (path, planted_digest))"
proof -
  let ?si = "skopeo_new local_client None None None ''/tmp'' 600"
  let ?path = "path_join (path_join ''/cache'' (clean_digest planted_digest)) ''openshell-sandbox''"
  obtain es where digest: "si_resolve_digest planted_world ?si ''docker://a/b'' h = (Some (Inr planted_digest), h @ es)"
    using planted_resolve by blast
  have rejected: "is_valid_cached_binary planted_world ?path h' = (Some False, h' @ [Fs (Symlink_Metadata ?path) True])" for h'
    by (simp add: is_valid_cached_binary_def run_simps fs_stat_def planted_world_def link_metadata_def succeeded_def)
  obtain g where extr: "\<And>h'. si_extract_supervisor_binary planted_world ?si ''docker://a/b'' ''/cache'' h' = (Some (Inr (?path, planted_digest)), g h')"
    by (rule that [of "\<lambda>h'. snd (si_extract_supervisor_binary planted_world ?si ''docker://a/b'' ''/cache'' h')"])
      (simp add: prod_eq_iff planted_extract)
  have "fst (extract_supervisor_binary planted_world planted_cache ''docker://a/b'' ''/cache'' h) = Some (Inr (?path, planted_digest))"
    using planted_valid digest rejected extr
    by (simp add: extract_supervisor_binary_def planted_cache_def skopeo_cache_sel with_lock_def run_simps Let_def
        skopeo_oci_importer_def)
  then show ?thesis using planted_rejected by blast
qed

end
