(* ===== verification/Egress_Policy.thy ===== *)
theory Egress_Policy
  imports Egress
begin

text \<open>
  What the egress ACL means. LXD documents a rule's destination as a list of addresses and CIDR blocks separated by
  commas, its port and protocol as filters when they are set, and rejects what no rule allows
  (the NIC's default action). \<open>rule_allows\<close> reads the texts of a rule that way, for a packet to an IPv4
  address; the theorem says which packets the rules of the driver let through.
\<close>

section \<open>Reading a rule\<close>

definition entry_matches :: "nat \<Rightarrow> string \<Rightarrow> bool" where
  "entry_matches ip entry = (case split_once (CHR ''/'') entry of
      Some (address, len) \<Rightarrow> (case (parse_ipv4 address, parse_unsigned 8 len) of
          (Some a, Some p) \<Rightarrow> p \<le> 32 \<and> in_cidr ip (a, p)
        | _ \<Rightarrow> False)
    | None \<Rightarrow> parse_ipv4 entry = Some ip)"

definition rule_allows :: "nat \<Rightarrow> acl_protocol \<Rightarrow> nat \<Rightarrow> lxd_network_acl_rule \<Rightarrow> bool" where
  "rule_allows ip protocol port r \<longleftrightarrow> rule_action r = Allow \<and> rule_state r = Enabled
     \<and> (rule_protocol r = None \<or> rule_protocol r = Some protocol)
     \<and> (rule_destination_port r = [] \<or> rule_destination_port r = dec port)
     \<and> list_ex (entry_matches ip) (split_char (CHR '','') (rule_destination r))"

section \<open>Texts of addresses\<close>

lemma split_char_set: "x \<in> set s \<Longrightarrow> x = d \<or> (\<exists>w\<in>set (split_char d s). x \<in> set w)"
  by (induction s) (auto split: list.splits)

lemma all_some_elem: "all_some xs = Some ys \<Longrightarrow> x \<in> set xs \<Longrightarrow> x \<noteq> None"
  by (induction xs arbitrary: ys) (auto simp: bind_eq_Some_conv)

text \<open>The text of an IPv4 address has digits and dots only.\<close>

lemma parse_ipv4_chars:
  assumes "parse_ipv4 s = Some n" and "x \<in> set s"
  shows "x = CHR ''.'' \<or> is_ascii_digit x"
proof -
  obtain ns where ns: "all_some (map parse_octet (split_char (CHR ''.'') s)) = Some ns"
    using assms(1) by (auto simp: parse_ipv4_def Let_def split: if_splits)
  show ?thesis
  proof (cases "x = CHR ''.''")
    case False
    then obtain w where w: "w \<in> set (split_char (CHR ''.'') s)" "x \<in> set w"
      using split_char_set [OF assms(2), of "CHR ''.''"] by blast
    then have "parse_octet w \<noteq> None" using all_some_elem [OF ns] by auto
    then have "list_all is_ascii_digit w" by (auto simp: parse_octet_def split: if_splits)
    with w(2) show ?thesis by (simp add: list_all_iff)
  qed simp
qed

lemma join_str_set: "x \<in> set (join_str sep ws) \<Longrightarrow> x \<in> set sep \<or> (\<exists>w\<in>set ws. x \<in> set w)"
  by (induction ws rule: induct_list012) auto

lemma show_ipv4_chars: "x \<in> set (show_ipv4 n) \<Longrightarrow> x = CHR ''.'' \<or> is_ascii_digit x"
  unfolding show_ipv4_def by (drule join_str_set) (auto simp: dec_digits)

lemma hex_nat_chars: "x \<in> set (hex_nat n) \<Longrightarrow> is_ascii_hexdigit x"
  by (induction n rule: hex_nat.induct) (subst (asm) (2) hex_nat.simps, auto simp: hex_char_hexdigit split: if_splits)

lemma show_groups_chars: "x \<in> set (show_groups ss) \<Longrightarrow> x = CHR '':'' \<or> is_ascii_hexdigit x"
  unfolding show_groups_def by (drule join_str_set) (auto dest: hex_nat_chars)

lemma show_ipv6_cases:
  obtains "show_ipv6 n = ''::ffff:'' @ show_ipv4 (n mod 2 ^ 32)"
  | us vs where "show_ipv6 n = show_groups us @ ''::'' @ show_groups vs"
  | "show_ipv6 n = show_groups (segments n)"
proof -
  obtain start len where z: "longest_zeros (segments n) = (start, len)" by (cases "longest_zeros (segments n)")
  show thesis
  proof (cases "n div 2 ^ 32 = 0xFFFF")
    case True
    then have "show_ipv6 n = ''::ffff:'' @ show_ipv4 (n mod 2 ^ 32)" unfolding show_ipv6_def by (rule if_P)
    then show thesis by (rule that)
  next
    case False
    then have "show_ipv6 n = (if 1 < len then show_groups (take start (segments n)) @ ''::''
        @ show_groups (drop (start + len) (segments n)) else show_groups (segments n))"
      unfolding show_ipv6_def Let_def z by simp
    then show thesis using that by (cases "1 < len") auto
  qed
qed

lemma show_ipv6_chars: "x \<in> set (show_ipv6 n) \<Longrightarrow> x = CHR '':'' \<or> x = CHR ''.'' \<or> is_ascii_hexdigit x"
proof (cases n rule: show_ipv6_cases)
  case 1
  moreover have "is_ascii_hexdigit (CHR ''f'')" "is_ascii_digit x \<Longrightarrow> is_ascii_hexdigit x" by (simp_all add: char_class_defs)
  moreover assume "x \<in> set (show_ipv6 n)"
  ultimately show ?thesis using show_ipv4_chars [of x] by auto
next
  case (2 us vs)
  moreover assume "x \<in> set (show_ipv6 n)"
  ultimately show ?thesis using show_groups_chars [of x] by auto
next
  case 3
  moreover assume "x \<in> set (show_ipv6 n)"
  ultimately show ?thesis using show_groups_chars [of x] by auto
qed

lemma show_ipv6_colon: "CHR '':'' \<in> set (show_ipv6 n)"
proof (cases n rule: show_ipv6_cases)
  case 3
  have "length (segments n) = 8" by (simp add: segments_def)
  then obtain a b ss where "segments n = a # b # ss" by (cases "segments n"; cases "tl (segments n)") auto
  then show ?thesis using 3 by (simp add: show_groups_def)
qed simp_all

lemma show_ip_plain: "CHR '','' \<notin> set (show_ip a)" "CHR ''/'' \<notin> set (show_ip a)"
  by (cases a; auto simp: show_ip_def char_class_defs dest!: show_ipv4_chars show_ipv6_chars)+

lemma ipv6_is_not_ipv4: "parse_ipv4 (show_ipv6 n) = None"
  using show_ipv6_colon [of n] parse_ipv4_chars [of "show_ipv6 n"]
  by (cases "parse_ipv4 (show_ipv6 n)") (fastforce simp: is_ascii_digit_def)+

section \<open>The meaning of the rules\<close>

lemma split_once_None: "d \<notin> set s \<Longrightarrow> split_once d s = None"
  by (induction s) auto

lemma split_join_entries:
  "(\<And>w. w \<in> set ws \<Longrightarrow> CHR '','' \<notin> set w) \<Longrightarrow> list_ex (entry_matches ip) (split_char (CHR '','') (join_str '','' ws))
     \<longleftrightarrow> list_ex (entry_matches ip) ws"
proof (cases "ws = []")
  case True
  have "\<not> entry_matches ip []" by (simp add: entry_matches_def parse_ipv4_def)
  with True show ?thesis by simp
qed (simp add: split_comma_join)

definition valid_address :: "ip_addr \<Rightarrow> bool" where
  "valid_address a = (case a of V4 n \<Rightarrow> n < 2 ^ 32 | V6 n \<Rightarrow> n < 2 ^ 128)"

lemma entry_address: "valid_address a \<Longrightarrow> entry_matches ip (show_ip a) \<longleftrightarrow> a = V4 ip"
  using show_ip_plain(2) [of a]
  by (cases a) (auto simp: entry_matches_def split_once_None show_ip_def valid_address_def parse_show_ipv4 ipv6_is_not_ipv4)

lemma entry_cidr: "aligned_cidr b \<Longrightarrow> entry_matches ip (show_cidr b) \<longleftrightarrow> in_cidr ip b"
proof -
  assume b: "aligned_cidr b"
  have "CHR ''/'' \<notin> set (show_ipv4 (fst b))" using show_ip_plain(2) [of "V4 (fst b)"] by (simp add: show_ip_def)
  then have "split_once (CHR ''/'') (show_cidr b) = Some (show_ipv4 (fst b), dec (snd b))"
    by (simp add: show_cidr_def split_once_append)
  moreover have "parse_ipv4 (show_ipv4 (fst b)) = Some (fst b)"
  proof (rule parse_show_ipv4)
    have "fst b + 2 ^ (32 - snd b) \<le> 2 ^ 32" "(0 :: nat) < 2 ^ (32 - snd b)" using b by (simp_all add: aligned_cidr_def)
    then show "fst b < 2 ^ 32" by linarith
  qed
  moreover have "parse_unsigned 8 (dec (snd b)) = Some (snd b)" "snd b \<le> 32"
    using b parse_dec [of "snd b" 8] by (simp_all add: aligned_cidr_def)
  ultimately show ?thesis by (simp add: entry_matches_def)
qed

lemma gateway_rule_allows:
  assumes "list_all (\<lambda>a. valid_address (sa_ip a)) gateway"
  shows "rule_allows ip protocol port (gateway_rule gateway p) \<longleftrightarrow>
    protocol = Tcp \<and> port = p \<and> (\<exists>a\<in>set gateway. sa_ip a = V4 ip \<and> sa_port a = p)"
proof -
  let ?texts = "dedup (sort (map show_ip (map sa_ip (filter (\<lambda>a. sa_port a = p) gateway))))"
  have "list_ex (entry_matches ip) (split_char (CHR '','') (join_str '','' ?texts)) \<longleftrightarrow> list_ex (entry_matches ip) ?texts"
    by (rule split_join_entries) (auto simp: show_ip_plain)
  also have "\<dots> \<longleftrightarrow> (\<exists>a\<in>set gateway. sa_port a = p \<and> entry_matches ip (show_ip (sa_ip a)))"
    by (auto simp: list_ex_iff)
  also have "\<dots> \<longleftrightarrow> (\<exists>a\<in>set gateway. sa_port a = p \<and> sa_ip a = V4 ip)"
    using assms by (auto simp: list_all_iff entry_address)
  finally show ?thesis
    by (auto simp: rule_allows_def gateway_rule_def described_def allow_egress_def join_addresses_def)
qed

lemma public_entries: "list_ex (entry_matches ip) public_ipv4_cidrs \<longleftrightarrow> list_ex (in_cidr ip) public_ipv4_blocks"
  using public_blocks_aligned by (auto simp: public_ipv4_cidrs_def list_ex_iff list_all_iff entry_cidr)

lemma public_rule_allows:
  "rule_allows ip protocol port (described (allow_egress (join_str '','' public_ipv4_cidrs) None []) d) \<longleftrightarrow>
     list_ex (in_cidr ip) public_ipv4_blocks"
proof -
  have "list_ex (entry_matches ip) (split_char (CHR '','') (join_str '','' public_ipv4_cidrs))
      \<longleftrightarrow> list_ex (entry_matches ip) public_ipv4_cidrs"
    by (rule split_join_entries) (auto simp: public_ipv4_cidrs_def show_cidr_no_comma)
  then show ?thesis by (simp add: rule_allows_def described_def allow_egress_def public_entries)
qed

lemma ipv6_rule_allows: "\<not> rule_allows ip protocol port (described (allow_egress PUBLIC_IPV6 None []) d)"
  by (simp add: rule_allows_def described_def allow_egress_def PUBLIC_IPV6_def entry_matches_def parse_ipv4_def)

text \<open>Claim C33. The egress rules let an IPv4 packet through if and only if it is TCP to one of the gateway's
  addresses on that address's port, or its destination is a public address: reading the texts of the rules back as
  LXD documents them, no private, link-local or other reserved address but the gateway's can be reached.\<close>

theorem egress_policy:
  assumes "list_all (\<lambda>a. valid_address (sa_ip a)) gateway" and "ip < 2 ^ 32"
  shows "list_ex (rule_allows ip protocol port) (egress_rules gateway) \<longleftrightarrow>
    protocol = Tcp \<and> (\<exists>a\<in>set gateway. sa_ip a = V4 ip \<and> sa_port a = port)
    \<or> \<not> list_ex (in_cidr ip) NON_PUBLIC_IPV4"
proof -
  have "list_ex (rule_allows ip protocol port) (map (gateway_rule gateway) (dedup (sort (map sa_port gateway)))) \<longleftrightarrow>
      protocol = Tcp \<and> (\<exists>a\<in>set gateway. sa_ip a = V4 ip \<and> sa_port a = port)"
    by (auto simp: list_ex_iff gateway_rule_allows [OF assms(1)])
  then show ?thesis
    using assms(2) by (simp add: egress_rules_def public_rule_allows ipv6_rule_allows public_blocks_cover in_public_ranges)
qed

theorem egress_policy_witness:
  "list_ex (rule_allows (ipv4 10 0 0 5) Tcp 443) (egress_rules [\<lparr>sa_ip = V4 (ipv4 10 0 0 5), sa_port = 443, sa_scope = 0\<rparr>])
   \<and> \<not> list_ex (rule_allows (ipv4 10 0 0 5) Udp 443) (egress_rules [\<lparr>sa_ip = V4 (ipv4 10 0 0 5), sa_port = 443, sa_scope = 0\<rparr>])"
proof -
  let ?gateway = "[\<lparr>sa_ip = V4 (ipv4 10 0 0 5), sa_port = 443, sa_scope = 0\<rparr>]"
  have "list_all (\<lambda>a. valid_address (sa_ip a)) ?gateway" "ipv4 10 0 0 5 < 2 ^ 32"
    by (simp_all add: valid_address_def ipv4_def of_octets_def)
  moreover have "list_ex (in_cidr (ipv4 10 0 0 5)) NON_PUBLIC_IPV4"
    by (simp add: NON_PUBLIC_IPV4_def in_cidr_def ipv4_def of_octets_def)
  ultimately show ?thesis using egress_policy [of ?gateway "ipv4 10 0 0 5"] by simp
qed

end
