(* ===== verification/File_System.thy ===== *)
theory File_System
  imports World Paths "HOL-Library.Sublist"
begin

text \<open>
  A file system for the calls of \<open>std::fs\<close> the program makes, as POSIX describes them: directories, regular files and
  symbolic links under one root, with the resolution of paths through links, \<open>..\<close> included. It is an instance of the
  environment: \<open>file_world E init\<close> answers every call from the files as the history has left them, so that what
  the code does to real files can be stated and its tests can be run. Users and permissions are recorded and not
  enforced; nobody else writes to the files. A call that fails changes nothing.
\<close>

section \<open>Files\<close>

datatype node = Directory | Regular string | Link string | Socket

record inode =
  ino_node :: node
  ino_mode :: nat
  ino_uid :: nat
  ino_age :: "nat option"
  ino_xattrs :: "(string \<times> string) list"

text \<open>The files by the names on the way from the root; a name is one ordinary component.\<close>

type_synonym files = "(string list \<times> inode) list"

definition lookup :: "files \<Rightarrow> string list \<Rightarrow> inode option" where
  "lookup s k = map_of s k"

definition put :: "string list \<Rightarrow> inode \<Rightarrow> files \<Rightarrow> files" where
  "put k i s = (k, i) # filter (\<lambda>e. fst e \<noteq> k) s"

definition erase :: "string list \<Rightarrow> files \<Rightarrow> files" where
  "erase k s = filter (\<lambda>e. fst e \<noteq> k) s"

definition erase_tree :: "string list \<Rightarrow> files \<Rightarrow> files" where
  "erase_tree k s = filter (\<lambda>e. \<not> prefix k (fst e)) s"

definition new_inode :: "nat \<Rightarrow> node \<Rightarrow> nat \<Rightarrow> inode" where
  "new_inode uid n mode = \<lparr>ino_node = n, ino_mode = mode, ino_uid = uid, ino_age = Some 0, ino_xattrs = []\<rparr>"

definition node_at :: "files \<Rightarrow> string list \<Rightarrow> node option" where
  "node_at s k = map_option ino_node (lookup s k)"

definition is_dir :: "files \<Rightarrow> string list \<Rightarrow> bool" where
  "is_dir s k \<longleftrightarrow> node_at s k = Some Directory"

definition is_link :: "files \<Rightarrow> string list \<Rightarrow> bool" where
  "is_link s k \<longleftrightarrow> (\<exists>t. node_at s k = Some (Link t))"

text \<open>Every file is in a directory, and the root is one.\<close>

definition wf_files :: "files \<Rightarrow> bool" where
  "wf_files s \<longleftrightarrow> is_dir s [] \<and> (\<forall>k. lookup s k \<noteq> None \<longrightarrow> is_dir s (butlast k))"

section \<open>Paths\<close>

definition NOENT :: io_error where "NOENT = NotFound ''No such file or directory''"
definition NOTDIR :: io_error where "NOTDIR = IoError ''Not a directory''"
definition ISDIR :: io_error where "ISDIR = IoError ''Is a directory''"
definition EXISTS :: io_error where "EXISTS = IoError ''File exists''"
definition LOOP :: io_error where "LOOP = IoError ''Too many levels of symbolic links''"

text \<open>The names of a path, \<open>..\<close> among them; a path that is not absolute starts at the root here.\<close>

definition path_names :: "string \<Rightarrow> string list" where
  "path_names p = map component_str (filter (\<lambda>c. c \<noteq> RootDir \<and> c \<noteq> CurDir) (components p))"

text \<open>Resolution from the directory \<open>here\<close>: the place the path names, which need not exist itself. \<open>last\<close> says whether
  a link at the end is followed, \<open>n\<close> how many links may still be.\<close>

fun walk :: "nat \<Rightarrow> bool \<Rightarrow> files \<Rightarrow> string list \<Rightarrow> string list \<Rightarrow> (io_error, string list) result" where
  "walk n follow s here [] = Inr here"
| "walk n follow s here (name # rest) =
     (if node_at s here = None then Inl NOENT
      else if \<not> is_dir s here then Inl NOTDIR
      else if name = ''..'' then walk n follow s (butlast here) rest
      else case node_at s (here @ [name]) of
          Some (Link t) \<Rightarrow>
            if rest = [] \<and> \<not> follow then Inr (here @ [name])
            else (case n of 0 \<Rightarrow> Inl LOOP
                  | Suc m \<Rightarrow> walk m follow s (if starts_with t ''/'' then [] else here) (path_names t @ rest))
        | _ \<Rightarrow> walk n follow s (here @ [name]) rest)"

definition MAX_LINKS :: nat where "MAX_LINKS = 40"

definition locate :: "bool \<Rightarrow> files \<Rightarrow> string \<Rightarrow> (io_error, string list) result" where
  "locate follow s p = (if p = [] then Inl NOENT else walk MAX_LINKS follow s [] (path_names p))"

definition inode_of :: "bool \<Rightarrow> files \<Rightarrow> string \<Rightarrow> (io_error, inode) result" where
  "inode_of follow s p = result_bind (locate follow s p) (\<lambda>k. ok_or (lookup s k) NOENT)"

section \<open>Calls\<close>

text \<open>\<open>create_dir_all\<close>: each name that is missing becomes a directory; a link must lead to one.\<close>

fun make_dirs :: "nat \<Rightarrow> files \<Rightarrow> string list \<Rightarrow> string list \<Rightarrow> (io_error, files) result" where
  "make_dirs uid s here [] = Inr s"
| "make_dirs uid s here (name # rest) =
     (if name = ''..'' then make_dirs uid s (butlast here) rest
      else case node_at s (here @ [name]) of
          None \<Rightarrow> make_dirs uid (put (here @ [name]) (new_inode uid Directory 493) s) (here @ [name]) rest
        | Some Directory \<Rightarrow> make_dirs uid s (here @ [name]) rest
        | Some (Link _) \<Rightarrow> result_bind (walk MAX_LINKS True s here [name]) (\<lambda>k.
            if is_dir s k then make_dirs uid s k rest else Inl EXISTS)
        | Some _ \<Rightarrow> Inl EXISTS)"

definition create_at :: "string list \<Rightarrow> inode \<Rightarrow> files \<Rightarrow> (io_error, files) result" where
  "create_at k i s = (if lookup s k = None then Inr (put k i s) else Inl EXISTS)"

definition write_at :: "nat \<Rightarrow> string list \<Rightarrow> string \<Rightarrow> files \<Rightarrow> (io_error, files) result" where
  "write_at uid k t s = (case lookup s k of
      None \<Rightarrow> Inr (put k (new_inode uid (Regular t) 420) s)
    | Some i \<Rightarrow> if ino_node i = Directory then Inl ISDIR else Inr (put k (i\<lparr>ino_node := Regular t\<rparr>) s))"

definition content :: "inode \<Rightarrow> (io_error, string) result" where
  "content i = (case ino_node i of Regular t \<Rightarrow> Inr t | Directory \<Rightarrow> Inl ISDIR | _ \<Rightarrow> Inl (IoError ''Invalid argument''))"

definition move_tree :: "string list \<Rightarrow> string list \<Rightarrow> files \<Rightarrow> files" where
  "move_tree a b s = map (\<lambda>(k, i). (if prefix a k then b @ drop (length a) k else k, i)) (erase b s)"

text \<open>What a call that succeeds leaves behind.\<close>

fun fs_change :: "nat \<Rightarrow> files \<Rightarrow> fs_call \<Rightarrow> (io_error, files) result" where
  "fs_change uid s (Create_Dir_All p) = make_dirs uid s [] (path_names p)"
| "fs_change uid s (Remove_Dir_All p) = result_bind (locate False s p) (\<lambda>k. case node_at s k of
      None \<Rightarrow> Inl NOENT
    | Some Directory \<Rightarrow> Inr (erase_tree k s)
    | Some (Link _) \<Rightarrow> Inr (erase k s)
    | _ \<Rightarrow> Inl NOTDIR)"
| "fs_change uid s (Remove_File p) = result_bind (locate False s p) (\<lambda>k. case node_at s k of
      None \<Rightarrow> Inl NOENT | Some Directory \<Rightarrow> Inl ISDIR | _ \<Rightarrow> Inr (erase k s))"
| "fs_change uid s (Rename p q) = result_bind (locate False s p) (\<lambda>a. result_bind (locate False s q) (\<lambda>b.
      if node_at s a = None then Inl NOENT else if is_dir s b then Inl EXISTS else Inr (move_tree a b s)))"
| "fs_change uid s (Write_File p t) = result_bind (locate True s p) (\<lambda>k. write_at uid k t s)"
| "fs_change uid s (Write_New p mode t) = result_bind (locate False s p) (\<lambda>k. create_at k (new_inode uid (Regular t) mode) s)"
| "fs_change uid s (Create_New p mode) = result_bind (locate False s p) (\<lambda>k. create_at k (new_inode uid (Regular []) mode) s)"
| "fs_change uid s (Open_File p) = result_bind (inode_of True s p) (\<lambda>_. Inr s)"
| "fs_change uid s (Open_NoFollow p) = result_bind (inode_of False s p) (\<lambda>i.
      case ino_node i of Link _ \<Rightarrow> Inl LOOP | _ \<Rightarrow> Inr s)"
| "fs_change uid s (Copy_File p q) = result_bind (inode_of True s p) (\<lambda>i. result_bind (content i) (\<lambda>t.
      result_bind (locate True s q) (\<lambda>k. write_at uid k t s)))"
| "fs_change uid s (Set_Mode p mode) = result_bind (locate True s p) (\<lambda>k. case lookup s k of
      None \<Rightarrow> Inl NOENT | Some i \<Rightarrow> Inr (put k (i\<lparr>ino_mode := mode\<rparr>) s))"
| "fs_change uid s (Make_Symlink target p) = result_bind (locate False s p) (\<lambda>k.
      create_at k (new_inode uid (Link target) 511) s)"
| "fs_change uid s (Bind_Socket p) = result_bind (locate False s p) (\<lambda>k. create_at k (new_inode uid Socket 493) s)"
| "fs_change uid s (Symlink_Metadata p) = Inr s"
| "fs_change uid s (Metadata p) = Inr s"
| "fs_change uid s (Temp_Dir d name) = Inl (IoError ''Operation not supported'')"
| "fs_change uid s (Read_All p) = Inr s"
| "fs_change uid s (Read_Prefix p n) = Inr s"
| "fs_change uid s (Read_Link p) = Inr s"
| "fs_change uid s (Read_Dir p) = Inr s"
| "fs_change uid s (Get_Xattr p name) = Inr s"

definition metadata_of_inode :: "inode \<Rightarrow> file_meta" where
  "metadata_of_inode i =
     \<lparr>meta_is_symlink = (case ino_node i of Link _ \<Rightarrow> True | _ \<Rightarrow> False),
      meta_is_file = (case ino_node i of Regular _ \<Rightarrow> True | _ \<Rightarrow> False),
      meta_is_dir = (ino_node i = Directory), meta_is_socket = (ino_node i = Socket),
      meta_mode = ino_mode i, meta_uid = ino_uid i,
      meta_len = (case ino_node i of Regular t \<Rightarrow> length t | Link t \<Rightarrow> length t | _ \<Rightarrow> 0),
      meta_age_secs = ino_age i\<rparr>"

definition fs_metadata :: "files \<Rightarrow> fs_call \<Rightarrow> (io_error, file_meta) result" where
  "fs_metadata s c = (case c of
      Symlink_Metadata p \<Rightarrow> result_bind (inode_of False s p) (\<lambda>i. Inr (metadata_of_inode i))
    | Metadata p \<Rightarrow> result_bind (inode_of True s p) (\<lambda>i. Inr (metadata_of_inode i))
    | _ \<Rightarrow> Inl (IoError ''Invalid argument''))"

definition fs_content :: "files \<Rightarrow> fs_call \<Rightarrow> (io_error, string) result" where
  "fs_content s c = (case c of
      Read_All p \<Rightarrow> result_bind (inode_of True s p) content
    | Read_Prefix p n \<Rightarrow> result_bind (inode_of True s p) (\<lambda>i. result_bind (content i) (\<lambda>t. Inr (take n t)))
    | Read_Link p \<Rightarrow> result_bind (inode_of False s p) (\<lambda>i.
        case ino_node i of Link t \<Rightarrow> Inr t | _ \<Rightarrow> Inl (IoError ''Invalid argument''))
    | _ \<Rightarrow> Inl (IoError ''Invalid argument''))"

definition fs_children :: "files \<Rightarrow> fs_call \<Rightarrow> (io_error, (io_error, string) result list) result" where
  "fs_children s c = (case c of
      Read_Dir p \<Rightarrow> result_bind (locate True s p) (\<lambda>k.
        if is_dir s k then Inr (map (\<lambda>e. Inr (last (fst e))) (filter (\<lambda>e. fst e \<noteq> [] \<and> butlast (fst e) = k) s))
        else if node_at s k = None then Inl NOENT else Inl NOTDIR)
    | _ \<Rightarrow> Inl (IoError ''Invalid argument''))"

definition fs_attribute :: "files \<Rightarrow> fs_call \<Rightarrow> (io_error, string option) result" where
  "fs_attribute s c = (case c of
      Get_Xattr p name \<Rightarrow> result_bind (inode_of False s p) (\<lambda>i. Inr (map_of (ino_xattrs i) name))
    | _ \<Rightarrow> Inl (IoError ''Invalid argument''))"

section \<open>The world over the files\<close>

text \<open>The files after a history: the calls that succeeded, in order.\<close>

fun after_event :: "nat \<Rightarrow> files \<Rightarrow> event \<Rightarrow> files" where
  "after_event uid s (Fs c True) = (case fs_change uid s c of Inr s' \<Rightarrow> s' | Inl _ \<Rightarrow> s)"
| "after_event uid s e = s"

definition files_after :: "nat \<Rightarrow> files \<Rightarrow> event list \<Rightarrow> files" where
  "files_after uid s0 h = foldl (after_event uid) s0 h"

definition file_world :: "env \<Rightarrow> files \<Rightarrow> env" where
  "file_world E s0 = E\<lparr>
     env_read_file := \<lambda>h p. fs_content (files_after (env_uid E) s0 h) (Read_All p),
     env_fs_do := \<lambda>h c. result_bind (fs_change (env_uid E) (files_after (env_uid E) s0 h) c) (\<lambda>_. Inr ()),
     env_fs_stat := \<lambda>h. fs_metadata (files_after (env_uid E) s0 h),
     env_fs_text := \<lambda>h. fs_content (files_after (env_uid E) s0 h),
     env_fs_names := \<lambda>h. fs_children (files_after (env_uid E) s0 h),
     env_fs_xattr := \<lambda>h. fs_attribute (files_after (env_uid E) s0 h)\<rparr>"

section \<open>Laws\<close>

named_theorems files_simps "the files after one change"

lemma lookup_changes [files_simps]:
  "lookup (put k i s) j = (if j = k then Some i else lookup s j)"
  "lookup (erase k s) j = (if j = k then None else lookup s j)"
proof -
  have other: "map_of (filter (\<lambda>e. fst e \<noteq> k) s) j = (if j = k then None else map_of s j)" for s :: files
    by (induction s) auto
  show "lookup (put k i s) j = (if j = k then Some i else lookup s j)"
    "lookup (erase k s) j = (if j = k then None else lookup s j)"
    by (simp_all add: lookup_def put_def erase_def other)
qed

lemma node_at_changes [files_simps]:
  "node_at (put k i s) j = (if j = k then Some (ino_node i) else node_at s j)"
  "node_at (erase k s) j = (if j = k then None else node_at s j)"
  by (simp_all add: node_at_def lookup_changes)

lemma node_at_None: "node_at s k = None \<longleftrightarrow> lookup s k = None"
  by (simp add: node_at_def)

lemma wf_parent: "wf_files s \<Longrightarrow> node_at s k \<noteq> None \<Longrightarrow> is_dir s (butlast k)"
  by (simp add: wf_files_def node_at_None)

lemma wf_prefix:
  assumes "wf_files s" and "node_at s k \<noteq> None" and "n < length k"
  shows "is_dir s (take n k)"
  using assms(2,3)
proof (induction k rule: rev_induct)
  case (snoc x k)
  then have "is_dir s k" using wf_parent [OF assms(1)] by fastforce
  with snoc show ?case by (cases "n = length k") (auto simp: is_dir_def)
qed simp

lemma wf_put:
  assumes "wf_files s" and "node_at s k = None" and "is_dir s (butlast k)"
  shows "wf_files (put k i s)"
  unfolding wf_files_def
proof (intro conjI allI impI)
  have "k \<noteq> []" using assms by (auto simp: wf_files_def is_dir_def)
  then show "is_dir (put k i s) []" using assms(1) by (auto simp: wf_files_def is_dir_def files_simps)
  fix j assume "lookup (put k i s) j \<noteq> None"
  then have "is_dir s (butlast j)" using assms wf_parent [OF assms(1), of j] by (auto simp: files_simps node_at_None split: if_splits)
  then show "is_dir (put k i s) (butlast j)" using assms(2) by (auto simp: is_dir_def files_simps)
qed

lemma wf_erase:
  assumes "wf_files s" and "\<not> is_dir s k"
  shows "wf_files (erase k s)"
proof -
  have "is_dir (erase k s) j \<longleftrightarrow> is_dir s j" for j using assms(2) by (auto simp: is_dir_def files_simps)
  then show ?thesis using assms(1) by (auto simp: wf_files_def files_simps split: if_splits)
qed

text \<open>A path without links leads where it says.\<close>

lemma normal_name_dotdot: "normal_name n \<Longrightarrow> n \<noteq> ''..''"
  by (simp add: normal_name_def)

lemma walk_step:
  "name \<noteq> ''..'' \<Longrightarrow> \<not> is_link s (here @ [name]) \<or> rest = [] \<and> \<not> follow \<Longrightarrow>
     walk n follow s here (name # rest) =
       (if node_at s here = None then Inl NOENT else if \<not> is_dir s here then Inl NOTDIR
        else walk n follow s (here @ [name]) rest)"
  by (auto simp: is_link_def split: option.split node.split)

lemma walk_plain:
  assumes "list_all normal_name ks" and "\<forall>m<length ks. \<not> is_link s (here @ take m ks)"
    and "follow \<longrightarrow> \<not> is_link s (here @ ks)" and "walk n follow s here ks = Inr k"
  shows "k = here @ ks \<and> (ks \<noteq> [] \<longrightarrow> is_dir s (here @ butlast ks))"
  using assms
proof (induction ks arbitrary: here)
  case (Cons name rest)
  have rest: "\<forall>m<length rest. \<not> is_link s ((here @ [name]) @ take m rest)"
  proof (intro allI impI)
    fix m assume "m < length rest"
    then show "\<not> is_link s ((here @ [name]) @ take m rest)" using spec [OF Cons.prems(2), of "Suc m"] by simp
  qed
  have "\<not> is_link s (here @ [name]) \<or> rest = [] \<and> \<not> follow"
    using Cons.prems(3) spec [OF rest, of 0] by (cases rest) auto
  note step = walk_step [OF _ this, of n]
  have name: "name \<noteq> ''..''" using Cons.prems(1) by (simp add: normal_name_dotdot)
  have "is_dir s here" "walk n follow s (here @ [name]) rest = Inr k"
    using Cons.prems(4) unfolding step [OF name] by (auto split: if_splits)
  moreover have "follow \<longrightarrow> \<not> is_link s ((here @ [name]) @ rest)" using Cons.prems(3) by simp
  ultimately show ?case using Cons.IH [OF _ rest] Cons.prems(1) by (cases rest) auto
qed simp

lemma walk_dirs:
  assumes "list_all normal_name ks" and "\<forall>m<length ks. is_dir s (here @ take m ks)" and "follow \<longrightarrow> \<not> is_link s (here @ ks)"
  shows "walk n follow s here ks = Inr (here @ ks)"
  using assms
proof (induction ks arbitrary: here)
  case (Cons name rest)
  have here: "is_dir s here" using spec [OF Cons.prems(2), of 0] by simp
  have rest: "\<forall>m<length rest. is_dir s ((here @ [name]) @ take m rest)"
  proof (intro allI impI)
    fix m assume "m < length rest"
    then show "is_dir s ((here @ [name]) @ take m rest)" using spec [OF Cons.prems(2), of "Suc m"] by simp
  qed
  have "\<not> is_link s (here @ [name]) \<or> rest = [] \<and> \<not> follow"
    using Cons.prems(3) spec [OF rest, of 0] by (cases rest) (auto simp: is_dir_def is_link_def)
  note step = walk_step [OF _ this, of n]
  have name: "name \<noteq> ''..''" using Cons.prems(1) by (simp add: normal_name_dotdot)
  show ?case
    unfolding step [OF name] using here Cons.IH [OF _ rest] Cons.prems(1,3) by (simp add: is_dir_def)
qed simp

lemma make_dirs_plain:
  assumes "wf_files s" and "is_dir s here" and "list_all normal_name ks" and "\<forall>m\<le>length ks. \<not> is_link s (here @ take m ks)"
    and "make_dirs uid s here ks = Inr s'"
  shows "wf_files s' \<and> is_dir s' (here @ ks) \<and> (\<forall>k. node_at s k \<noteq> None \<longrightarrow> lookup s' k = lookup s k)
    \<and> (\<forall>k. lookup s' k \<noteq> lookup s k \<longrightarrow> (\<exists>m. k = here @ take m ks) \<and> node_at s' k = Some Directory)"
  using assms
proof (induction ks arbitrary: s here)
  case (Cons name rest)
  let ?k = "here @ [name]"
  have links: "\<forall>m\<le>length rest. \<not> is_link s (?k @ take m rest)"
  proof (intro allI impI)
    fix m assume "m \<le> length rest"
    then show "\<not> is_link s (?k @ take m rest)" using spec [OF Cons.prems(4), of "Suc m"] by simp
  qed
  then have nolink: "\<not> is_link s ?k" by (metis append_Nil2 le0 take_0)
  have names: "name \<noteq> ''..''" "list_all normal_name rest" using Cons.prems(3) by (auto simp: normal_name_dotdot)
  have within: "(\<exists>m. k = ?k @ take m rest) \<Longrightarrow> \<exists>m. k = here @ take m (name # rest)" for k
    by (metis append.assoc append_Cons append_Nil take_Suc_Cons)
  show ?case
  proof (cases "node_at s ?k")
    case None
    let ?s = "put ?k (new_inode uid Directory 493) s"
    have "wf_files ?s" "is_dir ?s ?k" using Cons.prems(1,2) None by (auto simp: is_dir_def files_simps new_inode_def intro: wf_put)
    moreover have "\<forall>m\<le>length rest. \<not> is_link ?s (?k @ take m rest)"
      using links by (auto simp: is_link_def files_simps new_inode_def)
    moreover have "make_dirs uid ?s ?k rest = Inr s'" using Cons.prems(5) None names by simp
    ultimately have IH: "wf_files s' \<and> is_dir s' (?k @ rest) \<and> (\<forall>k. node_at ?s k \<noteq> None \<longrightarrow> lookup s' k = lookup ?s k)
        \<and> (\<forall>k. lookup s' k \<noteq> lookup ?s k \<longrightarrow> (\<exists>m. k = ?k @ take m rest) \<and> node_at s' k = Some Directory)"
      using Cons.IH names(2) by blast
    have same: "node_at s k \<noteq> None \<longrightarrow> lookup s' k = lookup s k" for k
      using IH None by (auto simp: files_simps split: if_splits)
    have "lookup s' ?k = Some (new_inode uid Directory 493)" using IH by (simp add: files_simps)
    then have new: "node_at s' ?k = Some Directory" by (simp add: node_at_def new_inode_def)
    have "(\<exists>m. k = here @ take m (name # rest)) \<and> node_at s' k = Some Directory" if "lookup s' k \<noteq> lookup s k" for k
    proof (cases "k = ?k")
      case True
      then show ?thesis using new by (auto intro: exI [of _ "Suc 0"])
    next
      case False
      then show ?thesis using IH that within by (auto simp: files_simps)
    qed
    then show ?thesis using IH same by simp
  next
    case (Some n)
    then have n: "n = Directory" and run: "make_dirs uid s ?k rest = Inr s'"
      using Cons.prems(5) names nolink by (auto simp: is_link_def split: node.splits)
    have "is_dir s ?k" using Some n by (simp add: is_dir_def)
    from Cons.IH [OF Cons.prems(1) this names(2) links run] show ?thesis using within by auto
  qed
qed simp

end
