(* ===== verification/Rootfs_Files.thy ===== *)
theory Rootfs_Files
  imports Rootfs File_System
begin

text \<open>
  What installing the init does to real files. An image is untrusted: its links may point anywhere. In the file system of
  \<open>File_System\<close> every path of a call is resolved through links, so the confinement shown here is of the files that change, not of
  the texts of the paths.
\<close>

section \<open>Judgements about files\<close>

definition on_files :: "env \<Rightarrow> files \<Rightarrow> (files \<Rightarrow> bool) \<Rightarrow> 'a action \<Rightarrow> ('a \<Rightarrow> files \<Rightarrow> bool) \<Rightarrow> bool" where
  "on_files E s0 I m J \<longleftrightarrow>
     run (\<lambda>h. I (files_after (env_uid E) s0 h)) (\<lambda>_ _. True) m (\<lambda>a h. J a (files_after (env_uid E) s0 h))"

named_theorems files_rules "rules of the judgement on files"

lemma files_after_snoc: "files_after uid s0 (h @ [e]) = after_event uid (files_after uid s0 h) e"
  by (simp add: files_after_def)

lemma on_files_do [files_rules]:
  assumes "\<And>s. I s \<Longrightarrow> (case fs_change (env_uid E) s c of Inr s' \<Rightarrow> J (Inr ()) s' | Inl e \<Rightarrow> J (Inl e) s)"
  shows "on_files E s0 I (fs_do (file_world E s0) c) J"
  unfolding on_files_def fs_do_def
proof (rule run_perform)
  fix h assume "I (files_after (env_uid E) s0 h)"
  from assms [OF this] show "True \<and> J (env_fs_do (file_world E s0) h c)
      (files_after (env_uid E) s0 (h @ [Fs c (succeeded (env_fs_do (file_world E s0) h c))]))"
    by (cases "fs_change (env_uid E) (files_after (env_uid E) s0 h) c") (auto simp: file_world_def files_after_snoc succeeded_def)
qed

lemma reads_change_nothing:
  "succeeded (fs_metadata s c) \<Longrightarrow> fs_change uid s c = Inr s" "succeeded (fs_content s c) \<Longrightarrow> fs_change uid s c = Inr s"
  by (cases c; simp add: fs_metadata_def fs_content_def succeeded_def)+

lemma on_files_stat [files_rules]:
  assumes "\<And>s. I s \<Longrightarrow> J (fs_metadata s c) s"
  shows "on_files E s0 I (fs_stat (file_world E s0) c) J"
  unfolding on_files_def fs_stat_def
proof (rule run_perform)
  fix h assume "I (files_after (env_uid E) s0 h)"
  from assms [OF this] show "True \<and> J (env_fs_stat (file_world E s0) h c)
      (files_after (env_uid E) s0 (h @ [Fs c (succeeded (env_fs_stat (file_world E s0) h c))]))"
    by (cases "succeeded (fs_metadata (files_after (env_uid E) s0 h) c)")
      (auto simp: file_world_def files_after_snoc reads_change_nothing)
qed

lemma on_files_text [files_rules]:
  assumes "\<And>s. I s \<Longrightarrow> J (fs_content s c) s"
  shows "on_files E s0 I (fs_text (file_world E s0) c) J"
  unfolding on_files_def fs_text_def
proof (rule run_perform)
  fix h assume "I (files_after (env_uid E) s0 h)"
  from assms [OF this] show "True \<and> J (env_fs_text (file_world E s0) h c)
      (files_after (env_uid E) s0 (h @ [Fs c (succeeded (env_fs_text (file_world E s0) h c))]))"
    by (cases "succeeded (fs_content (files_after (env_uid E) s0 h) c)")
      (auto simp: file_world_def files_after_snoc reads_change_nothing)
qed

lemma on_files_ok [files_rules]: "(\<And>s. I s \<Longrightarrow> J (Inr a) s) \<Longrightarrow> on_files E s0 I (ok a) J"
  unfolding on_files_def by (rule run_ok) simp

lemma on_files_err [files_rules]: "(\<And>s. I s \<Longrightarrow> J (Inl e) s) \<Longrightarrow> on_files E s0 I (err e) J"
  unfolding on_files_def by (rule run_err) simp

lemma on_files_await:
  "on_files E s0 I m R \<Longrightarrow> (\<And>a. on_files E s0 (R a) (f a) J) \<Longrightarrow> on_files E s0 I (await m f) J"
  unfolding on_files_def by (rule run_await)

lemma on_files_await_ok:
  "on_files E s0 I m R \<Longrightarrow> (\<And>a. on_files E s0 (R (Inr a)) (f a) J) \<Longrightarrow> (\<And>e s. R (Inl e) s \<Longrightarrow> J (Inl e) s)
   \<Longrightarrow> on_files E s0 I (await_ok m f) J"
  unfolding on_files_def by (rule run_await_ok)

lemma on_files_await_map:
  "on_files E s0 I m R \<Longrightarrow> (\<And>a. on_files E s0 (R (Inr a)) (f a) J) \<Longrightarrow> (\<And>e s. R (Inl e) s \<Longrightarrow> J (Inl (c e)) s)
   \<Longrightarrow> on_files E s0 I (await_map c m f) J"
  unfolding on_files_def by (rule run_await_map)

lemma on_files_point: "(\<And>t. I t \<Longrightarrow> on_files E s0 (\<lambda>s. s = t) m J) \<Longrightarrow> on_files E s0 I m J"
  unfolding on_files_def run_def by blast

lemma on_files_pre: "on_files E s0 I m J \<Longrightarrow> (\<And>s. I' s \<Longrightarrow> I s) \<Longrightarrow> on_files E s0 I' m J"
  unfolding on_files_def run_def by blast

lemma on_files_False: "(\<And>s. \<not> I s) \<Longrightarrow> on_files E s0 I m J"
  unfolding on_files_def by (rule run_False) simp

lemma on_files_conj: "(p \<Longrightarrow> on_files E s0 I m J) \<Longrightarrow> on_files E s0 (\<lambda>s. p \<and> I s) m J"
  unfolding on_files_def run_def by blast

section \<open>Below a real directory\<close>

text \<open>\<open>rootfs\<close> names the directory \<open>base\<close> without passing through a link.\<close>

definition rootfs_at :: "string \<Rightarrow> string list \<Rightarrow> bool" where
  "rootfs_at rootfs base \<longleftrightarrow>
     rootfs \<noteq> [] \<and> \<not> ends_with rootfs ''/'' \<and> path_names rootfs = base \<and> list_all normal_name base"

definition plain :: "files \<Rightarrow> string list \<Rightarrow> string list \<Rightarrow> bool" where
  "plain s base names \<longleftrightarrow> (\<forall>m\<le>length names. \<not> is_link s (base @ take m names))"

definition contained :: "files \<Rightarrow> string list \<Rightarrow> files \<Rightarrow> bool" where
  "contained s0 base s \<longleftrightarrow> wf_files s \<and> is_dir s base \<and> (\<forall>k. \<not> prefix base k \<longrightarrow> lookup s k = lookup s0 k)"

lemma split_char_join: "split_char d (a @ d # b) = split_char d a @ split_char d b"
proof (induction a)
  case (Cons c a)
  then show ?case using split_char_not_Nil [of d a] by (cases "split_char d a") auto
qed simp

lemma path_names_eq: "path_names p = filter (\<lambda>x. x \<noteq> [] \<and> x \<noteq> ''.'') (split_char (CHR ''/'') p)"
proof -
  have str: "component_str (component_of x) = x" for x by (simp add: component_of_def component_str_def)
  have kind: "component_of x \<noteq> RootDir" "component_of x = CurDir \<longleftrightarrow> x = ''.''" for x by (simp_all add: component_of_def)
  have "map component_str (filter (\<lambda>c. c \<noteq> RootDir \<and> c \<noteq> CurDir) (map component_of xs)) = filter (\<lambda>x. x \<noteq> ''.'') xs" for xs
    by (induction xs) (simp_all add: str kind)
  then show ?thesis by (simp add: path_names_def components_def Let_def conj_commute)
qed

lemma path_names_normal: "normal_name n \<Longrightarrow> path_names (b @ ''/'' @ n) = path_names b @ [n]"
  by (simp add: path_names_eq split_char_join split_char_no_sep normal_name_def)

lemma path_names_join:
  assumes "rootfs_at rootfs base" and "list_all normal_name names"
  shows "path_names (foldl path_join rootfs names) = base @ names"
  using assms(2)
proof (induction names rule: rev_induct)
  case Nil
  then show ?case using assms(1) by (simp add: rootfs_at_def)
next
  case (snoc n names)
  let ?b = "foldl path_join rootfs names"
  have b: "?b \<noteq> []" "\<not> ends_with ?b ''/''"
    using foldl_path_join [of names rootfs] assms(1) snoc.prems by (cases "names = []"; simp add: rootfs_at_def)+
  then have "foldl path_join rootfs (names @ [n]) = ?b @ ''/'' @ n" using snoc.prems by (simp add: path_join_name)
  then show ?case using path_names_normal [of n ?b] snoc by simp
qed

lemma joined_not_Nil:
  assumes "rootfs_at rootfs base" and "list_all normal_name names"
  shows "foldl path_join rootfs names \<noteq> []"
  using foldl_path_join [OF assms(2), of rootfs] assms(1) by (metis foldl_Nil rootfs_at_def)

lemma plain_all:
  assumes "wf_files s" and "is_dir s base" and "plain s base names" and "m \<le> length (base @ names)"
  shows "\<not> is_link s (take m (base @ names))"
proof -
  consider "m < length base" | "m = length base" | "length base < m" by linarith
  then show ?thesis
  proof cases
    case 1
    then show ?thesis using wf_prefix [OF assms(1), of base m] assms(2) by (auto simp: is_dir_def is_link_def)
  next
    case 2
    then show ?thesis using assms(2) by (simp add: is_dir_def is_link_def)
  next
    case 3
    then show ?thesis using assms(3,4) by (simp add: plain_def)
  qed
qed

lemma dir_plain:
  assumes "wf_files s" and "is_dir s (base @ names)"
  shows "plain s base names"
  unfolding plain_def
proof (intro allI impI)
  fix m assume m: "m \<le> length names"
  have "is_dir s (take (length base + m) (base @ names))"
    using assms wf_prefix [OF assms(1), of "base @ names" "length base + m"] m
    by (cases "m = length names") (auto simp: is_dir_def)
  then show "\<not> is_link s (base @ take m names)" by (auto simp: is_dir_def is_link_def)
qed

text \<open>A file in a directory that is reached without links: where it is found, and that a link there is seen.\<close>

lemma located:
  assumes "rootfs_at rootfs base" and "wf_files s" and "is_dir s base" and "plain s base names"
    and "list_all normal_name names" and "normal_name n"
    and "locate False s (foldl path_join rootfs (names @ [n])) = Inr k"
  shows "k = base @ names @ [n] \<and> is_dir s (base @ names)"
proof -
  let ?ks = "base @ names @ [n]"
  have "list_all normal_name ?ks" using assms by (auto simp: rootfs_at_def)
  moreover have "\<forall>m<length ?ks. \<not> is_link s ([] @ take m ?ks)"
  proof (intro allI impI)
    fix m assume "m < length ?ks"
    then show "\<not> is_link s ([] @ take m ?ks)" using plain_all [OF assms(2-4), of m] by simp
  qed
  moreover have "walk MAX_LINKS False s [] ?ks = Inr k"
    using assms(7) path_names_join [OF assms(1), of "names @ [n]"] assms(5,6)
    by (simp add: locate_def split: if_splits)
  ultimately show ?thesis using walk_plain [of ?ks s "[]" False MAX_LINKS k] by (simp add: butlast_append)
qed

lemma link_is_seen:
  assumes "rootfs_at rootfs base" and "wf_files s" and "list_all normal_name names" and "normal_name n"
    and "is_link s (base @ names @ [n])"
  shows "\<exists>m. fs_metadata s (Symlink_Metadata (foldl path_join rootfs (names @ [n]))) = Inr m \<and> meta_is_symlink m"
proof -
  let ?ks = "base @ names @ [n]"
  obtain t i where t: "lookup s ?ks = Some i" "ino_node i = Link t" using assms(5) by (auto simp: is_link_def node_at_def)
  have "\<forall>m<length ?ks. is_dir s ([] @ take m ?ks)"
    using wf_prefix [OF assms(2), of ?ks] t(1) by (auto simp: node_at_def)
  moreover have "list_all normal_name ?ks" using assms by (auto simp: rootfs_at_def)
  ultimately have "walk MAX_LINKS False s [] ?ks = Inr ?ks" using walk_dirs [of ?ks s "[]" False] by simp
  then show ?thesis
    using t path_names_join [OF assms(1), of "names @ [n]"] joined_not_Nil [OF assms(1), of "names @ [n]"] assms(3,4)
    by (simp add: fs_metadata_def inode_of_def locate_def metadata_of_inode_def ok_or_def)
qed

section \<open>Resolving in the rootfs\<close>

lemma plain_snoc: "plain s base names \<Longrightarrow> \<not> is_link s (base @ names @ [n]) \<Longrightarrow> plain s base (names @ [n])"
  by (auto simp: plain_def le_Suc_eq take_append)

lemma plain_butlast: "plain s base names \<Longrightarrow> plain s base (butlast names)"
  by (auto simp: plain_def take_butlast butlast_conv_take min_def)

lemma resolve_loop_plain:
  assumes "wf_files t" and "is_dir t base"
  shows "W = file_world E s0 \<Longrightarrow> rootfs_at rootfs base \<Longrightarrow> list_all normal_name resolved \<Longrightarrow> plain t base resolved \<Longrightarrow>
    on_files E s0 (\<lambda>s. s = t) (resolve_loop W rootfs g pending resolved hops)
      (\<lambda>r s. s = t \<and> (case r of Inr names \<Rightarrow> list_all normal_name names \<and> plain t base names | Inl _ \<Rightarrow> True))"
    (is "_ \<Longrightarrow> _ \<Longrightarrow> _ \<Longrightarrow> _ \<Longrightarrow> on_files E s0 ?I _ ?J")
proof (induction W rootfs g pending resolved hops rule: resolve_loop.induct)
  case (1 W rootfs g resolved hops)
  then show ?case by (auto intro: on_files_ok)
next
  case (2 W rootfs g part pending resolved hops)
  note W = "2.prems"(1) and root = "2.prems"(2)
  show ?case
  proof (cases "components part")
    case Nil
    with 2 show ?thesis by simp
  next
    case (Cons c cs)
    show ?thesis
    proof (cases c)
      case (Normal name)
      have n: "normal_name name" using components_normal [of name part] Cons Normal by simp
      let ?candidate = "path_join (resolved_path rootfs resolved) name"
      have candidate: "?candidate = foldl path_join rootfs (resolved @ [name])"
        using resolved_join [OF "2.prems"(3) n] by simp
      show ?thesis
        unfolding resolve_loop.simps Cons Normal list.case component.case Let_def
      proof (rule on_files_await [where R = "\<lambda>r s. r = fs_metadata t (Symlink_Metadata ?candidate) \<and> s = t"])
        show "on_files E s0 ?I (fs_stat W (Symlink_Metadata ?candidate)) (\<lambda>r s. r = fs_metadata t (Symlink_Metadata ?candidate) \<and> s = t)"
          unfolding W by (rule on_files_stat) simp
        fix r :: "(io_error, file_meta) result"
        let ?link = "case r of Inr metadata \<Rightarrow> meta_is_symlink metadata | Inl _ \<Rightarrow> False"
        have IH1: "on_files E s0 ?I (resolve_loop W rootfs g pending (resolved @ [name]) hops) ?J"
          if "\<not> ?link" "plain t base (resolved @ [name])"
          using "2.IH"(5) [OF Cons Normal refl refl] "2.prems" n that by simp
        have IH2: "on_files E s0 ?I (resolve_loop W rootfs g (map component_str (components target) @ pending)
            (if starts_with target ''/'' then [] else resolved) (hops + 1)) ?J"
          if "?link" "\<not> MAX_SYMLINK_HOPS < hops + 1" for target
          using "2.IH"(6) [OF Cons Normal refl refl] "2.prems" that assms(2) by (simp add: plain_def is_dir_def is_link_def)
        have new: "plain t base (resolved @ [name])" if "\<not> ?link" "r = fs_metadata t (Symlink_Metadata ?candidate)"
          using link_is_seen [OF root assms(1) "2.prems"(3) n] plain_snoc [OF "2.prems"(4), of name] that
          unfolding candidate by fastforce
        show "on_files E s0 ((\<lambda>r s. r = fs_metadata t (Symlink_Metadata ?candidate) \<and> s = t) r)
          (if \<not> ?link then resolve_loop W rootfs g pending (resolved @ [name]) hops
           else if MAX_SYMLINK_HOPS < hops + 1 then err (too_many_symlinks g)
           else await_map (\<lambda>e. ImageImport (''failed to read symlink '' @ ?candidate @ '': '' @ ext_show_io W e))
             (fs_text W (Read_Link ?candidate)) (\<lambda>target.
             resolve_loop W rootfs g (map component_str (components target) @ pending)
               (if starts_with target ''/'' then [] else resolved) (hops + 1))) ?J"
        proof (rule on_files_conj)
          assume r: "r = fs_metadata t (Symlink_Metadata ?candidate)"
          have "on_files E s0 ?I (fs_text W (Read_Link ?candidate)) (\<lambda>_. ?I)" unfolding W by (rule on_files_text)
          then have "on_files E s0 ?I (await_map (\<lambda>e. ImageImport (''failed to read symlink '' @ ?candidate @ '': '' @ ext_show_io W e))
             (fs_text W (Read_Link ?candidate)) (\<lambda>target.
             resolve_loop W rootfs g (map component_str (components target) @ pending)
               (if starts_with target ''/'' then [] else resolved) (hops + 1))) ?J"
            if "?link" "\<not> MAX_SYMLINK_HOPS < hops + 1"
            by (rule on_files_await_map) (use IH2 [OF that] in simp_all)
          then show "on_files E s0 ?I (if \<not> ?link then resolve_loop W rootfs g pending (resolved @ [name]) hops
             else if MAX_SYMLINK_HOPS < hops + 1 then err (too_many_symlinks g)
             else await_map (\<lambda>e. ImageImport (''failed to read symlink '' @ ?candidate @ '': '' @ ext_show_io W e))
               (fs_text W (Read_Link ?candidate)) (\<lambda>target.
               resolve_loop W rootfs g (map component_str (components target) @ pending)
                 (if starts_with target ''/'' then [] else resolved) (hops + 1))) ?J"
            using IH1 new [OF _ r] by (auto intro: on_files_err)
        qed
      qed
    next
      case ParentDir
      with 2 Cons show ?thesis by (simp add: list_all_butlast plain_butlast)
    qed (use 2 Cons in simp_all)
  qed
qed

section \<open>Installing the init\<close>

text \<open>What stays true of the files.\<close>

lemma contained_put:
  assumes "contained s0 base s" and "node_at s (base @ x) = None" and "is_dir s (butlast (base @ x))"
  shows "contained s0 base (put (base @ x) i s)"
  using assms wf_put [OF _ assms(2,3)] unfolding contained_def by (auto simp: files_simps is_dir_def)

lemma contained_erase:
  assumes "contained s0 base s" and "\<not> is_dir s (base @ x)"
  shows "contained s0 base (erase (base @ x) s)"
  using assms wf_erase [OF _ assms(2)] unfolding contained_def by (auto simp: files_simps is_dir_def)

lemma contained_dirs:
  assumes "rootfs_at rootfs base" and "contained s0 base s" and "list_all normal_name names" and "plain s base names"
    and "make_dirs uid s [] (base @ names) = Inr s'"
  shows "contained s0 base s' \<and> is_dir s' (base @ names) \<and> (\<forall>k. node_at s k \<noteq> None \<longrightarrow> lookup s' k = lookup s k)"
proof -
  have s: "wf_files s" "is_dir s base" using assms(2) by (simp_all add: contained_def)
  have "list_all normal_name (base @ names)" using assms(1,3) by (simp add: rootfs_at_def)
  moreover have "is_dir s []" using s(1) by (simp add: wf_files_def)
  moreover have "\<forall>m\<le>length (base @ names). \<not> is_link s ([] @ take m (base @ names))"
    using plain_all [OF s assms(4)] by simp
  ultimately have made: "wf_files s' \<and> is_dir s' (base @ names) \<and> (\<forall>k. node_at s k \<noteq> None \<longrightarrow> lookup s' k = lookup s k)
      \<and> (\<forall>k. lookup s' k \<noteq> lookup s k \<longrightarrow> (\<exists>m. k = [] @ take m (base @ names)) \<and> node_at s' k = Some Directory)"
    using make_dirs_plain [OF s(1), of "[]" "base @ names" uid s'] assms(5) by simp
  have "lookup s' k = lookup s k" if k: "\<not> prefix base k" for k
  proof (rule ccontr)
    assume "lookup s' k \<noteq> lookup s k"
    then obtain m where m: "k = take m (base @ names)" and none: "node_at s k = None" using made by force
    have "m < length base" using k m by (metis append_take_drop_id not_less prefixI take_all_iff take_append)
    then have "is_dir s k" using wf_prefix [OF s(1), of base m] s(2) m by (simp add: is_dir_def)
    with none show False by (simp add: is_dir_def)
  qed
  moreover have "is_dir s' base" using made s(2) by (metis is_dir_def node_at_def option.distinct(1) option.simps(9))
  ultimately show ?thesis using made assms(2) by (simp add: contained_def)
qed

lemma change_here:
  assumes "rootfs_at rootfs base" and "contained s0 base s" and "plain s base names"
    and "list_all normal_name names" and "normal_name n"
  shows "locate False s (foldl path_join rootfs (names @ [n])) = Inr k \<Longrightarrow> k = base @ names @ [n] \<and> is_dir s (base @ names)"
  using located [OF assms(1) _ _ assms(3-5)] assms(2) by (simp add: contained_def)

text \<open>The script.\<close>

definition SCRIPT_NAME :: string where
  "SCRIPT_NAME = ''openshell-init.sh''"

definition script_at :: "env \<Rightarrow> string list \<Rightarrow> files \<Rightarrow> bool" where
  "script_at E base s \<longleftrightarrow> node_at s (base @ [SCRIPT_NAME]) = Some (Regular (asset_init_script E))"

lemma script_path:
  "path_join rootfs (trim_start_matches (CHR ''/'') GUEST_INIT_SCRIPT_PATH) = foldl path_join rootfs ([] @ [SCRIPT_NAME])"
  by (simp add: trim_start_matches_def GUEST_INIT_SCRIPT_PATH_def SCRIPT_NAME_def)

definition only_at :: "string list \<Rightarrow> files \<Rightarrow> files \<Rightarrow> bool" where
  "only_at key t s \<longleftrightarrow> (\<forall>k. k \<noteq> key \<longrightarrow> lookup s k = lookup t k)"

lemma only_at_simps [simp]: "only_at key t t" "only_at key t (put key i t)" "only_at key t (erase key t)"
  by (simp_all add: only_at_def files_simps)

lemma only_at_trans: "only_at key t s \<Longrightarrow> only_at key s s' \<Longrightarrow> only_at key t s'"
  by (simp add: only_at_def)

lemma only_at_dir: "only_at key t s \<Longrightarrow> k \<noteq> key \<Longrightarrow> node_at s k = node_at t k"
  by (simp add: only_at_def node_at_def)

lemma remove_here:
  assumes "rootfs_at rootfs base" and "contained s0 base t" and "plain t base names"
    and "list_all normal_name names" and "normal_name n"
  shows "on_files E s0 (\<lambda>s. s = t) (fs_do (file_world E s0) (Remove_File (foldl path_join rootfs (names @ [n]))))
    (\<lambda>_ s. contained s0 base s \<and> only_at (base @ names @ [n]) t s)"
proof (rule on_files_do)
  fix s assume s: "s = t"
  let ?p = "foldl path_join rootfs (names @ [n])" and ?key = "base @ names @ [n]"
  show "case fs_change (env_uid E) s (Remove_File ?p) of
      Inl e \<Rightarrow> contained s0 base s \<and> only_at ?key t s | Inr s' \<Rightarrow> contained s0 base s' \<and> only_at ?key t s'"
  proof (cases "locate False t ?p")
    case (Inr k)
    have k: "k = ?key" using change_here [OF assms(1-5) Inr] by simp
    have "contained s0 base (erase ?key t)" if "node_at t ?key \<noteq> Some Directory"
      using contained_erase [OF assms(2), of "names @ [n]"] that by (simp add: is_dir_def)
    then show ?thesis using s Inr k assms(2) by (auto split: option.split node.split)
  qed (use s assms(2) in simp)
qed

lemma create_here:
  assumes "rootfs_at rootfs base" and "contained s0 base t" and "plain t base names"
    and "list_all normal_name names" and "normal_name n"
    and "\<And>s. fs_change (env_uid E) s c = result_bind (locate False s (foldl path_join rootfs (names @ [n]))) (\<lambda>k. create_at k i s)"
  shows "on_files E s0 (\<lambda>s. s = t) (fs_do (file_world E s0) c)
    (\<lambda>r s. contained s0 base s \<and> only_at (base @ names @ [n]) t s
       \<and> (r = Inr () \<longrightarrow> node_at s (base @ names @ [n]) = Some (ino_node i)))"
proof (rule on_files_do)
  fix s assume s: "s = t"
  let ?p = "foldl path_join rootfs (names @ [n])" and ?key = "base @ names @ [n]"
  have "contained s0 base (put ?key i t)" if "locate False t ?p = Inr k" "lookup t ?key = None" for k
    using contained_put [OF assms(2), of "names @ [n]" i] change_here [OF assms(1-5) that(1)] that(2)
    by (simp add: node_at_None butlast_append)
  then show "case fs_change (env_uid E) s c of
      Inl e \<Rightarrow> contained s0 base s \<and> only_at ?key t s \<and> (Inl e = Inr () \<longrightarrow> node_at s ?key = Some (ino_node i))
    | Inr s' \<Rightarrow> contained s0 base s' \<and> only_at ?key t s' \<and> (Inr () = Inr () \<longrightarrow> node_at s' ?key = Some (ino_node i))"
    using s assms(2) change_here [OF assms(1-5)] unfolding assms(6)
    by (cases "locate False t ?p") (auto simp: create_at_def files_simps)
qed

text \<open>What both steps do first: a file in the way is removed.\<close>

lemma clear_way:
  assumes "rootfs_at rootfs base" and "contained s0 base t" and "plain t base names"
    and "list_all normal_name names" and "normal_name n"
  shows "on_files E s0 (\<lambda>s. s = t)
    (await (fs_stat (file_world E s0) (Symlink_Metadata (foldl path_join rootfs (names @ [n])))) (\<lambda>r. case r of
        Inr metadata \<Rightarrow>
          if meta_is_dir metadata then err e1
          else await_map c (fs_do (file_world E s0) (Remove_File (foldl path_join rootfs (names @ [n])))) (\<lambda>_. ok ())
      | Inl (NotFound _) \<Rightarrow> ok ()
      | Inl (IoError m) \<Rightarrow> err (f m)))
    (\<lambda>_ s. contained s0 base s \<and> only_at (base @ names @ [n]) t s)"
    (is "on_files E s0 ?I _ ?J")
proof (rule on_files_await [where R = "\<lambda>_. ?I"])
  fix r :: "(io_error, file_meta) result"
  have "on_files E s0 ?I (await_map c (fs_do (file_world E s0) (Remove_File (foldl path_join rootfs (names @ [n])))) (\<lambda>_. ok ())) ?J"
    by (rule on_files_await_map [OF remove_here [OF assms]]) (auto intro: on_files_ok)
  then show "on_files E s0 ?I (case r of
        Inr metadata \<Rightarrow>
          if meta_is_dir metadata then err e1
          else await_map c (fs_do (file_world E s0) (Remove_File (foldl path_join rootfs (names @ [n])))) (\<lambda>_. ok ())
      | Inl (NotFound _) \<Rightarrow> ok ()
      | Inl (IoError m) \<Rightarrow> err (f m)) ?J"
    using assms(2) by (auto intro!: on_files_ok on_files_err split: sum.split io_error.split)
qed (rule on_files_stat, simp)

lemma inject_on_files:
  assumes "rootfs_at rootfs base"
  shows "on_files E s0 (contained s0 base) (inject_init_script (file_world E s0) rootfs)
    (\<lambda>r s. contained s0 base s \<and> (r = Inr () \<longrightarrow> script_at E base s))"
proof (rule on_files_point)
  fix t assume t: "contained s0 base t"
  have n: "list_all normal_name []" "normal_name SCRIPT_NAME" by (simp_all add: SCRIPT_NAME_def normal_name_def)
  have p: "plain s base []" if "contained s0 base s" for s using that by (simp add: plain_def contained_def is_dir_def is_link_def)
  have script: "asset_init_script (file_world E s0) = asset_init_script E" by (simp add: file_world_def)
  show "on_files E s0 (\<lambda>s. s = t) (inject_init_script (file_world E s0) rootfs)
    (\<lambda>r s. contained s0 base s \<and> (r = Inr () \<longrightarrow> script_at E base s))"
    unfolding inject_init_script_def Let_def script_path script
  proof (rule on_files_await_ok [OF clear_way [OF assms t p [OF t] n]])
    fix u
    show "on_files E s0 (\<lambda>s. contained s0 base s \<and> only_at (base @ [] @ [SCRIPT_NAME]) t s)
      (await_map (\<lambda>e. ImageImport (''failed to write init script to '' @ foldl path_join rootfs ([] @ [SCRIPT_NAME]) @ '': ''
           @ ext_show_io (file_world E s0) e))
        (fs_do (file_world E s0) (Write_New (foldl path_join rootfs ([] @ [SCRIPT_NAME])) 493 (asset_init_script E))) (\<lambda>_. ok ()))
      (\<lambda>r s. contained s0 base s \<and> (r = Inr () \<longrightarrow> script_at E base s))"
    proof (rule on_files_point)
      fix t' assume "contained s0 base t' \<and> only_at (base @ [] @ [SCRIPT_NAME]) t t'"
      then have t': "contained s0 base t'" by simp
      show "on_files E s0 (\<lambda>s. s = t') (await_map (\<lambda>e. ImageImport (''failed to write init script to ''
             @ foldl path_join rootfs ([] @ [SCRIPT_NAME]) @ '': '' @ ext_show_io (file_world E s0) e))
          (fs_do (file_world E s0) (Write_New (foldl path_join rootfs ([] @ [SCRIPT_NAME])) 493 (asset_init_script E))) (\<lambda>_. ok ()))
        (\<lambda>r s. contained s0 base s \<and> (r = Inr () \<longrightarrow> script_at E base s))"
        by (rule on_files_await_map, rule create_here [OF assms t' p [OF t'] n, where c = "Write_New (foldl path_join rootfs ([] @ [SCRIPT_NAME])) 493 (asset_init_script E)"
              and i = "new_inode (env_uid E) (Regular (asset_init_script E)) 493"], simp)
          (auto intro!: on_files_ok simp: script_at_def new_inode_def)
    qed
  qed simp
qed

lemma dirs_here:
  assumes "rootfs_at rootfs base" and "contained s0 base t" and "plain t base names" and "list_all normal_name names"
  shows "on_files E s0 (\<lambda>s. s = t) (fs_do (file_world E s0) (Create_Dir_All (foldl path_join rootfs names)))
    (\<lambda>r s. contained s0 base s \<and> (\<forall>k. node_at t k \<noteq> None \<longrightarrow> lookup s k = lookup t k) \<and> (r = Inr () \<longrightarrow> is_dir s (base @ names)))"
  using assms(2) contained_dirs [OF assms(1,2,4,3), of "env_uid E"]
  by (intro on_files_do) (auto simp: path_names_join [OF assms(1,4)] split: sum.split)

text \<open>Below the rootfs, with the script in place, and the directory of the init there.\<close>

definition ready_for_init :: "env \<Rightarrow> files \<Rightarrow> string list \<Rightarrow> string list \<Rightarrow> files \<Rightarrow> bool" where
  "ready_for_init E s0 base names s \<longleftrightarrow> contained s0 base s \<and> script_at E base s \<and> is_dir s (base @ names)"

lemma ready_plain: "ready_for_init E s0 base names s \<Longrightarrow> contained s0 base s \<and> plain s base names"
  by (auto simp: ready_for_init_def contained_def intro: dir_plain)

lemma ready_only_at:
  assumes "ready_for_init E s0 base names t" and "contained s0 base s" and "only_at (base @ names @ [''init'']) t s"
  shows "ready_for_init E s0 base names s"
  using assms only_at_dir [OF assms(3), of "base @ [SCRIPT_NAME]"] only_at_dir [OF assms(3), of "base @ names"]
  by (auto simp: ready_for_init_def script_at_def is_dir_def SCRIPT_NAME_def)

definition init_installed :: "env \<Rightarrow> string list \<Rightarrow> files \<Rightarrow> bool" where
  "init_installed E base s \<longleftrightarrow> script_at E base s
     \<and> (\<exists>names. list_all normal_name names \<and> is_dir s (base @ names)
          \<and> node_at s (base @ names @ [''init'']) = Some (Link GUEST_INIT_SCRIPT_PATH))"

lemma init_name: "file_name GUEST_INIT_PATH = Some ''init''" "normal_name ''init''"
  by (simp_all add: GUEST_INIT_PATH_def file_name_def components_def component_of_def starts_with_iff normal_name_def)

text \<open>The steps after the place of the init is known.\<close>

lemma place_on_files:
  assumes "rootfs_at rootfs base" and "contained s0 base t" and "script_at E base t" and "plain t base names"
    and "list_all normal_name names"
  defines "W \<equiv> file_world E s0" and "init \<equiv> foldl path_join rootfs (names @ [''init''])"
  shows "on_files E s0 (\<lambda>s. s = t)
    (await_ok (await_map (to_err ''create the parent of'') (fs_do W (Create_Dir_All (foldl path_join rootfs names))) (\<lambda>_. ok ())) (\<lambda>_.
     await_ok (await (fs_stat W (Symlink_Metadata init)) (\<lambda>r. case r of
          Inr metadata \<Rightarrow>
            if meta_is_dir metadata then err (ImageImport (''the image has a directory at '' @ GUEST_INIT_PATH))
            else await_map (to_err ''remove'') (fs_do W (Remove_File init)) (\<lambda>_. ok ())
        | Inl (NotFound _) \<Rightarrow> ok ()
        | Inl e \<Rightarrow> err (to_err ''stat'' e))) (\<lambda>_.
     await_map (to_err ''create'') (fs_do W (Make_Symlink GUEST_INIT_SCRIPT_PATH init)) (\<lambda>_. ok ()))))
    (\<lambda>r s. contained s0 base s \<and> (r = Inr () \<longrightarrow> init_installed E base s))"
    (is "on_files E s0 _ (await_ok ?dirs (\<lambda>_. await_ok ?clear (\<lambda>_. ?link))) ?J")
proof -
  let ?ready = "ready_for_init E s0 base names"
  note n = assms(5) init_name(2)
  have link: "on_files E s0 ?ready ?link ?J"
  proof (rule on_files_point)
    fix t assume t: "?ready t"
    note here = conjunct1 [OF ready_plain [OF t]] conjunct2 [OF ready_plain [OF t]]
    have "on_files E s0 (\<lambda>s. s = t) (fs_do W (Make_Symlink GUEST_INIT_SCRIPT_PATH init))
      (\<lambda>r s. contained s0 base s \<and> only_at (base @ names @ [''init'']) t s
         \<and> (r = Inr () \<longrightarrow> node_at s (base @ names @ [''init'']) = Some (ino_node (new_inode (env_uid E) (Link GUEST_INIT_SCRIPT_PATH) 511))))"
      unfolding W_def init_def by (rule create_here [OF assms(1) here n]) simp
    then show "on_files E s0 (\<lambda>s. s = t) ?link ?J"
      by (rule on_files_await_map)
        (use ready_only_at [OF t] n in \<open>auto intro!: on_files_ok simp: init_installed_def ready_for_init_def new_inode_def\<close>)
  qed
  have clear: "on_files E s0 ?ready (await_ok ?clear (\<lambda>_. ?link)) ?J"
  proof (rule on_files_point)
    fix t assume t: "?ready t"
    note here = conjunct1 [OF ready_plain [OF t]] conjunct2 [OF ready_plain [OF t]]
    show "on_files E s0 (\<lambda>s. s = t) (await_ok ?clear (\<lambda>_. ?link)) ?J"
      unfolding W_def init_def
      by (rule on_files_await_ok [OF clear_way [OF assms(1) here n]], rule on_files_pre [OF link [unfolded W_def init_def]])
        (auto intro: ready_only_at [OF t])
  qed
  have "on_files E s0 (\<lambda>s. s = t) ?dirs (\<lambda>r s. contained s0 base s \<and> (r = Inr () \<longrightarrow> ?ready s))"
    unfolding W_def
    by (rule on_files_await_map, rule dirs_here [OF assms(1,2,4,5)])
      (use assms(3) in \<open>auto intro!: on_files_ok simp: ready_for_init_def script_at_def node_at_def\<close>)
  then show ?thesis
    by (rule on_files_await_ok, intro on_files_pre [OF clear]) simp_all
qed

lemma install_on_files:
  assumes "rootfs_at rootfs base"
  shows "on_files E s0 (\<lambda>s. contained s0 base s \<and> script_at E base s) (install_init (file_world E s0) rootfs)
    (\<lambda>r s. contained s0 base s \<and> (r = Inr () \<longrightarrow> init_installed E base s))"
proof (rule on_files_point)
  fix t assume t: "contained s0 base t \<and> script_at E base t"
  then have wf: "wf_files t" "is_dir t base" by (simp_all add: contained_def)
  let ?J = "\<lambda>r s. contained s0 base s \<and> (r = Inr () \<longrightarrow> init_installed E base s)"
  have "on_files E s0 (\<lambda>s. s = t) (resolve_in_rootfs (file_world E s0) rootfs GUEST_INIT_PATH)
    (\<lambda>r s. s = t \<and> (case r of Inl _ \<Rightarrow> True
       | Inr p \<Rightarrow> \<exists>names. list_all normal_name names \<and> plain t base names \<and> p = foldl path_join rootfs (names @ [''init''])))"
    unfolding resolve_in_rootfs_def init_name(1)
    by (simp add: ok_or_def lift_ok_def, rule on_files_await_ok, rule resolve_loop_plain [OF wf refl assms])
      (use wf resolved_join init_name(2) in \<open>auto simp: plain_def is_dir_def is_link_def intro!: on_files_ok\<close>)
  then show "on_files E s0 (\<lambda>s. s = t) (install_init (file_world E s0) rootfs) ?J"
    unfolding install_init_def
  proof (rule on_files_await_ok)
    fix p
    show "on_files E s0 (\<lambda>s. s = t \<and> (case Inr p of Inl _ \<Rightarrow> True
       | Inr p \<Rightarrow> \<exists>names. list_all normal_name names \<and> plain t base names \<and> p = foldl path_join rootfs (names @ [''init''])))
      (let io_err = \<lambda>what e. ImageImport (''failed to '' @ what @ '' '' @ p @ '': '' @ ext_show_io (file_world E s0) e)
       in await_ok (case path_parent p of
          Some parent \<Rightarrow> await_map (io_err ''create the parent of'') (fs_do (file_world E s0) (Create_Dir_All parent)) (\<lambda>_. ok ())
        | None \<Rightarrow> ok ()) (\<lambda>_.
     await_ok (await (fs_stat (file_world E s0) (Symlink_Metadata p)) (\<lambda>r. case r of
          Inr metadata \<Rightarrow>
            if meta_is_dir metadata then err (ImageImport (''the image has a directory at '' @ GUEST_INIT_PATH))
            else await_map (io_err ''remove'') (fs_do (file_world E s0) (Remove_File p)) (\<lambda>_. ok ())
        | Inl (NotFound _) \<Rightarrow> ok ()
        | Inl e \<Rightarrow> err (io_err ''stat'' e))) (\<lambda>_.
     await_map (io_err ''create'') (fs_do (file_world E s0) (Make_Symlink GUEST_INIT_SCRIPT_PATH p)) (\<lambda>_. ok ())))) ?J"
    proof (cases "\<exists>names. list_all normal_name names \<and> plain t base names \<and> p = foldl path_join rootfs (names @ [''init''])")
      case True
      then obtain names where names: "list_all normal_name names" "plain t base names"
        and p: "p = foldl path_join rootfs (names @ [''init''])" by blast
      have parent: "path_parent p = Some (foldl path_join rootfs names)"
        unfolding p using path_parent_join [OF _ _ names(1) init_name(2)] assms by (simp add: rootfs_at_def)
      show ?thesis
        unfolding Let_def parent option.case unfolding p
        by (rule on_files_pre [OF place_on_files [where to_err = "\<lambda>what e. ImageImport (''failed to '' @ what @ '' ''
              @ foldl path_join rootfs (names @ [''init'']) @ '': '' @ ext_show_io (file_world E s0) e)", OF assms _ _ names(2,1)]])
          (use t in auto)
    next
      case False
      then show ?thesis by (intro on_files_False) auto
    qed
  qed (use t in auto)
qed

section \<open>The image's own files\<close>

lemma returns_resolve_loop: "returns (resolve_loop E rootfs g pending resolved hops)"
proof (induction E rootfs g pending resolved hops rule: resolve_loop.induct)
  case (2 E rootfs g part pending resolved hops)
  show ?case
  proof (cases "components part")
    case (Cons c cs)
    show ?thesis
    proof (cases c)
      case (Normal name)
      show ?thesis
        unfolding resolve_loop.simps Cons Normal list.case component.case Let_def
        by (intro returns_rules "2.IH"(5) [OF Cons Normal refl refl] "2.IH"(6) [OF Cons Normal refl refl])
    qed (use 2 Cons in simp_all)
  qed (use 2 in simp)
qed (simp add: returns_rules)

lemma returns_init: "returns (inject_init_script E rootfs)" "returns (install_init E rootfs)"
  unfolding inject_init_script_def install_init_def resolve_in_rootfs_def Let_def
  by (auto intro!: returns_rules returns_resolve_loop split: option.split sum.split io_error.split)

text \<open>Claim C19. Installing the init in an unpacked image changes nothing outside the image's rootfs, whatever links the image
  holds and wherever they point: every file that is not below the rootfs is afterwards what it was before. It
  always comes back, and if it succeeds the script is in place with its content and an \<open>init\<close> below the rootfs is a link to it.\<close>

theorem init_stays_in_the_image:
  assumes "wf_files s0" and "rootfs_at rootfs base" and "is_dir s0 base"
  shows "\<exists>r h. await_ok (inject_init_script (file_world E s0) rootfs) (\<lambda>_. install_init (file_world E s0) rootfs) [] = (Some r, h)
    \<and> (\<forall>k. \<not> prefix base k \<longrightarrow> lookup (files_after (env_uid E) s0 h) k = lookup s0 k)
    \<and> (r = Inr () \<longrightarrow> init_installed E base (files_after (env_uid E) s0 h))"
proof -
  let ?m = "await_ok (inject_init_script (file_world E s0) rootfs) (\<lambda>_. install_init (file_world E s0) rootfs)"
  have "on_files E s0 (contained s0 base) ?m (\<lambda>r s. contained s0 base s \<and> (r = Inr () \<longrightarrow> init_installed E base s))"
    by (rule on_files_await_ok [OF inject_on_files [OF assms(2)]]) (auto intro: on_files_pre [OF install_on_files [OF assms(2)]])
  moreover have "returns ?m" by (intro returns_rules returns_init)
  moreover have "contained s0 base (files_after (env_uid E) s0 [])" using assms(1,3) by (simp add: contained_def files_after_def)
  ultimately show ?thesis
    unfolding on_files_def run_def returns_def by (cases "?m []") (force simp: contained_def)
qed

text \<open>An image whose \<open>sbin\<close> is a link to a directory of the host, through \<open>..\<close>, and whose script is one to a file of the host.\<close>

definition hostile_image :: files where
  "hostile_image = map (\<lambda>(k, n). (k, new_inode 0 n 493))
     [([], Directory), ([''work''], Directory), ([''etc''], Directory), ([''etc'', ''passwd''], Regular ''root''),
      ([''work'', ''rootfs''], Directory), ([''work'', ''rootfs'', ''sbin''], Link ''../../../etc''),
      ([''work'', ''rootfs'', ''openshell-init.sh''], Link ''/etc/passwd'')]"

theorem init_stays_in_the_image_witness:
  "\<forall>E. \<exists>r h. await_ok (inject_init_script (file_world E hostile_image) ''/work/rootfs'')
      (\<lambda>_. install_init (file_world E hostile_image) ''/work/rootfs'') [] = (Some r, h)
    \<and> node_at (files_after (env_uid E) hostile_image h) [''etc'', ''passwd''] = Some (Regular ''root'')
    \<and> node_at (files_after (env_uid E) hostile_image h) [''etc'', ''init''] = None"
proof
  fix E
  have "wf_files hostile_image"
    by (auto simp: wf_files_def hostile_image_def lookup_def is_dir_def node_at_def new_inode_def split: if_splits)
  moreover have "rootfs_at ''/work/rootfs'' [''work'', ''rootfs'']"
    by (simp add: rootfs_at_def path_names_eq normal_name_def ends_with_iff)
  moreover have "is_dir hostile_image [''work'', ''rootfs'']"
    by (simp add: hostile_image_def lookup_def is_dir_def node_at_def new_inode_def)
  moreover have "node_at hostile_image [''etc'', ''passwd''] = Some (Regular ''root'')" "node_at hostile_image [''etc'', ''init''] = None"
    by (simp_all add: hostile_image_def lookup_def node_at_def new_inode_def)
  ultimately show "\<exists>r h. await_ok (inject_init_script (file_world E hostile_image) ''/work/rootfs'')
      (\<lambda>_. install_init (file_world E hostile_image) ''/work/rootfs'') [] = (Some r, h)
    \<and> node_at (files_after (env_uid E) hostile_image h) [''etc'', ''passwd''] = Some (Regular ''root'')
    \<and> node_at (files_after (env_uid E) hostile_image h) [''etc'', ''init''] = None"
    using init_stays_in_the_image [of hostile_image "''/work/rootfs''" "[''work'', ''rootfs'']" E]
    by (auto simp: node_at_def)
qed

end
