(* ===== verification/Raw_Stream.thy ===== *)
theory Raw_Stream
  imports World
begin

text \<open>
  \<open>RawStream\<close> of \<open>lxd-client/src/client.rs\<close>: one stream type for a Unix socket and for a TLS connection, whose polls go
  to the socket under it. What the sockets do is tokio's and rustls's: each is a state with an answer to every poll.
\<close>

section \<open>Streams\<close>

datatype 'a poll = Pending | Ready 'a

text \<open>\<open>AsyncRead\<close> and \<open>AsyncWrite\<close> of a socket in state \<open>'s\<close>: reading is offered the room left in the buffer and
  delivers bytes, writing says how many bytes it took.\<close>

record 's socket =
  sock_poll_read :: "'s \<Rightarrow> nat \<Rightarrow> (io_error, string) result poll \<times> 's"
  sock_poll_write :: "'s \<Rightarrow> string \<Rightarrow> (io_error, nat) result poll \<times> 's"
  sock_poll_flush :: "'s \<Rightarrow> (io_error, unit) result poll \<times> 's"
  sock_poll_shutdown :: "'s \<Rightarrow> (io_error, unit) result poll \<times> 's"

datatype ('u, 't) raw_stream = Unix 'u | Tls 't

text \<open>\<open>as_read\<close> and \<open>as_write\<close>: the poll goes to the variant the stream is.\<close>

definition as_read :: "('u socket \<Rightarrow> 'u \<Rightarrow> 'a \<times> 'u) \<Rightarrow> ('t socket \<Rightarrow> 't \<Rightarrow> 'a \<times> 't) \<Rightarrow> 'u socket \<Rightarrow> 't socket
  \<Rightarrow> ('u, 't) raw_stream \<Rightarrow> 'a \<times> ('u, 't) raw_stream" where
  "as_read poll_unix poll_tls unix tls s = (case s of
      Unix u \<Rightarrow> map_prod id Unix (poll_unix unix u)
    | Tls t \<Rightarrow> map_prod id Tls (poll_tls tls t))"

definition as_write :: "('u socket \<Rightarrow> 'u \<Rightarrow> 'a \<times> 'u) \<Rightarrow> ('t socket \<Rightarrow> 't \<Rightarrow> 'a \<times> 't) \<Rightarrow> 'u socket \<Rightarrow> 't socket
  \<Rightarrow> ('u, 't) raw_stream \<Rightarrow> 'a \<times> ('u, 't) raw_stream" where
  "as_write poll_unix poll_tls unix tls s = (case s of
      Unix u \<Rightarrow> map_prod id Unix (poll_unix unix u)
    | Tls t \<Rightarrow> map_prod id Tls (poll_tls tls t))"

definition raw_poll_read :: "'u socket \<Rightarrow> 't socket \<Rightarrow> ('u, 't) raw_stream \<Rightarrow> nat
  \<Rightarrow> (io_error, string) result poll \<times> ('u, 't) raw_stream" where
  "raw_poll_read unix tls s room = as_read (\<lambda>k u. sock_poll_read k u room) (\<lambda>k t. sock_poll_read k t room) unix tls s"

definition raw_poll_write :: "'u socket \<Rightarrow> 't socket \<Rightarrow> ('u, 't) raw_stream \<Rightarrow> string
  \<Rightarrow> (io_error, nat) result poll \<times> ('u, 't) raw_stream" where
  "raw_poll_write unix tls s buf = as_write (\<lambda>k u. sock_poll_write k u buf) (\<lambda>k t. sock_poll_write k t buf) unix tls s"

definition raw_poll_flush :: "'u socket \<Rightarrow> 't socket \<Rightarrow> ('u, 't) raw_stream
  \<Rightarrow> (io_error, unit) result poll \<times> ('u, 't) raw_stream" where
  "raw_poll_flush = as_write sock_poll_flush sock_poll_flush"

definition raw_poll_shutdown :: "'u socket \<Rightarrow> 't socket \<Rightarrow> ('u, 't) raw_stream
  \<Rightarrow> (io_error, unit) result poll \<times> ('u, 't) raw_stream" where
  "raw_poll_shutdown = as_write sock_poll_shutdown sock_poll_shutdown"

section \<open>A raw stream is the socket under it\<close>

datatype call = Read nat | Write string | Flush | Shutdown

datatype answer = Bytes "(io_error, string) result poll" | Taken "(io_error, nat) result poll" | Finished "(io_error, unit) result poll"

text \<open>A conversation: the answers to a list of calls, and the socket after them.\<close>

definition socket_call :: "'s socket \<Rightarrow> call \<Rightarrow> 's \<Rightarrow> answer \<times> 's" where
  "socket_call k c s = (case c of
      Read room \<Rightarrow> map_prod Bytes id (sock_poll_read k s room)
    | Write buf \<Rightarrow> map_prod Taken id (sock_poll_write k s buf)
    | Flush \<Rightarrow> map_prod Finished id (sock_poll_flush k s)
    | Shutdown \<Rightarrow> map_prod Finished id (sock_poll_shutdown k s))"

definition raw_call :: "'u socket \<Rightarrow> 't socket \<Rightarrow> call \<Rightarrow> ('u, 't) raw_stream \<Rightarrow> answer \<times> ('u, 't) raw_stream" where
  "raw_call unix tls c s = (case c of
      Read room \<Rightarrow> map_prod Bytes id (raw_poll_read unix tls s room)
    | Write buf \<Rightarrow> map_prod Taken id (raw_poll_write unix tls s buf)
    | Flush \<Rightarrow> map_prod Finished id (raw_poll_flush unix tls s)
    | Shutdown \<Rightarrow> map_prod Finished id (raw_poll_shutdown unix tls s))"

fun converse :: "('c \<Rightarrow> 's \<Rightarrow> 'a \<times> 's) \<Rightarrow> 'c list \<Rightarrow> 's \<Rightarrow> 'a list \<times> 's" where
  "converse f [] s = ([], s)"
| "converse f (c # cs) s = (let (a, s') = f c s; (as, s'') = converse f cs s' in (a # as, s''))"

lemma raw_call_is_socket_call:
  "raw_call unix tls c (Unix u) = map_prod id Unix (socket_call unix c u)"
  "raw_call unix tls c (Tls t) = map_prod id Tls (socket_call tls c t)"
  by (simp_all add: raw_call_def socket_call_def raw_poll_read_def raw_poll_write_def raw_poll_flush_def raw_poll_shutdown_def
      as_read_def as_write_def prod.map_comp split: call.split)

text \<open>A view of the state that every call respects is respected by every conversation.\<close>

lemma converse_simulated:
  assumes "\<And>c s. f c (view s) = map_prod id view (g c s)"
  shows "converse f cs (view s) = map_prod id view (converse g cs s)"
  by (induction cs arbitrary: s) (simp_all add: assms Let_def split_beta)

lemma raw_stream_is_its_socket:
  "converse (raw_call unix tls) cs (Unix u) = map_prod id Unix (converse (socket_call unix) cs u)"
  "converse (raw_call unix tls) cs (Tls t) = map_prod id Tls (converse (socket_call tls) cs t)"
  by (simp_all only: converse_simulated raw_call_is_socket_call)

end
