(* ===== verification/Test_Support.thy ===== *)
theory Test_Support
  imports Prelude
begin

text \<open>
  Running the repository's unit tests on the model. The theories \<open>Test_\<close> translate the test modules of the
  sources: a helper of a test module is a definition of the same name, a test is a truth value of the same
  name, the conjunction of its assertions, and a lemma says that it holds. A model that drifts from the code
  fails the code's own tests. This theory has what the assertions use.
\<close>

text \<open>\<open>Result::expect\<close>, \<open>expect_err\<close> and \<open>Option::expect\<close> panic, so the test fails, unless the value is there.\<close>

definition expect :: "('e, 'a) result \<Rightarrow> ('a \<Rightarrow> bool) \<Rightarrow> bool" where
  "expect r P = (case r of Inr a \<Rightarrow> P a | Inl _ \<Rightarrow> False)"

definition expect_err :: "('e, 'a) result \<Rightarrow> ('e \<Rightarrow> bool) \<Rightarrow> bool" where
  "expect_err r P = (case r of Inl e \<Rightarrow> P e | Inr _ \<Rightarrow> False)"

definition expect_some :: "'a option \<Rightarrow> ('a \<Rightarrow> bool) \<Rightarrow> bool" where
  "expect_some x P = (case x of Some a \<Rightarrow> P a | None \<Rightarrow> False)"

lemma expect_simps [simp]:
  "expect (Inr a) P = P a" "expect (Inl e) P = False"
  "expect_err (Inl e) Q = Q e" "expect_err (Inr a) Q = False"
  "expect_some (Some a) P = P a" "expect_some None P = False"
  by (simp_all add: expect_def expect_err_def expect_some_def)

text \<open>\<open>contains_key\<close> of a map, and looking up a list of keys at once.\<close>

definition contains_key :: "('k \<rightharpoonup> 'v) \<Rightarrow> 'k \<Rightarrow> bool" where
  "contains_key m k \<longleftrightarrow> m k \<noteq> None"

definition has_entries :: "('k \<rightharpoonup> 'v) \<Rightarrow> ('k \<times> 'v) list \<Rightarrow> bool" where
  "has_entries m kvs = list_all (\<lambda>(k, v). m k = Some v) kvs"

end
