(* ===== verification/Test_Resources.thy ===== *)
theory Test_Resources
  imports Resources Test_Support
begin

text \<open>
  The tests of \<open>lxd-client/src/resources.rs\<close>. A CPU quantity is parsed to binary64, so the lemmas on decimal
  numerals compute the tests.
\<close>

lemma cpu_limit_whole:
  assumes "0 < n" and "n < 2 ^ 53"
  shows "cpu_limit_to_lxd (dec n) = Inr (dec n)"
proof -
  have "CHR ''m'' \<notin> set (dec n)" using dec_digits [of "CHR ''m''" n] by (auto simp: is_ascii_digit_def)
  then have "strip_suffix ''m'' (dec n) = None"
    by (cases "strip_suffix ''m'' (dec n)") (auto simp: strip_suffix_eq_Some)
  then have "cpu_cores (dec n) = Inr (Finite (of_nat n))"
    by (simp add: cpu_cores_def parse_f64_dec [OF assms(2)] ok_or_def)
  then show ?thesis
    using assms by (simp add: cpu_limit_to_lxd_def result_bind_def is_finite_def le_f64_def ceil_f64_def to_unsigned_def)
qed

lemma cpu_quantities:
  "cpu_limit_to_lxd ''2'' = Inr ''2''" "cpu_limit_to_lxd ''3'' = Inr ''3''"
  "cpu_limit_to_lxd ''500m'' = Inr ''1''" "cpu_limit_to_lxd ''1500m'' = Inr ''2''"
  using cpu_limit_whole [of 2] cpu_limit_whole [of 3] cpu_limit_millis_lemma [of 500] cpu_limit_millis_lemma [of 1500]
  by (simp_all add: dec.simps)

definition cpu_whole_core_passes_through :: bool where
  "cpu_whole_core_passes_through \<longleftrightarrow> expect (cpu_limit_to_lxd ''2'') (\<lambda>v. v = ''2'')"

lemma cpu_whole_core_passes_through_passes: cpu_whole_core_passes_through
  by (simp add: cpu_whole_core_passes_through_def cpu_quantities)

definition cpu_millicores_round_up :: bool where
  "cpu_millicores_round_up \<longleftrightarrow>
     expect (cpu_limit_to_lxd ''500m'') (\<lambda>v. v = ''1'') \<and> expect (cpu_limit_to_lxd ''1500m'') (\<lambda>v. v = ''2'')"

lemma cpu_millicores_round_up_passes: cpu_millicores_round_up
  by (simp add: cpu_millicores_round_up_def cpu_quantities)

definition cpu_rejects_zero :: bool where
  "cpu_rejects_zero \<longleftrightarrow> expect_err (cpu_limit_to_lxd ''0m'') (\<lambda>_. True)"

lemma cpu_rejects_zero_passes: cpu_rejects_zero
  by code_simp

definition cpu_rejects_garbage :: bool where
  "cpu_rejects_garbage \<longleftrightarrow> expect_err (cpu_limit_to_lxd ''not-a-number'') (\<lambda>_. True)"

lemma cpu_rejects_garbage_passes: cpu_rejects_garbage
  by code_simp

definition cpu_rejects_non_finite :: bool where
  "cpu_rejects_non_finite \<longleftrightarrow>
     expect_err (cpu_limit_to_lxd ''NaN'') (\<lambda>_. True) \<and> expect_err (cpu_limit_to_lxd ''Inf'') (\<lambda>_. True)"

lemma cpu_rejects_non_finite_passes: cpu_rejects_non_finite
  by code_simp

definition memory_converts_mi_and_gi :: bool where
  "memory_converts_mi_and_gi \<longleftrightarrow>
     expect (memory_limit_to_lxd ''512Mi'') (\<lambda>v. v = ''512MiB'') \<and> expect (memory_limit_to_lxd ''4Gi'') (\<lambda>v. v = ''4GiB'')"

lemma memory_converts_mi_and_gi_passes: memory_converts_mi_and_gi
  by code_simp

definition memory_bare_bytes_pass_through :: bool where
  "memory_bare_bytes_pass_through \<longleftrightarrow>
     expect (memory_limit_to_lxd ''536870912'') (\<lambda>v. v = ''536870912'') \<and> expect (memory_limit_to_lxd ''0'') (\<lambda>v. v = ''0'')"

lemma memory_bare_bytes_pass_through_passes: memory_bare_bytes_pass_through
  by code_simp

definition memory_rejects_unrecognized_suffix :: bool where
  "memory_rejects_unrecognized_suffix \<longleftrightarrow> expect_err (memory_limit_to_lxd ''512M'') (\<lambda>_. True)"

lemma memory_rejects_unrecognized_suffix_passes: memory_rejects_unrecognized_suffix
  by code_simp

end
