(* ===== verification/Test_Mapping.thy ===== *)
theory Test_Mapping
  imports Mapping Test_Resources
begin

text \<open>
  The tests of \<open>openshell-driver-lxd/src/mapping.rs\<close>. Where a test decodes the JSON of the main process, printing
  and parsing are parameters that invert each other, as \<open>serde_json\<close>'s do.
\<close>

section \<open>Devices, profiles and volume names\<close>

definition DEFAULTS :: placement where
  "DEFAULTS = \<lparr>pl_network = ''lxdbr0'', pl_storage_pool = ''default''\<rparr>"

definition test_dhcp_client_volume_name :: bool where
  "test_dhcp_client_volume_name \<longleftrightarrow>
     dhcp_client_volume_name ''sha256:abc123def456'' = ''openshell-dhcp-client-abc123def456''
     \<and> dhcp_client_volume_name ''abc123def456'' = ''openshell-dhcp-client-abc123def456''"

lemma test_dhcp_client_volume_name_passes: test_dhcp_client_volume_name
  by code_simp

definition build_create_devices_omits_gpu_by_default :: bool where
  "build_create_devices_omits_gpu_by_default \<longleftrightarrow>
     (let devices = build_create_devices DEFAULTS None False ''default'' ''vol1'' ''default'' ''dhcp-vol1''
      in \<not> contains_key devices ''gpu0'' \<and> contains_key devices ''root'' \<and> contains_key devices ''eth0''
         \<and> contains_key devices ''supervisor'' \<and> contains_key devices ''dhcp-client'')"

lemma build_create_devices_omits_gpu_by_default_passes: build_create_devices_omits_gpu_by_default
  by (simp add: build_create_devices_omits_gpu_by_default_def build_create_devices_def contains_key_def)

definition build_create_devices_attaches_gpu_when_requested :: bool where
  "build_create_devices_attaches_gpu_when_requested \<longleftrightarrow>
     (let devices = build_create_devices DEFAULTS None True ''default'' ''vol1'' ''default'' ''dhcp-vol1''
      in expect_some (devices ''gpu0'') (\<lambda>gpu0. has_entries gpu0 [(''type'', ''gpu''), (''gputype'', ''physical'')]))"

lemma build_create_devices_attaches_gpu_when_requested_passes: build_create_devices_attaches_gpu_when_requested
  by code_simp

definition build_create_devices_attaches_supervisor_and_dhcp_client_volumes :: bool where
  "build_create_devices_attaches_supervisor_and_dhcp_client_volumes \<longleftrightarrow>
     (let digest = ''sha256:11223344556677889900aabbccddeeff11223344556677889900aabbccddeeff'';
          sup_vol_name = supervisor_volume_name digest; dhcp_vol_name = dhcp_client_volume_name digest;
          devices = build_create_devices DEFAULTS None False ''custom-pool'' sup_vol_name ''custom-dhcp-pool'' dhcp_vol_name
      in expect_some (devices ''supervisor'') (\<lambda>sup. has_entries sup [(''type'', ''disk''), (''pool'', ''custom-pool''),
             (''source'', sup_vol_name), (''path'', GUEST_SUPERVISOR_BIN_DIR), (''readonly'', ''true'')])
         \<and> expect_some (devices ''dhcp-client'') (\<lambda>dhcp. has_entries dhcp [(''type'', ''disk''), (''pool'', ''custom-dhcp-pool''),
             (''source'', dhcp_vol_name), (''path'', GUEST_DHCP_CLIENT_DIR), (''readonly'', ''true'')]))"

lemma build_create_devices_attaches_supervisor_and_dhcp_client_volumes_passes:
  build_create_devices_attaches_supervisor_and_dhcp_client_volumes
  by code_simp

definition devices_follow_placement :: bool where
  "devices_follow_placement \<longleftrightarrow>
     (let placement = \<lparr>pl_network = ''sandboxbr0'', pl_storage_pool = ''fast''\<rparr>;
          devices = build_create_devices placement None False ''fast'' ''sup'' ''fast'' ''dhcp''
      in expect_some (devices ''root'') (\<lambda>root. has_entries root [(''pool'', ''fast''), (''path'', ''/'')])
         \<and> expect_some (devices ''eth0'') (\<lambda>eth0.
             has_entries eth0 [(''type'', ''nic''), (''network'', ''sandboxbr0'')]
             \<and> (\<forall>key\<in>dom eth0. \<not> starts_with key ''security.acls'')))"

lemma devices_follow_placement_passes: devices_follow_placement
  by (simp add: devices_follow_placement_def build_create_devices_def nic_device_def has_entries_def starts_with_def)

definition egress_acl_guards_the_nic_both_ways :: bool where
  "egress_acl_guards_the_nic_both_ways \<longleftrightarrow>
     (let placement = \<lparr>pl_network = ''sandboxes'', pl_storage_pool = ''local''\<rparr>;
          devices = build_create_devices placement (Some ''openshell-egress-sandboxes'') False ''local'' ''sup'' ''local'' ''dhcp''
      in expect_some (devices ''eth0'') (\<lambda>eth0. has_entries eth0
           [(''security.acls'', ''openshell-egress-sandboxes''),
            (''security.acls.default.egress.action'', ''reject''),
            (''security.acls.default.ingress.action'', ''reject'')]))"

lemma egress_acl_guards_the_nic_both_ways_passes: egress_acl_guards_the_nic_both_ways
  by code_simp

definition volume_names_are_digest_keyed :: bool where
  "volume_names_are_digest_keyed \<longleftrightarrow>
     supervisor_volume_name ''sha256:0123abcd'' = ''openshell-supervisor-0123abcd''
     \<and> supervisor_volume_name ''0123abcd'' = supervisor_volume_name ''sha256:0123abcd''"

lemma volume_names_are_digest_keyed_passes: volume_names_are_digest_keyed
  by code_simp

section \<open>Conditions\<close>

definition ready_condition_of :: "lxd_instance \<Rightarrow> driver_condition" where
  "ready_condition_of i = ready_condition i Discovered"

definition instance_with :: "string \<Rightarrow> (string \<times> string) list \<Rightarrow> lxd_instance" where
  "instance_with status config = \<lparr>inst_name = ''sb'', inst_description = [], inst_status = status,
     inst_status_code = 0, inst_architecture = [], inst_ephemeral = False, inst_profiles = [],
     inst_config = extend_map Map.empty config, inst_devices = Map.empty, inst_type = ''container'', inst_project = ''default''\<rparr>"

definition stopped_by_the_runtime_is_a_runtime_restart :: bool where
  "stopped_by_the_runtime_is_a_runtime_restart \<longleftrightarrow>
     (let cond = ready_condition_of (instance_with ''Stopped'' [(''volatile.last_state.power'', ''RUNNING'')]);
          requested = ready_condition_of (instance_with ''Stopped''
            [(''volatile.last_state.power'', ''RUNNING''), (KEY_STOP_INTENT, CONDITION_STOPPED)])
      in cond_status cond = ''False'' \<and> cond_reason cond = CONDITION_RUNTIME_RESTART
         \<and> cond_reason requested = CONDITION_STOPPED)"

lemma stopped_by_the_runtime_is_a_runtime_restart_passes: stopped_by_the_runtime_is_a_runtime_restart
  by code_simp

definition a_live_stop_is_never_a_runtime_restart :: bool where
  "a_live_stop_is_never_a_runtime_restart \<longleftrightarrow>
     (let just_died = instance_with ''Stopped'' [(''volatile.last_state.power'', ''RUNNING'')];
          requested = instance_with ''Stopped''
            [(''volatile.last_state.power'', ''RUNNING''), (KEY_STOP_INTENT, CONDITION_STOPPED)]
      in cond_reason (ready_condition just_died Live) = CONDITION_EXITED
         \<and> cond_reason (ready_condition just_died Discovered) = CONDITION_RUNTIME_RESTART
         \<and> expect_some (sb_status (instance_to_driver_sandbox_live just_died)) (\<lambda>live.
             cond_reason (st_conditions live ! 0) = CONDITION_EXITED)
         \<and> cond_reason (ready_condition requested Live) = CONDITION_STOPPED)"

lemma a_live_stop_is_never_a_runtime_restart_passes: a_live_stop_is_never_a_runtime_restart
  by code_simp

definition stopped_by_the_runtime_matches_the_reported_reason :: bool where
  "stopped_by_the_runtime_matches_the_reported_reason \<longleftrightarrow>
     list_all (\<lambda>(config, expected).
         let i = instance_with ''Stopped'' config
         in stopped_by_the_runtime i = expected
            \<and> (cond_reason (ready_condition_of i) = CONDITION_RUNTIME_RESTART) = expected)
       [([(''volatile.last_state.power'', ''RUNNING'')], True),
        ([(''volatile.last_state.power'', ''STOPPED'')], False),
        ([], False),
        ([(''volatile.last_state.power'', ''RUNNING''), (KEY_STOP_INTENT, CONDITION_STOPPED)], False)]
     \<and> \<not> stopped_by_the_runtime (instance_with ''Running'' [(''volatile.last_state.power'', ''RUNNING'')])"

lemma stopped_by_the_runtime_matches_the_reported_reason_passes: stopped_by_the_runtime_matches_the_reported_reason
  by code_simp

definition stopped_reason_distinguishes_death_from_requested_stop :: bool where
  "stopped_reason_distinguishes_death_from_requested_stop \<longleftrightarrow>
     (let died = instance_with ''Stopped'' [(''volatile.last_state.power'', ''STOPPED'')];
          cond = ready_condition_of died;
          stopped = instance_with ''Stopped''
            [(''volatile.last_state.power'', ''STOPPED''), (KEY_STOP_INTENT, CONDITION_STOPPED)]
      in cond_status cond = ''False'' \<and> cond_reason cond = CONDITION_EXITED
         \<and> cond_reason (ready_condition_of stopped) = CONDITION_STOPPED)"

lemma stopped_reason_distinguishes_death_from_requested_stop_passes:
  stopped_reason_distinguishes_death_from_requested_stop
  by code_simp

definition never_started_instance_is_transient_not_terminal :: bool where
  "never_started_instance_is_transient_not_terminal \<longleftrightarrow>
     (let cond = ready_condition_of (instance_with ''Stopped'' [])
      in cond_status cond = ''False'' \<and> cond_reason cond = CONDITION_CREATED)"

lemma never_started_instance_is_transient_not_terminal_passes: never_started_instance_is_transient_not_terminal
  by code_simp

definition running_and_guest_signalled_ready_are_both_ready :: bool where
  "running_and_guest_signalled_ready_are_both_ready \<longleftrightarrow>
     cond_status (ready_condition_of (instance_with ''Running'' [])) = ''True''
     \<and> cond_status (ready_condition_of (instance_with ''Ready'' [])) = ''True''"

lemma running_and_guest_signalled_ready_are_both_ready_passes: running_and_guest_signalled_ready_are_both_ready
  by code_simp

definition transient_states_are_reported_with_transient_reasons :: bool where
  "transient_states_are_reported_with_transient_reasons \<longleftrightarrow>
     cond_reason (ready_condition_of (instance_with ''Starting'' [])) = CONDITION_STARTING
     \<and> cond_status (ready_condition_of (instance_with ''Weird'' [])) = ''Unknown''"

lemma transient_states_are_reported_with_transient_reasons_passes:
  transient_states_are_reported_with_transient_reasons
  by code_simp

definition frozen_is_reported_as_paused :: bool where
  "frozen_is_reported_as_paused \<longleftrightarrow>
     (let cond = ready_condition_of (instance_with ''Frozen'' [])
      in cond_status cond = ''False'' \<and> cond_reason cond = CONDITION_PAUSED)"

lemma frozen_is_reported_as_paused_passes: frozen_is_reported_as_paused
  by code_simp

definition every_not_ready_state_explains_itself :: bool where
  "every_not_ready_state_explains_itself \<longleftrightarrow>
     (let ran = (''volatile.last_state.power'', ''STOPPED'')
      in list_all (\<lambda>i. cond_message (ready_condition_of i) \<noteq> [])
           [instance_with ''Stopped'' [], instance_with ''Stopped'' [ran],
            instance_with ''Stopped'' [ran, (KEY_STOP_INTENT, CONDITION_STOPPED)], instance_with ''Starting'' [],
            instance_with ''Frozen'' [], instance_with ''Error'' [], instance_with ''Weird'' []])
     \<and> cond_message (ready_condition_of (instance_with ''Running'' [])) = []"

lemma every_not_ready_state_explains_itself_passes: every_not_ready_state_explains_itself
  by code_simp

definition exited_message_points_at_the_console_log :: bool where
  "exited_message_points_at_the_console_log \<longleftrightarrow>
     (let ran = (''volatile.last_state.power'', ''STOPPED'');
          in_project = (instance_with ''Stopped'' [ran])\<lparr>inst_project := ''sandboxes''\<rparr>
      in contains_str (cond_message (ready_condition_of (instance_with ''Stopped'' [ran])))
           ''`lxc console sb --show-log`''
         \<and> contains_str (cond_message (ready_condition_of in_project))
           ''`lxc console sb --project sandboxes --show-log`'')"

lemma exited_message_points_at_the_console_log_passes: exited_message_points_at_the_console_log
  by code_simp

definition lxd_error_status_is_reported_as_error :: bool where
  "lxd_error_status_is_reported_as_error \<longleftrightarrow>
     (let cond = ready_condition_of (instance_with ''Error'' [])
      in cond_status cond = ''False'' \<and> cond_reason cond = ''Error'')"

lemma lxd_error_status_is_reported_as_error_passes: lxd_error_status_is_reported_as_error
  by code_simp

section \<open>The gateway's reading of a condition\<close>

definition TRANSIENT_REASONS :: "string list" where
  "TRANSIENT_REASONS = [''reconcilererror'', ''dependenciesnotready'', ''supervisornotconnected'', ''starting'',
     ''containerstarting'', ''containercreated'', ''healthcheckstarting'', ''inspectfailed'']"

definition v0_0_116_gateway_phase :: "driver_condition \<Rightarrow> string" where
  "v0_0_116_gateway_phase cond =
     (if eq_ignore_ascii_case (cond_status cond) ''true'' then ''Ready''
      else if eq_ignore_ascii_case (cond_status cond) ''false'' then
        (if map to_ascii_lowercase (cond_reason cond) \<in> set TRANSIENT_REASONS then ''Provisioning'' else ''Error'')
      else ''Provisioning'')"

definition every_reported_state_maps_to_the_intended_gateway_phase :: bool where
  "every_reported_state_maps_to_the_intended_gateway_phase \<longleftrightarrow>
     (let ran = (''volatile.last_state.power'', ''STOPPED'')
      in list_all (\<lambda>(i, expected). let cond = ready_condition_of i
           in cond_type cond = ''Ready'' \<and> v0_0_116_gateway_phase cond = expected)
         [(instance_with ''Running'' [], ''Ready''), (instance_with ''Ready'' [], ''Ready''),
          (instance_with ''Stopped'' [], ''Provisioning''), (instance_with ''Starting'' [], ''Provisioning''),
          (instance_with ''Weird'' [], ''Provisioning''), (instance_with ''Stopped'' [ran], ''Error''),
          (instance_with ''Stopped'' [(''volatile.last_state.power'', ''RUNNING'')], ''Error''),
          (instance_with ''Stopped'' [ran, (KEY_STOP_INTENT, CONDITION_STOPPED)], ''Error''),
          (instance_with ''Frozen'' [], ''Error''), (instance_with ''Error'' [], ''Error'')])"

lemma every_reported_state_maps_to_the_intended_gateway_phase_passes:
  every_reported_state_maps_to_the_intended_gateway_phase
  by code_simp

section \<open>Observed sandboxes\<close>

definition observed_sandbox_carries_identity_and_one_ready_condition :: bool where
  "observed_sandbox_carries_identity_and_one_ready_condition \<longleftrightarrow>
     (let i = (instance_with ''Running'' [(KEY_SANDBOX_ID, ''sb-id''), (KEY_NAMESPACE, ''ns''), (KEY_WORKSPACE, ''ws'')])
            \<lparr>inst_name := ''sb-name''\<rparr>;
          sandbox = instance_to_driver_sandbox i
      in sb_id sandbox = ''sb-id'' \<and> sb_name sandbox = ''sb-name'' \<and> sb_namespace sandbox = ''ns''
         \<and> sb_workspace sandbox = ''ws'' \<and> sb_spec sandbox = None
         \<and> expect_some (sb_status sandbox) (\<lambda>status.
             st_sandbox_name status = ''sb-name'' \<and> st_instance_id status = ''sb-name'' \<and> \<not> st_deleting status
             \<and> length (st_conditions status) = 1 \<and> cond_type (st_conditions status ! 0) = ''Ready''
             \<and> cond_status (st_conditions status ! 0) = ''True''))"

lemma observed_sandbox_carries_identity_and_one_ready_condition_passes:
  observed_sandbox_carries_identity_and_one_ready_condition
  by (simp add: observed_sandbox_carries_identity_and_one_ready_condition_def instance_to_driver_sandbox_def
      to_driver_sandbox_def instance_with_def key_defs ready_condition_def ready_parts_def)

definition observed_sandbox_without_markers_has_empty_identity :: bool where
  "observed_sandbox_without_markers_has_empty_identity \<longleftrightarrow>
     (let sandbox = instance_to_driver_sandbox (instance_with ''Running'' [])
      in sb_id sandbox = [] \<and> sb_namespace sandbox = [] \<and> sb_workspace sandbox = [])"

lemma observed_sandbox_without_markers_has_empty_identity_passes: observed_sandbox_without_markers_has_empty_identity
  by code_simp

section \<open>The created config\<close>

definition string_value :: "string \<Rightarrow> kind option" where
  "string_value s = Some (StringValue s)"

definition driver_config_of :: "(string \<times> kind option) list \<Rightarrow> pb_struct option" where
  "driver_config_of fs = Some (map_of (rev fs))"

definition identified_sandbox :: driver_sandbox where
  "identified_sandbox = default_sandbox\<lparr>sb_id := ''sb-123'', sb_name := ''test-sandbox'', sb_namespace := ''ns'',
     sb_workspace := ''ws''\<rparr>"

definition build_create_config_sets_ssh_socket_path :: "(json \<Rightarrow> string) \<Rightarrow> bool" where
  "build_create_config_sets_ssh_socket_path print \<longleftrightarrow>
     (let sandbox = default_sandbox\<lparr>sb_id := ''sb-123'', sb_name := ''test-sandbox''\<rparr>
      in expect (build_create_config print sandbox default_spec default_template [] False 0) (\<lambda>config.
           config ''environment.OPENSHELL_SSH_SOCKET_PATH'' = Some GUEST_SSH_SOCKET_PATH))"

lemmas config_test_defs = build_create_config_def default_template_def default_spec_def default_sandbox_def
  identified_sandbox_def driver_environment_def env_entries_def key_defs extend_map_def insert_resources_def
  max_processes_def struct_get_def string_value_def driver_config_of_def has_entries_def contains_key_def
  main_process_spec_def

lemma build_create_config_sets_ssh_socket_path_passes: "build_create_config_sets_ssh_socket_path print"
  by (simp add: build_create_config_sets_ssh_socket_path_def config_test_defs)

definition build_create_config_records_identity_and_init :: "(json \<Rightarrow> string) \<Rightarrow> bool" where
  "build_create_config_records_identity_and_init print \<longleftrightarrow>
     expect (build_create_config print identified_sandbox default_spec default_template [] False 0) (\<lambda>config.
       has_entries config [(KEY_SANDBOX_ID, ''sb-123''), (KEY_NAMESPACE, ''ns''), (KEY_WORKSPACE, ''ws'')]
       \<and> (\<forall>key\<in>dom config. \<not> starts_with key ''raw.'')
       \<and> \<not> contains_key config ''security.nesting''
       \<and> has_entries config [(''environment.OPENSHELL_SANDBOX_ID'', ''sb-123''),
           (''environment.OPENSHELL_SANDBOX'', ''test-sandbox'')])"

lemma build_create_config_records_identity_and_init_passes: "build_create_config_records_identity_and_init print"
  by (simp add: build_create_config_records_identity_and_init_def config_test_defs starts_with_def)

definition template_environment_overrides_spec_environment :: "(json \<Rightarrow> string) \<Rightarrow> bool" where
  "template_environment_overrides_spec_environment print \<longleftrightarrow>
     (let spec = default_spec\<lparr>spec_environment := [(''SHARED'', ''from-spec''), (''SPEC_ONLY'', ''spec'')]\<rparr>;
          template = default_template\<lparr>tpl_environment :=
            [(''SHARED'', ''from-template''), (''TEMPLATE_ONLY'', ''template'')]\<rparr>
      in expect (build_create_config print identified_sandbox spec template [] False 0) (\<lambda>config.
           has_entries config [(''environment.SHARED'', ''from-template''), (''environment.SPEC_ONLY'', ''spec''),
             (''environment.TEMPLATE_ONLY'', ''template'')]))"

lemma template_environment_overrides_spec_environment_passes: "template_environment_overrides_spec_environment print"
  by (simp add: template_environment_overrides_spec_environment_def config_test_defs)

definition driver_injected_environment_cannot_be_overridden_by_the_request :: "(json \<Rightarrow> string) \<Rightarrow> bool" where
  "driver_injected_environment_cannot_be_overridden_by_the_request print \<longleftrightarrow>
     (let hostile = [(''OPENSHELL_SANDBOX_ID'', ''someone-else''), (''OPENSHELL_SANDBOX'', ''someone-else''),
            (''OPENSHELL_SSH_SOCKET_PATH'', ''/tmp/evil.sock''), (''OPENSHELL_ENDPOINT'', ''http://attacker:1''),
            (''OPENSHELL_SANDBOX_TOKEN_FILE'', ''/tmp/evil.jwt'')];
          spec = default_spec\<lparr>spec_environment := hostile\<rparr>;
          template = default_template\<lparr>tpl_environment := hostile\<rparr>
      in expect (build_create_config print identified_sandbox spec template ''http://10.0.0.1:17670'' True 0) (\<lambda>config.
           list_all (\<lambda>(key, v). config (''environment.'' @ key) = Some v)
             [(''OPENSHELL_SANDBOX_ID'', ''sb-123''), (''OPENSHELL_SANDBOX'', ''test-sandbox''),
              (''OPENSHELL_SSH_SOCKET_PATH'', GUEST_SSH_SOCKET_PATH), (''OPENSHELL_ENDPOINT'', ''http://10.0.0.1:17670''),
              (''OPENSHELL_SANDBOX_TOKEN_FILE'', GUEST_SANDBOX_TOKEN_PATH)]))"

lemma driver_injected_environment_cannot_be_overridden_by_the_request_passes:
  "driver_injected_environment_cannot_be_overridden_by_the_request print"
  by (simp add: driver_injected_environment_cannot_be_overridden_by_the_request_def config_test_defs)

definition gateway_endpoint_is_only_injected_when_resolved :: "(json \<Rightarrow> string) \<Rightarrow> bool" where
  "gateway_endpoint_is_only_injected_when_resolved print \<longleftrightarrow>
     (let spec = default_spec\<lparr>spec_environment := [(''OPENSHELL_ENDPOINT'', ''http://from-gateway:17670'')]\<rparr>
      in expect (build_create_config print identified_sandbox spec default_template ''http://10.0.0.1:17670'' False 0)
           (\<lambda>resolved. resolved ''environment.OPENSHELL_ENDPOINT'' = Some ''http://10.0.0.1:17670'')
         \<and> expect (build_create_config print identified_sandbox spec default_template [] False 0)
           (\<lambda>unresolved. unresolved ''environment.OPENSHELL_ENDPOINT'' = Some ''http://from-gateway:17670''))"

lemma gateway_endpoint_is_only_injected_when_resolved_passes: "gateway_endpoint_is_only_injected_when_resolved print"
  by (simp add: gateway_endpoint_is_only_injected_when_resolved_def config_test_defs)

section \<open>The main process\<close>

definition decoded_main_process :: "(string \<Rightarrow> json option) \<Rightarrow> config_map \<Rightarrow> json option" where
  "decoded_main_process parse config = Option.bind (config (''environment.'' @ ENV_MAIN_PROCESS_SPEC)) parse"

definition requested_command_is_delivered_as_the_main_process_spec ::
  "(json \<Rightarrow> string) \<Rightarrow> (string \<Rightarrow> json option) \<Rightarrow> bool" where
  "requested_command_is_delivered_as_the_main_process_spec print parse \<longleftrightarrow>
     (let spec = default_spec\<lparr>spec_command := [''sh'', ''-lc'',
            ''printf '' @ [CHR 0x27] @ ''%s'' @ [CHR 0x5C] @ ''n'' @ [CHR 0x27] @ '' '' @ [CHR 0x22] @ ''quoted $VAR'' @ [CHR 0x22]
            @ '' > /sandbox/out; echo '' @ [CHR 0xC3, CHR 0xBC] @ ''n'' @ [CHR 0xC3, CHR 0xAF] @ ''code''],
            spec_tty := False, spec_await_main_process_attachment := True\<rparr>
      in expect (build_create_config print identified_sandbox spec default_template [] False 0) (\<lambda>config.
           decoded_main_process parse config = Some (Object [(''await_main_process_attachment'', Bool True),
             (''command'', Array (map Str (spec_command spec))), (''tty'', Bool False), (''version'', Number 1)])))"

lemma requested_command_is_delivered_as_the_main_process_spec_passes:
  assumes "\<And>j. parse (print j) = Some j"
  shows "requested_command_is_delivered_as_the_main_process_spec print parse"
  by (simp add: requested_command_is_delivered_as_the_main_process_spec_def config_test_defs decoded_main_process_def
      MAIN_PROCESS_SPEC_VERSION_def assms)

definition empty_command_is_the_default_login_shell :: "(json \<Rightarrow> string) \<Rightarrow> (string \<Rightarrow> json option) \<Rightarrow> bool" where
  "empty_command_is_the_default_login_shell print parse \<longleftrightarrow>
     (let spec = default_spec\<lparr>spec_await_main_process_attachment := True\<rparr>
      in expect (build_create_config print identified_sandbox spec default_template [] False 0) (\<lambda>config.
           decoded_main_process parse config = Some (Object [(''await_main_process_attachment'', Bool False),
             (''command'', Array [Str ''/bin/bash'', Str ''-l'']), (''tty'', Bool True), (''version'', Number 1)])))"

lemma empty_command_is_the_default_login_shell_passes:
  assumes "\<And>j. parse (print j) = Some j"
  shows "empty_command_is_the_default_login_shell print parse"
  by (simp add: empty_command_is_the_default_login_shell_def config_test_defs decoded_main_process_def
      MAIN_PROCESS_SPEC_VERSION_def assms)

definition request_environment_cannot_replace_the_main_process ::
  "(json \<Rightarrow> string) \<Rightarrow> (string \<Rightarrow> json option) \<Rightarrow> bool" where
  "request_environment_cannot_replace_the_main_process print parse \<longleftrightarrow>
     (let spec = default_spec\<lparr>spec_command := [''true''],
            spec_environment := [(ENV_MAIN_PROCESS_SPEC, print (Object [(''command'', Array [Str ''evil'']), (''version'', Number 1)]))]\<rparr>;
          template = default_template\<lparr>tpl_environment := [(ENV_MAIN_PROCESS_SPEC, ''{}'')]\<rparr>
      in expect (build_create_config print identified_sandbox spec template [] False 0) (\<lambda>config.
           expect_some (decoded_main_process parse config) (\<lambda>main. index main ''command'' = Array [Str ''true''])))"

lemma request_environment_cannot_replace_the_main_process_passes:
  assumes "\<And>j. parse (print j) = Some j"
  shows "request_environment_cannot_replace_the_main_process print parse"
  by (simp add: request_environment_cannot_replace_the_main_process_def config_test_defs decoded_main_process_def
      index_def get_def assms)

section \<open>Tokens and labels\<close>

definition sandbox_token_is_referenced_by_file_never_embedded :: "(json \<Rightarrow> string) \<Rightarrow> bool" where
  "sandbox_token_is_referenced_by_file_never_embedded print \<longleftrightarrow>
     (let spec = default_spec\<lparr>spec_sandbox_token := ''eyJhbGciOiJFZERTQSJ9.secret-token''\<rparr>
      in expect (build_create_config print identified_sandbox spec default_template [] True 0) (\<lambda>with_token.
           with_token ''environment.OPENSHELL_SANDBOX_TOKEN_FILE'' = Some GUEST_SANDBOX_TOKEN_PATH
           \<and> (\<forall>v\<in>ran with_token. \<not> contains_str v ''secret-token'')
           \<and> \<not> contains_key with_token ''environment.OPENSHELL_SANDBOX_TOKEN'')
         \<and> expect (build_create_config print identified_sandbox spec default_template [] False 0) (\<lambda>without_token.
           \<not> contains_key without_token ''environment.OPENSHELL_SANDBOX_TOKEN_FILE''))"

lemma sandbox_token_is_referenced_by_file_never_embedded_passes:
  assumes "\<not> contains_str (main_process_spec print default_spec) ''secret-token''"
  shows "sandbox_token_is_referenced_by_file_never_embedded print"
  using assms by (simp add: sandbox_token_is_referenced_by_file_never_embedded_def config_test_defs
      GUEST_SSH_SOCKET_PATH_def GUEST_SANDBOX_TOKEN_PATH_def starts_with_def ran_map_upd)

definition labels_are_namespaced_and_validated :: "(json \<Rightarrow> string) \<Rightarrow> bool" where
  "labels_are_namespaced_and_validated print \<longleftrightarrow>
     (let template = default_template\<lparr>tpl_labels := [(''team'', ''infra''), (''app.kubernetes.io_name'', ''agent'')]\<rparr>;
          invalid = default_template\<lparr>tpl_labels := [(''has/slash'', ''x'')]\<rparr>
      in expect (build_create_config print identified_sandbox default_spec template [] False 0) (\<lambda>config.
           has_entries config [(''user.openshell.label.team'', ''infra''),
             (''user.openshell.label.app.kubernetes.io_name'', ''agent'')])
         \<and> expect_err (build_create_config print identified_sandbox default_spec invalid [] False 0) (\<lambda>e.
             case e of InvalidArgument _ \<Rightarrow> True | _ \<Rightarrow> False))"

lemma labels_are_namespaced_and_validated_passes: "labels_are_namespaced_and_validated print"
  by (simp add: labels_are_namespaced_and_validated_def config_test_defs is_valid_label_key_def char_class_defs)

definition label_key_charset :: bool where
  "label_key_charset \<longleftrightarrow>
     list_all is_valid_label_key [''a'', ''A-Z_0.9'', ''team.example-key_1'']
     \<and> list_all (\<lambda>key. \<not> is_valid_label_key key) [[], ''with space'', ''slash/key'', ''colon:key'',
          [CHR 0xC3, CHR 0xBC] @ ''n'' @ [CHR 0xC3, CHR 0xAF] @ ''code'', ''a=b'']"

lemma label_key_charset_passes: label_key_charset
  by code_simp

definition guest_tls_environment_names_the_pushed_files :: bool where
  "guest_tls_environment_names_the_pushed_files \<longleftrightarrow>
     has_entries (insert_guest_tls_environment Map.empty)
       [(''environment.OPENSHELL_TLS_CA'', ''/etc/openshell/tls/client/ca.crt''),
        (''environment.OPENSHELL_TLS_CERT'', ''/etc/openshell/tls/client/tls.crt''),
        (''environment.OPENSHELL_TLS_KEY'', ''/etc/openshell/tls/client/tls.key'')]"

lemma guest_tls_environment_names_the_pushed_files_passes: guest_tls_environment_names_the_pushed_files
  by code_simp

section \<open>Resources and the process limit\<close>

definition resources_of :: "string \<Rightarrow> string \<Rightarrow> string \<Rightarrow> string \<Rightarrow> driver_sandbox_template" where
  "resources_of cpu_req cpu_lim memory_req memory_lim = default_template\<lparr>tpl_resources :=
     Some \<lparr>cpu_request = cpu_req, cpu_limit = cpu_lim, memory_request = memory_req, memory_limit = memory_lim\<rparr>\<rparr>"

definition config_for :: "(json \<Rightarrow> string) \<Rightarrow> driver_sandbox_template \<Rightarrow> (driver_error, config_map) result" where
  "config_for print template = build_create_config print identified_sandbox default_spec template [] False 0"

definition resource_limits_prefer_limit_over_request :: "(json \<Rightarrow> string) \<Rightarrow> bool" where
  "resource_limits_prefer_limit_over_request print \<longleftrightarrow>
     expect (config_for print (resources_of ''1'' ''3'' ''256Mi'' ''1Gi'')) (\<lambda>config.
       has_entries config [(''limits.cpu'', ''3''), (''limits.memory'', ''1GiB'')])"

definition resource_request_is_enforced_when_no_limit_is_given :: "(json \<Rightarrow> string) \<Rightarrow> bool" where
  "resource_request_is_enforced_when_no_limit_is_given print \<longleftrightarrow>
     expect (config_for print (resources_of ''500m'' [] ''512Mi'' [])) (\<lambda>config.
       has_entries config [(''limits.cpu'', ''1''), (''limits.memory'', ''512MiB'')])"

definition no_resources_means_no_cpu_or_memory_limits :: "(json \<Rightarrow> string) \<Rightarrow> bool" where
  "no_resources_means_no_cpu_or_memory_limits print \<longleftrightarrow>
     expect (config_for print default_template) (\<lambda>config.
       \<not> contains_key config ''limits.cpu'' \<and> \<not> contains_key config ''limits.memory'')
     \<and> expect (config_for print (resources_of [] [] [] [])) (\<lambda>empty.
       \<not> contains_key empty ''limits.cpu'' \<and> \<not> contains_key empty ''limits.memory'')"

definition invalid_resource_quantities_are_rejected :: "(json \<Rightarrow> string) \<Rightarrow> bool" where
  "invalid_resource_quantities_are_rejected print \<longleftrightarrow>
     list_all (\<lambda>template. expect_err (config_for print template) (\<lambda>e.
         case e of Lxd (InvalidQuantity _ _) \<Rightarrow> True | _ \<Rightarrow> False))
       [resources_of [] ''lots'' [] [], resources_of [] ''0'' [] [], resources_of [] [] [] ''12Qi'']"

lemma quantity_results:
  "memory_limit_to_lxd ''1Gi'' = Inr ''1GiB''" "memory_limit_to_lxd ''512Mi'' = Inr ''512MiB''"
  "cpu_limit_to_lxd ''lots'' = Inl (InvalidQuantity ''lots'' ''not a valid core count'')"
  "cpu_limit_to_lxd ''0'' = Inl (InvalidQuantity ''0'' ''must be greater than zero'')"
  "\<exists>r. memory_limit_to_lxd ''12Qi'' = Inl (InvalidQuantity ''12Qi'' r)"
proof -
  show "memory_limit_to_lxd ''1Gi'' = Inr ''1GiB''" "memory_limit_to_lxd ''512Mi'' = Inr ''512MiB''"
    "cpu_limit_to_lxd ''lots'' = Inl (InvalidQuantity ''lots'' ''not a valid core count'')"
    "cpu_limit_to_lxd ''0'' = Inl (InvalidQuantity ''0'' ''must be greater than zero'')"
    by code_simp+
  have "isl (memory_limit_to_lxd ''12Qi'')" by code_simp
  then show "\<exists>r. memory_limit_to_lxd ''12Qi'' = Inl (InvalidQuantity ''12Qi'' r)"
    using memory_limit_Inl by (metis isl_def)
qed

lemmas resource_test_defs = config_test_defs config_for_def resources_of_def insert_limit_def cpu_quantities
  quantity_results

lemma resource_limits_prefer_limit_over_request_passes: "resource_limits_prefer_limit_over_request print"
  by (simp add: resource_limits_prefer_limit_over_request_def resource_test_defs)

lemma resource_request_is_enforced_when_no_limit_is_given_passes:
  "resource_request_is_enforced_when_no_limit_is_given print"
  by (simp add: resource_request_is_enforced_when_no_limit_is_given_def resource_test_defs)

lemma no_resources_means_no_cpu_or_memory_limits_passes: "no_resources_means_no_cpu_or_memory_limits print"
  by (simp add: no_resources_means_no_cpu_or_memory_limits_def resource_test_defs)

lemma invalid_resource_quantities_are_rejected_passes: "invalid_resource_quantities_are_rejected print"
proof -
  obtain r where "memory_limit_to_lxd ''12Qi'' = Inl (InvalidQuantity ''12Qi'' r)"
    using quantity_results(5) by blast
  then show ?thesis by (simp add: invalid_resource_quantities_are_rejected_def resource_test_defs)
qed

definition max_processes_override_accepts_numbers_and_numeric_strings :: "(json \<Rightarrow> string) \<Rightarrow> bool" where
  "max_processes_override_accepts_numbers_and_numeric_strings print \<longleftrightarrow>
     (let as_string = default_template\<lparr>tpl_driver_config := driver_config_of [(''max_processes'', string_value ''128'')]\<rparr>;
          zero = default_template\<lparr>tpl_driver_config := driver_config_of [(''max_processes'', Some (NumberValue (Finite 0)))]\<rparr>
      in max_processes as_string = Some 128
         \<and> expect (build_create_config print identified_sandbox default_spec zero [] False 4096) (\<lambda>config.
             \<not> contains_key config ''limits.processes''))"

definition unusable_max_processes_override_falls_back_to_default :: "(json \<Rightarrow> string) \<Rightarrow> bool" where
  "unusable_max_processes_override_falls_back_to_default print \<longleftrightarrow>
     list_all (\<lambda>v. let template = default_template\<lparr>tpl_driver_config := driver_config_of [(''max_processes'', v)]\<rparr>
         in expect (build_create_config print identified_sandbox default_spec template [] False 4096) (\<lambda>config.
              config ''limits.processes'' = Some ''4096''))
       [Some (NumberValue (Finite (-1))), string_value ''many'', Some (BoolValue True)]"

definition build_create_config_sets_default_pid_limit :: "(json \<Rightarrow> string) \<Rightarrow> bool" where
  "build_create_config_sets_default_pid_limit print \<longleftrightarrow>
     expect (build_create_config print default_sandbox default_spec default_template [] False 4096) (\<lambda>config.
       config ''limits.processes'' = Some ''4096'')
     \<and> expect (build_create_config print default_sandbox default_spec default_template [] False 0) (\<lambda>unlimited.
       \<not> contains_key unlimited ''limits.processes'')"

definition driver_config_overrides_pid_limit :: "(json \<Rightarrow> string) \<Rightarrow> bool" where
  "driver_config_overrides_pid_limit print \<longleftrightarrow>
     (let template = default_template\<lparr>tpl_driver_config := Some [''max_processes'' \<mapsto> Some (NumberValue (Finite 256))]\<rparr>
      in expect (build_create_config print default_sandbox default_spec template [] False 4096) (\<lambda>config.
           config ''limits.processes'' = Some ''256''))"

definition template_with_max_processes :: "kind \<Rightarrow> driver_sandbox_template" where
  "template_with_max_processes k = default_template\<lparr>tpl_driver_config := Some [''max_processes'' \<mapsto> Some k]\<rparr>"

definition max_processes_validation :: bool where
  "max_processes_validation \<longleftrightarrow>
     list_all (\<lambda>(k, expected). max_processes (template_with_max_processes k) = expected)
       [(NumberValue (Finite 512), Some 512), (NumberValue (Finite 0), Some 0), (StringValue ''256'', Some 256),
        (NumberValue (Finite (1 / 2)), None), (NumberValue (Finite (3 / 2)), None),
        (NumberValue (Finite (-1)), None), (NumberValue (Finite (2 ^ 32 - 1 + 1000)), None),
        (NumberValue NaN, None), (NumberValue (Infinity False), None), (NumberValue (Infinity True), None),
        (StringValue ''abc'', None), (StringValue ''-5'', None)]
     \<and> max_processes default_template = None"

lemma parse_u32_samples:
  "parse_u32 ''128'' = Some 128" "parse_u32 ''256'' = Some 256" "parse_u32 ''many'' = None" "parse_u32 ''abc'' = None"
  "parse_u32 ''-5'' = None"
  by (simp_all add: parse_unsigned_def is_ascii_digit_def digits_val_def digit_val_def)

lemma floor_samples: "\<lfloor>1 / 2 :: rat\<rfloor> = 0" "\<lfloor>3 / 2 :: rat\<rfloor> = 1"
  by (simp_all add: floor_eq_iff)

lemma dec_samples: "dec 4096 = ''4096''" "dec 256 = ''256''"
  by (simp_all add: dec.simps)

lemmas limit_test_defs = config_test_defs is_finite_def ge_f64_def le_f64_def fract_is_zero_def to_unsigned_def
  parse_u32_samples floor_samples dec_samples template_with_max_processes_def

lemma max_processes_validation_passes: max_processes_validation
  by (simp add: max_processes_validation_def limit_test_defs)

lemma max_processes_override_accepts_numbers_and_numeric_strings_passes:
  "max_processes_override_accepts_numbers_and_numeric_strings print"
  by (simp add: max_processes_override_accepts_numbers_and_numeric_strings_def limit_test_defs)

lemma unusable_max_processes_override_falls_back_to_default_passes:
  "unusable_max_processes_override_falls_back_to_default print"
  by (simp add: unusable_max_processes_override_falls_back_to_default_def limit_test_defs)

lemma build_create_config_sets_default_pid_limit_passes: "build_create_config_sets_default_pid_limit print"
  by (simp add: build_create_config_sets_default_pid_limit_def limit_test_defs)

lemma driver_config_overrides_pid_limit_passes: "driver_config_overrides_pid_limit print"
  by (simp add: driver_config_overrides_pid_limit_def limit_test_defs)

section \<open>Placement and profiles\<close>

definition placement_defaults_and_override :: bool where
  "placement_defaults_and_override \<longleftrightarrow>
     (let custom = default_template\<lparr>tpl_driver_config := driver_config_of
            [(''network'', string_value ''sandboxbr0''), (''storage_pool'', string_value ''fast'')]\<rparr>;
          pool_only = default_template\<lparr>tpl_driver_config := driver_config_of [(''storage_pool'', string_value ''remote'')]\<rparr>;
          wrong_types = default_template\<lparr>tpl_driver_config := driver_config_of
            [(''network'', Some (NumberValue (Finite 1))), (''storage_pool'', Some (BoolValue True))]\<rparr>
      in placement_resolve default_template ''ovn0'' ''local'' = \<lparr>pl_network = ''ovn0'', pl_storage_pool = ''local''\<rparr>
         \<and> placement_resolve custom ''ovn0'' ''local'' = \<lparr>pl_network = ''sandboxbr0'', pl_storage_pool = ''fast''\<rparr>
         \<and> placement_resolve pool_only ''ovn0'' ''local'' = \<lparr>pl_network = ''ovn0'', pl_storage_pool = ''remote''\<rparr>
         \<and> placement_resolve wrong_types ''ovn0'' ''local'' = \<lparr>pl_network = ''ovn0'', pl_storage_pool = ''local''\<rparr>)"

lemma placement_defaults_and_override_passes: placement_defaults_and_override
  by (simp add: placement_defaults_and_override_def placement_resolve_def struct_get_str_def config_test_defs)

definition profiles_always_start_with_default :: bool where
  "profiles_always_start_with_default \<longleftrightarrow>
     build_profiles default_template = [''default'']
     \<and> build_profiles (default_template\<lparr>tpl_driver_config := driver_config_of [(''profiles'',
          Some (ListValue [string_value ''gpu'', Some (NumberValue (Finite 7)), string_value ''audit'']))]\<rparr>)
       = [''default'', ''gpu'', ''audit'']"

lemma profiles_always_start_with_default_passes: profiles_always_start_with_default
  by (simp add: profiles_always_start_with_default_def build_profiles_def struct_get_str_list_def config_test_defs
      List.map_filter_simps)

definition GUEST_SUPERVISOR_BIN_PATH :: string where
  "GUEST_SUPERVISOR_BIN_PATH = ''/opt/openshell/bin/openshell-sandbox''"

definition guest_supervisor_paths_contract :: bool where
  "guest_supervisor_paths_contract \<longleftrightarrow>
     GUEST_SUPERVISOR_BIN_DIR = ''/opt/openshell/bin''
     \<and> GUEST_SUPERVISOR_BIN_PATH = GUEST_SUPERVISOR_BIN_DIR @ ''/openshell-sandbox''
     \<and> GUEST_DHCP_CLIENT_DIR = ''/opt/openshell/net''"

lemma guest_supervisor_paths_contract_passes: guest_supervisor_paths_contract
  by code_simp

section \<open>Properties\<close>

text \<open>The parts of every condition, as the gateway reads them.\<close>

lemma gateway_reading:
  "eq_ignore_ascii_case ''True'' ''true''" "eq_ignore_ascii_case ''False'' ''false''"
  "\<not> eq_ignore_ascii_case ''False'' ''true''" "\<not> eq_ignore_ascii_case ''Unknown'' ''true''"
  "\<not> eq_ignore_ascii_case ''Unknown'' ''false''"
  "map to_ascii_lowercase CONDITION_CREATED \<in> set TRANSIENT_REASONS"
  "map to_ascii_lowercase CONDITION_STARTING \<in> set TRANSIENT_REASONS"
  "map to_ascii_lowercase CONDITION_STOPPED \<notin> set TRANSIENT_REASONS"
  "map to_ascii_lowercase CONDITION_EXITED \<notin> set TRANSIENT_REASONS"
  "map to_ascii_lowercase CONDITION_RUNTIME_RESTART \<notin> set TRANSIENT_REASONS"
  "map to_ascii_lowercase CONDITION_PAUSED \<notin> set TRANSIENT_REASONS"
  "map to_ascii_lowercase ''Error'' \<notin> set TRANSIENT_REASONS"
  by code_simp+

lemma gateway_phase_parts:
  "ready_parts i seen = (s, r, m) \<Longrightarrow> v0_0_116_gateway_phase (ready_condition i seen) =
     (if eq_ignore_ascii_case s ''true'' then ''Ready''
      else if eq_ignore_ascii_case s ''false'' then
        (if map to_ascii_lowercase r \<in> set TRANSIENT_REASONS then ''Provisioning'' else ''Error'')
      else ''Provisioning'')"
  by (simp add: v0_0_116_gateway_phase_def)

lemma gateway_phase_eq:
  "v0_0_116_gateway_phase (ready_condition i seen) =
     (if inst_status i = ''Running'' \<or> inst_status i = ''Ready'' then ''Ready''
      else if inst_status i = ''Frozen'' \<or> inst_status i = ''Error''
        \<or> inst_status i = ''Stopped'' \<and> inst_config i KEY_LAST_POWER \<noteq> None then ''Error''
      else ''Provisioning'')"
proof -
  obtain s r m where parts: "ready_parts i seen = (s, r, m)" by (cases "ready_parts i seen") auto
  note phase = gateway_phase_parts [OF parts]
  consider (up) "inst_status i = ''Running'' \<or> inst_status i = ''Ready''" | (stopped) "inst_status i = ''Stopped''"
    | (starting) "inst_status i = ''Starting''" | (frozen) "inst_status i = ''Frozen''" | (error) "inst_status i = ''Error''"
    | (other) "inst_status i \<notin> {''Running'', ''Ready'', ''Stopped'', ''Starting'', ''Frozen'', ''Error''}"
    by blast
  then show ?thesis
  proof cases
    case up
    then have "s = ''True''" using parts by (simp add: ready_parts_def)
    with up show ?thesis using phase by (simp add: gateway_reading)
  next
    case stopped
    then have "s = ''False''" "inst_config i KEY_LAST_POWER = None \<longleftrightarrow> r = CONDITION_CREATED"
      "r \<in> {CONDITION_CREATED, CONDITION_STOPPED, CONDITION_RUNTIME_RESTART, CONDITION_EXITED}"
      using parts by (auto simp: ready_parts_def condition_defs split: if_splits)
    with stopped show ?thesis using phase by (auto simp: gateway_reading)
  next
    case starting
    then have "s = ''False''" "r = CONDITION_STARTING" using parts by (auto simp: ready_parts_def)
    with starting show ?thesis using phase by (simp add: gateway_reading)
  next
    case frozen
    then have "s = ''False''" "r = CONDITION_PAUSED" using parts by (auto simp: ready_parts_def)
    with frozen show ?thesis using phase by (simp add: gateway_reading)
  next
    case error
    then have "s = ''False''" "r = ''Error''" using parts by (auto simp: ready_parts_def)
    with error show ?thesis using phase by (simp add: gateway_reading(2,3,12) del: list.map)
  next
    case other
    then have "s = ''Unknown''" using parts by (auto simp: ready_parts_def)
    with other show ?thesis using phase by (simp add: gateway_reading)
  qed
qed

text \<open>Claim C40. The gateway reads every condition the driver can report as intended: a sandbox is ready exactly
  while its instance runs; one that has never been started, is starting or has a status LXD does not document is
  still being provisioned, never an error; and one that was started and stopped, for whatever reason, is frozen or is
  in LXD's error state is an error, never provisioning. Whatever is not ready has a reason and a message.\<close>

theorem gateway_phase_intended:
  "v0_0_116_gateway_phase (ready_condition i seen) =
     (if inst_status i = ''Running'' \<or> inst_status i = ''Ready'' then ''Ready''
      else if inst_status i = ''Frozen'' \<or> inst_status i = ''Error''
        \<or> inst_status i = ''Stopped'' \<and> inst_config i KEY_LAST_POWER \<noteq> None then ''Error''
      else ''Provisioning'')
   \<and> (v0_0_116_gateway_phase (ready_condition i seen) = ''Ready'' \<longleftrightarrow> cond_reason (ready_condition i seen) = [])
   \<and> (v0_0_116_gateway_phase (ready_condition i seen) = ''Ready'' \<longleftrightarrow> cond_message (ready_condition i seen) = [])"
proof -
  have phase: "v0_0_116_gateway_phase (ready_condition i seen) =
     (if inst_status i = ''Running'' \<or> inst_status i = ''Ready'' then ''Ready''
      else if inst_status i = ''Frozen'' \<or> inst_status i = ''Error''
        \<or> inst_status i = ''Stopped'' \<and> inst_config i KEY_LAST_POWER \<noteq> None then ''Error''
      else ''Provisioning'')"
    by (rule gateway_phase_eq)
  have "fst (ready_parts i seen) = ''True'' \<longleftrightarrow> inst_status i = ''Running'' \<or> inst_status i = ''Ready''"
    by (simp add: ready_parts_def Let_def)
  then show ?thesis
    unfolding phase using ready_parts_message [of i seen] ready_parts_reason [of i seen] by simp
qed

end
