(* ===== verification/Cli.thy ===== *)
theory Cli
  imports Startup
begin

text \<open>
  The command line (\<open>openshell-driver-lxd/src/config.rs\<close>, the attributes of \<open>Config\<close>). The options are a table
  with what each attribute says: its value parser, its default, what it requires and what it conflicts with.
  \<open>clap\<close> splits the words of the command line into options with their values, which are the input here; then
  every value goes through the option's parser, given options are checked for conflicts and requirements,
  and the fields of the configuration are read from what was given or from the defaults. How \<open>clap\<close> parses a
  path and how the \<open>url\<close> crate parses a URL are parameters.
\<close>

section \<open>Defaults\<close>

definition DEFAULT_SOCKET :: string where "DEFAULT_SOCKET = ''/var/run/openshell-driver.sock''"
definition DEFAULT_LXD_SOCKET :: string where "DEFAULT_LXD_SOCKET = ''/var/snap/lxd/common/lxd/unix.socket''"
definition DEFAULT_LOG_LEVEL :: string where "DEFAULT_LOG_LEVEL = ''info''"
definition DEFAULT_SANDBOX_IMAGE :: string where
  "DEFAULT_SANDBOX_IMAGE = ''ghcr.io/nvidia/openshell-community/sandboxes/base:latest''"
definition DEFAULT_SUPERVISOR_IMAGE :: string where
  "DEFAULT_SUPERVISOR_IMAGE = ''ghcr.io/nvidia/openshell/supervisor:latest''"
definition DEFAULT_SUPERVISOR_CACHE_DIR :: string where
  "DEFAULT_SUPERVISOR_CACHE_DIR = ''/var/cache/openshell/lxd-supervisor''"
definition DEFAULT_IMAGE_WORK_DIR :: string where
  "DEFAULT_IMAGE_WORK_DIR = ''/var/cache/openshell/lxd-image-work''"
definition DEFAULT_IMAGE_PULL_TIMEOUT_SECS :: nat where "DEFAULT_IMAGE_PULL_TIMEOUT_SECS = 300"
definition DEFAULT_STOP_TIMEOUT_SECS :: int where "DEFAULT_STOP_TIMEOUT_SECS = 10"
definition DEFAULT_GATEWAY_GRPC_PORT :: nat where "DEFAULT_GATEWAY_GRPC_PORT = 17670"
definition DEFAULT_OPERATION_TIMEOUT_SECS :: nat where "DEFAULT_OPERATION_TIMEOUT_SECS = 60"
definition DEFAULT_CLEANUP_INTERVAL_SECS :: nat where "DEFAULT_CLEANUP_INTERVAL_SECS = 6 * 60 * 60"

section \<open>Options\<close>

datatype value_parser =
    String_Parser | Path_Parser | Unsigned_Parser nat | Signed_Parser nat
  | Endpoint_Parser | Listener_Parser | Server_Name_Parser | Flag

datatype arg_value = Text string | Unsigned nat | Signed int | Address socket_addr | Switch

record arg =
  arg_long :: string
  arg_alias :: "string option"
  arg_parser :: value_parser
  arg_default :: "arg_value option"
  arg_requires :: "string list"
  arg_conflicts :: "string list"

definition option_arg :: "string \<Rightarrow> value_parser \<Rightarrow> arg" where
  "option_arg long p = \<lparr>arg_long = long, arg_alias = None, arg_parser = p, arg_default = None, arg_requires = [],
     arg_conflicts = []\<rparr>"

definition with_default :: "arg_value \<Rightarrow> arg \<Rightarrow> arg" where "with_default v a = a\<lparr>arg_default := Some v\<rparr>"
definition requires_all :: "string list \<Rightarrow> arg \<Rightarrow> arg" where "requires_all ids a = a\<lparr>arg_requires := ids\<rparr>"
definition conflicts_with_all :: "string list \<Rightarrow> arg \<Rightarrow> arg" where "conflicts_with_all ids a = a\<lparr>arg_conflicts := ids\<rparr>"

lemmas arg_builder_defs = option_arg_def with_default_def requires_all_def conflicts_with_all_def

lemma arg_builder_simps [simp]:
  "arg_long (option_arg l p) = l" "arg_parser (option_arg l p) = p" "arg_default (option_arg l p) = None"
  "arg_requires (option_arg l p) = []" "arg_conflicts (option_arg l p) = []" "arg_alias (option_arg l p) = None"
  "arg_long (with_default v a) = arg_long a" "arg_parser (with_default v a) = arg_parser a"
  "arg_requires (with_default v a) = arg_requires a" "arg_conflicts (with_default v a) = arg_conflicts a"
  "arg_default (with_default v a) = Some v" "arg_alias (with_default v a) = arg_alias a"
  "arg_long (requires_all ids a) = arg_long a" "arg_parser (requires_all ids a) = arg_parser a"
  "arg_default (requires_all ids a) = arg_default a" "arg_requires (requires_all ids a) = ids"
  "arg_conflicts (requires_all ids a) = arg_conflicts a" "arg_alias (requires_all ids a) = arg_alias a"
  "arg_long (conflicts_with_all ids a) = arg_long a" "arg_parser (conflicts_with_all ids a) = arg_parser a"
  "arg_default (conflicts_with_all ids a) = arg_default a" "arg_requires (conflicts_with_all ids a) = arg_requires a"
  "arg_conflicts (conflicts_with_all ids a) = ids" "arg_alias (conflicts_with_all ids a) = arg_alias a"
  by (simp_all add: arg_builder_defs)

text \<open>The attributes of the fields, in their order.\<close>

definition config_args :: "arg list" where
  "config_args =
     [with_default (Text DEFAULT_SOCKET) (option_arg ''socket'' Path_Parser),
      with_default (Text DEFAULT_LXD_SOCKET) (option_arg ''lxd-socket'' Path_Parser),
      with_default (Text DEFAULT_LOG_LEVEL) (option_arg ''log-level'' String_Parser),
      with_default (Text DEFAULT_SANDBOX_IMAGE) (option_arg ''default-image'' String_Parser),
      with_default (Text DEFAULT_PROJECT) (option_arg ''project'' String_Parser),
      with_default (Text DEFAULT_NETWORK) (option_arg ''default-network'' String_Parser),
      with_default (Text DEFAULT_STORAGE_POOL) (option_arg ''default-storage-pool'' String_Parser),
      with_default (Text DEFAULT_SUPERVISOR_IMAGE) (option_arg ''supervisor-image'' String_Parser),
      option_arg ''supervisor-bin'' Path_Parser,
      (option_arg ''dhcp-client-bin'' Path_Parser)\<lparr>arg_alias := Some ''udhcpc-path''\<rparr>,
      with_default (Text DEFAULT_SUPERVISOR_CACHE_DIR) (option_arg ''supervisor-cache-dir'' Path_Parser),
      option_arg ''supervisor-storage-pool'' String_Parser,
      with_default (Text DEFAULT_IMAGE_WORK_DIR) (option_arg ''image-work-dir'' Path_Parser),
      with_default (Unsigned DEFAULT_MAX_PROCESSES) (option_arg ''default-max-processes'' (Unsigned_Parser 32)),
      with_default (Unsigned DEFAULT_START_RETRIES) (option_arg ''start-retries'' (Unsigned_Parser 32)),
      with_default (Signed DEFAULT_STOP_TIMEOUT_SECS) (option_arg ''stop-timeout-secs'' (Signed_Parser 64)),
      with_default (Unsigned DEFAULT_IMAGE_PULL_TIMEOUT_SECS) (option_arg ''image-pull-timeout-secs'' (Unsigned_Parser 64)),
      with_default (Unsigned DEFAULT_CLEANUP_INTERVAL_SECS) (option_arg ''cleanup-interval-secs'' (Unsigned_Parser 64)),
      with_default (Text DEFAULT_IMAGE_CACHE_ALIAS_PREFIX) (option_arg ''image-cache-alias-prefix'' String_Parser),
      option_arg ''skopeo-path'' Path_Parser,
      option_arg ''umoci-path'' Path_Parser,
      option_arg ''mksquashfs-path'' Path_Parser,
      requires_all [''lxd-client-cert'', ''lxd-client-key''] (option_arg ''lxd-url'' String_Parser),
      requires_all [''lxd-url'', ''lxd-client-key''] (option_arg ''lxd-client-cert'' Path_Parser),
      requires_all [''lxd-url'', ''lxd-client-cert''] (option_arg ''lxd-client-key'' Path_Parser),
      requires_all [''lxd-url''] (conflicts_with_all [''lxd-server-cert'', ''lxd-server-fingerprint'']
        (option_arg ''lxd-server-ca'' Path_Parser)),
      requires_all [''lxd-url''] (conflicts_with_all [''lxd-server-ca'', ''lxd-server-fingerprint'']
        (option_arg ''lxd-server-cert'' Path_Parser)),
      requires_all [''lxd-url''] (conflicts_with_all [''lxd-server-ca'', ''lxd-server-cert'']
        (option_arg ''lxd-server-fingerprint'' String_Parser)),
      with_default (Unsigned DEFAULT_GATEWAY_GRPC_PORT) (option_arg ''gateway-grpc-port'' (Unsigned_Parser 16)),
      option_arg ''gateway-endpoint'' Endpoint_Parser,
      option_arg ''gateway-callback-listener'' Listener_Parser,
      option_arg ''sandbox-nesting'' Flag,
      option_arg ''restrict-sandbox-egress'' Flag,
      requires_all [''guest-tls-cert'', ''guest-tls-key''] (option_arg ''guest-tls-ca'' Path_Parser),
      requires_all [''guest-tls-ca'', ''guest-tls-key''] (option_arg ''guest-tls-cert'' Path_Parser),
      requires_all [''guest-tls-ca'', ''guest-tls-cert''] (option_arg ''guest-tls-key'' Path_Parser),
      option_arg ''gateway-tls-server-name'' Server_Name_Parser,
      conflicts_with_all [''guest-tls-ca'', ''guest-tls-cert'', ''guest-tls-key''] (option_arg ''allow-plaintext-gateway'' Flag),
      with_default (Unsigned DEFAULT_OPERATION_TIMEOUT_SECS) (option_arg ''operation-timeout-secs'' (Unsigned_Parser 64))]"

definition find_arg :: "string \<Rightarrow> arg option" where
  "find_arg name = find (\<lambda>a. arg_long a = name \<or> arg_alias a = Some name) config_args"

section \<open>Values\<close>

text \<open>\<open>str::parse\<close> of a signed number.\<close>

definition parse_signed :: "nat \<Rightarrow> string \<Rightarrow> int option" where
  "parse_signed w s = (case s of
      c # cs \<Rightarrow>
        if c = CHR ''-'' then
          (if cs \<noteq> [] \<and> list_all is_ascii_digit cs \<and> digits_val cs \<le> 2 ^ (w - 1) then Some (- int (digits_val cs)) else None)
        else map_option int (parse_unsigned (w - 1) s)
    | [] \<Rightarrow> None)"

text \<open>The parser of a number is that of its type; up to 32 bits \<open>clap\<close> reads an \<open>i64\<close> and checks its range.\<close>

definition parse_number_value :: "nat \<Rightarrow> string \<Rightarrow> nat option" where
  "parse_number_value w s =
     (if w = 64 then parse_unsigned 64 s
      else Option.bind (parse_signed 64 s) (\<lambda>n. if 0 \<le> n \<and> n < 2 ^ w then Some (nat n) else None))"

definition map_ok :: "('a \<Rightarrow> 'b) \<Rightarrow> ('e, 'a) result \<Rightarrow> ('e, 'b) result" where
  "map_ok f r = result_bind r (\<lambda>a. Inr (f a))"

lemma map_ok_eq_Inr [simp]: "map_ok f r = Inr b \<longleftrightarrow> (\<exists>a. r = Inr a \<and> b = f a)"
  by (auto simp: map_ok_def result_bind_eq_Inr)

type_synonym path_parser = "string \<Rightarrow> (string, string) result"

definition parse_value :: "url_parser \<Rightarrow> path_parser \<Rightarrow> value_parser \<Rightarrow> string \<Rightarrow> (string, arg_value) result" where
  "parse_value url path p v = (case p of
      String_Parser \<Rightarrow> Inr (Text v)
    | Path_Parser \<Rightarrow> map_ok Text (path v)
    | Unsigned_Parser w \<Rightarrow> map_ok Unsigned (ok_or (parse_number_value w v) ''invalid digit found in string'')
    | Signed_Parser w \<Rightarrow> map_ok Signed (ok_or (parse_signed w v) ''invalid digit found in string'')
    | Endpoint_Parser \<Rightarrow> map_ok Text (parse_gateway_endpoint url v)
    | Listener_Parser \<Rightarrow> map_ok Address (parse_callback_listener v)
    | Server_Name_Parser \<Rightarrow> map_ok Text (parse_tls_server_name v)
    | Flag \<Rightarrow> Inl ''unexpected value'')"

section \<open>Matching\<close>

datatype clap_error =
    Unknown_Argument string
  | Repeated_Argument string
  | Missing_Value string
  | Invalid_Value string string
  | Argument_Conflict string
  | Missing_Required string

type_synonym arg_matches = "string \<rightharpoonup> arg_value"
type_synonym given = "(string \<times> string option) list"

fun collect_args :: "url_parser \<Rightarrow> path_parser \<Rightarrow> arg_matches \<Rightarrow> given \<Rightarrow> (clap_error, arg_matches) result" where
  "collect_args url path m [] = Inr m"
| "collect_args url path m ((name, raw) # rest) = (case find_arg name of
      None \<Rightarrow> Inl (Unknown_Argument name)
    | Some a \<Rightarrow>
        if m (arg_long a) \<noteq> None then Inl (Repeated_Argument name)
        else (case raw of
            None \<Rightarrow> if arg_parser a = Flag then collect_args url path (m(arg_long a \<mapsto> Switch)) rest
              else Inl (Missing_Value name)
          | Some v \<Rightarrow> (case parse_value url path (arg_parser a) v of
              Inl e \<Rightarrow> Inl (Invalid_Value name e)
            | Inr x \<Rightarrow> collect_args url path (m(arg_long a \<mapsto> x)) rest)))"

definition given_arg :: "arg_matches \<Rightarrow> string \<Rightarrow> bool" where
  "given_arg m k \<longleftrightarrow> m k \<noteq> None"

definition conflicting :: "arg_matches \<Rightarrow> arg \<Rightarrow> bool" where
  "conflicting m a \<longleftrightarrow> given_arg m (arg_long a) \<and> list_ex (given_arg m) (arg_conflicts a)"

definition unsatisfied :: "arg_matches \<Rightarrow> arg \<Rightarrow> bool" where
  "unsatisfied m a \<longleftrightarrow> given_arg m (arg_long a) \<and> \<not> list_all (given_arg m) (arg_requires a)"

definition validate_matches :: "arg_matches \<Rightarrow> (clap_error, arg_matches) result" where
  "validate_matches m = (case find (conflicting m) config_args of
      Some a \<Rightarrow> Inl (Argument_Conflict (arg_long a))
    | None \<Rightarrow> (case find (unsatisfied m) config_args of
        Some a \<Rightarrow> Inl (Missing_Required (arg_long a))
      | None \<Rightarrow> Inr m))"

section \<open>The configuration\<close>

text \<open>A field is what was given, or the default of its option.\<close>

definition arg_value_of :: "arg_matches \<Rightarrow> string \<Rightarrow> arg_value option" where
  "arg_value_of m k = (case m k of Some v \<Rightarrow> Some v | None \<Rightarrow> Option.bind (find_arg k) arg_default)"

definition text_field :: "arg_matches \<Rightarrow> string \<Rightarrow> string option" where
  "text_field m k = (case arg_value_of m k of Some (Text t) \<Rightarrow> Some t | _ \<Rightarrow> None)"

definition text_or :: "arg_matches \<Rightarrow> string \<Rightarrow> string" where "text_or m k = unwrap_or (text_field m k) []"

definition nat_field :: "arg_matches \<Rightarrow> string \<Rightarrow> nat" where
  "nat_field m k = (case arg_value_of m k of Some (Unsigned n) \<Rightarrow> n | _ \<Rightarrow> 0)"

definition int_field :: "arg_matches \<Rightarrow> string \<Rightarrow> int" where
  "int_field m k = (case arg_value_of m k of Some (Signed n) \<Rightarrow> n | _ \<Rightarrow> 0)"

definition addr_field :: "arg_matches \<Rightarrow> string \<Rightarrow> socket_addr option" where
  "addr_field m k = (case arg_value_of m k of Some (Address a) \<Rightarrow> Some a | _ \<Rightarrow> None)"

definition from_arg_matches :: "arg_matches \<Rightarrow> config" where
  "from_arg_matches m =
     \<lparr>cfg_socket = text_or m ''socket'', cfg_lxd_socket = text_or m ''lxd-socket'', cfg_log_level = text_or m ''log-level'',
      cfg_default_image = text_or m ''default-image'', cfg_project = text_or m ''project'',
      cfg_default_network = text_or m ''default-network'', cfg_default_storage_pool = text_or m ''default-storage-pool'',
      cfg_supervisor_image = text_or m ''supervisor-image'', cfg_supervisor_bin = text_field m ''supervisor-bin'',
      cfg_dhcp_client_bin = text_field m ''dhcp-client-bin'', cfg_supervisor_cache_dir = text_or m ''supervisor-cache-dir'',
      cfg_supervisor_storage_pool = text_field m ''supervisor-storage-pool'', cfg_image_work_dir = text_or m ''image-work-dir'',
      cfg_default_max_processes = nat_field m ''default-max-processes'', cfg_start_retries = nat_field m ''start-retries'',
      cfg_stop_timeout_secs = int_field m ''stop-timeout-secs'',
      cfg_image_pull_timeout_secs = nat_field m ''image-pull-timeout-secs'',
      cfg_cleanup_interval_secs = nat_field m ''cleanup-interval-secs'',
      cfg_image_cache_alias_prefix = text_or m ''image-cache-alias-prefix'', cfg_skopeo_path = text_field m ''skopeo-path'',
      cfg_umoci_path = text_field m ''umoci-path'', cfg_mksquashfs_path = text_field m ''mksquashfs-path'',
      cfg_lxd_url = text_field m ''lxd-url'', cfg_lxd_client_cert = text_field m ''lxd-client-cert'',
      cfg_lxd_client_key = text_field m ''lxd-client-key'', cfg_lxd_server_ca = text_field m ''lxd-server-ca'',
      cfg_lxd_server_cert = text_field m ''lxd-server-cert'', cfg_lxd_server_fingerprint = text_field m ''lxd-server-fingerprint'',
      cfg_gateway_grpc_port = nat_field m ''gateway-grpc-port'', cfg_gateway_endpoint = text_field m ''gateway-endpoint'',
      cfg_gateway_callback_listener = addr_field m ''gateway-callback-listener'',
      cfg_sandbox_nesting = given_arg m ''sandbox-nesting'', cfg_restrict_sandbox_egress = given_arg m ''restrict-sandbox-egress'',
      cfg_guest_tls_ca = text_field m ''guest-tls-ca'', cfg_guest_tls_cert = text_field m ''guest-tls-cert'',
      cfg_guest_tls_key = text_field m ''guest-tls-key'', cfg_gateway_tls_server_name = text_field m ''gateway-tls-server-name'',
      cfg_allow_plaintext_gateway = given_arg m ''allow-plaintext-gateway'',
      cfg_operation_timeout_secs = nat_field m ''operation-timeout-secs''\<rparr>"

lemma from_arg_matches_fields [simp]:
  "cfg_socket (from_arg_matches m) = text_or m ''socket''"
  "cfg_lxd_socket (from_arg_matches m) = text_or m ''lxd-socket''"
  "cfg_log_level (from_arg_matches m) = text_or m ''log-level''"
  "cfg_default_image (from_arg_matches m) = text_or m ''default-image''"
  "cfg_project (from_arg_matches m) = text_or m ''project''"
  "cfg_default_network (from_arg_matches m) = text_or m ''default-network''"
  "cfg_default_storage_pool (from_arg_matches m) = text_or m ''default-storage-pool''"
  "cfg_supervisor_image (from_arg_matches m) = text_or m ''supervisor-image''"
  "cfg_supervisor_bin (from_arg_matches m) = text_field m ''supervisor-bin''"
  "cfg_dhcp_client_bin (from_arg_matches m) = text_field m ''dhcp-client-bin''"
  "cfg_supervisor_cache_dir (from_arg_matches m) = text_or m ''supervisor-cache-dir''"
  "cfg_supervisor_storage_pool (from_arg_matches m) = text_field m ''supervisor-storage-pool''"
  "cfg_image_work_dir (from_arg_matches m) = text_or m ''image-work-dir''"
  "cfg_default_max_processes (from_arg_matches m) = nat_field m ''default-max-processes''"
  "cfg_start_retries (from_arg_matches m) = nat_field m ''start-retries''"
  "cfg_stop_timeout_secs (from_arg_matches m) = int_field m ''stop-timeout-secs''"
  "cfg_image_pull_timeout_secs (from_arg_matches m) = nat_field m ''image-pull-timeout-secs''"
  "cfg_cleanup_interval_secs (from_arg_matches m) = nat_field m ''cleanup-interval-secs''"
  "cfg_image_cache_alias_prefix (from_arg_matches m) = text_or m ''image-cache-alias-prefix''"
  "cfg_skopeo_path (from_arg_matches m) = text_field m ''skopeo-path''"
  "cfg_umoci_path (from_arg_matches m) = text_field m ''umoci-path''"
  "cfg_mksquashfs_path (from_arg_matches m) = text_field m ''mksquashfs-path''"
  "cfg_lxd_url (from_arg_matches m) = text_field m ''lxd-url''"
  "cfg_lxd_client_cert (from_arg_matches m) = text_field m ''lxd-client-cert''"
  "cfg_lxd_client_key (from_arg_matches m) = text_field m ''lxd-client-key''"
  "cfg_lxd_server_ca (from_arg_matches m) = text_field m ''lxd-server-ca''"
  "cfg_lxd_server_cert (from_arg_matches m) = text_field m ''lxd-server-cert''"
  "cfg_lxd_server_fingerprint (from_arg_matches m) = text_field m ''lxd-server-fingerprint''"
  "cfg_gateway_grpc_port (from_arg_matches m) = nat_field m ''gateway-grpc-port''"
  "cfg_gateway_endpoint (from_arg_matches m) = text_field m ''gateway-endpoint''"
  "cfg_gateway_callback_listener (from_arg_matches m) = addr_field m ''gateway-callback-listener''"
  "cfg_sandbox_nesting (from_arg_matches m) = given_arg m ''sandbox-nesting''"
  "cfg_restrict_sandbox_egress (from_arg_matches m) = given_arg m ''restrict-sandbox-egress''"
  "cfg_guest_tls_ca (from_arg_matches m) = text_field m ''guest-tls-ca''"
  "cfg_guest_tls_cert (from_arg_matches m) = text_field m ''guest-tls-cert''"
  "cfg_guest_tls_key (from_arg_matches m) = text_field m ''guest-tls-key''"
  "cfg_gateway_tls_server_name (from_arg_matches m) = text_field m ''gateway-tls-server-name''"
  "cfg_allow_plaintext_gateway (from_arg_matches m) = given_arg m ''allow-plaintext-gateway''"
  "cfg_operation_timeout_secs (from_arg_matches m) = nat_field m ''operation-timeout-secs''"
  by (simp_all add: from_arg_matches_def)

definition try_parse_from :: "url_parser \<Rightarrow> path_parser \<Rightarrow> given \<Rightarrow> (clap_error, config) result" where
  "try_parse_from url path given =
     result_bind (collect_args url path Map.empty given) (\<lambda>m.
     result_bind (validate_matches m) (\<lambda>m. Inr (from_arg_matches m)))"

text \<open>\<open>main\<close>: a command line that does not parse ends the program with status 2.\<close>

definition main_startup :: "env \<Rightarrow> url_parser \<Rightarrow> path_parser \<Rightarrow> given \<Rightarrow> (startup_failure, lxd_compute_driver) fallible" where
  "main_startup E url path given =
     lift_ok (map_err (\<lambda>_. Exit 2) (try_parse_from url path given)) (startup E)"

section \<open>What parsing guarantees\<close>

lemma config_longs: "distinct (map arg_long config_args)" "\<forall>a\<in>set config_args. arg_alias a \<in> {None, Some ''udhcpc-path''}"
  "''udhcpc-path'' \<notin> set (map arg_long config_args)"
  by (simp_all add: config_args_def)

lemma find_by_long:
  "distinct (map arg_long as) \<Longrightarrow> \<forall>b\<in>set as. arg_alias b \<noteq> Some (arg_long a) \<Longrightarrow> a \<in> set as \<Longrightarrow>
     find (\<lambda>b. arg_long b = arg_long a \<or> arg_alias b = Some (arg_long a)) as = Some a"
  by (induction as) force+

lemma find_arg_in: "find_arg name = Some a \<Longrightarrow> a \<in> set config_args"
  by (auto simp: find_arg_def find_Some_iff)

lemma find_arg_member: "a \<in> set config_args \<Longrightarrow> find_arg (arg_long a) = Some a"
proof -
  assume a: "a \<in> set config_args"
  then have "arg_long a \<in> set (map arg_long config_args)" by simp
  then have "arg_long a \<noteq> ''udhcpc-path''" using config_longs(3) by metis
  then have "\<forall>b\<in>set config_args. arg_alias b \<noteq> Some (arg_long a)" using config_longs(2) by auto
  then show ?thesis unfolding find_arg_def by (rule find_by_long [OF config_longs(1) _ a])
qed

lemmas find_arg_long = find_arg_member [OF find_arg_in]

text \<open>Everything that was matched went through the parser of its option.\<close>

definition matched_well :: "url_parser \<Rightarrow> path_parser \<Rightarrow> arg_matches \<Rightarrow> bool" where
  "matched_well url path m \<longleftrightarrow> (\<forall>k v. m k = Some v \<longrightarrow> (\<exists>a. find_arg k = Some a
     \<and> (if arg_parser a = Flag then v = Switch else \<exists>raw. parse_value url path (arg_parser a) raw = Inr v)))"

lemma collect_args_matched:
  "collect_args url path m given = Inr m' \<Longrightarrow> matched_well url path m \<Longrightarrow> matched_well url path m'"
proof (induction url path m given rule: collect_args.induct)
  case (2 url path m name raw rest)
  then obtain a where a: "find_arg name = Some a" "m (arg_long a) = None" by (auto split: option.splits if_splits)
  note long = find_arg_long [OF a(1)]
  show ?case
  proof (cases raw)
    case None
    with 2(3) a have flag: "arg_parser a = Flag" "collect_args url path (m(arg_long a \<mapsto> Switch)) rest = Inr m'"
      by (auto split: if_splits)
    have "matched_well url path (m(arg_long a \<mapsto> Switch))"
      using 2(4) long flag(1) by (auto simp: matched_well_def)
    then show ?thesis using 2(1) [OF a(1)] a(2) None flag by (simp del: fun_upd_apply)
  next
    case (Some v)
    with 2(3) a obtain x where x: "parse_value url path (arg_parser a) v = Inr x"
      "collect_args url path (m(arg_long a \<mapsto> x)) rest = Inr m'" by (auto split: sum.splits)
    have "arg_parser a \<noteq> Flag" using x(1) by (auto simp: parse_value_def)
    then have "matched_well url path (m(arg_long a \<mapsto> x))" using 2(4) long x(1) by (auto simp: matched_well_def)
    then show ?thesis using 2(2) [OF a(1)] a(2) Some x by (simp del: fun_upd_apply)
  qed
qed simp

lemma validate_matches_Inr:
  assumes "validate_matches m = Inr m'"
  shows "m' = m"
    and "find_arg k = Some a \<Longrightarrow> given_arg m (arg_long a) \<Longrightarrow>
      list_all (given_arg m) (arg_requires a) \<and> \<not> list_ex (given_arg m) (arg_conflicts a)"
proof -
  have none: "find (conflicting m) config_args = None" "find (unsatisfied m) config_args = None" and "m' = m"
    using assms by (auto simp: validate_matches_def split: option.splits)
  then show "m' = m" by blast
  assume "find_arg k = Some a" "given_arg m (arg_long a)"
  moreover have "a \<in> set config_args" using calculation(1) by (rule find_arg_in)
  ultimately show "list_all (given_arg m) (arg_requires a) \<and> \<not> list_ex (given_arg m) (arg_conflicts a)"
    using none by (auto simp: find_None_iff conflicting_def unsatisfied_def)
qed

lemma try_parse_Inr:
  assumes "try_parse_from url path given = Inr c"
  obtains m where "c = from_arg_matches m" and "matched_well url path m" and "validate_matches m = Inr m"
proof -
  obtain m m' where m: "collect_args url path Map.empty given = Inr m" "validate_matches m = Inr m'" "c = from_arg_matches m'"
    using assms by (auto simp: try_parse_from_def result_bind_eq_Inr)
  have "matched_well url path Map.empty" by (simp add: matched_well_def)
  with collect_args_matched [OF m(1)] validate_matches_Inr(1) [OF m(2)] m that show thesis by blast
qed

text \<open>The entries of the table that the checks below look at.\<close>

lemma config_nth:
  "config_args ! 0 = with_default (Text DEFAULT_SOCKET) (option_arg ''socket'' Path_Parser)"
  "config_args ! 1 = with_default (Text DEFAULT_LXD_SOCKET) (option_arg ''lxd-socket'' Path_Parser)"
  "config_args ! 2 = with_default (Text DEFAULT_LOG_LEVEL) (option_arg ''log-level'' String_Parser)"
  "config_args ! 3 = with_default (Text DEFAULT_SANDBOX_IMAGE) (option_arg ''default-image'' String_Parser)"
  "config_args ! 4 = with_default (Text DEFAULT_PROJECT) (option_arg ''project'' String_Parser)"
  "config_args ! 5 = with_default (Text DEFAULT_NETWORK) (option_arg ''default-network'' String_Parser)"
  "config_args ! 6 = with_default (Text DEFAULT_STORAGE_POOL) (option_arg ''default-storage-pool'' String_Parser)"
  "config_args ! 7 = with_default (Text DEFAULT_SUPERVISOR_IMAGE) (option_arg ''supervisor-image'' String_Parser)"
  "config_args ! 8 = option_arg ''supervisor-bin'' Path_Parser"
  "config_args ! 9 = (option_arg ''dhcp-client-bin'' Path_Parser)\<lparr>arg_alias := Some ''udhcpc-path''\<rparr>"
  "config_args ! 10 = with_default (Text DEFAULT_SUPERVISOR_CACHE_DIR) (option_arg ''supervisor-cache-dir'' Path_Parser)"
  "config_args ! 11 = option_arg ''supervisor-storage-pool'' String_Parser"
  "config_args ! 12 = with_default (Text DEFAULT_IMAGE_WORK_DIR) (option_arg ''image-work-dir'' Path_Parser)"
  "config_args ! 13 = with_default (Unsigned DEFAULT_MAX_PROCESSES) (option_arg ''default-max-processes'' (Unsigned_Parser 32))"
  "config_args ! 14 = with_default (Unsigned DEFAULT_START_RETRIES) (option_arg ''start-retries'' (Unsigned_Parser 32))"
  "config_args ! 15 = with_default (Signed DEFAULT_STOP_TIMEOUT_SECS) (option_arg ''stop-timeout-secs'' (Signed_Parser 64))"
  "config_args ! 16 = with_default (Unsigned DEFAULT_IMAGE_PULL_TIMEOUT_SECS) (option_arg ''image-pull-timeout-secs'' (Unsigned_Parser 64))"
  "config_args ! 17 = with_default (Unsigned DEFAULT_CLEANUP_INTERVAL_SECS) (option_arg ''cleanup-interval-secs'' (Unsigned_Parser 64))"
  "config_args ! 18 = with_default (Text DEFAULT_IMAGE_CACHE_ALIAS_PREFIX) (option_arg ''image-cache-alias-prefix'' String_Parser)"
  "config_args ! 19 = option_arg ''skopeo-path'' Path_Parser"
  "config_args ! 20 = option_arg ''umoci-path'' Path_Parser"
  "config_args ! 21 = option_arg ''mksquashfs-path'' Path_Parser"
  "config_args ! 22 = requires_all [''lxd-client-cert'', ''lxd-client-key''] (option_arg ''lxd-url'' String_Parser)"
  "config_args ! 23 = requires_all [''lxd-url'', ''lxd-client-key''] (option_arg ''lxd-client-cert'' Path_Parser)"
  "config_args ! 24 = requires_all [''lxd-url'', ''lxd-client-cert''] (option_arg ''lxd-client-key'' Path_Parser)"
  "config_args ! 25 = requires_all [''lxd-url''] (conflicts_with_all [''lxd-server-cert'', ''lxd-server-fingerprint''] (option_arg ''lxd-server-ca'' Path_Parser))"
  "config_args ! 26 = requires_all [''lxd-url''] (conflicts_with_all [''lxd-server-ca'', ''lxd-server-fingerprint''] (option_arg ''lxd-server-cert'' Path_Parser))"
  "config_args ! 27 = requires_all [''lxd-url''] (conflicts_with_all [''lxd-server-ca'', ''lxd-server-cert''] (option_arg ''lxd-server-fingerprint'' String_Parser))"
  "config_args ! 28 = with_default (Unsigned DEFAULT_GATEWAY_GRPC_PORT) (option_arg ''gateway-grpc-port'' (Unsigned_Parser 16))"
  "config_args ! 29 = option_arg ''gateway-endpoint'' Endpoint_Parser"
  "config_args ! 30 = option_arg ''gateway-callback-listener'' Listener_Parser"
  "config_args ! 31 = option_arg ''sandbox-nesting'' Flag"
  "config_args ! 32 = option_arg ''restrict-sandbox-egress'' Flag"
  "config_args ! 33 = requires_all [''guest-tls-cert'', ''guest-tls-key''] (option_arg ''guest-tls-ca'' Path_Parser)"
  "config_args ! 34 = requires_all [''guest-tls-ca'', ''guest-tls-key''] (option_arg ''guest-tls-cert'' Path_Parser)"
  "config_args ! 35 = requires_all [''guest-tls-ca'', ''guest-tls-cert''] (option_arg ''guest-tls-key'' Path_Parser)"
  "config_args ! 36 = option_arg ''gateway-tls-server-name'' Server_Name_Parser"
  "config_args ! 37 = conflicts_with_all [''guest-tls-ca'', ''guest-tls-cert'', ''guest-tls-key''] (option_arg ''allow-plaintext-gateway'' Flag)"
  "config_args ! 38 = with_default (Unsigned DEFAULT_OPERATION_TIMEOUT_SECS) (option_arg ''operation-timeout-secs'' (Unsigned_Parser 64))"
  by (simp_all add: config_args_def)

lemma find_arg_at: "i < 39 \<Longrightarrow> find_arg (arg_long (config_args ! i)) = Some (config_args ! i)"
proof -
  assume i: "i < 39"
  have "length config_args = 39" by (simp add: config_args_def)
  with i have "config_args ! i \<in> set config_args" by (metis nth_mem)
  then show ?thesis by (rule find_arg_member)
qed

lemmas arg_entries =
  find_arg_at [of 0, unfolded config_nth, simplified]
  find_arg_at [of 1, unfolded config_nth, simplified]
  find_arg_at [of 2, unfolded config_nth, simplified]
  find_arg_at [of 3, unfolded config_nth, simplified]
  find_arg_at [of 4, unfolded config_nth, simplified]
  find_arg_at [of 5, unfolded config_nth, simplified]
  find_arg_at [of 6, unfolded config_nth, simplified]
  find_arg_at [of 7, unfolded config_nth, simplified]
  find_arg_at [of 8, unfolded config_nth, simplified]
  find_arg_at [of 9, unfolded config_nth, simplified]
  find_arg_at [of 10, unfolded config_nth, simplified]
  find_arg_at [of 11, unfolded config_nth, simplified]
  find_arg_at [of 12, unfolded config_nth, simplified]
  find_arg_at [of 13, unfolded config_nth, simplified]
  find_arg_at [of 14, unfolded config_nth, simplified]
  find_arg_at [of 15, unfolded config_nth, simplified]
  find_arg_at [of 16, unfolded config_nth, simplified]
  find_arg_at [of 17, unfolded config_nth, simplified]
  find_arg_at [of 18, unfolded config_nth, simplified]
  find_arg_at [of 19, unfolded config_nth, simplified]
  find_arg_at [of 20, unfolded config_nth, simplified]
  find_arg_at [of 21, unfolded config_nth, simplified]
  find_arg_at [of 22, unfolded config_nth, simplified]
  find_arg_at [of 23, unfolded config_nth, simplified]
  find_arg_at [of 24, unfolded config_nth, simplified]
  find_arg_at [of 25, unfolded config_nth, simplified]
  find_arg_at [of 26, unfolded config_nth, simplified]
  find_arg_at [of 27, unfolded config_nth, simplified]
  find_arg_at [of 28, unfolded config_nth, simplified]
  find_arg_at [of 29, unfolded config_nth, simplified]
  find_arg_at [of 30, unfolded config_nth, simplified]
  find_arg_at [of 31, unfolded config_nth, simplified]
  find_arg_at [of 32, unfolded config_nth, simplified]
  find_arg_at [of 33, unfolded config_nth, simplified]
  find_arg_at [of 34, unfolded config_nth, simplified]
  find_arg_at [of 35, unfolded config_nth, simplified]
  find_arg_at [of 36, unfolded config_nth, simplified]
  find_arg_at [of 37, unfolded config_nth, simplified]
  find_arg_at [of 38, unfolded config_nth, simplified]

text \<open>An optional text field is there exactly when its option was given.\<close>

lemma text_field_given:
  assumes "matched_well url path m" and "find_arg k = Some a" and "arg_default a = None"
    and "arg_parser a \<in> {String_Parser, Path_Parser, Endpoint_Parser, Server_Name_Parser}"
  shows "text_field m k = None \<longleftrightarrow> \<not> given_arg m k"
proof (cases "m k")
  case None
  then show ?thesis using assms(2,3) by (simp add: text_field_def arg_value_of_def given_arg_def)
next
  case (Some v)
  then obtain raw where "parse_value url path (arg_parser a) raw = Inr v"
    using assms(1,2,4) unfolding matched_well_def by fastforce
  with assms(4) have "\<exists>t. v = Text t" by (auto simp: parse_value_def)
  then show ?thesis using Some by (auto simp: text_field_def arg_value_of_def given_arg_def)
qed

section \<open>Properties\<close>

text \<open>The fields that \<open>clap_accepts\<close> relates, and the options they come from.\<close>

lemma accepted_fields:
  assumes "matched_well url path m"
  shows "cfg_lxd_url (from_arg_matches m) = None \<longleftrightarrow> \<not> given_arg m ''lxd-url''"
    and "cfg_lxd_client_cert (from_arg_matches m) = None \<longleftrightarrow> \<not> given_arg m ''lxd-client-cert''"
    and "cfg_lxd_client_key (from_arg_matches m) = None \<longleftrightarrow> \<not> given_arg m ''lxd-client-key''"
    and "cfg_lxd_server_ca (from_arg_matches m) = None \<longleftrightarrow> \<not> given_arg m ''lxd-server-ca''"
    and "cfg_lxd_server_cert (from_arg_matches m) = None \<longleftrightarrow> \<not> given_arg m ''lxd-server-cert''"
    and "cfg_lxd_server_fingerprint (from_arg_matches m) = None \<longleftrightarrow> \<not> given_arg m ''lxd-server-fingerprint''"
    and "cfg_guest_tls_ca (from_arg_matches m) = None \<longleftrightarrow> \<not> given_arg m ''guest-tls-ca''"
    and "cfg_guest_tls_cert (from_arg_matches m) = None \<longleftrightarrow> \<not> given_arg m ''guest-tls-cert''"
    and "cfg_guest_tls_key (from_arg_matches m) = None \<longleftrightarrow> \<not> given_arg m ''guest-tls-key''"
  using text_field_given [OF assms arg_entries(23)] text_field_given [OF assms arg_entries(24)]
    text_field_given [OF assms arg_entries(25)] text_field_given [OF assms arg_entries(26)]
    text_field_given [OF assms arg_entries(27)] text_field_given [OF assms arg_entries(28)]
    text_field_given [OF assms arg_entries(34)] text_field_given [OF assms arg_entries(35)]
    text_field_given [OF assms arg_entries(36)]
  by simp_all

lemma accepted_relations:
  assumes "validate_matches m = Inr m"
  shows "given_arg m ''lxd-url'' \<longleftrightarrow> given_arg m ''lxd-client-cert''"
    and "given_arg m ''lxd-url'' \<longleftrightarrow> given_arg m ''lxd-client-key''"
    and "given_arg m ''lxd-server-ca'' \<or> given_arg m ''lxd-server-cert'' \<or> given_arg m ''lxd-server-fingerprint''
      \<Longrightarrow> given_arg m ''lxd-url''"
    and "\<not> (given_arg m ''lxd-server-ca'' \<and> given_arg m ''lxd-server-cert'')"
    and "\<not> (given_arg m ''lxd-server-ca'' \<and> given_arg m ''lxd-server-fingerprint'')"
    and "\<not> (given_arg m ''lxd-server-cert'' \<and> given_arg m ''lxd-server-fingerprint'')"
    and "given_arg m ''guest-tls-ca'' \<longleftrightarrow> given_arg m ''guest-tls-cert''"
    and "given_arg m ''guest-tls-ca'' \<longleftrightarrow> given_arg m ''guest-tls-key''"
    and "given_arg m ''allow-plaintext-gateway'' \<Longrightarrow> \<not> given_arg m ''guest-tls-ca''"
proof -
  note given = validate_matches_Inr(2) [OF assms]
  note url = given [OF arg_entries(23), simplified] given [OF arg_entries(24), simplified] given [OF arg_entries(25), simplified]
    given [OF arg_entries(26), simplified] given [OF arg_entries(27), simplified] given [OF arg_entries(28), simplified]
  note tls = given [OF arg_entries(34), simplified] given [OF arg_entries(35), simplified] given [OF arg_entries(36), simplified]
    given [OF arg_entries(38), simplified]
  show "given_arg m ''lxd-url'' \<longleftrightarrow> given_arg m ''lxd-client-cert''"
    "given_arg m ''lxd-url'' \<longleftrightarrow> given_arg m ''lxd-client-key''"
    "given_arg m ''lxd-server-ca'' \<or> given_arg m ''lxd-server-cert'' \<or> given_arg m ''lxd-server-fingerprint''
      \<Longrightarrow> given_arg m ''lxd-url''"
    "\<not> (given_arg m ''lxd-server-ca'' \<and> given_arg m ''lxd-server-cert'')"
    "\<not> (given_arg m ''lxd-server-ca'' \<and> given_arg m ''lxd-server-fingerprint'')"
    "\<not> (given_arg m ''lxd-server-cert'' \<and> given_arg m ''lxd-server-fingerprint'')"
    using url by blast+
  show "given_arg m ''guest-tls-ca'' \<longleftrightarrow> given_arg m ''guest-tls-cert''"
    "given_arg m ''guest-tls-ca'' \<longleftrightarrow> given_arg m ''guest-tls-key''"
    "given_arg m ''allow-plaintext-gateway'' \<Longrightarrow> \<not> given_arg m ''guest-tls-ca''"
    using tls by blast+
qed

lemma at_most_one_given:
  "length (filter (\<lambda>o'. o' \<noteq> None) [a, b, c]) \<le> 1 \<longleftrightarrow>
     a = None \<and> b = None \<or> a = None \<and> c = None \<or> b = None \<and> c = None"
  by auto

lemma accepted_clap:
  assumes "matched_well url path m" and "validate_matches m = Inr m"
  shows "clap_accepts (from_arg_matches m)"
proof -
  have plain: "cfg_allow_plaintext_gateway (from_arg_matches m) = given_arg m ''allow-plaintext-gateway''"
    by (simp add: from_arg_matches_def)
  show ?thesis
    unfolding clap_accepts_def plain at_most_one_given accepted_fields [OF assms(1)]
    using accepted_relations [OF assms(2)] by blast
qed

lemma parse_number_value_bound: "parse_number_value w s = Some n \<Longrightarrow> n < 2 ^ w"
  by (auto simp: parse_number_value_def bind_eq_Some_conv nat_less_iff dest: parse_unsigned_bound split: if_splits)

lemma nat_field_bound:
  assumes "matched_well url path m" and "find_arg k = Some a" and "arg_parser a = Unsigned_Parser w"
    and "arg_default a = Some (Unsigned d)" and "d < 2 ^ w"
  shows "nat_field m k < 2 ^ w"
proof (cases "m k")
  case None
  then show ?thesis using assms(2,4,5) by (simp add: nat_field_def arg_value_of_def)
next
  case (Some v)
  then obtain raw where "parse_value url path (Unsigned_Parser w) raw = Inr v"
    using assms(1,2,3) unfolding matched_well_def by fastforce
  then have "\<exists>n. v = Unsigned n \<and> n < 2 ^ w"
    using parse_number_value_bound by (auto simp: parse_value_def ok_or_def split: option.splits)
  then show ?thesis using Some by (auto simp: nat_field_def arg_value_of_def)
qed

text \<open>What was given for an option without a default went through its parser.\<close>

lemma text_field_parsed:
  assumes "matched_well url path m" and "find_arg k = Some a" and "arg_default a = None" and "arg_parser a = Endpoint_Parser"
    and "text_field m k = Some t"
  shows "\<exists>raw. parse_gateway_endpoint url raw = Inr t"
proof -
  have "m k = Some (Text t)" using assms(2,3,5)
    by (auto simp: text_field_def arg_value_of_def split: option.splits arg_value.splits)
  then show ?thesis using assms(1,2,4) by (force simp: matched_well_def parse_value_def)
qed

lemma addr_field_parsed:
  assumes "matched_well url path m" and "find_arg k = Some a" and "arg_default a = None" and "arg_parser a = Listener_Parser"
    and "addr_field m k = Some addr"
  shows "\<not> is_unspecified (sa_ip addr) \<and> \<not> is_multicast (sa_ip addr) \<and> sa_port addr \<noteq> 0"
proof -
  have "m k = Some (Address addr)" using assms(2,3,5)
    by (auto simp: addr_field_def arg_value_of_def split: option.splits arg_value.splits)
  then obtain raw where "parse_callback_listener raw = Inr addr"
    using assms(1,2,4) by (force simp: matched_well_def parse_value_def)
  then show ?thesis by (auto simp: parse_callback_listener_def split: option.splits if_splits)
qed

lemma endpoint_of_accepted: "clap_accepts c \<Longrightarrow> \<exists>ep. endpoint_of c = Inr ep"
  by (cases "cfg_lxd_url c"; cases "cfg_lxd_client_cert c"; cases "cfg_lxd_client_key c")
    (auto simp: clap_accepts_def endpoint_of_def ok_or_def result_bind_def)


text \<open>A command line with TLS towards the gateway and a remote LXD, and a URL parser that knows its endpoint.\<close>

definition sample_url_parser :: url_parser where
  "sample_url_parser v = (if v = ''https://10.0.0.5:17670'' then
      Inr \<lparr>url_scheme = ''https'', url_host = Some ''10.0.0.5'', url_path = ''/'', url_query = None, url_fragment = None,
           url_username = [], url_password = None, url_text = ''https://10.0.0.5:17670/''\<rparr>
    else Inl ''relative URL without a base'')"

definition sample_given :: given where
  "sample_given = [(''guest-tls-ca'', Some ''/ca''), (''guest-tls-cert'', Some ''/cert''), (''guest-tls-key'', Some ''/key''),
     (''gateway-endpoint'', Some ''https://10.0.0.5:17670''), (''gateway-callback-listener'', Some ''169.254.17.1:17670''),
     (''restrict-sandbox-egress'', None), (''lxd-url'', Some ''https://10.0.0.1:8443''), (''lxd-client-cert'', Some ''/c''),
     (''lxd-client-key'', Some ''/k'')]"

lemma sample_url_spec: "url_text_spec sample_url_parser"
proof -
  have "url_text url = url_scheme url @ ''://'' @ ''10.0.0.5:17670'' @ url_path url"
    if "sample_url_parser v = Inr url" for v url
    using that by (auto simp: sample_url_parser_def split: if_splits)
  then show ?thesis unfolding url_text_spec_def by (intro allI impI exI [of _ "''10.0.0.5:17670''"]) auto
qed

lemmas ip_test_defs = parse_socket_addr_def parse_socket_addr_v4_def parse_socket_addr_v6_def parse_ipv4_def
  parse_number_max_def parse_octet_def is_ascii_digit_def digits_val_def digit_val_def of_octets_def is_unspecified_def
  is_multicast_def

lemma sample_values:
  "parse_callback_listener ''169.254.17.1:17670'' = Inr \<lparr>sa_ip = V4 2852000001, sa_port = 17670, sa_scope = 0\<rparr>"
  "parse_gateway_endpoint sample_url_parser ''https://10.0.0.5:17670'' = Inr ''https://10.0.0.5:17670''"
  by (simp add: parse_callback_listener_def ip_test_defs,
    simp add: parse_gateway_endpoint_def sample_url_parser_def result_bind_def map_err_def trim_end_matches_def)

text \<open>The options that require or exclude others, and the check in terms of them.\<close>

definition related_args :: "arg list" where
  "related_args = filter (\<lambda>a. arg_requires a \<noteq> [] \<or> arg_conflicts a \<noteq> []) config_args"

lemma related_args_eq:
  "related_args =
     [requires_all [''lxd-client-cert'', ''lxd-client-key''] (option_arg ''lxd-url'' String_Parser),
      requires_all [''lxd-url'', ''lxd-client-key''] (option_arg ''lxd-client-cert'' Path_Parser),
      requires_all [''lxd-url'', ''lxd-client-cert''] (option_arg ''lxd-client-key'' Path_Parser),
      requires_all [''lxd-url''] (conflicts_with_all [''lxd-server-cert'', ''lxd-server-fingerprint'']
        (option_arg ''lxd-server-ca'' Path_Parser)),
      requires_all [''lxd-url''] (conflicts_with_all [''lxd-server-ca'', ''lxd-server-fingerprint'']
        (option_arg ''lxd-server-cert'' Path_Parser)),
      requires_all [''lxd-url''] (conflicts_with_all [''lxd-server-ca'', ''lxd-server-cert'']
        (option_arg ''lxd-server-fingerprint'' String_Parser)),
      requires_all [''guest-tls-cert'', ''guest-tls-key''] (option_arg ''guest-tls-ca'' Path_Parser),
      requires_all [''guest-tls-ca'', ''guest-tls-key''] (option_arg ''guest-tls-cert'' Path_Parser),
      requires_all [''guest-tls-ca'', ''guest-tls-cert''] (option_arg ''guest-tls-key'' Path_Parser),
      conflicts_with_all [''guest-tls-ca'', ''guest-tls-cert'', ''guest-tls-key''] (option_arg ''allow-plaintext-gateway'' Flag)]"
  by (simp add: related_args_def config_args_def)

definition relations_hold :: "arg_matches \<Rightarrow> bool" where
  "relations_hold m \<longleftrightarrow> list_all (\<lambda>a. \<not> conflicting m a \<and> \<not> unsatisfied m a) related_args"

lemma validate_matches_relations: "relations_hold m \<Longrightarrow> validate_matches m = Inr m" "\<not> relations_hold m \<Longrightarrow> isl (validate_matches m)"
proof -
  have "relations_hold m \<longleftrightarrow> find (conflicting m) config_args = None \<and> find (unsatisfied m) config_args = None"
    by (auto simp: relations_hold_def related_args_def list_all_iff find_None_iff conflicting_def unsatisfied_def)
  then show "relations_hold m \<Longrightarrow> validate_matches m = Inr m" "\<not> relations_hold m \<Longrightarrow> isl (validate_matches m)"
    by (auto simp: validate_matches_def split: option.splits)
qed

text \<open>Parsing in two steps: first the values, then the relations.\<close>

definition parse_outcome :: "(clap_error, arg_matches) result \<Rightarrow> (config \<Rightarrow> bool) \<Rightarrow> bool" where
  "parse_outcome r P = (case r of Inr m \<Rightarrow> relations_hold m \<and> P (from_arg_matches m) | Inl _ \<Rightarrow> False)"

definition parse_fails :: "(clap_error, arg_matches) result \<Rightarrow> bool" where
  "parse_fails r = (case r of Inr m \<Rightarrow> \<not> relations_hold m | Inl _ \<Rightarrow> True)"

lemma parse_outcome_iff:
  "(\<exists>c. try_parse_from url path given = Inr c \<and> P c) \<longleftrightarrow> parse_outcome (collect_args url path Map.empty given) P"
  "isl (try_parse_from url path given) \<longleftrightarrow> parse_fails (collect_args url path Map.empty given)"
proof -
  let ?r = "collect_args url path Map.empty given"
  show "(\<exists>c. try_parse_from url path given = Inr c \<and> P c) \<longleftrightarrow> parse_outcome ?r P"
    "isl (try_parse_from url path given) \<longleftrightarrow> parse_fails ?r"
    using validate_matches_relations [of "projr ?r"]
    by (cases ?r; cases "validate_matches (projr ?r)"; auto simp: try_parse_from_def parse_outcome_def parse_fails_def)+
qed

lemma parse_outcome_simps [simp]:
  "parse_outcome (Inr m) P \<longleftrightarrow> relations_hold m \<and> P (from_arg_matches m)" "\<not> parse_outcome (Inl e) P"
  "parse_fails (Inr m) \<longleftrightarrow> \<not> relations_hold m" "parse_fails (Inl e)"
  by (simp_all add: parse_outcome_def parse_fails_def)

lemmas relation_defs = relations_hold_def related_args_eq conflicting_def unsatisfied_def given_arg_def

lemmas parse_defs = parse_value_def map_ok_def arg_entries

definition sample_cli_config :: config where
  "sample_cli_config = projr (try_parse_from sample_url_parser Inr sample_given)"

lemma sample_cli: "try_parse_from sample_url_parser Inr sample_given = Inr sample_cli_config"
proof -
  have "parse_outcome (collect_args sample_url_parser Inr Map.empty sample_given) (\<lambda>_. True)"
    by (simp add: parse_defs sample_values sample_given_def relation_defs)
  then show ?thesis unfolding parse_outcome_iff [symmetric] by (auto simp: sample_cli_config_def)
qed


end
