(* ===== verification/Test_Driver.thy ===== *)
theory Test_Driver
  imports Watcher Gc Egress_Policy Test_Support
begin

text \<open>
  The tests of \<open>error.rs\<close>, \<open>watcher.rs\<close>, \<open>gc.rs\<close> and \<open>egress.rs\<close> of \<open>openshell-driver-lxd/src\<close> that touch neither the
  file system nor a socket. Printing JSON is the environment's; where a test tells events apart by their JSON, the
  printer keeps different values apart, as \<open>serde_json\<close>'s does.
\<close>

section \<open>Errors\<close>

definition api :: "nat \<Rightarrow> driver_error" where
  "api status = Lxd (Api status (''lxd said '' @ dec status))"

definition status_code_follows_error_kind :: bool where
  "status_code_follows_error_kind \<longleftrightarrow> list_all (\<lambda>(err, expected). status_code (status_of_error err) = expected)
     [(Unimplemented ''x'', Code_Unimplemented), (InvalidArgument ''x'', Code_InvalidArgument),
      (FailedPrecondition ''x'', Code_FailedPrecondition), (NotFoundError ''x'', Code_NotFound),
      (Timeout, Code_DeadlineExceeded), (ImageImport ''x'', Code_Internal), (api 400, Code_InvalidArgument),
      (api 401, Code_Unauthenticated), (api 403, Code_PermissionDenied), (api 404, Code_NotFound),
      (api 409, Code_AlreadyExists), (api 500, Code_Internal), (api 503, Code_Internal),
      (Lxd (InvalidQuantity ''lots'' ''not a number''), Code_InvalidArgument),
      (Lxd (OperationFailed ''Starting instance'' ''boom''), Code_Internal), (Lxd (Io ''socket gone''), Code_Internal)]"

lemma status_code_follows_error_kind_passes: status_code_follows_error_kind
  by (simp add: status_code_follows_error_kind_def api_def status_simps)

definition status_message_keeps_the_underlying_detail :: bool where
  "status_message_keeps_the_underlying_detail \<longleftrightarrow>
     status_message (status_of_error (api 409)) = ''lxd said 409''
     \<and> (let message = status_message (status_of_error (api 500))
        in contains_str message ''status code 500'' \<and> contains_str message ''lxd said 500'')
     \<and> status_message (status_of_error (ImageImport ''manifest unknown'')) = ''image import failed: manifest unknown''
     \<and> contains_str (status_message (status_of_error (Lxd (InvalidQuantity ''lots'' ''not a number''))))
         (CHR 0x22 # ''lots'' @ [CHR 0x22])"

lemma status_message_keeps_the_underlying_detail_passes: status_message_keeps_the_underlying_detail
proof -
  have "dec 409 = ''409''" "dec 500 = ''500''" by (simp_all add: dec.simps)
  then show ?thesis
    by (simp add: status_message_keeps_the_underlying_detail_def api_def status_simps debug_str_def debug_char_def
        starts_with_def)
qed

section \<open>The watcher\<close>

definition extracts_name_from_explicit_field :: bool where
  "extracts_name_from_explicit_field \<longleftrightarrow>
     (let metadata = Object [(''action'', Str ''instance-shutdown''), (''name'', Str ''sb-1'')]
      in instance_name metadata = Some ''sb-1'' \<and> action_of metadata = Some ''instance-shutdown'')"

definition falls_back_to_source_path :: bool where
  "falls_back_to_source_path \<longleftrightarrow>
     instance_name (Object [(''action'', Str ''instance-stopped''), (''source'', Str ''/1.0/instances/sb-2'')]) = Some ''sb-2''"

definition source_fallback_strips_project_query :: bool where
  "source_fallback_strips_project_query \<longleftrightarrow>
     instance_name (Object [(''action'', Str ''instance-shutdown''),
       (''source'', Str ''/1.0/instances/sb-3?project=sandboxes'')]) = Some ''sb-3''"

definition explicit_name_wins_over_source :: bool where
  "explicit_name_wins_over_source \<longleftrightarrow>
     instance_name (Object [(''action'', Str ''instance-started''), (''name'', Str ''sb-4''),
       (''source'', Str ''/1.0/instances/sb-4?project=sandboxes'')]) = Some ''sb-4''"

definition ignores_events_without_identity :: bool where
  "ignores_events_without_identity \<longleftrightarrow>
     instance_name (Object [(''action'', Str ''instance-shutdown'')]) = None
     \<and> instance_name (Object [(''name'', Str [])]) = None \<and> action_of (Object []) = None"

lemma event_names_pass: extracts_name_from_explicit_field falls_back_to_source_path source_fallback_strips_project_query
  explicit_name_wins_over_source ignores_events_without_identity
  by code_simp+

definition watches_guest_death_and_api_stop :: bool where
  "watches_guest_death_and_api_stop \<longleftrightarrow>
     ''instance-shutdown'' \<in> set WATCHED_ACTIONS \<and> ''instance-stopped'' \<in> set WATCHED_ACTIONS
     \<and> ''instance-log-retrieved'' \<notin> set WATCHED_ACTIONS \<and> ''image-created'' \<notin> set WATCHED_ACTIONS"

definition deletion_is_not_a_re_read_action_but_creation_is :: bool where
  "deletion_is_not_a_re_read_action_but_creation_is \<longleftrightarrow>
     DELETED_ACTION \<notin> set WATCHED_ACTIONS \<and> ''instance-created'' \<in> set WATCHED_ACTIONS"

definition reconcile_detects_deletions_during_disconnect_gap :: bool where
  "reconcile_detects_deletions_during_disconnect_gap \<longleftrightarrow>
     (let known = [(''sb-survivor'', ''id-survivor''), (''sb-gap-deleted'', ''id-gap-deleted'')];
          ids = [(''sb-survivor'', ''id-survivor''), (''sb-new'', ''id-new'')];
          (deleted, known) = reconcile_and_seed_sandbox_ids known ids ids
      in deleted = [''id-gap-deleted''] \<and> map_of known ''sb-survivor'' = Some ''id-survivor''
         \<and> map_of known ''sb-new'' = Some ''id-new'' \<and> map_of known ''sb-gap-deleted'' = None)"

definition reconcile_preserves_instance_deleted_at_subscribe_boundary :: bool where
  "reconcile_preserves_instance_deleted_at_subscribe_boundary \<longleftrightarrow>
     (let (deleted, known) = reconcile_and_seed_sandbox_ids [] [(''sb-border'', ''id-border'')] []
      in deleted = [] \<and> map_of known ''sb-border'' = Some ''id-border'')"

lemma watched_actions_pass: watches_guest_death_and_api_stop deletion_is_not_a_re_read_action_but_creation_is
  reconcile_detects_deletions_during_disconnect_gap reconcile_preserves_instance_deleted_at_subscribe_boundary
  by code_simp+

definition event_at :: "string \<Rightarrow> string \<Rightarrow> lxd_event" where
  "event_at timestamp action = \<lparr>ev_timestamp = timestamp, ev_type = ''lifecycle'',
     ev_metadata = Object [(''action'', Str action), (''name'', Str ''sb-5'')]\<rparr>"

definition drops_repeated_events :: "env \<Rightarrow> bool" where
  "drops_repeated_events E \<longleftrightarrow>
     (let shutdown = event_at ''2026-09-13T15:56:55.230810123Z'' ''instance-shutdown'';
          (a, recent) = first_sighting E [] shutdown;
          (b, recent) = first_sighting E recent shutdown;
          (c, recent) = first_sighting E recent (event_at ''2026-09-13T15:57:01.000000000Z'' ''instance-shutdown'');
          (d, recent) = first_sighting E recent (event_at ''2026-09-13T15:56:55.230810123Z'' ''instance-stopped'')
      in a \<and> \<not> b \<and> c \<and> d)"

lemma drops_repeated_events_passes: "inj (ext_json_print E) \<Longrightarrow> drops_repeated_events E"
  by (simp add: drops_repeated_events_def first_sighting_def event_key_def event_at_def RECENT_EVENTS_def inj_eq)

text \<open>The events \<open>t-i\<close> for \<open>i\<close> in a list, one after the other: each is new, and the queue after them.\<close>

fun sight_all :: "env \<Rightarrow> string list \<Rightarrow> nat list \<Rightarrow> bool \<times> string list" where
  "sight_all E recent [] = (True, recent)"
| "sight_all E recent (i # is) =
     (let (fresh, recent) = first_sighting E recent (event_at (''t-'' @ dec i) ''instance-started'');
          (rest, recent) = sight_all E recent is
      in (fresh \<and> rest, recent))"

definition remembers_a_bounded_number_of_events :: "env \<Rightarrow> bool" where
  "remembers_a_bounded_number_of_events E \<longleftrightarrow>
     (let start = event_at ''t-0'' ''instance-started'';
          (a, recent) = first_sighting E [] start;
          (all_new, recent) = sight_all E recent [1..<RECENT_EVENTS + 1];
          (again, _) = first_sighting E recent start
      in a \<and> all_new \<and> length recent = RECENT_EVENTS \<and> again)"

text \<open>The key of the event \<open>t-i\<close>, and what seeing a run of new ones does to the queue.\<close>

definition key_at :: "env \<Rightarrow> nat \<Rightarrow> string" where
  "key_at E i = event_key E (event_at (''t-'' @ dec i) ''instance-started'')"

lemma event_key_at: "event_key E (event_at (CHR ''t'' # CHR ''-'' # dec i) ''instance-started'') = key_at E i"
  by (simp add: key_at_def)

lemma key_at_inj: "key_at E i = key_at E j \<longleftrightarrow> i = j"
proof
  assume "key_at E i = key_at E j"
  then have "dec i @ '' '' @ m = dec j @ '' '' @ m" if "m = ext_json_print E (ev_metadata (event_at [] ''instance-started''))" for m
    using that by (simp add: key_at_def event_key_def event_at_def)
  then show "i = j" by simp
qed simp

lemma sight_all_new:
  assumes "sorted_wrt (<) is" and "\<forall>i\<in>set is. \<forall>j\<in>set js. j < i" and "length js \<le> RECENT_EVENTS"
    and "length is + length js \<le> RECENT_EVENTS + 1"
  shows "sight_all E (map (key_at E) js) is = (True, map (key_at E) (drop (length is + length js - RECENT_EVENTS) (js @ is)))"
  using assms
proof (induction "is" arbitrary: js)
  case (Cons i "is")
  have new: "key_at E i \<notin> set (map (key_at E) js)" using Cons.prems(2) by (auto simp: key_at_inj)
  define js' where "js' = (if length js = RECENT_EVENTS then tl js else js) @ [i]"
  have step: "first_sighting E (map (key_at E) js) (event_at (''t-'' @ dec i) ''instance-started'') = (True, map (key_at E) js')"
    using new by (simp add: first_sighting_def js'_def map_tl event_key_at Let_def)
  show ?case
  proof (cases "length js = RECENT_EVENTS")
    case True
    with Cons.prems(4) have "is = []" by simp
    moreover have "Suc 0 - RECENT_EVENTS = 0" by (simp add: RECENT_EVENTS_def)
    ultimately show ?thesis using True step by (simp add: js'_def drop_Suc)
  next
    case False
    then have js': "js' = js @ [i]" by (simp add: js'_def)
    with Cons False have "sight_all E (map (key_at E) js') is
        = (True, map (key_at E) (drop (length is + length js' - RECENT_EVENTS) (js' @ is)))"
      by (intro Cons.IH) auto
    with step show ?thesis by (simp add: js')
  qed
qed simp

lemma remembers_a_bounded_number_of_events_passes: "remembers_a_bounded_number_of_events E"
proof -
  have "dec 0 = ''0''" by (simp add: dec.simps)
  then have key: "event_key E (event_at ''t-0'' ''instance-started'') = key_at E 0" by (simp add: key_at_def)
  have "sight_all E (map (key_at E) [0]) [1..<RECENT_EVENTS + 1]
      = (True, map (key_at E) (drop (length [1..<RECENT_EVENTS + 1] + length [0 :: nat] - RECENT_EVENTS) ([0] @ [1..<RECENT_EVENTS + 1])))"
    by (rule sight_all_new) (auto simp: RECENT_EVENTS_def)
  then have all: "sight_all E [key_at E 0] [1..<RECENT_EVENTS + 1] = (True, map (key_at E) [1..<RECENT_EVENTS + 1])"
    by (simp add: RECENT_EVENTS_def)
  have "key_at E 0 \<notin> set (map (key_at E) [1..<RECENT_EVENTS + 1])" by (auto simp: key_at_inj)
  then show ?thesis
    using all by (simp add: remembers_a_bounded_number_of_events_def first_sighting_def key RECENT_EVENTS_def del: upt_Suc)
qed

section \<open>Clean-up\<close>

definition image_with :: "string list \<Rightarrow> image" where
  "image_with names = \<lparr>img_fingerprint = replicate 64 (CHR ''f''), img_project = ''sandboxes'', img_aliases = names\<rparr>"

definition only_older_revisions_of_driver_images_are_stale :: bool where
  "only_older_revisions_of_driver_images_are_stale \<longleftrightarrow>
     (let digest = concat (replicate 32 ''ab'');
          current = ''openshell-oci-r'' @ dec CONVERSION_REVISION @ ''-'' @ digest;
          older = ''openshell-oci-r'' @ dec (CONVERSION_REVISION - 1) @ ''-'' @ digest;
          newer = ''openshell-oci-r'' @ dec (CONVERSION_REVISION + 1) @ ''-'' @ digest;
          legacy = ''openshell-oci-'' @ digest;
          stale = (\<lambda>names. is_stale_image (image_with names) ''sandboxes'' ''openshell-oci-'')
      in \<not> stale [current] \<and> stale [older] \<and> stale [legacy] \<and> \<not> stale [newer] \<and> \<not> stale [older, ''my-image'']
         \<and> \<not> stale [] \<and> \<not> stale [''ubuntu-26.04''] \<and> \<not> stale [''openshell-oci-r1-notadigest'']
         \<and> \<not> is_stale_image (image_with [older]) ''other'' ''openshell-oci-'')"

definition volume_with :: "string \<Rightarrow> string list \<Rightarrow> storage_volume" where
  "volume_with name used_by = \<lparr>vol_name = name, vol_project = ''sandboxes'', vol_used_by = used_by, vol_location = ''rhea''\<rparr>"

definition only_unused_other_auxiliary_volumes_go :: bool where
  "only_unused_other_auxiliary_volumes_go \<longleftrightarrow>
     (let keep = [supervisor_volume_name ''sha256:aaaa'', dhcp_client_volume_name ''bbbb'']
      in is_unused_aux_volume (volume_with ''openshell-supervisor-cccc'' []) ''sandboxes'' keep
         \<and> is_unused_aux_volume (volume_with ''openshell-dhcp-client-dddd'' []) ''sandboxes'' keep
         \<and> \<not> is_unused_aux_volume (volume_with ''openshell-supervisor-aaaa'' []) ''sandboxes'' keep
         \<and> \<not> is_unused_aux_volume (volume_with ''openshell-supervisor-cccc'' [''/1.0/instances/sb'']) ''sandboxes'' keep
         \<and> \<not> is_unused_aux_volume (volume_with ''user-data'' []) ''sandboxes'' keep
         \<and> \<not> is_unused_aux_volume (volume_with ''openshell-supervisor-cccc'' []) ''other'' keep)"

lemma only_unused_other_auxiliary_volumes_go_passes: only_unused_other_auxiliary_volumes_go
  by code_simp

lemma revision_alias:
  assumes "n < 2 ^ 32"
  shows "is_older_revision_alias (''openshell-oci-r'' @ dec n @ ''-'' @ digest) ''openshell-oci-'' \<longleftrightarrow>
    n < CONVERSION_REVISION \<and> is_digest digest"
proof -
  have "CHR ''-'' \<notin> set (dec n)" by (rule sep_not_in_dec) (simp add: is_ascii_digit_def)
  then have "split_once (CHR ''-'') (dec n @ CHR ''-'' # digest) = Some (dec n, digest)" by (rule split_once_append)
  then show ?thesis by (simp add: is_older_revision_alias_def parse_dec [OF assms])
qed

lemma test_digest: "is_digest (concat (replicate 32 ''ab''))"
  by (simp add: is_digest_def char_class_defs length_concat sum_list_replicate list_all_iff)

lemma not_driver_aliases:
  "\<not> is_older_revision_alias ''my-image'' ''openshell-oci-''" "\<not> is_older_revision_alias ''ubuntu-26.04'' ''openshell-oci-''"
  "\<not> is_older_revision_alias ''openshell-oci-r1-notadigest'' ''openshell-oci-''"
  by (simp_all add: is_older_revision_alias_def parse_unsigned_def digits_val_def digit_val_def is_ascii_digit_def is_digest_def)

lemma legacy_alias: "is_older_revision_alias (''openshell-oci-'' @ concat (replicate 32 ''ab'')) ''openshell-oci-''"
proof -
  have "\<exists>cs. concat (replicate 32 ''ab'') = CHR ''a'' # cs" by (simp add: numeral_eq_Suc)
  then obtain cs where "concat (replicate 32 ''ab'') = CHR ''a'' # cs" by blast
  then show ?thesis using test_digest by (simp add: is_older_revision_alias_def)
qed

lemma only_older_revisions_of_driver_images_are_stale_passes: only_older_revisions_of_driver_images_are_stale
  using revision_alias [of 3] revision_alias [of 2] revision_alias [of 4] legacy_alias
  by (simp add: only_older_revisions_of_driver_images_are_stale_def is_stale_image_def image_with_def not_driver_aliases
      test_digest CONVERSION_REVISION_def)

section \<open>Egress\<close>

text \<open>Membership of an address in the texts of a list of CIDR blocks.\<close>

definition cidrs_contain :: "string list \<Rightarrow> string \<Rightarrow> bool" where
  "cidrs_contain cidrs address = expect_some (parse_ipv4 address) (\<lambda>ip. list_ex (entry_matches ip) cidrs)"

definition public_ranges_leave_out_lan_and_host_addresses :: bool where
  "public_ranges_leave_out_lan_and_host_addresses \<longleftrightarrow>
     list_all (\<lambda>private. \<not> cidrs_contain public_ipv4_cidrs private)
       [''10.131.189.2'', ''192.168.1.166'', ''172.17.0.1'', ''127.0.0.1'', ''169.254.17.1'', ''100.64.0.1'']
     \<and> list_all (cidrs_contain public_ipv4_cidrs) [''1.1.1.1'', ''140.82.121.4'', ''8.8.8.8'', ''223.255.255.255'']"

lemma public_ranges_leave_out_lan_and_host_addresses_passes: public_ranges_leave_out_lan_and_host_addresses
  by (simp add: public_ranges_leave_out_lan_and_host_addresses_def cidrs_contain_def public_entries public_blocks_cover
      in_public_ranges parse_ipv4_def parse_octet_def is_ascii_digit_def digits_val_def digit_val_def of_octets_def
      NON_PUBLIC_IPV4_def ipv4_def in_cidr_def)

definition acl_is_named_after_the_network :: bool where
  "acl_is_named_after_the_network \<longleftrightarrow> acl_name ''sandboxes'' = ''openshell-egress-sandboxes''"

lemma acl_is_named_after_the_network_passes: acl_is_named_after_the_network
  by code_simp

text \<open>\<open>fd42::5\<close>.\<close>

definition FD42_5 :: ip_addr where
  "FD42_5 = V6 (0xFD42 * 2 ^ 112 + 5)"

definition gateway_addresses_are_grouped_by_port :: bool where
  "gateway_addresses_are_grouped_by_port \<longleftrightarrow>
     (let rules = egress_rules [\<lparr>sa_ip = FD42_5, sa_port = 17670, sa_scope = 0\<rparr>,
            \<lparr>sa_ip = V4 (ipv4 10 0 0 5), sa_port = 17670, sa_scope = 0\<rparr>]
      in rule_destination (rules ! 0) = ''10.0.0.5,fd42::5'' \<and> rule_destination_port (rules ! 0) = ''17670''
         \<and> length rules = 3)"

lemma one_run: "a \<noteq> 0 \<Longrightarrow> longest_zeros [a, 0, 0, 0, 0, 0, 0, 5] = (1, 6)"
proof -
  assume a: "a \<noteq> 0"
  have upto: "[0..<length [a, 0, 0, 0, 0, 0, 0, 5]] = [0, 1, 2, 3, 4, 5, 6, 7 :: nat]" by (simp add: upt_rec)
  show ?thesis unfolding longest_zeros_def upto using a by simp
qed

lemma test_addresses: "show_ip (V4 (ipv4 10 0 0 5)) = ''10.0.0.5''" "show_ip FD42_5 = ''fd42::5''"
proof -
  show "show_ip (V4 (ipv4 10 0 0 5)) = ''10.0.0.5''"
    by (simp add: show_ip_def show_ipv4_def octets_def ipv4_def of_octets_def dec.simps)
  have upto: "[0..<8] = [0, 1, 2, 3, 4, 5, 6, 7 :: nat]" by code_simp
  then have segments: "segments (0xFD42 * 2 ^ 112 + 5) = [0xFD42, 0, 0, 0, 0, 0, 0, 5]"
    by (simp add: segments_def)
  moreover have "longest_zeros [0xFD42, 0, 0, 0, 0, 0, 0, 5] = (1, 6)" by (rule one_run) simp
  moreover have "(0xFD42 * 2 ^ 112 + 5) div 2 ^ 32 \<noteq> (0xFFFF :: nat)" by simp
  ultimately have "show_ipv6 (0xFD42 * 2 ^ 112 + 5) = show_groups [0xFD42] @ ''::'' @ show_groups [5]"
    unfolding show_ipv6_def Let_def by simp
  moreover have "hex_char 15 = CHR ''f''" "hex_char 13 = CHR ''d''" "hex_char 4 = CHR ''4''" "hex_char 2 = CHR ''2''"
    "hex_char 5 = CHR ''5''" by code_simp+
  ultimately show "show_ip FD42_5 = ''fd42::5''" by (simp add: FD42_5_def show_ip_def show_groups_def hex_nat.simps)
qed

lemma gateway_addresses_are_grouped_by_port_passes: gateway_addresses_are_grouped_by_port
  by (simp add: gateway_addresses_are_grouped_by_port_def egress_rules_def gateway_rule_def described_def allow_egress_def
      join_addresses_def test_addresses dec.simps)

end
