(* ===== verification/Test_Image.thy ===== *)
theory Test_Image
  imports Image Dhcp Test_Support
begin

text \<open>
  The tests of \<open>openshell-driver-lxd/src/image.rs\<close> on references, digests and owners, and those of \<open>dhcp_client.rs\<close> on
  the bytes of an executable. Parsing JSON and SHA-256 are the environment's.
\<close>

section \<open>Aliases, owners and quoting\<close>

definition ab_32 :: string where
  "ab_32 = concat (replicate 32 ''ab'')"

definition cache_alias_golden :: bool where
  "cache_alias_golden \<longleftrightarrow>
     (let alias_name = cache_alias (''sha256:'' @ ab_32)
      in alias_name = ''openshell-oci-r3-'' @ ab_32 \<and> length alias_name = length ''openshell-oci-r3-'' + 64)"

lemma length_ab_32: "length ab_32 = 64"
  by (simp add: ab_32_def length_concat sum_list_replicate)

lemma cache_alias_golden_passes: cache_alias_golden
  by (simp add: cache_alias_golden_def cache_alias_def cache_alias_with_prefix_def DEFAULT_CACHE_ALIAS_PREFIX_def
      CONVERSION_REVISION_def dec.simps length_ab_32)

definition rootless_owner_records_decode :: bool where
  "rootless_owner_records_decode \<longleftrightarrow>
     decode_rootless_owner [CHR 0x08, CHR 0xE6, CHR 0x07, CHR 0x10, CHR 0xE6, CHR 0x07] = Some (998, 998)
     \<and> decode_rootless_owner [CHR 0x08, CHR 0xFF, CHR 0xFF, CHR 0xFF, CHR 0xFF, CHR 0x0F, CHR 0x10, CHR 0x2A] = Some (0, 42)
     \<and> decode_rootless_owner [] = Some (0, 0)
     \<and> decode_rootless_owner [CHR 0x08, CHR 0xE6] = None
     \<and> decode_rootless_owner [CHR 0x0A, CHR 0x01] = None"

lemma rootless_owner_records_decode_passes: rootless_owner_records_decode
  by (simp add: rootless_owner_records_decode_def decode_rootless_owner_def ROOTLESS_NOOP_ID_def)

definition pseudo_paths_are_quoted :: bool where
  "pseudo_paths_are_quoted \<longleftrightarrow>
     pseudo_quote ''etc/passwd'' = CHR 0x22 # ''etc/passwd'' @ [CHR 0x22]
     \<and> pseudo_quote (''dir with space/fi'' @ [CHR 0x22] @ ''le'' @ [CHR 0x5C] @ ''x'')
       = CHR 0x22 # ''dir with space/fi'' @ [CHR 0x5C, CHR 0x22] @ ''le'' @ [CHR 0x5C, CHR 0x5C] @ ''x'' @ [CHR 0x22]"

lemma pseudo_paths_are_quoted_passes: pseudo_paths_are_quoted
  by code_simp

definition cache_alias_uniqueness :: bool where
  "cache_alias_uniqueness \<longleftrightarrow>
     cache_alias (''sha256:'' @ concat (replicate 32 ''01'')) \<noteq> cache_alias (''sha256:'' @ concat (replicate 32 ''02''))"

lemma cache_alias_uniqueness_passes: cache_alias_uniqueness
proof -
  have "concat (replicate 32 ''01'') \<noteq> concat (replicate 32 ''02'')" by (simp add: numeral_eq_Suc)
  then show ?thesis by (simp add: cache_alias_uniqueness_def cache_alias_def cache_alias_with_prefix_def)
qed

section \<open>References\<close>

definition reference_validation :: bool where
  "reference_validation \<longleftrightarrow>
     list_all (\<lambda>r. validate_reference r = Inr ())
       [''ubuntu'', ''ubuntu:22.04'', ''registry.example.com/openshell-sandbox:test'',
        ''registry.example.com:5000/repo/app:v1.0'', ''registry.example.com/app@sha256:'' @ ab_32,
        ''registry.example.com/app:v1@sha256:'' @ ab_32, ''docker://ubuntu:22.04'',
        ''docker://registry.example.com/org/sandbox:latest'']
     \<and> list_all (\<lambda>r. expect_err (validate_reference r) (\<lambda>e. case e of InvalidArgument _ \<Rightarrow> True | _ \<Rightarrow> False))
       [[], ''ubuntu; rm -rf /'', ''ubuntu && touch /tmp/pwn'', ''ubuntu|cat'', ''ubuntu`id`'', ''ubuntu$(id)'',
        ''ubuntu'' @ [CHR 0x0A], ''ubuntu foo'', ''ubuntu:'', ''UPPER/Case::bad'']"

lemma sample_references:
  "list_all (is_match OCI_REF_REGEX)
     [''ubuntu'', ''ubuntu:22.04'', ''registry.example.com/openshell-sandbox:test'',
      ''registry.example.com:5000/repo/app:v1.0'', ''docker://ubuntu:22.04'', ''docker://registry.example.com/org/sandbox:latest'']"
  "list_all (is_match OCI_REF_REGEX) [''registry.example.com/app@sha256:'' @ ab_32, ''registry.example.com/app:v1@sha256:'' @ ab_32]"
  "\<not> list_ex (is_match OCI_REF_REGEX)
     [''ubuntu; rm -rf /'', ''ubuntu && touch /tmp/pwn'', ''ubuntu|cat'', ''ubuntu`id`'', ''ubuntu$(id)'',
        ''ubuntu'' @ [CHR 0x0A], ''ubuntu foo'', ''ubuntu:'', ''UPPER/Case::bad'']"
  by code_simp+

lemma reference_validation_passes: reference_validation
  using sample_references by (simp add: reference_validation_def validate_reference_def del: is_match.simps)

definition inspect_target_drops_the_tag_of_a_pinned_reference :: bool where
  "inspect_target_drops_the_tag_of_a_pinned_reference \<longleftrightarrow>
     (let digest = ''sha256:'' @ ab_32
      in list_all (\<lambda>(reference, expected). inspect_target reference = expected)
        [(''ghcr.io/nvidia/openshell/supervisor:0.0.116@'' @ digest, ''docker://ghcr.io/nvidia/openshell/supervisor@'' @ digest),
         (''docker://registry.example.com:5000/app:v1@'' @ digest, ''docker://registry.example.com:5000/app@'' @ digest),
         (''registry.example.com/app@'' @ digest, ''docker://registry.example.com/app@'' @ digest),
         (''registry.example.com:5000/app:v1'', ''docker://registry.example.com:5000/app:v1''),
         (''docker://ubuntu'', ''docker://ubuntu'')])"

lemma inspect_target_drops_the_tag_of_a_pinned_reference_passes: inspect_target_drops_the_tag_of_a_pinned_reference
  by code_simp

definition repo_extraction :: bool where
  "repo_extraction \<longleftrightarrow> list_all (\<lambda>(reference, expected). repo_path reference = expected)
     [(''ubuntu'', ''ubuntu''), (''ubuntu:22.04'', ''ubuntu''),
      (''registry.example.com:5000/app:latest'', ''registry.example.com:5000/app''),
      (''registry.example.com/foo@sha256:'' @ ab_32, ''registry.example.com/foo''),
      (''registry.example.com:5000/foo:v1@sha256:'' @ ab_32, ''registry.example.com:5000/foo''),
      (''docker://registry.example.com/org/sandbox:latest'', ''registry.example.com/org/sandbox''),
      (''docker://registry.example.com/org/sandbox@sha256:'' @ ab_32, ''registry.example.com/org/sandbox'')]"

lemma repo_extraction_passes: repo_extraction
  by code_simp

section \<open>Manifests\<close>

definition manifest_entry :: "string \<Rightarrow> string \<Rightarrow> string \<Rightarrow> json" where
  "manifest_entry digest os arch = Object [(''digest'', Str digest),
     (''platform'', Object [(''architecture'', Str arch), (''os'', Str os)])]"

definition test_index :: json where
  "test_index = Object [(''manifests'', Array [manifest_entry ''sha256:aaaa'' ''linux'' ''amd64'',
      manifest_entry ''sha256:bbbb'' ''linux'' ''arm64'', manifest_entry ''sha256:cccc'' ''unknown'' ''unknown'']),
     (''mediaType'', Str ''application/vnd.oci.image.index.v1+json'')]"

text \<open>\<open>raw\<close> is the text of the index, so the environment parses it to that value.\<close>

definition arch_digest_differs_per_architecture :: "env \<Rightarrow> string \<Rightarrow> bool" where
  "arch_digest_differs_per_architecture E raw \<longleftrightarrow>
     select_arch_digest E raw ''linux'' ''amd64'' = Inr ''sha256:aaaa''
     \<and> select_arch_digest E raw ''linux'' ''arm64'' = Inr ''sha256:bbbb''
     \<and> expect_err (select_arch_digest E raw ''linux'' ''riscv64'') (\<lambda>_. True)"

lemma arch_digest_differs_per_architecture_passes:
  "ext_json_parse E raw = Inr test_index \<Longrightarrow> arch_digest_differs_per_architecture E raw"
  by (simp add: arch_digest_differs_per_architecture_def select_arch_digest_def test_index_def manifest_entry_def get_def
      as_array_def as_str_def)

definition single_manifest_digest_is_content_digest :: "env \<Rightarrow> string \<Rightarrow> bool" where
  "single_manifest_digest_is_content_digest E raw \<longleftrightarrow>
     expect (select_arch_digest E raw ''linux'' ''amd64'') (\<lambda>digest. digest = ''sha256:'' @ hex_digest (ext_sha256 E raw))"

lemma single_manifest_digest_is_content_digest_passes:
  "ext_json_parse E raw = Inr (Object [(''layers'', Array []), (''mediaType'', Str ''application/vnd.oci.image.manifest.v1+json'')])
   \<Longrightarrow> single_manifest_digest_is_content_digest E raw"
  by (simp add: single_manifest_digest_is_content_digest_def select_arch_digest_def get_def)

definition malformed_manifest_is_rejected :: "env \<Rightarrow> bool" where
  "malformed_manifest_is_rejected E \<longleftrightarrow> expect_err (select_arch_digest E ''not json'' ''linux'' ''amd64'') (\<lambda>_. True)"

lemma malformed_manifest_is_rejected_passes:
  "ext_json_parse E ''not json'' = Inl e \<Longrightarrow> malformed_manifest_is_rejected E"
  by (simp add: malformed_manifest_is_rejected_def select_arch_digest_def)

definition host_oci_arch_uses_oci_names :: "env \<Rightarrow> bool" where
  "host_oci_arch_uses_oci_names E \<longleftrightarrow>
     host_oci_arch E \<noteq> [] \<and> host_oci_arch E \<noteq> ''x86_64'' \<and> host_oci_arch E \<noteq> ''aarch64''"

lemma host_oci_arch_uses_oci_names_passes: "env_arch E \<noteq> [] \<Longrightarrow> host_oci_arch_uses_oci_names E"
  by (simp add: host_oci_arch_uses_oci_names_def host_oci_arch_def Let_def)

section \<open>Executables\<close>

text \<open>The dummy executable: a 64-bit little-endian ELF header and one program header.\<close>

definition create_dummy_elf_binary :: "bool \<Rightarrow> string" where
  "create_dummy_elf_binary is_static =
     [CHR 0x7F, CHR ''E'', CHR ''L'', CHR ''F'', CHR 0x02, CHR 0x01, CHR 0x01] @ replicate 9 (CHR 0x00)
     @ [CHR 0x02, CHR 0x00] @ replicate 14 (CHR 0x00)
     @ [CHR 0x40, CHR 0x00, CHR 0x00, CHR 0x00, CHR 0x00, CHR 0x00, CHR 0x00, CHR 0x00] @ replicate 12 (CHR 0x00)
     @ [CHR 0x40, CHR 0x00, CHR 0x38, CHR 0x00, CHR 0x01, CHR 0x00] @ replicate 6 (CHR 0x00)
     @ [if is_static then CHR 0x01 else CHR 0x03] @ replicate 55 (CHR 0x00)"

text \<open>A host on which \<open>path\<close> is a regular file with these bytes and mode 755, and nothing else exists.\<close>

definition host_with :: "env \<Rightarrow> string \<Rightarrow> string \<Rightarrow> bool" where
  "host_with E path bytes \<longleftrightarrow>
     (\<forall>h p. env_fs_stat E h (Metadata p) = (if p = path then
          Inr \<lparr>meta_is_symlink = False, meta_is_file = True, meta_is_dir = False, meta_is_socket = False, meta_mode = 493,
            meta_uid = 0, meta_len = length bytes, meta_age_secs = Some 0\<rparr>
        else Inl (NotFound ''no such file or directory'')))
     \<and> (\<forall>h n. env_fs_text E h (Read_Prefix path n) = Inr (take n bytes))
     \<and> (\<forall>h. env_read_file E h path = Inr bytes)"

lemma three_zeros: "replicate 3 (0 :: nat) = [0, 0, 0]"
  by (simp add: numeral_eq_Suc)

lemma dummy_elf_fields:
  "length (create_dummy_elf_binary b) = 120" "take 4 (create_dummy_elf_binary b) = elf_magic"
  "byte_at (create_dummy_elf_binary b) 5 = 1" "byte_at (create_dummy_elf_binary b) 4 = 2"
  "read_uint 2 True (create_dummy_elf_binary b) 16 = Some 2" "read_uint 8 True (create_dummy_elf_binary b) 32 = Some 64"
  "read_uint 2 True (create_dummy_elf_binary b) 54 = Some 56" "read_uint 2 True (create_dummy_elf_binary b) 56 = Some 1"
  "read_uint 4 True (create_dummy_elf_binary b) 64 = Some (if b then 1 else 3)"
proof -
  show "length (create_dummy_elf_binary b) = 120" by (simp add: create_dummy_elf_binary_def)
  show "take 4 (create_dummy_elf_binary b) = elf_magic" by (simp add: create_dummy_elf_binary_def elf_magic_def)
  show "byte_at (create_dummy_elf_binary b) 5 = 1" "byte_at (create_dummy_elf_binary b) 4 = 2"
    by (simp_all add: create_dummy_elf_binary_def byte_at_def)
  show "read_uint 2 True (create_dummy_elf_binary b) 16 = Some 2" "read_uint 8 True (create_dummy_elf_binary b) 32 = Some 64"
    "read_uint 2 True (create_dummy_elf_binary b) 54 = Some 56" "read_uint 2 True (create_dummy_elf_binary b) 56 = Some 1"
    "read_uint 4 True (create_dummy_elf_binary b) 64 = Some (if b then 1 else 3)"
    by (simp_all add: create_dummy_elf_binary_def read_uint_def three_zeros)
qed

lemma dummy_elf:
  "is_static_elf_bytes (create_dummy_elf_binary b) = b"
  "take 65536 (create_dummy_elf_binary b) = create_dummy_elf_binary b" "\<not> length (create_dummy_elf_binary b) < 52"
  by (simp_all add: is_static_elf_bytes_def elf_is_le_def program_headers_def no_interp_def header_type_def checked_mul_def
      checked_add_def PT_INTERP_def dummy_elf_fields)

definition resolve_with_override_existing :: "env \<Rightarrow> string \<Rightarrow> bool" where
  "resolve_with_override_existing E path \<longleftrightarrow>
     expect_some (fst (resolve_dhcp_client_binary E (Some path) [])) (\<lambda>r. r = Inr path)"

definition resolve_with_override_rejects_dynamic_binary :: "env \<Rightarrow> string \<Rightarrow> bool" where
  "resolve_with_override_rejects_dynamic_binary E path \<longleftrightarrow>
     expect_some (fst (resolve_dhcp_client_binary E (Some path) [])) (\<lambda>r. expect_err r (\<lambda>e.
       contains_str (show_driver_error e) ''dynamically linked''))"

definition resolve_with_override_missing :: "env \<Rightarrow> bool" where
  "resolve_with_override_missing E \<longleftrightarrow>
     expect_some (fst (resolve_dhcp_client_binary E (Some ''/path/to/nonexistent/dhcp-client-xyz'') [])) (\<lambda>r.
       expect_err r (\<lambda>e. contains_str (show_driver_error e) ''does not exist''))"

definition load_dhcp_client_with_dummy_executable :: "env \<Rightarrow> string \<Rightarrow> bool" where
  "load_dhcp_client_with_dummy_executable E path \<longleftrightarrow>
     expect_some (fst (load_dhcp_client E (Some path) [])) (\<lambda>r. expect r (\<lambda>(bytes, digest).
       bytes \<noteq> [] \<and> starts_with digest ''sha256:''))"

lemmas resolve_test_defs = resolve_dhcp_client_binary_def is_executable_def is_static_elf_def executable_bits_def
  host_with_def await_def fs_stat_def fs_text_def perform_def return_def ok_def err_def

lemma contains_middle: "contains_str (u @ p @ v) p"
  by (auto simp: contains_str_iff)

lemma resolve_with_override_existing_passes:
  "host_with E path (create_dummy_elf_binary True) \<Longrightarrow> resolve_with_override_existing E path"
  by (simp add: resolve_with_override_existing_def resolve_test_defs dummy_elf)

lemma resolve_with_override_rejects_dynamic_binary_passes:
  "host_with E path (create_dummy_elf_binary False) \<Longrightarrow> resolve_with_override_rejects_dynamic_binary E path"
  using contains_middle [of "''DHCP client error: configured DHCP client binary '' @ debug_str path @ '' is ''" "''dynamically linked''"
    "'' or not a static ELF executable; fallback DHCP client must be statically linked''"]
  by (simp add: resolve_with_override_rejects_dynamic_binary_def resolve_test_defs dummy_elf show_driver_error_def)

lemma resolve_with_override_missing_passes:
  "host_with E path bytes \<Longrightarrow> path \<noteq> ''/path/to/nonexistent/dhcp-client-xyz'' \<Longrightarrow> resolve_with_override_missing E"
  using contains_middle [of "''DHCP client error: configured DHCP client binary '' @ debug_str ''/path/to/nonexistent/dhcp-client-xyz'' @ '' ''"
    "''does not exist''" "'' or is not executable''"]
  by (simp add: resolve_with_override_missing_def resolve_test_defs show_driver_error_def)

lemma load_dhcp_client_with_dummy_executable_passes:
  "host_with E path (create_dummy_elf_binary True) \<Longrightarrow> load_dhcp_client_with_dummy_executable E path"
  by (simp add: load_dhcp_client_with_dummy_executable_def load_dhcp_client_def await_ok_def await_map_def read_file_def
      resolve_test_defs dummy_elf dhcp_client_digest_def starts_with_def map_err_def)
    (simp add: create_dummy_elf_binary_def)

end
