(* ===== verification/Test_Client.thy ===== *)
theory Test_Client
  imports Acls Lxd_Client Split_Image_Body Test_Support
begin

text \<open>
  The tests of \<open>client.rs\<close>, \<open>acls.rs\<close> and \<open>split_image_body.rs\<close> of \<open>lxd-client/src\<close>. SHA-256, the crypto provider and
  the \<open>url\<close> crate are parameters: what a test relies on them for is a hypothesis of its lemma.
\<close>

section \<open>Pinned servers\<close>

definition pinned_server_cert_accepts_only_its_own_bytes :: "crypto_provider \<Rightarrow> bool" where
  "pinned_server_cert_accepts_only_its_own_bytes provider \<longleftrightarrow>
     (let pinned = pinned_impl \<lparr>psc_cert = [CHR 0x01, CHR 0x02, CHR 0x03, CHR 0x04], psc_provider = provider\<rparr>
      in expect (verify_server_cert pinned [CHR 0x01, CHR 0x02, CHR 0x03, CHR 0x04]) (\<lambda>_. True)
         \<and> expect_err (verify_server_cert pinned [CHR 0x01, CHR 0x02, CHR 0x03, CHR 0x05]) (\<lambda>_. True)
         \<and> supported_verify_schemes pinned \<noteq> [])"

lemma pinned_server_cert_accepts_only_its_own_bytes_passes:
  "crypto_schemes provider \<noteq> [] \<Longrightarrow> pinned_server_cert_accepts_only_its_own_bytes provider"
  by (simp add: pinned_server_cert_accepts_only_its_own_bytes_def verifier_defs psc_supported_verify_schemes_def)

definition fingerprint_verifier_matches_sha256 :: "(string \<Rightarrow> nat list) \<Rightarrow> crypto_provider \<Rightarrow> bool" where
  "fingerprint_verifier_matches_sha256 digest provider \<longleftrightarrow>
     (let cert_bytes = [CHR 0x0A, CHR 0x14, CHR 0x1E, CHR 0x28];
          verifier = fingerprint_impl digest \<lparr>fv_fingerprint = digest cert_bytes, fv_provider = provider\<rparr>
      in expect (verify_server_cert verifier cert_bytes) (\<lambda>_. True)
         \<and> expect_err (verify_server_cert verifier [CHR 0x0A, CHR 0x14, CHR 0x1E, CHR 0x29]) (\<lambda>_. True))"

lemma fingerprint_verifier_matches_sha256_passes:
  "digest [CHR 0x0A, CHR 0x14, CHR 0x1E, CHR 0x29] \<noteq> digest [CHR 0x0A, CHR 0x14, CHR 0x1E, CHR 0x28]
   \<Longrightarrow> fingerprint_verifier_matches_sha256 digest provider"
  by (simp add: fingerprint_verifier_matches_sha256_def verifier_defs)

definition parse_fingerprint_accepts_valid_hex :: bool where
  "parse_fingerprint_accepts_valid_hex \<longleftrightarrow>
     (let hex = ''a1b2c3d4e5f60718293a4b5c6d7e8f90a1b2c3d4e5f60718293a4b5c6d7e8f90'';
          colon_hex = ''A1:B2:C3:D4:E5:F6:07:18:29:3A:4B:5C:6D:7E:8F:90:A1:B2:C3:D4:E5:F6:07:18:29:3A:4B:5C:6D:7E:8F:90''
      in expect_some (parse_fingerprint hex) (\<lambda>r. expect r (\<lambda>_. True))
         \<and> parse_fingerprint colon_hex = parse_fingerprint hex)"

definition parse_fingerprint_rejects_invalid_hex :: bool where
  "parse_fingerprint_rejects_invalid_hex \<longleftrightarrow>
     expect_some (parse_fingerprint ''too short'') (\<lambda>r. expect_err r (\<lambda>_. True))
     \<and> expect_some (parse_fingerprint ''not_hex_chars_at_all_012345678901234567890123456789012345678901234567'')
         (\<lambda>r. expect_err r (\<lambda>_. True))"

lemma fingerprint_tests_pass: parse_fingerprint_accepts_valid_hex parse_fingerprint_rejects_invalid_hex
  by code_simp+

section \<open>The client\<close>

definition test_client :: lxd_client where
  "test_client = \<lparr>cl_endpoint = UnixSocket ''/tmp/test.sock'', cl_tls_connector = None, cl_project = DEFAULT_PROJECT\<rparr>"

lemma test_client_new: "fst (lxd_client_new E (UnixSocket ''/tmp/test.sock'') h) = Some (Inr test_client)"
  by (simp add: lxd_client_new_def test_client_def ok_def return_def)

definition new_defaults_to_default_project :: bool where
  "new_defaults_to_default_project \<longleftrightarrow> cl_project test_client = DEFAULT_PROJECT"

definition with_project_overrides_default :: bool where
  "with_project_overrides_default \<longleftrightarrow> cl_project (with_project test_client ''custom'') = ''custom''"

lemma client_projects_pass: new_defaults_to_default_project with_project_overrides_default
  by (simp_all add: new_defaults_to_default_project_def with_project_overrides_default_def test_client_def with_project_def)

text \<open>The \<open>url\<close> crate on the paths of the tests: the query follows the first question mark, and a pair is appended
  with its value form-encoded.\<close>

definition form_encode :: "string \<Rightarrow> string" where
  "form_encode v = map (\<lambda>c. if c = CHR '' '' then CHR ''+'' else c) v"

definition url_crate :: "env \<Rightarrow> bool" where
  "url_crate E \<longleftrightarrow>
     (\<forall>path. ext_url_join E path = (case split_once (CHR ''?'') path of Some (p, q) \<Rightarrow> (p, Some q) | None \<Rightarrow> (path, None)))
     \<and> (\<forall>q k v. ext_append_pair E q k v = Some ((case q of Some q \<Rightarrow> q @ ''&'' | None \<Rightarrow> []) @ k @ ''='' @ form_encode v))"

definition decorate_path_bare_path_uses_question_mark :: "env \<Rightarrow> bool" where
  "decorate_path_bare_path_uses_question_mark E \<longleftrightarrow>
     decorate_path E (with_project test_client ''p'') ''/1.0/instances'' = ''/1.0/instances?project=p''"

definition decorate_path_with_recursion_uses_ampersand :: "env \<Rightarrow> bool" where
  "decorate_path_with_recursion_uses_ampersand E \<longleftrightarrow>
     decorate_path E (with_project test_client ''p'') ''/1.0/instances?recursion=1'' = ''/1.0/instances?recursion=1&project=p''"

definition decorate_path_with_file_push_path_uses_ampersand :: "env \<Rightarrow> bool" where
  "decorate_path_with_file_push_path_uses_ampersand E \<longleftrightarrow>
     decorate_path E (with_project test_client ''p'') ''/1.0/instances/foo/files?path=/etc/test''
       = ''/1.0/instances/foo/files?path=/etc/test&project=p''"

definition decorate_path_wait_timeout_uses_ampersand :: "env \<Rightarrow> bool" where
  "decorate_path_wait_timeout_uses_ampersand E \<longleftrightarrow>
     decorate_path E (with_project test_client ''p'') ''/1.0/operations/uuid/wait?timeout=-1''
       = ''/1.0/operations/uuid/wait?timeout=-1&project=p''"

definition decorate_path_url_encodes_project_name :: "env \<Rightarrow> bool" where
  "decorate_path_url_encodes_project_name E \<longleftrightarrow>
     decorate_path E (with_project test_client ''my project'') ''/1.0/instances'' = ''/1.0/instances?project=my+project''"

lemma decorate_path_tests_pass:
  assumes "url_crate E"
  shows "decorate_path_bare_path_uses_question_mark E" "decorate_path_with_recursion_uses_ampersand E"
    "decorate_path_with_file_push_path_uses_ampersand E" "decorate_path_wait_timeout_uses_ampersand E"
    "decorate_path_url_encodes_project_name E"
  using assms by (simp_all add: decorate_path_bare_path_uses_question_mark_def decorate_path_with_recursion_uses_ampersand_def
      decorate_path_with_file_push_path_uses_ampersand_def decorate_path_wait_timeout_uses_ampersand_def
      decorate_path_url_encodes_project_name_def url_crate_def decorate_path_def with_project_def form_encode_def)

section \<open>Network ACLs\<close>

definition rules_serialize_as_lxd_returns_them :: bool where
  "rules_serialize_as_lxd_returns_them \<longleftrightarrow>
     rule_to_json (described (allow_egress ''192.0.2.0/24'' None []) ''public ipv4'')
       = Object [(''action'', Str ''allow''), (''description'', Str ''public ipv4''), (''destination'', Str ''192.0.2.0/24''),
           (''state'', Str ''enabled'')]
     \<and> index (rule_to_json (allow_egress_tcp ''10.0.0.1'' 53)) ''protocol'' = Str ''tcp''"

lemma rules_serialize_as_lxd_returns_them_passes: rules_serialize_as_lxd_returns_them
  by (simp add: rules_serialize_as_lxd_returns_them_def rule_to_json_def described_def allow_egress_def allow_egress_tcp_def
      show_action_def show_state_def show_protocol_def index_def get_def)

definition test_acl :: "(string \<times> json) list \<Rightarrow> json \<Rightarrow> json" where
  "test_acl extra rule = Object ([(''config'', Object []), (''description'', Str ''OpenShell sandbox egress policy''),
     (''egress'', Array [rule]), (''ingress'', Array [])] @ extra)"

definition matching_ignores_fields_it_does_not_manage :: bool where
  "matching_ignores_fields_it_does_not_manage \<longleftrightarrow>
     (let desired = test_acl [] (rule_to_json (allow_egress_tcp ''10.0.0.1'' 53));
          extra = [(''name'', Str ''acl''), (''project'', Str ''openshell''), (''used_by'', Array [Str ''/1.0/instances/sb''])]
      in acl_matches (test_acl extra (rule_to_json (allow_egress_tcp ''10.0.0.1'' 53))) desired
         \<and> \<not> acl_matches (test_acl extra (rule_to_json (allow_egress_tcp ''10.0.0.2'' 53))) desired)"

lemma matching_ignores_fields_it_does_not_manage_passes: matching_ignores_fields_it_does_not_manage
  by (simp add: matching_ignores_fields_it_does_not_manage_def test_acl_def acl_matches_def acl_rules_def get_def as_array_def
      rule_to_json_def allow_egress_def allow_egress_tcp_def show_action_def show_state_def show_protocol_def)

section \<open>The streamed body\<close>

text \<open>A file that is read as far as the buffer allows: what is left of its bytes.\<close>

definition read_bytes :: "string \<Rightarrow> nat \<Rightarrow> read_poll \<times> string" where
  "read_bytes file n = (Read_Ready (take n file), drop n file)"

lemma drain_more:
  "drain pr 3 b = drain pr (Suc (Suc (Suc 0))) b" "drain pr 6 b = drain pr (Suc (Suc (Suc (Suc (Suc (Suc 0)))))) b"
  by (simp_all only: numeral_eq_Suc pred_numeral_simps BitM.simps Num.numeral_One One_nat_def)

definition test_split_image_body_empty_rootfs :: bool where
  "test_split_image_body_empty_rootfs \<longleftrightarrow>
     (let body = split_new ''metadata.tar.xz'' ''meta'' ''rootfs.squashfs'' [] 0 ''bound'';
          q = [CHR 0x22];
          expected_preamble = ''--bound'' @ crlf @ ''Content-Disposition: form-data; name='' @ q @ ''metadata'' @ q
            @ ''; filename='' @ q @ ''metadata.tar.xz'' @ q @ crlf @ ''Content-Type: application/octet-stream'' @ crlf @ crlf
            @ ''meta'' @ crlf @ ''--bound'' @ crlf @ ''Content-Disposition: form-data; name='' @ q @ ''rootfs'' @ q
            @ ''; filename='' @ q @ ''rootfs.squashfs'' @ q @ crlf @ ''Content-Type: application/octet-stream'' @ crlf @ crlf;
          expected_closing = crlf @ ''--bound--'' @ crlf;
          (frames, outcome) = drain read_bytes 3 body
      in outcome = Complete \<and> concat frames = expected_preamble @ expected_closing)"

lemma test_split_image_body_empty_rootfs_passes: test_split_image_body_empty_rootfs
  by (simp add: test_split_image_body_empty_rootfs_def split_new_def preamble_of_def part_headers_def closing_of_def
      poll_defs drain_more)

text \<open>The large upload: 700 KiB in chunks of at most 256 KiB.\<close>

definition test_split_image_body_byte_equality_and_chunk_bound :: "string \<Rightarrow> bool" where
  "test_split_image_body_byte_equality_and_chunk_bound expected_rootfs \<longleftrightarrow>
     (let metadata_bytes = ''fake-metadata-content-12345''; boundary = ''testboundary123'';
          expected_body = part_headers boundary ''metadata'' ''metadata.tar.xz'' @ metadata_bytes @ crlf
            @ part_headers boundary ''rootfs'' ''rootfs.squashfs'' @ expected_rootfs @ crlf @ ''--'' @ boundary @ ''--'' @ crlf;
          body = split_new ''metadata.tar.xz'' metadata_bytes ''rootfs.squashfs'' expected_rootfs (length expected_rootfs) boundary;
          (frames, outcome) = drain read_bytes 6 body
      in size_hint body = length expected_body \<and> outcome = Complete \<and> concat frames = expected_body
         \<and> list_all (\<lambda>f. length f \<le> ROOTFS_CHUNK_SIZE) frames \<and> length frames = 5)"

lemma drain_chunk:
  assumes "0 < remaining" and "remaining \<le> length file"
  shows "drain read_bytes (Suc n) \<lparr>sib_state = Rootfs, sib_preamble = p, sib_rootfs_file = file, sib_rootfs_remaining = remaining,
      sib_closing = c, sib_total_len = t\<rparr>
    = (let m = min ROOTFS_CHUNK_SIZE remaining;
           (fs, out) = drain read_bytes n \<lparr>sib_state = Rootfs, sib_preamble = p, sib_rootfs_file = drop m file,
             sib_rootfs_remaining = remaining - m, sib_closing = c, sib_total_len = t\<rparr>
       in (take m file # fs, out))"
proof -
  let ?m = "min ROOTFS_CHUNK_SIZE remaining"
  have "0 < ?m" "length (take ?m file) = ?m" using assms by (simp_all add: ROOTFS_CHUNK_SIZE_def)
  then have "take ?m file \<noteq> []" by force
  then show ?thesis
    using assms by (simp add: poll_frame_def poll_rootfs_def read_bytes_def Let_def del: take_eq_Nil)
qed

lemma drain_ends:
  "drain pr (Suc n) \<lparr>sib_state = Preamble, sib_preamble = Some p, sib_rootfs_file = file, sib_rootfs_remaining = remaining,
      sib_closing = c, sib_total_len = t\<rparr>
    = (let (fs, out) = drain pr n \<lparr>sib_state = Rootfs, sib_preamble = None, sib_rootfs_file = file,
         sib_rootfs_remaining = remaining, sib_closing = c, sib_total_len = t\<rparr> in (p # fs, out))"
  "drain pr (Suc (Suc n)) \<lparr>sib_state = Rootfs, sib_preamble = p', sib_rootfs_file = file, sib_rootfs_remaining = 0,
      sib_closing = Some c', sib_total_len = t\<rparr> = ([c'], Complete)"
  by (simp_all add: poll_frame_def poll_closing_def)

lemma test_split_image_body_byte_equality_and_chunk_bound_passes:
  assumes "length rootfs = 700 * 1024"
  shows "test_split_image_body_byte_equality_and_chunk_bound rootfs"
proof -
  define pre where "pre = preamble_of ''metadata.tar.xz'' ''fake-metadata-content-12345'' ''rootfs.squashfs'' ''testboundary123''"
  define clo where "clo = closing_of ''testboundary123''"
  have len: "length pre < 1000" "length clo < 1000"
    by (simp_all add: pre_def clo_def preamble_of_def part_headers_def closing_of_def crlf_def)
  let ?body = "split_new ''metadata.tar.xz'' ''fake-metadata-content-12345'' ''rootfs.squashfs'' rootfs (length rootfs) ''testboundary123''"
  have body: "?body = \<lparr>sib_state = Preamble, sib_preamble = Some pre, sib_rootfs_file = rootfs, sib_rootfs_remaining = length rootfs,
      sib_closing = Some clo, sib_total_len = (length pre + length rootfs + length clo) mod 2 ^ 64\<rparr>"
    by (simp add: split_new_def pre_def clo_def Let_def)
  have frames: "drain read_bytes 6 ?body =
      ([pre, take 262144 rootfs, take 262144 (drop 262144 rootfs), drop 524288 rootfs, clo], Complete)"
    unfolding body drain_more using assms
    by (simp add: drain_chunk drain_ends ROOTFS_CHUNK_SIZE_def del: drain.simps)
  have chunks: "take 262144 rootfs @ take 262144 (drop 262144 rootfs) @ drop 524288 rootfs = rootfs"
    using append_take_drop_id [of 262144 rootfs] append_take_drop_id [of 262144 "drop 262144 rootfs"] by simp
  have expected: "part_headers ''testboundary123'' ''metadata'' ''metadata.tar.xz'' @ ''fake-metadata-content-12345'' @ crlf
      @ part_headers ''testboundary123'' ''rootfs'' ''rootfs.squashfs'' @ rootfs @ crlf @ ''--'' @ ''testboundary123'' @ ''--'' @ crlf
    = pre @ rootfs @ clo"
    by (simp add: pre_def clo_def preamble_of_def closing_of_def)
  have "size_hint ?body = length (pre @ rootfs @ clo)" unfolding body using len assms by (simp add: size_hint_def)
  moreover have "concat [pre, take 262144 rootfs, take 262144 (drop 262144 rootfs), drop 524288 rootfs, clo] = pre @ rootfs @ clo"
    using chunks by simp
  moreover have "list_all (\<lambda>f. length f \<le> ROOTFS_CHUNK_SIZE)
      [pre, take 262144 rootfs, take 262144 (drop 262144 rootfs), drop 524288 rootfs, clo]"
    using len assms by (simp add: ROOTFS_CHUNK_SIZE_def)
  ultimately show ?thesis
    unfolding test_split_image_body_byte_equality_and_chunk_bound_def Let_def expected frames by simp
qed

end
