(* ===== verification/Test_Service.thy ===== *)
theory Test_Service
  imports Watch_Stream Test_Config
begin

text \<open>
  The tests of \<open>openshell-driver-lxd/src/driver.rs\<close> and \<open>grpc.rs\<close>: capabilities, validation of a request, errors of a
  stop that is not needed, addressing, and the stream of a watch. Where the tests serve LXD's answers from a socket of
  their own, the environment gives them.
\<close>

section \<open>The driver under test\<close>

text \<open>\<open>Config::parse_from\<close> with the given options.\<close>

definition parsed :: "given \<Rightarrow> config" where
  "parsed given = projr (parse_args given)"

lemma parsed_matches:
  assumes "collect_args test_url Inr Map.empty given = Inr m" and "relations_hold m"
  shows "parsed given = from_arg_matches m"
proof -
  have "expect (parse_args given) (\<lambda>config. config = from_arg_matches m)"
    using assms by (simp add: expect_parse_args)
  then show ?thesis by (cases "parse_args given") (simp_all add: parsed_def)
qed

lemma parsed_default: "parsed [] = from_arg_matches Map.empty"
  by (rule parsed_matches) (simp_all add: relation_defs)

definition lxd_at :: "string \<Rightarrow> lxd_client" where
  "lxd_at socket = \<lparr>cl_endpoint = UnixSocket socket, cl_tls_connector = None, cl_project = DEFAULT_PROJECT\<rparr>"

lemma lxd_at_new: "lxd_client_new E (UnixSocket socket) h = (Some (Inr (lxd_at socket)), h)"
  by (simp add: lxd_client_new_def lxd_at_def ok_def return_def)

definition driver :: "env \<Rightarrow> lxd_compute_driver" where
  "driver E = driver_new E (parsed []) (lxd_at DEFAULT_LXD_SOCKET)"

section \<open>Capabilities\<close>

definition capabilities_reports_static_fields :: "env \<Rightarrow> string \<Rightarrow> bool" where
  "capabilities_reports_static_fields E version \<longleftrightarrow>
     (let response = capabilities version (driver E)
      in cap_driver_name response = ''lxd'' \<and> cap_driver_version response = version
         \<and> cap_default_image response = ''ghcr.io/nvidia/openshell-community/sandboxes/base:latest'')"

definition capabilities_report_configured_default_image :: "env \<Rightarrow> string \<Rightarrow> bool" where
  "capabilities_report_configured_default_image E version \<longleftrightarrow>
     (let config = parsed [(''default-image'', Some ''registry.example.com/sandboxes/custom:v2'')];
          response = capabilities version (driver_new E config (lxd_at DEFAULT_LXD_SOCKET))
      in cap_default_image response = ''registry.example.com/sandboxes/custom:v2'')"

lemma parsed_image:
  "parsed [(''default-image'', Some reference)] = from_arg_matches [''default-image'' \<mapsto> Text reference]"
  by (rule parsed_matches) (simp_all add: parse_defs relation_defs)

lemma capabilities_pass:
  "capabilities_reports_static_fields E version" "capabilities_report_configured_default_image E version"
  by (simp_all add: capabilities_reports_static_fields_def capabilities_report_configured_default_image_def capabilities_def
      driver_def driver_new_def Let_def parsed_default parsed_image DRIVER_NAME_def field_defs DEFAULT_SANDBOX_IMAGE_def)

section \<open>Validation of a request\<close>

definition sandbox_with_spec :: "driver_sandbox_spec \<Rightarrow> driver_sandbox" where
  "sandbox_with_spec spec = \<lparr>sb_id = ''id'', sb_name = ''name'', sb_namespace = ''default'', sb_spec = Some spec,
     sb_status = None, sb_workspace = ''default''\<rparr>"

definition spec_with_labels :: "str_map \<Rightarrow> driver_sandbox_spec" where
  "spec_with_labels labels = default_spec\<lparr>spec_template := Some (default_template\<lparr>tpl_labels := labels\<rparr>)\<rparr>"

definition spec_with_gpu_count :: "nat option \<Rightarrow> driver_sandbox_spec" where
  "spec_with_gpu_count count = default_spec\<lparr>spec_template := Some default_template,
     spec_resource_requirements := Some \<lparr>rr_gpu = Some \<lparr>gpu_count = count\<rparr>\<rparr>\<rparr>"

definition spec_with_image :: "string \<Rightarrow> driver_sandbox_spec" where
  "spec_with_image reference = default_spec\<lparr>spec_template := Some (default_template\<lparr>tpl_image := reference\<rparr>)\<rparr>"

definition is_invalid_argument :: "driver_error \<Rightarrow> bool" where
  "is_invalid_argument e = (case e of InvalidArgument _ \<Rightarrow> True | _ \<Rightarrow> False)"

definition validate_sandbox_create_rejects_invalid_label_key :: bool where
  "validate_sandbox_create_rejects_invalid_label_key \<longleftrightarrow>
     expect_err (validate_sandbox_create (sandbox_with_spec (spec_with_labels [(''bad key'', ''value'')]))) is_invalid_argument"

definition validate_sandbox_create_accepts_valid_label_key :: bool where
  "validate_sandbox_create_accepts_valid_label_key \<longleftrightarrow>
     expect (validate_sandbox_create (sandbox_with_spec (spec_with_labels [(''team.example-key_1'', ''value'')]))) (\<lambda>_. True)"

definition validate_sandbox_create_rejects_zero_gpu_count :: bool where
  "validate_sandbox_create_rejects_zero_gpu_count \<longleftrightarrow>
     expect_err (validate_sandbox_create (sandbox_with_spec (spec_with_gpu_count (Some 0)))) is_invalid_argument"

definition validate_sandbox_create_accepts_omitted_gpu_count :: bool where
  "validate_sandbox_create_accepts_omitted_gpu_count \<longleftrightarrow>
     expect (validate_sandbox_create (sandbox_with_spec (spec_with_gpu_count None))) (\<lambda>_. True)"

definition validate_sandbox_create_accepts_explicit_gpu_count :: bool where
  "validate_sandbox_create_accepts_explicit_gpu_count \<longleftrightarrow>
     expect (validate_sandbox_create (sandbox_with_spec (spec_with_gpu_count (Some 1)))) (\<lambda>_. True)"

definition validate_sandbox_create_requires_identity_spec_and_template :: bool where
  "validate_sandbox_create_requires_identity_spec_and_template \<longleftrightarrow>
     (let complete = sandbox_with_spec (spec_with_labels []);
          cases = [(''sandbox.name'', complete\<lparr>sb_name := []\<rparr>), (''sandbox.id'', complete\<lparr>sb_id := []\<rparr>),
            (''sandbox.spec'', complete\<lparr>sb_spec := None\<rparr>), (''sandbox.spec.template'', sandbox_with_spec default_spec)]
      in list_all (\<lambda>(field, sandbox). expect_err (validate_sandbox_create sandbox) (\<lambda>e. case e of
           InvalidArgument msg \<Rightarrow> contains_str msg field | _ \<Rightarrow> False)) cases)"

definition validate_sandbox_create_rejects_empty_label_key :: bool where
  "validate_sandbox_create_rejects_empty_label_key \<longleftrightarrow>
     expect_err (validate_sandbox_create (sandbox_with_spec (spec_with_labels [([], ''value'')]))) is_invalid_argument"

definition validate_sandbox_create_rejects_malformed_image_reference :: bool where
  "validate_sandbox_create_rejects_malformed_image_reference \<longleftrightarrow>
     expect_err (validate_sandbox_create (sandbox_with_spec (spec_with_image ''UPPER/Case::bad''))) is_invalid_argument"

definition validate_sandbox_create_accepts_a_well_formed_image_reference :: bool where
  "validate_sandbox_create_accepts_a_well_formed_image_reference \<longleftrightarrow>
     expect (validate_sandbox_create (sandbox_with_spec (spec_with_image
       ''ghcr.io/nvidia/openshell-community/sandboxes/base:latest''))) (\<lambda>_. True)"

lemmas request_defs = sandbox_with_spec_def spec_with_labels_def spec_with_gpu_count_def spec_with_image_def default_spec_def
  default_template_def is_invalid_argument_def validate_sandbox_create_def spec_of_def template_of_def gpu_of_def
  invalid_label_error_def is_valid_label_key_def char_class_defs result_bind_def

lemma label_and_gpu_tests_pass:
  validate_sandbox_create_rejects_invalid_label_key validate_sandbox_create_accepts_valid_label_key
  validate_sandbox_create_rejects_zero_gpu_count validate_sandbox_create_accepts_omitted_gpu_count
  validate_sandbox_create_accepts_explicit_gpu_count validate_sandbox_create_rejects_empty_label_key
  by (simp_all add: validate_sandbox_create_rejects_invalid_label_key_def validate_sandbox_create_accepts_valid_label_key_def
      validate_sandbox_create_rejects_zero_gpu_count_def validate_sandbox_create_accepts_omitted_gpu_count_def
      validate_sandbox_create_accepts_explicit_gpu_count_def validate_sandbox_create_rejects_empty_label_key_def request_defs)

lemma validate_sandbox_create_requires_identity_spec_and_template_passes:
  validate_sandbox_create_requires_identity_spec_and_template
  by (simp add: validate_sandbox_create_requires_identity_spec_and_template_def request_defs starts_with_def)

lemma default_image_parts:
  "is_match (opt (lit ''docker://'')) []" "is_match domain_re ''ghcr.io/''"
  "is_match (Star (Seq path_component_re (lit ''/''))) ''nvidia/openshell-community/sandboxes/''"
  "is_match path_component_re ''base''" "is_match (opt (Seq (lit '':'') (plus_re (Cls is_tag_char)))) '':latest''"
  "is_match (opt (Seq (lit ''@sha256:'') (times_re 64 (Cls is_ascii_hexdigit)))) []"
  by code_simp+

lemma default_image_reference: "is_match OCI_REF_REGEX ''ghcr.io/nvidia/openshell-community/sandboxes/base:latest''"
proof -
  note m = default_image_parts [unfolded is_match_iff]
  have "matches OCI_REF_REGEX ([] @ (''ghcr.io/'' @ ''nvidia/openshell-community/sandboxes/'' @ ''base'') @ '':latest'' @ [])"
    unfolding OCI_REF_REGEX_def by (intro m_seq m)
  then show ?thesis by (simp add: is_match_iff)
qed

lemma image_references:
  "is_match OCI_REF_REGEX ''registry.example.com/custom:v1''" "\<not> is_match OCI_REF_REGEX ''UPPER/Case::bad''"
  by code_simp+

lemma image_reference_tests_pass:
  validate_sandbox_create_rejects_malformed_image_reference validate_sandbox_create_accepts_a_well_formed_image_reference
  by (simp_all add: validate_sandbox_create_rejects_malformed_image_reference_def
      validate_sandbox_create_accepts_a_well_formed_image_reference_def request_defs validate_reference_def image_references default_image_reference
      del: is_match.simps)

section \<open>Errors of a stop\<close>

definition already_stopped_is_recognized_from_sync_and_async_errors :: bool where
  "already_stopped_is_recognized_from_sync_and_async_errors \<longleftrightarrow>
     is_already_stopped (Api 400 ''The instance is already stopped'')
     \<and> is_already_stopped (OperationFailed ''Stopping instance'' ''The instance is already stopped'')
     \<and> is_already_stopped (OperationFailed ''Stopping instance'' ''Instance is not running'')"

definition other_errors_are_not_mistaken_for_already_stopped :: bool where
  "other_errors_are_not_mistaken_for_already_stopped \<longleftrightarrow>
     list_all (\<lambda>e. \<not> is_already_stopped e)
       [Api 400 ''Invalid config'', Api 500 ''The instance is already stopped'', Api 404 ''Instance not found'',
        OperationFailed ''Stopping instance''
          (''Failed shutting down instance, status is '' @ debug_str ''Running'' @ '': context deadline exceeded''),
        Io ''already stopped'']"

lemma already_stopped_tests_pass:
  already_stopped_is_recognized_from_sync_and_async_errors other_errors_are_not_mistaken_for_already_stopped
  by (simp_all add: already_stopped_is_recognized_from_sync_and_async_errors_def
      other_errors_are_not_mistaken_for_already_stopped_def is_already_stopped_def starts_with_def debug_str_def debug_char_def)

section \<open>Resolving the image of a request\<close>

definition with_checker :: "image_alias_checker \<Rightarrow> oci_importer \<Rightarrow> string \<Rightarrow> image_cache" where
  "with_checker checker importer cache_prefix =
     \<lparr>ic_alias_checker = checker, ic_importer = importer, ic_prefix = cache_prefix\<rparr>"

definition with_image_cache :: "config \<Rightarrow> lxd_client \<Rightarrow> image_cache \<Rightarrow> lxd_compute_driver" where
  "with_image_cache config lxd cache = \<lparr>drv_config = config, drv_lxd = lxd, drv_image_cache = cache\<rparr>"

definition mock_alias_checker :: "bool \<Rightarrow> image_alias_checker" where
  "mock_alias_checker present alias = ok present"

definition mock_importer :: "env \<Rightarrow> string \<Rightarrow> oci_importer" where
  "mock_importer E digest =
     \<lparr>imp_resolve_digest = \<lambda>reference. ok digest,
      imp_import = \<lambda>reference digest alias. ok (),
      imp_extract_supervisor_binary = \<lambda>reference cache_dir.
        (let target_dir = path_join cache_dir ''test-digest'';
             binary_path = path_join target_dir ''openshell-sandbox''
         in await (path_exists E binary_path) (\<lambda>present.
            if present then ok (binary_path, digest)
            else await (fs_do E (Create_Dir_All target_dir)) (\<lambda>_.
                 await (fs_do E (Write_File binary_path ''mock-supervisor'')) (\<lambda>_. ok (binary_path, digest)))))\<rparr>"

definition digest_ee :: string where
  "digest_ee = concat (replicate 32 ''ee'')"

definition create_sandbox_resolves_image_or_defaults :: "env \<Rightarrow> bool" where
  "create_sandbox_resolves_image_or_defaults E \<longleftrightarrow>
     (let config = parsed [];
          cache = with_checker (mock_alias_checker True) (mock_importer E (''sha256:'' @ digest_ee)) (cfg_image_cache_alias_prefix config);
          driver = with_image_cache config (lxd_at DEFAULT_LXD_SOCKET) cache
      in cfg_default_image (drv_config driver) = ''ghcr.io/nvidia/openshell-community/sandboxes/base:latest''
         \<and> expect_some (Option.bind (sb_spec (sandbox_with_spec (spec_with_image ''registry.example.com/custom:v1''))) spec_template)
             (\<lambda>template. fst (resolve_alias (drv_image_cache driver) (tpl_image template) [])
                = Some (Inr (''openshell-oci-r3-'' @ digest_ee))))"

lemma create_sandbox_resolves_image_or_defaults_passes: "create_sandbox_resolves_image_or_defaults E"
  by (simp add: create_sandbox_resolves_image_or_defaults_def Let_def with_checker_def with_image_cache_def mock_alias_checker_def
      mock_importer_def parsed_default field_defs DEFAULT_SANDBOX_IMAGE_def sandbox_with_spec_def spec_with_image_def
      resolve_alias_def validate_reference_def image_references run_simps with_lock_def cache_alias_with_prefix_def
      DEFAULT_IMAGE_CACHE_ALIAS_PREFIX_def DEFAULT_CACHE_ALIAS_PREFIX_def CONVERSION_REVISION_def digest_ee_def dec.simps
      del: is_match.simps)

section \<open>The service under test\<close>

definition service_on :: "env \<Rightarrow> string \<Rightarrow> compute_driver_service" where
  "service_on E lxd_socket = without_watcher (driver_new E (parsed []) (lxd_at lxd_socket))"

definition service :: "env \<Rightarrow> compute_driver_service" where
  "service E = service_on E ''/nonexistent/lxd.socket''"

text \<open>An LXD that answers every request with the given instances, as they are serialized, and one that is not
  there.\<close>

definition fake_lxd :: "env \<Rightarrow> json list \<Rightarrow> env" where
  "fake_lxd E instances =
     (let body = Object [(''type'', Str ''sync''), (''status'', Str ''Success''), (''status_code'', Number 200),
            (''error_code'', Number 0), (''error'', Str []), (''metadata'', Array instances)]
      in E\<lparr>env_http := \<lambda>_ _. Inr \<lparr>http_status = 200, http_headers = [(''Content-Type'', ''application/json'')],
             http_payload = ext_json_print E body\<rparr>\<rparr>)"

definition no_lxd :: "env \<Rightarrow> env" where
  "no_lxd E = E\<lparr>env_http := \<lambda>_ _. Inl (Io ''No such file or directory (os error 2)'')\<rparr>"

definition json_round_trips :: "env \<Rightarrow> bool" where
  "json_round_trips E \<longleftrightarrow> (\<forall>v. ext_json_parse E (ext_json_print E v) = Inr v)"

definition served_instance :: "string \<Rightarrow> string \<Rightarrow> (string \<times> string) list \<Rightarrow> json" where
  "served_instance name status config =
     Object [(''name'', Str name), (''description'', Str []), (''status'', Str status), (''status_code'', Number 0),
       (''architecture'', Str ''x86_64''), (''ephemeral'', Bool False), (''profiles'', Array [Str ''default'']),
       (''config'', Object (map (\<lambda>(k, v). (k, Str v)) config)), (''devices'', Object []), (''type'', Str ''container''),
       (''project'', Str ''default'')]"

text \<open>What a call answers, and the code it is refused with.\<close>

definition answers :: "(status, 'a) fallible \<Rightarrow> ('a \<Rightarrow> bool) \<Rightarrow> bool" where
  "answers m P = expect_some (fst (m [])) (\<lambda>r. expect r P)"

definition refused :: "(status, 'a) fallible \<Rightarrow> code \<Rightarrow> bool" where
  "refused m code = expect_some (fst (m [])) (\<lambda>r. expect_err r (\<lambda>status. status_code status = code))"

section \<open>Calls that do not reach LXD\<close>

definition gateway_listener_requirements_are_empty_by_default :: "env \<Rightarrow> bool" where
  "gateway_listener_requirements_are_empty_by_default E \<longleftrightarrow>
     answers (grpc_get_gateway_listener_requirements (svc_driver (service E))) (\<lambda>requirements. requirements = [])"

definition gateway_listener_requirements_carry_the_callback_listener :: "env \<Rightarrow> bool" where
  "gateway_listener_requirements_carry_the_callback_listener E \<longleftrightarrow>
     (let config = parsed [(''gateway-callback-listener'', Some ''169.254.17.1:17670'')];
          driver = driver_new E config (lxd_at ''/nonexistent/lxd.socket'')
      in answers (grpc_get_gateway_listener_requirements (svc_driver (without_watcher driver))) (\<lambda>requirements.
           length requirements = 1
           \<and> req_selector (requirements ! 0) = Some (ExactBindAddress ''169.254.17.1:17670'')
           \<and> req_reason (requirements ! 0) \<noteq> []))"

definition sandbox_authentication_is_declined_and_advertised_as_such :: "env \<Rightarrow> string \<Rightarrow> bool" where
  "sandbox_authentication_is_declined_and_advertised_as_such E version \<longleftrightarrow>
     refused grpc_authenticate_sandbox Code_Unimplemented
     \<and> answers (grpc_get_capabilities version (svc_driver (service E)))
         (\<lambda>capabilities. \<not> cap_supports_sandbox_authentication capabilities)"

definition workspaces_need_no_provisioning :: bool where
  "workspaces_need_no_provisioning \<longleftrightarrow> answers grpc_ensure_workspace (\<lambda>_. True) \<and> answers grpc_delete_workspace (\<lambda>_. True)"

definition resolve_name_prefers_name_without_looking_up_id :: "env \<Rightarrow> bool" where
  "resolve_name_prefers_name_without_looking_up_id E \<longleftrightarrow>
     answers (resolve_name E (svc_driver (service E)) ''by-name'' ''some-id'') (\<lambda>name. name = ''by-name'')"

definition resolve_name_requires_name_or_id :: "env \<Rightarrow> bool" where
  "resolve_name_requires_name_or_id E \<longleftrightarrow> refused (resolve_name E (svc_driver (service E)) [] []) Code_InvalidArgument"

definition requests_without_a_sandbox_are_invalid :: "env \<Rightarrow> bool" where
  "requests_without_a_sandbox_are_invalid E \<longleftrightarrow>
     refused (grpc_validate_sandbox_create None) Code_InvalidArgument
     \<and> refused (grpc_create_sandbox E (svc_driver (service E)) None) Code_InvalidArgument"

definition stop_and_delete_require_name_or_id :: "env \<Rightarrow> bool" where
  "stop_and_delete_require_name_or_id E \<longleftrightarrow>
     refused (grpc_stop_sandbox E (svc_driver (service E)) [] []) Code_InvalidArgument
     \<and> refused (grpc_delete_sandbox E (svc_driver (service E)) [] []) Code_InvalidArgument"

lemmas service_defs = service_def service_on_def without_watcher_def driver_new_def Let_def answers_def refused_def run_simps

lemma local_call_tests_pass:
  "gateway_listener_requirements_are_empty_by_default E" "workspaces_need_no_provisioning"
  "sandbox_authentication_is_declined_and_advertised_as_such E version"
  by (simp_all add: gateway_listener_requirements_are_empty_by_default_def workspaces_need_no_provisioning_def
      sandbox_authentication_is_declined_and_advertised_as_such_def grpc_get_gateway_listener_requirements_def
      grpc_authenticate_sandbox_def grpc_get_capabilities_def grpc_ensure_workspace_def grpc_delete_workspace_def
      gateway_listener_requirements_def capabilities_def status_simps service_defs parsed_default field_defs)

lemma parsed_listener:
  "parsed [(''gateway-callback-listener'', Some ''169.254.17.1:17670'')] =
     from_arg_matches [''gateway-callback-listener'' \<mapsto> Address \<lparr>sa_ip = V4 2852000001, sa_port = 17670, sa_scope = 0\<rparr>]"
  by (rule parsed_matches) (simp_all add: parse_defs relation_defs listeners)

lemma gateway_listener_requirements_carry_the_callback_listener_passes:
  "gateway_listener_requirements_carry_the_callback_listener E"
  by (simp add: gateway_listener_requirements_carry_the_callback_listener_def grpc_get_gateway_listener_requirements_def
      gateway_listener_requirements_def service_defs parsed_listener field_defs show_socket_addr_def show_ipv4_def octets_def dec.simps)

lemma addressing_tests_pass:
  "resolve_name_prefers_name_without_looking_up_id E" "resolve_name_requires_name_or_id E"
  "requests_without_a_sandbox_are_invalid E" "stop_and_delete_require_name_or_id E"
  by (simp_all add: resolve_name_prefers_name_without_looking_up_id_def resolve_name_requires_name_or_id_def
      requests_without_a_sandbox_are_invalid_def stop_and_delete_require_name_or_id_def grpc_validate_sandbox_create_def
      grpc_create_sandbox_def grpc_stop_sandbox_def grpc_delete_sandbox_def required_sandbox_def resolve_name_def
      answers_def refused_def run_simps status_simps)

section \<open>Watching\<close>

text \<open>The channel of events as a receiver sees it: what is sent and received in turn. Of the values it has not read a receiver can
  still get the latest \<open>capacity\<close>; if it has fallen behind it is told how many it missed and continues with the oldest one
  kept. A receive when nothing has been sent waits.\<close>

datatype channel_step = Send watch_event | Receive

fun channel_run :: "nat \<Rightarrow> watch_event list \<Rightarrow> nat \<Rightarrow> channel_step list \<Rightarrow> received list" where
  "channel_run capacity sent position [] = []"
| "channel_run capacity sent position (Send w # steps) = channel_run capacity (sent @ [w]) position steps"
| "channel_run capacity sent position (Receive # steps) =
     (if capacity < length sent - position then
        Lagged (length sent - position - capacity) # channel_run capacity sent (length sent - capacity) steps
      else if position < length sent then Received (sent ! position) # channel_run capacity sent (Suc position) steps
      else channel_run capacity sent position steps)"

fun sends :: "channel_step list \<Rightarrow> watch_event list" where
  "sends [] = []"
| "sends (Send w # steps) = w # sends steps"
| "sends (Receive # steps) = sends steps"

text \<open>What it delivers is what the library promises.\<close>

lemma channel_run_delivers:
  "position \<le> length sent \<Longrightarrow>
     delivers capacity (drop position sent @ sends steps) (channel_run capacity sent position steps)"
proof (induction capacity sent position steps rule: channel_run.induct)
  case (3 capacity sent position steps)
  consider (lag) "capacity < length sent - position" | (ready) "\<not> capacity < length sent - position" "position < length sent"
    | (wait) "position = length sent" using 3(4) by linarith
  then show ?case
  proof cases
    case lag
    define kept skipped where "kept = drop (length sent - capacity) sent"
      and "skipped = take (length sent - position - capacity) (drop position sent)"
    have parts: "drop position sent = skipped @ kept"
      using append_take_drop_id [of "length sent - position - capacity" "drop position sent"] lag
      by (simp add: kept_def skipped_def)
    have "delivers capacity (kept @ sends steps) (channel_run capacity sent (length sent - capacity) steps)"
      using 3(1) [OF lag] by (simp add: kept_def)
    moreover have "skipped \<noteq> []" "capacity \<le> length (kept @ sends steps)" using lag by (auto simp: skipped_def kept_def)
    ultimately have "delivers capacity (skipped @ kept @ sends steps)
        (Lagged (length skipped) # channel_run capacity sent (length sent - capacity) steps)"
      by (intro delivers.lag)
    moreover have "length skipped = length sent - position - capacity" by (simp add: skipped_def)
    ultimately show ?thesis using lag by (simp add: parts)
  next
    case ready
    then show ?thesis
      using 3(2) by (auto simp: Cons_nth_drop_Suc [symmetric] intro: delivers.next_value)
  next
    case wait
    then show ?thesis using 3(3) by simp
  qed
qed (auto intro: delivers.waiting)

lemma channel_run_sends:
  "channel_run capacity sent position (map Send ws @ steps) = channel_run capacity (sent @ ws) position steps"
  by (induction ws arbitrary: sent) simp_all

text \<open>The stream of a watch that was opened on history \<open>h\<close>, with the steps taken on the channel since.\<close>

definition watching ::
  "env \<Rightarrow> event list \<Rightarrow> channel_step list \<Rightarrow> ((status, watch_event) result list \<Rightarrow> bool) \<Rightarrow> bool" where
  "watching E h steps P =
     (let s = service_on E ''lxd.socket'';
          live = channel_run (svc_event_capacity s) [] 0 steps
      in expect_some (fst (grpc_watch_sandboxes E (svc_driver s) live h)) (\<lambda>r. expect r P))"

definition empty_watch ::
  "env \<Rightarrow> event list \<Rightarrow> channel_step list \<Rightarrow> ((status, watch_event) result list \<Rightarrow> bool) \<Rightarrow> bool" where
  "empty_watch E = watching (fake_lxd E [])"

definition live_snapshot :: driver_sandbox where
  "live_snapshot = default_sandbox\<lparr>sb_id := ''sb-live'', sb_name := ''sb-live''\<rparr>"

definition watch_forwards_deletions_and_snapshots :: "env \<Rightarrow> bool" where
  "watch_forwards_deletions_and_snapshots E \<longleftrightarrow>
     empty_watch E [] [Send (Deleted ''sb-gone''), Receive, Send (Sandbox live_snapshot), Receive]
       (\<lambda>stream. stream = [Inr (Deleted ''sb-gone''), Inr (Sandbox live_snapshot)])"

definition watch_preserves_event_order_across_types :: "env \<Rightarrow> bool" where
  "watch_preserves_event_order_across_types E \<longleftrightarrow>
     empty_watch E [] [Send (Sandbox live_snapshot), Send (Deleted ''sb-live''), Receive, Receive]
       (\<lambda>stream. stream = [Inr (Sandbox live_snapshot), Inr (Deleted ''sb-live'')])"

definition every_watcher_receives_every_event :: "env \<Rightarrow> event list \<Rightarrow> bool" where
  "every_watcher_receives_every_event E later \<longleftrightarrow>
     list_all (\<lambda>h. empty_watch E h [Send (Deleted ''sb-1''), Receive] (\<lambda>stream. stream = [Inr (Deleted ''sb-1'')])) [[], later]"

definition lagging_watcher_gets_data_loss :: "env \<Rightarrow> bool" where
  "lagging_watcher_gets_data_loss E \<longleftrightarrow>
     empty_watch E [] (map Send (map (\<lambda>i. Deleted (''sb-'' @ dec i)) [0..<100]) @ [Receive])
       (\<lambda>stream. stream \<noteq> [] \<and> expect_err (hd stream) (\<lambda>status. status_code status = Code_DataLoss))"

definition watch_starts_with_a_snapshot_of_every_managed_sandbox :: "env \<Rightarrow> bool" where
  "watch_starts_with_a_snapshot_of_every_managed_sandbox E \<longleftrightarrow>
     watching (fake_lxd E
         [served_instance ''sb-running'' ''Running'' [(KEY_SANDBOX_ID, ''id-running'')],
          served_instance ''sb-exited'' ''Stopped'' [(KEY_SANDBOX_ID, ''id-exited''), (''volatile.last_state.power'', ''STOPPED'')],
          served_instance ''not-a-sandbox'' ''Running'' []])
       [] [Send (Deleted ''id-exited''), Receive]
       (\<lambda>stream. case stream of
          [Inr (Sandbox first), Inr (Sandbox second), Inr (Deleted _)] \<Rightarrow>
            set (map (\<lambda>sandbox. (sb_id sandbox, map_option (\<lambda>s. cond_reason (st_conditions s ! 0)) (sb_status sandbox)))
                [first, second])
              = {(''id-running'', Some []), (''id-exited'', Some ''ContainerExited'')}
        | _ \<Rightarrow> False)"

definition watch_fails_when_current_state_cannot_be_listed :: "env \<Rightarrow> bool" where
  "watch_fails_when_current_state_cannot_be_listed E \<longleftrightarrow>
     (let s = service (no_lxd E) in refused (grpc_watch_sandboxes (no_lxd E) (svc_driver s) []) Code_Internal)"

lemma instances_of_fake:
  assumes "json_round_trips E" and "traverse de_instance instances = Some managed"
  shows "fst (list_instances (fake_lxd E instances) (lxd_at socket) h) = Some (Inr managed)"
  using assms
  by (simp add: list_instances_def fake_lxd_def Let_def json_round_trips_def run_simps transport_simps lxd_at_def decode_simps)

lemma listed_by_fake:
  assumes "json_round_trips E" and "traverse de_instance instances = Some managed"
    and "list_all (\<lambda>i. \<not> stopped_by_the_runtime i) managed" and "drv_lxd d = lxd_at socket"
  shows "fst (list_sandboxes (fake_lxd E instances) d h) =
    Some (Inr (map instance_to_driver_sandbox (filter is_managed managed)))"
proof -
  have "filter (\<lambda>n. stopped_by_the_runtime (filter is_managed managed ! n)) [0..<length (filter is_managed managed)] = []"
    using assms(3) nth_mem [of _ "filter is_managed managed"] by (fastforce simp: filter_empty_conv list_all_iff)
  then show ?thesis
    using instances_of_fake [OF assms(1,2), of socket h]
    by (cases "list_instances (fake_lxd E instances) (lxd_at socket) h") (simp add: list_sandboxes_def run_simps assms(4))
qed

lemma watching_fake:
  assumes "json_round_trips E" and "traverse de_instance instances = Some managed"
    and "list_all (\<lambda>i. \<not> stopped_by_the_runtime i) managed"
  shows "watching (fake_lxd E instances) h steps P \<longleftrightarrow>
    P (map (\<lambda>i. Inr (Sandbox (instance_to_driver_sandbox i))) (filter is_managed managed)
       @ map live_event (channel_run 64 [] 0 steps))"
proof -
  let ?d = "svc_driver (service_on (fake_lxd E instances) ''lxd.socket'')"
  have "drv_lxd ?d = lxd_at ''lxd.socket''" by (simp add: service_on_def without_watcher_def driver_new_def Let_def)
  note listed = listed_by_fake [OF assms this, of "h @ [Watch_Subscribed]"]
  then show ?thesis
    by (cases "list_sandboxes (fake_lxd E instances) ?d (h @ [Watch_Subscribed])")
      (simp add: watching_def Let_def grpc_watch_sandboxes_def note_event_def run_simps comp_def without_watcher_def service_on_def)
qed

lemmas empty_watching = watching_fake [where instances = "[]" and managed = "[]", simplified]

lemma live_watch_tests_pass:
  assumes "json_round_trips E"
  shows "watch_forwards_deletions_and_snapshots E" "watch_preserves_event_order_across_types E"
    "every_watcher_receives_every_event E later" "lagging_watcher_gets_data_loss E"
  using assms
  by (simp_all add: watch_forwards_deletions_and_snapshots_def watch_preserves_event_order_across_types_def
      every_watcher_receives_every_event_def lagging_watcher_gets_data_loss_def empty_watch_def empty_watching
      channel_run_sends live_event_def lagged_def mk_status_def del: upt_rec_numeral map_map)

lemma watch_starts_with_a_snapshot_of_every_managed_sandbox_passes:
  assumes "json_round_trips E"
  shows "watch_starts_with_a_snapshot_of_every_managed_sandbox E"
proof -
  define decoded where "decoded name status kvs = \<lparr>inst_name = name, inst_description = [], inst_status = status, inst_status_code = 0,
      inst_architecture = ''x86_64'', inst_ephemeral = False, inst_profiles = [''default''], inst_config = map_of kvs,
      inst_devices = Map.empty, inst_type = ''container'', inst_project = ''default''\<rparr>"
    for name status :: string and kvs :: "(string \<times> string) list"
  have "de_instance (served_instance name status []) = Some (decoded name status [])"
    "de_instance (served_instance name status [(k, v)]) = Some (decoded name status [(k, v)])"
    "de_instance (served_instance name status [(k, v), (k', v')]) = Some (decoded name status [(k, v), (k', v')])"
    for name status k v k' v'
    by (simp_all add: served_instance_def decoded_def decode_simps)
  then show ?thesis
    unfolding watch_starts_with_a_snapshot_of_every_managed_sandbox_def
    by (subst watching_fake [OF assms])
      (auto simp: decoded_def is_managed_def stopped_by_the_runtime_def instance_to_driver_sandbox_def to_driver_sandbox_def
        ready_condition_def ready_parts_def condition_defs key_defs live_event_def)
qed

lemma watch_fails_when_current_state_cannot_be_listed_passes: "watch_fails_when_current_state_cannot_be_listed E"
  by (simp add: watch_fails_when_current_state_cannot_be_listed_def grpc_watch_sandboxes_def note_event_def list_sandboxes_def
      list_instances_def no_lxd_def lxd_at_def service_defs transport_simps status_simps)

end
