(* ===== verification/Test_Egress.thy ===== *)
theory Test_Egress
  imports Test_Driver "HOL-Library.Multiset" "HOL-Library.Product_Lexorder"
begin

text \<open>
  The tests of \<open>egress.rs\<close> that go through all public blocks: together with the reserved ranges they cover the address
  space once, and the rules of the ACL in summary.
\<close>

section \<open>Blocks as ranges\<close>

text \<open>\<open>None\<close> stands for a panic of the test's \<open>parse\<close>: the text is no CIDR block, or the address is not aligned.\<close>

definition parse_cidr :: "string \<Rightarrow> (nat \<times> nat) option" where
  "parse_cidr cidr = (case split_once (CHR ''/'') cidr of
      None \<Rightarrow> None
    | Some (address, prefix) \<Rightarrow> (case (parse_ipv4 address, parse_u32 prefix) of
          (Some start, Some p) \<Rightarrow> if start mod 2 ^ (32 - p) = 0 then Some (start, start + 2 ^ (32 - p) - 1) else None
        | _ \<Rightarrow> None))"

text \<open>The end of ranges that follow each other without a gap or an overlap.\<close>

fun tiles :: "nat \<Rightarrow> (nat \<times> nat) list \<Rightarrow> nat option" where
  "tiles next [] = Some next"
| "tiles next ((lo, hi) # blocks) = (if lo = next then tiles (hi + 1) blocks else None)"

definition public_ranges_are_the_exact_complement :: bool where
  "public_ranges_are_the_exact_complement \<longleftrightarrow>
     expect_some (all_some (map parse_cidr public_ipv4_cidrs)) (\<lambda>public.
     expect_some (all_some (map (\<lambda>(address, prefix). parse_cidr (show_ipv4 address @ ''/'' @ dec prefix)) NON_PUBLIC_IPV4)) (\<lambda>reserved.
       tiles 0 (sort (public @ reserved)) = Some (2 ^ 32)))"

lemma aligned_range:
  assumes "aligned_cidr b"
  shows "parse_cidr (show_cidr b) = Some (cidr_range b)"
proof -
  have no: "CHR ''/'' \<notin> set (show_ipv4 (fst b))" using show_ipv4_chars by (fastforce simp: is_ascii_digit_def)
  have "fst b + 2 ^ (32 - snd b) \<le> 2 ^ 32" "(0 :: nat) < 2 ^ (32 - snd b)" using assms by (simp_all add: aligned_cidr_def)
  then have "fst b < 2 ^ 32" by linarith
  then have addr: "parse_ipv4 (show_ipv4 (fst b)) = Some (fst b)" by (rule parse_show_ipv4)
  have "snd b < 2 ^ 32" using assms by (simp add: aligned_cidr_def)
  then have "parse_u32 (dec (snd b)) = Some (snd b)" by (rule parse_dec)
  moreover have "fst b mod 2 ^ (32 - snd b) = 0" using assms by (simp add: aligned_cidr_def mod_eq_0_iff_dvd)
  moreover have "show_cidr b = show_ipv4 (fst b) @ CHR ''/'' # dec (snd b)" by (simp add: show_cidr_def)
  ultimately show ?thesis
    using addr split_once_append [OF no] by (simp add: parse_cidr_def cidr_range_def split_beta)
qed

lemma all_some_map: "(\<And>x. x \<in> set xs \<Longrightarrow> f x = Some (g x)) \<Longrightarrow> all_some (map f xs) = Some (map g xs)"
  by (induction xs) auto

lemma parsed_blocks:
  "all_some (map parse_cidr public_ipv4_cidrs) = Some (map cidr_range public_ipv4_blocks)"
  "all_some (map (\<lambda>(address, prefix). parse_cidr (show_ipv4 address @ ''/'' @ dec prefix)) NON_PUBLIC_IPV4) = Some (map cidr_range NON_PUBLIC_IPV4)"
proof -
  have "parse_cidr (show_cidr b) = Some (cidr_range b)" if "b \<in> set public_ipv4_blocks" for b
    using public_blocks_aligned that by (intro aligned_range) (simp add: list_all_iff)
  then show "all_some (map parse_cidr public_ipv4_cidrs) = Some (map cidr_range public_ipv4_blocks)"
    unfolding public_ipv4_cidrs_def map_map o_def by (rule all_some_map)
  have "parse_cidr (show_cidr b) = Some (cidr_range b)" if "b \<in> set NON_PUBLIC_IPV4" for b
    using non_public_aligned that by (intro aligned_range) (simp add: list_all_iff)
  then show "all_some (map (\<lambda>(address, prefix). parse_cidr (show_ipv4 address @ ''/'' @ dec prefix)) NON_PUBLIC_IPV4) = Some (map cidr_range NON_PUBLIC_IPV4)"
    by (intro all_some_map) (auto simp: show_cidr_def)
qed

lemma tiles_append: "tiles a (xs @ ys) = Option.bind (tiles a xs) (\<lambda>b. tiles b ys)"
  by (induction a xs rule: tiles.induct) auto

lemma tiles_blocks: "lo \<le> hi + 1 \<Longrightarrow> hi < 2 ^ 32 \<Longrightarrow> tiles lo (map cidr_range (cidr_blocks lo hi)) = Some (hi + 1)"
proof (induction lo hi rule: cidr_blocks.induct)
  case (1 start end')
  show ?case
  proof (cases "start \<le> end'")
    case True
    obtain j where j: "block_size start end' = 2 ^ j" "j \<le> 32" "start + 2 ^ j \<le> end' + 1"
      using block_size_props [OF True "1.prems"(2)] by metis
    have "32 - (32 - j) = j" using j(2) by simp
    then have "cidr_range (start, 32 - trailing_zeros (2 ^ j)) = (start, start + 2 ^ j - 1)"
      by (simp add: cidr_range_def trailing_zeros_power)
    moreover have "start + 2 ^ j - 1 + 1 = start + (2 :: nat) ^ j" by simp
    ultimately show ?thesis
      using True "1.IH" [OF True refl] j "1.prems"(2) by (subst cidr_blocks.simps) (simp add: Let_def)
  next
    case False
    then show ?thesis using "1.prems"(1) by (subst cidr_blocks.simps) simp
  qed
qed

lemma tiles_sorted: "tiles a xs = Some b \<Longrightarrow> \<forall>r\<in>set xs. fst r \<le> snd r \<Longrightarrow> sorted xs \<and> (\<forall>r\<in>set xs. a \<le> fst r)"
proof (induction a xs rule: tiles.induct)
  case (2 a lo hi xs)
  then have xs: "sorted xs" "\<And>r. r \<in> set xs \<Longrightarrow> hi + 1 \<le> fst r" "lo = a" "lo \<le> hi" by (auto split: if_splits)
  then have "lo < fst r" if "r \<in> set xs" for r using that by fastforce
  then have "(lo, hi) \<le> r" if "r \<in> set xs" for r using that by (simp add: less_eq_prod_def)
  moreover have "a \<le> fst r" if "r \<in> set xs" for r using xs that by fastforce
  ultimately show ?case using xs by simp
qed simp

section \<open>The address space\<close>

lemma public_ranges_listed:
  "public_ranges = [(16777216, 167772159), (184549376, 1681915903), (1686110208, 2130706431), (2147483648, 2851995647),
     (2852061184, 2886729727), (2887778304, 3221225471), (3221225728, 3221225983), (3221226240, 3227017983),
     (3227018240, 3232235519), (3232301056, 3323068415), (3323199488, 3325256703), (3325256960, 3405803775), (3405804032, 3758096383)]"
  by (simp add: public_ranges_def NON_PUBLIC_IPV4_def ipv4_def of_octets_def subtract_range_def cidr_range_def)

text \<open>The blocks of one gap, and the whole space in order.\<close>

definition gap :: "nat \<Rightarrow> nat \<Rightarrow> (nat \<times> nat) list" where
  "gap lo hi = map cidr_range (cidr_blocks lo hi)"

lemma gap_order: "lo \<le> hi \<Longrightarrow> hi < 2 ^ 32 \<Longrightarrow> tiles lo (gap lo hi) = Some (hi + 1)"
  unfolding gap_def by (rule tiles_blocks) simp_all

definition space :: "(nat \<times> nat) list" where
  "space = (0, 16777215) # gap 16777216 167772159 @ (167772160, 184549375) # gap 184549376 1681915903 @ (1681915904, 1686110207)
     # gap 1686110208 2130706431 @ (2130706432, 2147483647) # gap 2147483648 2851995647 @ (2851995648, 2852061183)
     # gap 2852061184 2886729727 @ (2886729728, 2887778303) # gap 2887778304 3221225471 @ (3221225472, 3221225727)
     # gap 3221225728 3221225983 @ (3221225984, 3221226239) # gap 3221226240 3227017983 @ (3227017984, 3227018239)
     # gap 3227018240 3232235519 @ (3232235520, 3232301055) # gap 3232301056 3323068415 @ (3323068416, 3323199487)
     # gap 3323199488 3325256703 @ (3325256704, 3325256959) # gap 3325256960 3405803775 @ (3405803776, 3405804031)
     # gap 3405804032 3758096383 @ [(3758096384, 4026531839), (4026531840, 4294967295)]"

lemma space_tiled: "tiles 0 space = Some (2 ^ 32)"
  by (simp add: space_def tiles_append gap_order)

lemma reserved_ranges:
  "map cidr_range NON_PUBLIC_IPV4 = [(0, 16777215), (167772160, 184549375), (1681915904, 1686110207), (2130706432, 2147483647),
     (2851995648, 2852061183), (2886729728, 2887778303), (3221225472, 3221225727), (3221225984, 3221226239), (3227017984, 3227018239),
     (3232235520, 3232301055), (3323068416, 3323199487), (3325256704, 3325256959), (3405803776, 3405804031), (3758096384, 4026531839),
     (4026531840, 4294967295)]"
  by (simp add: NON_PUBLIC_IPV4_def ipv4_def of_octets_def cidr_range_def)

lemma space_mset: "mset space = mset (map cidr_range public_ipv4_blocks @ map cidr_range NON_PUBLIC_IPV4)"
proof -
  have "map cidr_range public_ipv4_blocks = concat (map (\<lambda>(lo, hi). gap lo hi) public_ranges)"
    by (simp add: public_ipv4_blocks_def map_concat gap_def o_def split_def)
  then have "map cidr_range public_ipv4_blocks @ map cidr_range NON_PUBLIC_IPV4 = concat (map (\<lambda>(lo, hi). gap lo hi) public_ranges)
      @ map cidr_range NON_PUBLIC_IPV4" by (simp only:)
  then show ?thesis
    unfolding space_def public_ranges_listed reserved_ranges list.map prod.case concat.simps
    by (simp only: mset_append mset.simps union_mset_add_mset_left union_mset_add_mset_right add_0_left add_0_right
        add_mset_commute ac_simps)
qed

lemma public_ranges_are_the_exact_complement_passes: public_ranges_are_the_exact_complement
proof -
  have "fst r \<le> snd r" if "r \<in> set space" for r
  proof -
    have "r \<in> cidr_range ` set public_ipv4_blocks \<union> cidr_range ` set NON_PUBLIC_IPV4"
      using that space_mset by (metis mset_eq_setD set_append list.set_map)
    then obtain b where "r = cidr_range b" by blast
    moreover have "m \<le> m + n - 1" if "0 < n" for m n :: nat using that by simp
    ultimately show ?thesis by (simp add: cidr_range_def split_beta del: One_nat_def)
  qed
  then have "sorted space" using tiles_sorted [OF space_tiled] by blast
  then have "sort (map cidr_range public_ipv4_blocks @ map cidr_range NON_PUBLIC_IPV4) = space"
    using space_mset by (intro properties_for_sort) simp_all
  then show ?thesis by (simp only: public_ranges_are_the_exact_complement_def parsed_blocks expect_simps space_tiled)
qed

section \<open>The rules in summary\<close>

definition rules_allow_the_gateway_and_the_internet_only :: bool where
  "rules_allow_the_gateway_and_the_internet_only \<longleftrightarrow>
     (let rules = egress_rules [\<lparr>sa_ip = V4 (ipv4 192 168 1 251), sa_port = 17671, sa_scope = 0\<rparr>];
          summary = map (\<lambda>r. (if 40 < length (rule_destination r) then ''<public ipv4>'' else rule_destination r,
            rule_protocol r, rule_destination_port r)) rules
      in summary = [(''192.168.1.251'', Some Tcp, ''17671''), (''<public ipv4>'', None, []), (''2000::/3'', None, [])]
         \<and> list_all (\<lambda>r. rule_action r = Allow) rules)"

lemma length_join: "sum_list (map length ws) \<le> length (join_str sep ws)"
  by (induction sep ws rule: join_str.induct) auto

lemma length_cidr: "4 \<le> length (show_cidr b)"
  by (simp add: show_cidr_def show_ipv4_def octets_def)

lemma public_list_is_long: "40 < length (join_str '','' public_ipv4_cidrs)"
proof -
  have one: "1 \<le> length (cidr_blocks lo hi)" if "lo \<le> hi" for lo hi
    using that by (subst cidr_blocks.simps) (simp add: Let_def)
  have count: "13 \<le> length public_ipv4_blocks"
    unfolding public_ipv4_blocks_def public_ranges_listed using one [of 16777216 167772159] one [of 184549376 1681915903]
      one [of 1686110208 2130706431] one [of 2147483648 2851995647] one [of 2852061184 2886729727] one [of 2887778304 3221225471]
      one [of 3221225728 3221225983] one [of 3221226240 3227017983] one [of 3227018240 3232235519] one [of 3232301056 3323068415]
      one [of 3323199488 3325256703] one [of 3325256960 3405803775] one [of 3405804032 3758096383]
    by simp
  have "4 * length bs \<le> sum_list (map (\<lambda>b. length (show_cidr b)) bs)" for bs
  proof (induction bs)
    case (Cons b bs)
    then show ?case using length_cidr [of b] by simp
  qed simp
  then have "4 * length public_ipv4_blocks \<le> sum_list (map length public_ipv4_cidrs)" by (simp add: public_ipv4_cidrs_def o_def)
  with count show ?thesis using length_join [of public_ipv4_cidrs "'',''"] by linarith
qed

lemma rules_allow_the_gateway_and_the_internet_only_passes: rules_allow_the_gateway_and_the_internet_only
proof -
  have "show_ip (V4 (ipv4 192 168 1 251)) = ''192.168.1.251''"
    by (simp add: show_ip_def show_ipv4_def octets_def ipv4_def of_octets_def dec.simps)
  then show ?thesis
    using public_list_is_long
    by (simp add: rules_allow_the_gateway_and_the_internet_only_def egress_rules_def gateway_rule_def described_def allow_egress_def
        join_addresses_def PUBLIC_IPV6_def dec.simps Let_def)
qed

end
