(* ===== verification/Test_Files.thy ===== *)
theory Test_Files
  imports Rootfs_Files Test_Service
begin

text \<open>
  What the tests on real files share: the files of a test in the file system of \<open>File_System\<close>, and the rules by which a
  computation on them is evaluated step by step. Where a test asks for a temporary directory it gets \<open>/t\<close>.
\<close>

section \<open>Files of a test\<close>

definition tree :: "(string list \<times> node \<times> nat) list \<Rightarrow> files" where
  "tree entries = ([], new_inode 1000 Directory 493) # ([''t''], new_inode 1000 Directory 493)
     # map (\<lambda>(k, n, mode). (''t'' # k, new_inode 1000 n mode)) entries"

definition dir :: "string list \<Rightarrow> string list \<times> node \<times> nat" where "dir k = (k, Directory, 493)"
definition text_file :: "string list \<Rightarrow> string \<Rightarrow> nat \<Rightarrow> string list \<times> node \<times> nat" where "text_file k t mode = (k, Regular t, mode)"
definition link_to :: "string list \<Rightarrow> string \<Rightarrow> string list \<times> node \<times> nat" where "link_to k target = (k, Link target, 511)"

text \<open>Running a computation on files: what holds of the result and of the files it leaves.\<close>

definition leaves :: "env \<Rightarrow> files \<Rightarrow> (env \<Rightarrow> 'a action) \<Rightarrow> ('a \<Rightarrow> files \<Rightarrow> bool) \<Rightarrow> bool" where
  "leaves E s m P = (let (r, h) = m (file_world E s) []
     in expect_some r (\<lambda>a. P a (files_after (env_uid E) s h)))"

definition mode_at :: "files \<Rightarrow> string list \<Rightarrow> nat option" where
  "mode_at s k = map_option (\<lambda>i. ino_mode i mod 512) (lookup s k)"

definition link_at :: "files \<Rightarrow> string list \<Rightarrow> string option" where
  "link_at s k = (case node_at s k of Some (Link t) \<Rightarrow> Some t | _ \<Rightarrow> None)"

definition text_at :: "files \<Rightarrow> string list \<Rightarrow> string option" where
  "text_at s k = (case node_at s k of Some (Regular t) \<Rightarrow> Some t | _ \<Rightarrow> None)"

lemmas test_files = tree_def dir_def text_file_def link_to_def leaves_def mode_at_def link_at_def text_at_def
  files_after_def lookup_def put_def erase_def erase_tree_def new_inode_def node_at_def is_dir_def
  locate_def inode_of_def MAX_LINKS_def create_at_def write_at_def content_def metadata_of_inode_def
  fs_metadata_def fs_content_def fs_children_def fs_attribute_def ok_or_def

text \<open>One step at a time: a continuation is evaluated only when its argument is known.\<close>

lemma step_apply:
  "await m f h = (case m h of (None, h') \<Rightarrow> (None, h') | (Some a, h') \<Rightarrow> f a h')"
  "await_ok p g h = (case p h of (None, h') \<Rightarrow> (None, h') | (Some r, h') \<Rightarrow> (case r of Inl e \<Rightarrow> (Some (Inl e), h') | Inr b \<Rightarrow> g b h'))"
  "await_map z p g' h = (case p h of (None, h') \<Rightarrow> (None, h') | (Some r, h') \<Rightarrow> (case r of Inl e \<Rightarrow> (Some (Inl (z e)), h') | Inr b \<Rightarrow> g' b h'))"
  "ok b' h = (Some (Inr b'), h)" "err e' h = (Some (Inl e'), h)" "return a' h = (Some a', h)"
  "fs_do E c h = (Some (env_fs_do E h c), h @ [Fs c (succeeded (env_fs_do E h c))])"
  "fs_stat E c h = (Some (env_fs_stat E h c), h @ [Fs c (succeeded (env_fs_stat E h c))])"
  "fs_text E c h = (Some (env_fs_text E h c), h @ [Fs c (succeeded (env_fs_text E h c))])"
  "fs_names E c h = (Some (env_fs_names E h c), h @ [Fs c (succeeded (env_fs_names E h c))])"
  "fs_xattr E c h = (Some (env_fs_xattr E h c), h @ [Fs c (succeeded (env_fs_xattr E h c))])"
  by (auto simp: run_simps fs_do_def fs_stat_def fs_text_def fs_names_def fs_xattr_def split: prod.split option.split sum.split)

lemma later_cong:
  "h = h' \<Longrightarrow> await m f h = await m f h'"
  "h = h' \<Longrightarrow> await_ok p g h = await_ok p g h'"
  "h = h' \<Longrightarrow> await_map z p g' h = await_map z p g' h'"
  "x = x' \<Longrightarrow> h = h' \<Longrightarrow> lift_ok x k h = lift_ok x' k h'"
  by simp_all

lemma lift_ok_apply: "lift_ok (Inr a) f = f a" "lift_ok (Inl e) f h = (Some (Inl e), h)"
  by (simp_all add: run_simps)

lemma file_world_answers:
  "env_fs_do (file_world E s) h c = result_bind (fs_change (env_uid E) (files_after (env_uid E) s h) c) (\<lambda>_. Inr ())"
  "env_fs_stat (file_world E s) h c = fs_metadata (files_after (env_uid E) s h) c"
  "env_fs_text (file_world E s) h c = fs_content (files_after (env_uid E) s h) c"
  "env_fs_names (file_world E s) h c = fs_children (files_after (env_uid E) s h) c"
  "env_fs_xattr (file_world E s) h c = fs_attribute (files_after (env_uid E) s h) c"
  "asset_init_script (file_world E s) = asset_init_script E"
  "ext_show_io (file_world E s) = ext_show_io E" "ext_sha256 (file_world E s) = ext_sha256 E" "env_uid (file_world E s) = env_uid E"
  "env_rounds (file_world E s) = env_rounds E"
  by (simp_all add: file_world_def)

lemmas file_calls = step_apply lift_ok_apply succeeded_def file_world_answers

lemma resolve_loop_apply:
  "resolve_loop E rootfs g [] resolved hops h = (Some (Inr resolved), h)"
  "resolve_loop E rootfs g (part # pending) resolved hops h =
     (case components part of
        Normal name # _ \<Rightarrow>
          (let candidate = path_join (resolved_path rootfs resolved) name in
           await (fs_stat E (Symlink_Metadata candidate)) (\<lambda>r.
             let is_symlink = (case r of Inr metadata \<Rightarrow> meta_is_symlink metadata | Inl _ \<Rightarrow> False)
             in if \<not> is_symlink then resolve_loop E rootfs g pending (resolved @ [name]) hops
                else if MAX_SYMLINK_HOPS < hops + 1 then err (too_many_symlinks g)
                else
                  await_map (\<lambda>e. ImageImport (''failed to read symlink '' @ candidate @ '': '' @ ext_show_io E e))
                    (fs_text E (Read_Link candidate)) (\<lambda>target.
                    resolve_loop E rootfs g (map component_str (components target) @ pending)
                      (if starts_with target ''/'' then [] else resolved) (hops + 1))))
      | ParentDir # _ \<Rightarrow> resolve_loop E rootfs g pending (butlast resolved) hops
      | _ \<Rightarrow> resolve_loop E rootfs g pending resolved hops) h"
  by (simp_all add: run_simps)

text \<open>Functions on paths, once the path is known.\<close>

lemma ends_with_char: "ends_with (c # cs) [d] \<longleftrightarrow> last (c # cs) = d"
proof
  assume "last (c # cs) = d"
  then show "ends_with (c # cs) [d]" using append_butlast_last_id [of "c # cs"] by (metis ends_with_iff list.distinct(1))
next
  assume "ends_with (c # cs) [d]"
  then obtain t where "c # cs = t @ [d]" by (auto simp: ends_with_iff)
  then show "last (c # cs) = d" by (simp only: last_snoc)
qed

lemma known_paths:
  "path_join (c # cs) (d # ds) =
     (if d = CHR ''/'' then d # ds else if last (c # cs) = CHR ''/'' then (c # cs) @ d # ds else (c # cs) @ CHR ''/'' # d # ds)"
  "path_join (c # cs) [] = (if last (c # cs) = CHR ''/'' then c # cs else (c # cs) @ ''/'')"
  by (simp_all add: path_join_def ends_with_char starts_with_def del: last.simps)

lemmas known_path_parts = known_paths components_def [of "c # cs" for c cs]
  file_name_def [of "c # cs" for c cs] path_parent_def [of "c # cs" for c cs] component_of_def component_str_def
  trim_end_matches_def trim_start_matches_def split_last_def starts_with_def
  NOENT_def NOTDIR_def ISDIR_def EXISTS_def LOOP_def

lemmas known_path_defs = path_names_eq [of "c # cs" for c cs] known_path_parts

end
