(* ===== verification/Test_Init.thy ===== *)
theory Test_Init
  imports Test_Files
begin

text \<open>
  The tests of \<open>image.rs\<close> that install the init in a rootfs with real files and links.
\<close>

section \<open>The init\<close>

text \<open>The paths of these tests.\<close>

lemma init_paths:
  "path_names ''/t/rootfs/openshell-init.sh'' = [''t'', ''rootfs'', ''openshell-init.sh'']"
  "path_names ''/t/rootfs/sbin'' = [''t'', ''rootfs'', ''sbin'']" "path_names ''/t/rootfs/sbin/init'' = [''t'', ''rootfs'', ''sbin'', ''init'']"
  "path_names ''/t/rootfs/usr'' = [''t'', ''rootfs'', ''usr'']" "path_names ''/t/rootfs/usr/sbin'' = [''t'', ''rootfs'', ''usr'', ''sbin'']"
  "path_names ''/t/rootfs/usr/sbin/init'' = [''t'', ''rootfs'', ''usr'', ''sbin'', ''init'']"
  "path_names ''/t/rootfs/usr/escape'' = [''t'', ''rootfs'', ''usr'', ''escape'']" "path_names ''usr/sbin'' = [''usr'', ''sbin'']"
  "path_names ''/t/rootfs/host-usr-sbin'' = [''t'', ''rootfs'', ''host-usr-sbin'']" "path_names ''/usr/sbin'' = [''usr'', ''sbin'']"
  "path_names ''/t/host-usr-sbin'' = [''t'', ''host-usr-sbin'']" "path_names ''/t/host-secret'' = [''t'', ''host-secret'']"
  "path_names ''../../../host-usr-sbin'' = [''..'', ''..'', ''..'', ''host-usr-sbin'']" "path_names ''/sbin'' = [''sbin'']"
  by code_simp+

definition test_inject_init_script :: "env \<Rightarrow> bool" where
  "test_inject_init_script E \<longleftrightarrow>
     leaves E (tree [dir [''rootfs'']]) (\<lambda>W. inject_init_script W ''/t/rootfs'') (\<lambda>r s.
       r = Inr () \<and> text_at s [''t'', ''rootfs'', ''openshell-init.sh''] = Some (asset_init_script E)
       \<and> asset_init_script E \<noteq> [] \<and> mode_at s [''t'', ''rootfs'', ''openshell-init.sh''] = Some 493)"

lemma test_inject_init_script_passes: "asset_init_script E \<noteq> [] \<Longrightarrow> test_inject_init_script E"
  by (simp add: test_inject_init_script_def inject_init_script_def GUEST_INIT_SCRIPT_PATH_def test_files file_calls init_paths known_path_parts Let_def cong: later_cong)

definition init_script_is_not_written_through_a_symlink_in_the_image :: "env \<Rightarrow> bool" where
  "init_script_is_not_written_through_a_symlink_in_the_image E \<longleftrightarrow>
     leaves E (tree [dir [''rootfs''], text_file [''host-secret''] ''do not touch'' 384,
         link_to [''rootfs'', ''openshell-init.sh''] ''/t/host-secret''])
       (\<lambda>W. inject_init_script W ''/t/rootfs'') (\<lambda>r s.
       r = Inr () \<and> text_at s [''t'', ''host-secret''] = Some ''do not touch'' \<and> mode_at s [''t'', ''host-secret''] = Some 384
       \<and> text_at s [''t'', ''rootfs'', ''openshell-init.sh''] = Some (asset_init_script E))"

lemma init_script_is_not_written_through_a_symlink_in_the_image_passes:
  "init_script_is_not_written_through_a_symlink_in_the_image E"
  by (simp add: init_script_is_not_written_through_a_symlink_in_the_image_def inject_init_script_def GUEST_INIT_SCRIPT_PATH_def
      test_files file_calls init_paths known_path_parts Let_def cong: later_cong)

definition init_is_the_init_script :: "env \<Rightarrow> bool" where
  "init_is_the_init_script E \<longleftrightarrow>
     leaves E (tree [dir [''rootfs''], dir [''rootfs'', ''sbin''],
         text_file [''rootfs'', ''sbin'', ''init''] (''#!/bin/sh'' @ [CHR 0x0A] @ ''exec systemd'' @ [CHR 0x0A]) 420])
       (\<lambda>W. install_init W ''/t/rootfs'')
       (\<lambda>r s. r = Inr () \<and> link_at s [''t'', ''rootfs'', ''sbin'', ''init''] = Some GUEST_INIT_SCRIPT_PATH)"

definition init_is_installed_where_the_image_has_no_sbin :: "env \<Rightarrow> bool" where
  "init_is_installed_where_the_image_has_no_sbin E \<longleftrightarrow>
     leaves E (tree [dir [''rootfs'']]) (\<lambda>W. install_init W ''/t/rootfs'')
       (\<lambda>r s. r = Inr () \<and> link_at s [''t'', ''rootfs'', ''sbin'', ''init''] = Some GUEST_INIT_SCRIPT_PATH)"

definition init_follows_a_relative_sbin_symlink_inside_the_rootfs :: "env \<Rightarrow> bool" where
  "init_follows_a_relative_sbin_symlink_inside_the_rootfs E \<longleftrightarrow>
     leaves E (tree [dir [''rootfs''], dir [''rootfs'', ''usr''], dir [''rootfs'', ''usr'', ''sbin''],
         link_to [''rootfs'', ''sbin''] ''usr/sbin''])
       (\<lambda>W. install_init W ''/t/rootfs'')
       (\<lambda>r s. r = Inr () \<and> link_at s [''t'', ''rootfs'', ''usr'', ''sbin'', ''init''] = Some GUEST_INIT_SCRIPT_PATH)"

definition init_resolves_absolute_symlinks_against_the_rootfs :: "env \<Rightarrow> bool" where
  "init_resolves_absolute_symlinks_against_the_rootfs E \<longleftrightarrow>
     (let s0 = tree [dir [''rootfs''], dir [''rootfs'', ''usr''], dir [''rootfs'', ''usr'', ''sbin''], dir [''host-usr-sbin''],
            link_to [''rootfs'', ''sbin''] ''/usr/sbin'', link_to [''rootfs'', ''usr'', ''escape''] ''../../../host-usr-sbin'']
      in leaves E s0 (\<lambda>W. resolve_in_rootfs W ''/t/rootfs'' ''/sbin/init'') (\<lambda>r s. r = Inr ''/t/rootfs/usr/sbin/init'')
         \<and> leaves E s0 (\<lambda>W. resolve_in_rootfs W ''/t/rootfs'' ''/usr/escape/init'')
             (\<lambda>r s. r = Inr ''/t/rootfs/host-usr-sbin/init'')
         \<and> leaves E s0 (\<lambda>W. install_init W ''/t/rootfs'') (\<lambda>r s.
             r = Inr () \<and> node_at s [''t'', ''rootfs'', ''usr'', ''sbin'', ''init''] \<noteq> None
             \<and> fs_children s (Read_Dir ''/t/host-usr-sbin'') = Inr []))"

definition looping_image :: files where
  "looping_image = tree [dir [''rootfs''], link_to [''rootfs'', ''sbin''] ''/sbin'']"

definition symlink_loops_in_the_image_are_an_error :: "env \<Rightarrow> bool" where
  "symlink_loops_in_the_image_are_an_error E \<longleftrightarrow>
     leaves E looping_image (\<lambda>W. install_init W ''/t/rootfs'') (\<lambda>r s. expect_err r (\<lambda>_. True))"

lemmas init_defs = install_init_def resolve_in_rootfs_def resolved_path_def GUEST_INIT_PATH_def GUEST_INIT_SCRIPT_PATH_def
  MAX_SYMLINK_HOPS_def Let_def

lemmas init_test = init_defs test_files file_calls init_paths known_path_parts resolve_loop_apply

lemma init_is_the_init_script_passes: "init_is_the_init_script E"
  by (simp add: init_is_the_init_script_def init_test del: resolve_loop.simps cong: later_cong)

lemma init_is_installed_where_the_image_has_no_sbin_passes: "init_is_installed_where_the_image_has_no_sbin E"
  by (simp add: init_is_installed_where_the_image_has_no_sbin_def init_test del: resolve_loop.simps cong: later_cong)

lemma init_follows_a_relative_sbin_symlink_inside_the_rootfs_passes: "init_follows_a_relative_sbin_symlink_inside_the_rootfs E"
  by (simp add: init_follows_a_relative_sbin_symlink_inside_the_rootfs_def init_test del: resolve_loop.simps cong: later_cong)

lemma init_resolves_absolute_symlinks_against_the_rootfs_passes: "init_resolves_absolute_symlinks_against_the_rootfs E"
  by (simp add: init_resolves_absolute_symlinks_against_the_rootfs_def init_test del: resolve_loop.simps cong: later_cong)

text \<open>The link is followed until there have been too many.\<close>

lemma sbin_loops:
  assumes "files_after (env_uid E) looping_image h = looping_image" and "hops + n = MAX_SYMLINK_HOPS"
  shows "\<exists>h'. resolve_loop (file_world E looping_image) ''/t/rootfs'' g [''/'', ''sbin''] [] hops h
    = (Some (Inl (too_many_symlinks g)), h')"
  using assms
proof (induction n arbitrary: hops h)
  have stat: "fs_metadata looping_image (Symlink_Metadata ''/t/rootfs/sbin'')
      = Inr (metadata_of_inode (new_inode 1000 (Link ''/sbin'') 511))"
    and read: "fs_content looping_image (Read_Link ''/t/rootfs/sbin'') = Inr ''/sbin''"
    by (simp_all add: looping_image_def test_files init_paths known_path_parts)
  have place: "path_join (resolved_path ''/t/rootfs'' []) ''sbin'' = ''/t/rootfs/sbin''"
    and parts: "components ''/'' = [RootDir]" "components ''sbin'' = [Normal ''sbin'']" "components ''/sbin'' = [RootDir, Normal ''sbin'']"
    by code_simp+
  note step = resolve_loop_apply file_calls stat read place parts Let_def metadata_of_inode_def new_inode_def component_str_def
  {
    case 0
    then show ?case by (simp add: step del: resolve_loop.simps cong: later_cong)
  next
    case (Suc n)
    have same: "files_after (env_uid E) looping_image (h @ [Fs (Symlink_Metadata ''/t/rootfs/sbin'') True]) = looping_image"
      using Suc.prems(1) by (simp add: files_after_def)
    show ?case
      using Suc.IH [of "h @ [Fs (Symlink_Metadata ''/t/rootfs/sbin'') True, Fs (Read_Link ''/t/rootfs/sbin'') True]" "hops + 1"]
        Suc.prems same
      by (simp add: step starts_with_def files_after_def del: resolve_loop.simps cong: later_cong)
  }
qed

lemma symlink_loops_in_the_image_are_an_error_passes: "symlink_loops_in_the_image_are_an_error E"
proof -
  have guest: "file_name GUEST_INIT_PATH = Some ''init''"
    "map component_str (butlast (components GUEST_INIT_PATH)) = [''/'', ''sbin'']" by code_simp+
  have "files_after (env_uid E) looping_image [] = looping_image" by (simp add: files_after_def)
  then obtain h' where "resolve_loop (file_world E looping_image) ''/t/rootfs'' GUEST_INIT_PATH [''/'', ''sbin''] [] 0 []
      = (Some (Inl (too_many_symlinks GUEST_INIT_PATH)), h')"
    using sbin_loops [of E "[]" 0 MAX_SYMLINK_HOPS] by auto
  then show ?thesis
    by (simp add: symlink_loops_in_the_image_are_an_error_def leaves_def install_init_def resolve_in_rootfs_def guest ok_or_def
        file_calls cong: later_cong)
qed

end
