(* ===== verification/Test_Host.thy ===== *)
theory Test_Host
  imports Test_Files Test_Image "HOL-Library.Multiset"
begin

text \<open>
  The tests of \<open>image.rs\<close> and \<open>gc.rs\<close> on real files other than those of the init: the digest of a file, the copy of an
  extracted binary, the cache over a mock importer, the recorded owners, and the clean-up of the host.
\<close>

section \<open>Binaries\<close>

definition test_digest_of_file :: "env \<Rightarrow> bool" where
  "test_digest_of_file E \<longleftrightarrow>
     leaves E (tree [text_file [''test_bin''] ''hello supervisor'' 420]) (\<lambda>W. digest_of_file W ''/t/test_bin'')
       (\<lambda>r _. expect r (\<lambda>digest.
          digest = ''sha256:13698ec9ad86f380ac98b76b758f96f23ed83b0107115f4dfee415be8a26fe38''))"

lemma test_digest_of_file_passes:
  "hex_digest (ext_sha256 E ''hello supervisor'') = ''13698ec9ad86f380ac98b76b758f96f23ed83b0107115f4dfee415be8a26fe38''
   \<Longrightarrow> test_digest_of_file E"
  by (simp add: test_digest_of_file_def digest_of_file_def test_files file_calls known_path_defs cong: later_cong)

definition digest_of_file_refuses_symlink :: "env \<Rightarrow> bool" where
  "digest_of_file_refuses_symlink E \<longleftrightarrow>
     leaves E (tree [text_file [''test_bin''] ''hello supervisor'' 420, link_to [''test_link''] ''/t/test_bin''])
       (\<lambda>W. digest_of_file W ''/t/test_link'') (\<lambda>r _. expect_err r (\<lambda>e. contains_str (show_driver_error e) ''symlink''))"

lemma contains_within: "contains_str (u @ p @ v) p"
  by (auto simp: contains_str_iff)

lemma digest_of_file_refuses_symlink_passes: "digest_of_file_refuses_symlink E"
proof -
  have "contains_str (show_driver_error (ImageImport (''supervisor binary at '' @ ''/t/test_link''
      @ '' is a symlink or not a regular file''))) ''symlink''"
    by code_simp
  then show ?thesis
    by (simp add: digest_of_file_refuses_symlink_def digest_of_file_def test_files file_calls known_path_defs cong: later_cong)
qed

definition extract_supervisor_binary_ignores_symlink_in_cache :: "env \<Rightarrow> bool" where
  "extract_supervisor_binary_ignores_symlink_in_cache E \<longleftrightarrow>
     (let digest_hex = concat (replicate 32 ''dd'')
      in leaves E (tree [dir [digest_hex], text_file [''evil_target''] ''evil'' 420,
             link_to [digest_hex, ''openshell-sandbox''] ''/t/evil_target''])
           (\<lambda>W. is_valid_cached_binary W (''/t/'' @ digest_hex @ ''/openshell-sandbox'')) (\<lambda>valid _. \<not> valid))"

definition copy_extracted_binary_refuses_symlink :: "env \<Rightarrow> bool" where
  "copy_extracted_binary_refuses_symlink E \<longleftrightarrow>
     leaves E (tree [text_file [''host_secret''] ''secret data'' 420, link_to [''symlink_bin''] ''/t/host_secret''])
       (\<lambda>W. copy_extracted_binary W ''/t/symlink_bin'' ''/t/target_bin'' ''test:latest'') (\<lambda>r s.
       expect_err r (\<lambda>e. contains_str (show_driver_error e) ''symlink'') \<and> node_at s [''t'', ''target_bin''] = None)"

lemma copy_extracted_binary_refuses_symlink_passes: "copy_extracted_binary_refuses_symlink E"
proof -
  have "contains_str (show_driver_error (ImageImport (''image '' @ debug_str ''test:latest'' @ '' has a symlink at /openshell-sandbox'')))
      ''symlink''"
    by code_simp
  then show ?thesis
    by (simp add: copy_extracted_binary_refuses_symlink_def copy_extracted_binary_def test_files file_calls known_path_defs
        cong: later_cong)
qed

definition copy_extracted_binary_copies_regular_file :: "env \<Rightarrow> bool" where
  "copy_extracted_binary_copies_regular_file E \<longleftrightarrow>
     leaves E (tree [text_file [''source_bin''] ''binary content'' 420])
       (\<lambda>W. copy_extracted_binary W ''/t/source_bin'' ''/t/target_bin'' ''test:latest'') (\<lambda>r s.
       r = Inr () \<and> text_at s [''t'', ''target_bin''] = Some ''binary content'' \<and> mode_at s [''t'', ''target_bin''] = Some 493)"

lemma copy_extracted_binary_copies_regular_file_passes: "copy_extracted_binary_copies_regular_file E"
  by (simp add: copy_extracted_binary_copies_regular_file_def copy_extracted_binary_def test_files file_calls known_path_defs
      cong: later_cong)

definition digest_import_consistency :: bool where
  "digest_import_consistency \<longleftrightarrow>
     (let resolved_digest = ''sha256:'' @ concat (replicate 32 ''ff'');
          repo = repo_path ''registry.example.com/org/app:v1.2.3'';
          copy_source = ''docker://'' @ repo @ ''@'' @ resolved_digest;
          repo_with_scheme = repo_path ''docker://registry.example.com/org/app:v1.2.3'';
          copy_source_with_scheme = ''docker://'' @ repo_with_scheme @ ''@'' @ resolved_digest
      in repo = ''registry.example.com/org/app''
         \<and> copy_source = ''docker://registry.example.com/org/app@sha256:'' @ concat (replicate 32 ''ff'')
         \<and> repo_with_scheme = ''registry.example.com/org/app'' \<and> copy_source_with_scheme = copy_source)"

lemma digest_import_consistency_passes: digest_import_consistency
  by code_simp

lemma replicate_digits:
  "replicate 32 x = [x, x, x, x, x, x, x, x, x, x, x, x, x, x, x, x, x, x, x, x, x, x, x, x, x, x, x, x, x, x, x, x]"
  "replicate 64 x = replicate 32 x @ replicate 32 x"
  by (simp_all add: numeral_eq_Suc)

lemma extract_supervisor_binary_ignores_symlink_in_cache_passes: "extract_supervisor_binary_ignores_symlink_in_cache E"
  by (simp add: extract_supervisor_binary_ignores_symlink_in_cache_def is_valid_cached_binary_def test_files file_calls known_path_defs
      replicate_digits Let_def cong: later_cong)

section \<open>The cache over a mock importer\<close>

text \<open>The importer counts its calls with an atomic counter, as the history does; a test reads only one of the two.\<close>

definition counting_importer :: "env \<Rightarrow> string \<Rightarrow> nat \<Rightarrow> oci_importer" where
  "counting_importer W digest_to_return import_delay =
     \<lparr>imp_resolve_digest = (\<lambda>_. ok digest_to_return),
      imp_import = (\<lambda>reference digest alias.
        await fetch_add (\<lambda>_. await (if import_delay = 0 then return () else sleep import_delay) (\<lambda>_. ok ()))),
      imp_extract_supervisor_binary = (\<lambda>reference cache_dir.
        await fetch_add (\<lambda>_.
        let clean = unwrap_or (strip_prefix ''sha256:'' digest_to_return) digest_to_return;
            target_dir = path_join cache_dir clean; binary_path = path_join target_dir ''openshell-sandbox''
        in await (path_exists W binary_path) (\<lambda>present.
           if present then ok (binary_path, digest_to_return)
           else
             await_map (\<lambda>e. ImageImport (''failed to create cache dir: '' @ ext_show_io W e)) (fs_do W (Create_Dir_All target_dir)) (\<lambda>_.
             await_map (\<lambda>e. ImageImport (''failed to write mock binary: '' @ ext_show_io W e))
               (fs_do W (Write_File binary_path ''mock-supervisor-binary'')) (\<lambda>_.
             await (fs_do W (Set_Mode binary_path 493)) (\<lambda>_. ok (binary_path, digest_to_return)))))))\<rparr>"

definition alias_set_checker :: "string list \<Rightarrow> image_alias_checker" where
  "alias_set_checker existing_aliases alias = ok (alias \<in> set existing_aliases)"

definition test_cache :: "env \<Rightarrow> string \<Rightarrow> nat \<Rightarrow> string list \<Rightarrow> image_cache" where
  "test_cache W digest import_delay existing_aliases =
     with_checker (alias_set_checker existing_aliases) (counting_importer W digest import_delay) ''test-oci-''"

definition calls_so_far :: "nat action" where
  "calls_so_far = recall (\<lambda>h. length (filter (\<lambda>e. e = Fetch_Add) h))"

text \<open>A miss imports, and once the alias exists a hit does not.\<close>

definition cache_hit_and_miss :: "env \<Rightarrow> bool" where
  "cache_hit_and_miss E \<longleftrightarrow>
     (let digest_hex = concat (replicate 32 ''cc''); digest = ''sha256:'' @ digest_hex;
          expected_alias = ''test-oci-r3-'' @ digest_hex
      in fst (await_ok (resolve_alias (test_cache E digest 50 []) ''ubuntu:22.04'') (\<lambda>res_alias.
              await calls_so_far (\<lambda>n.
              await_ok (resolve_alias (test_cache E digest 50 [expected_alias]) ''ubuntu:22.04'') (\<lambda>res_alias2.
              await calls_so_far (\<lambda>n2.
              ok (res_alias, n, res_alias2, n2))))) [])
         = Some (Inr (expected_alias, 1, expected_alias, 1)))"

definition extract_supervisor_binary_cache_hit_and_miss :: "env \<Rightarrow> bool" where
  "extract_supervisor_binary_cache_hit_and_miss E \<longleftrightarrow>
     (let digest_hex = concat (replicate 32 ''ee''); digest = ''sha256:'' @ digest_hex;
          extract = (\<lambda>W. extract_supervisor_binary W (test_cache W digest 0 []) ''ghcr.io/nvidia/openshell/supervisor:latest'' ''/t'')
      in leaves E (tree []) (\<lambda>W.
           await_ok (extract W) (\<lambda>(bin_path1, dig1).
           await (path_exists W bin_path1) (\<lambda>there.
           await calls_so_far (\<lambda>n.
           await_ok (extract W) (\<lambda>(bin_path2, dig2).
           ok (dig1 = digest \<and> there \<and> n = 1 \<and> dig2 = digest \<and> bin_path1 = bin_path2))))))
         (\<lambda>r _. r = Inr True))"

lemma mock_apply:
  "with_lock k m h = (case m (h @ [Lock k]) of (None, h') \<Rightarrow> (None, h') | (Some a, h') \<Rightarrow> (Some a, h' @ [Unlock k]))"
  "fetch_add h = (Some (length (filter (\<lambda>e. e = Fetch_Add) h) mod 2 ^ 64), h @ [Fetch_Add])"
  "sleep ms h = (Some (), h @ [Sleep ms])"
  "calls_so_far h = (Some (length (filter (\<lambda>e. e = Fetch_Add) h)), h)"
  by (auto simp: with_lock_def fetch_add_def sleep_def calls_so_far_def recall_def await_def perform_def return_def
      split: prod.split option.split)

lemma mock_cong: "h = h' \<Longrightarrow> with_lock k m h = with_lock k m h'"
  by simp

lemma sample_valid:
  "validate_reference ''ubuntu:22.04'' = Inr ()" "validate_reference ''ghcr.io/nvidia/openshell/supervisor:latest'' = Inr ()"
  by code_simp+

lemma cache_hit_and_miss_passes: "cache_hit_and_miss E"
  by (simp add: cache_hit_and_miss_def resolve_alias_def sample_valid test_cache_def with_checker_def counting_importer_def alias_set_checker_def
      cache_alias_with_prefix_def CONVERSION_REVISION_def dec.simps mock_apply file_calls cong: later_cong mock_cong)

text \<open>Paths below \<open>/t\<close> whose names are not written out.\<close>

lemma below_t:
  assumes "list_all normal_name names"
  shows "path_names (foldl path_join ''/t'' names) = ''t'' # names" and "foldl path_join ''/t'' names \<noteq> []"
proof -
  have "rootfs_at ''/t'' [''t'']" by (simp add: rootfs_at_def path_names_eq normal_name_def ends_with_iff)
  then show "path_names (foldl path_join ''/t'' names) = ''t'' # names" using path_names_join [OF _ assms] by simp
  then show "foldl path_join ''/t'' names \<noteq> []" by (auto simp: path_names_eq)
qed

lemma names_below_t:
  assumes "normal_name a" and "normal_name b"
  shows "path_names (path_join ''/t'' a) = [''t'', a]" and "path_join ''/t'' a \<noteq> []"
    and "path_names (path_join (path_join ''/t'' a) b) = [''t'', a, b]" and "path_join (path_join ''/t'' a) b \<noteq> []"
  using below_t [of "[a]"] below_t [of "[a, b]"] assms by simp_all

lemma extract_twice:
  assumes D: "normal_name D"
  shows "leaves E (tree []) (\<lambda>W.
       await_ok (extract_supervisor_binary W (test_cache W (''sha256:'' @ D) 0 []) ''ghcr.io/nvidia/openshell/supervisor:latest'' ''/t'') (\<lambda>(bin_path1, dig1).
       await (path_exists W bin_path1) (\<lambda>there.
       await calls_so_far (\<lambda>n.
       await_ok (extract_supervisor_binary W (test_cache W (''sha256:'' @ D) 0 []) ''ghcr.io/nvidia/openshell/supervisor:latest'' ''/t'') (\<lambda>(bin_path2, dig2).
       ok (dig1 = ''sha256:'' @ D \<and> there \<and> n = 1 \<and> dig2 = ''sha256:'' @ D \<and> bin_path1 = bin_path2))))))
     (\<lambda>r _. r = Inr True)"
proof -
  have "normal_name ''openshell-sandbox''" by (simp add: normal_name_def)
  note paths = names_below_t [OF D this]
  have D': "D \<noteq> ''..''" using D by (simp add: normal_name_def)
  show ?thesis
    by (simp add: extract_supervisor_binary_def sample_valid test_cache_def with_checker_def Let_def paths D'
      counting_importer_def path_exists_def is_valid_cached_binary_def clean_digest_def mock_apply executable_bits_def
      test_files file_calls NOENT_def NOTDIR_def ISDIR_def EXISTS_def LOOP_def cong: later_cong mock_cong)
qed

lemma repeated_names:
  "normal_name (concat (replicate 32 ''ee''))" "normal_name (replicate 64 (CHR ''a''))" "normal_name (replicate 64 (CHR ''b''))"
  by code_simp+

lemma extract_supervisor_binary_cache_hit_and_miss_passes: "extract_supervisor_binary_cache_hit_and_miss E"
  using extract_twice [OF repeated_names(1), of E] unfolding extract_supervisor_binary_cache_hit_and_miss_def Let_def .

section \<open>Clean-up of the host\<close>

text \<open>The files when some seconds have passed.\<close>

definition aged :: "nat \<Rightarrow> files \<Rightarrow> files" where
  "aged secs s = map (\<lambda>(k, i). (k, i\<lparr>ino_age := map_option (\<lambda>a. a + secs) (ino_age i)\<rparr>)) s"

definition host_files :: "string list \<Rightarrow> string list \<Rightarrow> files" where
  "host_files digests scratch = tree ([dir [''cache''], dir [''work'']]
     @ map (\<lambda>d. dir [''cache'', d]) (digests @ [''not-a-digest'']) @ map (\<lambda>n. dir [''work'', n]) (scratch @ [''unrelated'']))"

definition host_collection_keeps_the_current_supervisor_and_fresh_scratch :: "env \<Rightarrow> bool" where
  "host_collection_keeps_the_current_supervisor_and_fresh_scratch E \<longleftrightarrow>
     (let current = replicate 64 (CHR ''a''); older = replicate 64 (CHR ''b'')
      in leaves E (host_files [current, older] [''openshell-oci-import-x1'', ''openshell-supervisor-extract-x2''])
           (\<lambda>W. collect_host W ''/t/cache'' (Some (''sha256:'' @ current)) ''/t/work'') (\<lambda>removed s.
           removed = 1
           \<and> node_at s [''t'', ''cache'', current] \<noteq> None \<and> node_at s [''t'', ''cache'', older] = None
           \<and> node_at s [''t'', ''cache'', ''not-a-digest''] \<noteq> None \<and> node_at s [''t'', ''work'', ''openshell-oci-import-x1''] \<noteq> None
           \<and> leaves E (aged (STALE_SCRATCH_AGE + 60) s) (\<lambda>W. collect_host W ''/t/cache'' None ''/t/work'') (\<lambda>removed s.
               removed = 2
               \<and> node_at s [''t'', ''work'', ''openshell-oci-import-x1''] = None
               \<and> node_at s [''t'', ''work'', ''openshell-supervisor-extract-x2''] = None
               \<and> node_at s [''t'', ''work'', ''unrelated''] \<noteq> None \<and> node_at s [''t'', ''cache'', current] \<noteq> None)))"

lemmas host_defs = collect_host_def gc_read_dir_def gc_remove_def clean_digest_def List.map_filter_def SCRATCH_PREFIXES_def
  STALE_SCRATCH_AGE_def Let_def host_files_def aged_def test_files file_calls known_path_defs

lemma fresh_host:
  assumes A: "normal_name A" "is_digest A" and B: "normal_name B" "is_digest B" and "A \<noteq> B"
  shows "\<exists>h. collect_host (file_world E (host_files [A, B] [''openshell-oci-import-x1'', ''openshell-supervisor-extract-x2'']))
      ''/t/cache'' (Some (''sha256:'' @ A)) ''/t/work'' [] = (Some 1, h)
    \<and> files_after (env_uid E) (host_files [A, B] [''openshell-oci-import-x1'', ''openshell-supervisor-extract-x2'']) h
      = host_files [A] [''openshell-oci-import-x1'', ''openshell-supervisor-extract-x2'']"
proof -
  have no: "\<not> is_digest ''not-a-digest''" by code_simp
  then have others: "A \<noteq> ''not-a-digest''" "B \<noteq> ''not-a-digest''" "A \<noteq> ''..''" "B \<noteq> ''..''" "B \<noteq> A"
    using assms by (auto simp: normal_name_def)
  have "rootfs_at ''/t/cache'' [''t'', ''cache'']" by (simp add: rootfs_at_def path_names_eq normal_name_def ends_with_iff)
  then have cache: "path_names (path_join ''/t/cache'' n) = [''t'', ''cache'', n]" if "normal_name n" for n
    using path_names_join [of "''/t/cache''" _ "[n]"] that by simp
  have "path_names [] = []" by (simp add: path_names_eq)
  with cache have "path_join ''/t/cache'' n \<noteq> []" if "normal_name n" for n using that by fastforce
  with cache show ?thesis by (simp add: host_defs assms no others cong: later_cong)
qed

lemma later_host:
  assumes A: "normal_name A"
  shows "\<exists>h. collect_host (file_world E (aged (STALE_SCRATCH_AGE + 60)
        (host_files [A] [''openshell-oci-import-x1'', ''openshell-supervisor-extract-x2'']))) ''/t/cache'' None ''/t/work'' [] = (Some 2, h)
    \<and> files_after (env_uid E) (aged (STALE_SCRATCH_AGE + 60)
        (host_files [A] [''openshell-oci-import-x1'', ''openshell-supervisor-extract-x2''])) h
      = aged (STALE_SCRATCH_AGE + 60) (host_files [A] [])"
  by (simp add: host_defs cong: later_cong)

lemma host_collection_keeps_the_current_supervisor_and_fresh_scratch_passes:
  "host_collection_keeps_the_current_supervisor_and_fresh_scratch E"
proof -
  let ?A = "replicate 64 (CHR ''a'')" and ?B = "replicate 64 (CHR ''b'')"
  have digests: "is_digest ?A" "is_digest ?B"
    by (simp_all add: is_digest_def list_all_iff is_ascii_hexdigit_def is_ascii_digit_def)
  have other: "?A \<noteq> ?B" "?A \<noteq> ''not-a-digest''" "?B \<noteq> ''not-a-digest''" by code_simp+
  have aged: "node_at (aged n s) k = node_at s k" for n k s
    by (induction s) (auto simp: aged_def node_at_def lookup_def)
  have there: "node_at (host_files [?A] scratch) [''t'', ''cache'', ?A] \<noteq> None" "node_at (host_files [?A] scratch) [''t'', ''cache'', ?B] = None"
    "node_at (host_files [?A] scratch) [''t'', ''cache'', ''not-a-digest''] \<noteq> None"
    "node_at (host_files [?A] scratch) [''t'', ''work'', ''unrelated''] \<noteq> None"
    "n \<noteq> ''unrelated'' \<Longrightarrow> node_at (host_files [?A] scratch) [''t'', ''work'', n] = None \<longleftrightarrow> n \<notin> set scratch" for n scratch
    using other by (auto simp: host_files_def tree_def dir_def node_at_def lookup_def image_iff map_of_eq_None_iff map_add_Some_iff split: if_splits)
  show ?thesis
    using fresh_host [OF repeated_names(2) digests(1) repeated_names(3) digests(2) other(1), of E] later_host [OF repeated_names(2), of E]
    by (elim exE conjE)
      (simp only: host_collection_keeps_the_current_supervisor_and_fresh_scratch_def leaves_def Let_def prod.case expect_simps aged there,
       simp add: there)
qed

section \<open>Recorded owners\<close>

definition set_rootless_owner :: "string list \<Rightarrow> string \<Rightarrow> files \<Rightarrow> files" where
  "set_rootless_owner k v s =
     map (\<lambda>(j, i). (j, if j = k then i\<lparr>ino_xattrs := (ROOTLESS_OWNER_XATTR, v) # ino_xattrs i\<rparr> else i)) s"

text \<open>\<open>str::lines\<close>: the last line may end without a newline.\<close>

definition text_lines :: "string \<Rightarrow> string list" where
  "text_lines t = (let ls = split_char (CHR 0x0A) t in if last ls = [] then butlast ls else ls)"

definition owned_rootfs :: files where
  "owned_rootfs = (let owner_998 = [CHR 0x08, CHR 0xE6, CHR 0x07, CHR 0x10, CHR 0xE6, CHR 0x07]
     in set_rootless_owner [''t'', ''rootfs'', ''sandbox''] owner_998
          (set_rootless_owner [''t'', ''rootfs'', ''sandbox'', ''.bashrc''] owner_998
            (tree [dir [''rootfs''], dir [''rootfs'', ''sandbox''], text_file [''rootfs'', ''sandbox'', ''.bashrc''] ''x'' 420,
               dir [''rootfs'', ''usr''], dir [''rootfs'', ''usr'', ''bin''],
               text_file [''rootfs'', ''usr'', ''bin'', ''sudo''] ''x'' 2541, link_to [''rootfs'', ''link''] ''sandbox/.bashrc''])))"

definition ownership_pseudo_file_restores_recorded_owners :: "env \<Rightarrow> bool" where
  "ownership_pseudo_file_restores_recorded_owners E \<longleftrightarrow>
     leaves E owned_rootfs (\<lambda>W. write_ownership_pseudo_file W ''/t/rootfs'' ''/t/ownership.pseudo'') (\<lambda>r s.
       r = Inr 6 \<and> expect_some (text_at s [''t'', ''ownership.pseudo'']) (\<lambda>contents.
         mset (text_lines contents) = mset
           [[CHR 0x22] @ ''link'' @ [CHR 0x22] @ '' m 777 0 0'', [CHR 0x22] @ ''sandbox'' @ [CHR 0x22] @ '' m 755 998 998'',
            [CHR 0x22] @ ''sandbox/.bashrc'' @ [CHR 0x22] @ '' m 644 998 998'', [CHR 0x22] @ ''usr'' @ [CHR 0x22] @ '' m 755 0 0'',
            [CHR 0x22] @ ''usr/bin'' @ [CHR 0x22] @ '' m 755 0 0'', [CHR 0x22] @ ''usr/bin/sudo'' @ [CHR 0x22] @ '' m 4755 0 0'']))"

lemma walk_apply:
  "walk_rootfs (Suc n) E rootfs [] out written h = (Some (Inr (out, written)), h)"
  "walk_rootfs (Suc n) E rootfs (p # ps) out written h =
     (let d = last (p # ps) in
        await_map (io_err E ''failed to read directory'' d) (fs_names E (Read_Dir d)) (\<lambda>entries.
        await_ok (walk_entries E rootfs d entries (butlast (p # ps)) out written) (\<lambda>(pending', out', written').
        walk_rootfs n E rootfs pending' out' written'))) h"
  "walk_entries E rootfs d [] pending out written h = (Some (Inr (pending, out, written)), h)"
  "walk_entries E rootfs d (entry # entries) pending out written h =
     lift_ok (map_err (io_err E ''failed to read directory'' d) entry) (\<lambda>name.
     let path = path_join d name in
     await_map (io_err E ''failed to stat'' path) (fs_stat E (Symlink_Metadata path)) (\<lambda>metadata.
     let pending' = (if meta_is_dir metadata then pending @ [path] else pending);
         relative = relative_to rootfs path
     in if CHR 0x0A \<in> set relative then walk_entries E rootfs d entries pending' out written
        else
          await_map (io_err E ''failed to read owner of'' path) (read_rootless_owner E path) (\<lambda>owner.
          walk_entries E rootfs d entries pending'
            (out @ pseudo_line relative (meta_mode metadata mod 4096) (unwrap_or owner (0, 0)))
            (written + 1)))) h"
  by (simp_all add: run_simps)

lemma lines_written:
  "pseudo_line ''link'' 511 (0, 0) = [CHR 0x22] @ ''link'' @ [CHR 0x22] @ '' m 777 0 0'' @ [CHR 0x0A]"
  "pseudo_line ''sandbox'' 493 (998, 998) = [CHR 0x22] @ ''sandbox'' @ [CHR 0x22] @ '' m 755 998 998'' @ [CHR 0x0A]"
  "pseudo_line ''sandbox/.bashrc'' 420 (998, 998) = [CHR 0x22] @ ''sandbox/.bashrc'' @ [CHR 0x22] @ '' m 644 998 998'' @ [CHR 0x0A]"
  "pseudo_line ''usr'' 493 (0, 0) = [CHR 0x22] @ ''usr'' @ [CHR 0x22] @ '' m 755 0 0'' @ [CHR 0x0A]"
  "pseudo_line ''usr/bin'' 493 (0, 0) = [CHR 0x22] @ ''usr/bin'' @ [CHR 0x22] @ '' m 755 0 0'' @ [CHR 0x0A]"
  "pseudo_line ''usr/bin/sudo'' 2541 (0, 0) = [CHR 0x22] @ ''usr/bin/sudo'' @ [CHR 0x22] @ '' m 4755 0 0'' @ [CHR 0x0A]"
  by code_simp+

lemma owner_998: "decode_rootless_owner [CHR 0x08, CHR 0xE6, CHR 0x07, CHR 0x10, CHR 0xE6, CHR 0x07] = Some (998, 998)"
  using rootless_owner_records_decode_passes by (simp add: rootless_owner_records_decode_def)

text \<open>The files during the walk: the pseudo file has been created.\<close>

definition walked :: "nat \<Rightarrow> files" where
  "walked uid = put [''t'', ''ownership.pseudo''] (new_inode uid (Regular []) 420) owned_rootfs"

lemmas walked_defs = walked_def owned_rootfs_def set_rootless_owner_def ROOTLESS_OWNER_XATTR_def Let_def test_files known_path_defs

lemma walked_dirs:
  "fs_children (walked uid) (Read_Dir ''/t/rootfs'') = Inr [Inr ''sandbox'', Inr ''usr'', Inr ''link'']"
  "fs_children (walked uid) (Read_Dir ''/t/rootfs/sandbox'') = Inr [Inr ''.bashrc'']"
  "fs_children (walked uid) (Read_Dir ''/t/rootfs/usr'') = Inr [Inr ''bin'']"
  "fs_children (walked uid) (Read_Dir ''/t/rootfs/usr/bin'') = Inr [Inr ''sudo'']"
  by (simp_all add: walked_defs)

lemma walked_stats:
  "result_bind (fs_metadata (walked uid) (Symlink_Metadata ''/t/rootfs/sandbox'')) (\<lambda>m. Inr (meta_is_dir m, meta_mode m)) = Inr (True, 493)"
  "result_bind (fs_metadata (walked uid) (Symlink_Metadata ''/t/rootfs/sandbox/.bashrc'')) (\<lambda>m. Inr (meta_is_dir m, meta_mode m)) = Inr (False, 420)"
  "result_bind (fs_metadata (walked uid) (Symlink_Metadata ''/t/rootfs/usr'')) (\<lambda>m. Inr (meta_is_dir m, meta_mode m)) = Inr (True, 493)"
  "result_bind (fs_metadata (walked uid) (Symlink_Metadata ''/t/rootfs/usr/bin'')) (\<lambda>m. Inr (meta_is_dir m, meta_mode m)) = Inr (True, 493)"
  "result_bind (fs_metadata (walked uid) (Symlink_Metadata ''/t/rootfs/usr/bin/sudo'')) (\<lambda>m. Inr (meta_is_dir m, meta_mode m)) = Inr (False, 2541)"
  "result_bind (fs_metadata (walked uid) (Symlink_Metadata ''/t/rootfs/link'')) (\<lambda>m. Inr (meta_is_dir m, meta_mode m)) = Inr (False, 511)"
  by (simp_all add: walked_defs)

definition owner_attribute :: "files \<Rightarrow> string \<Rightarrow> (io_error, string option) result" where
  "owner_attribute s p = fs_attribute s (Get_Xattr p ROOTLESS_OWNER_XATTR)"

lemma walked_owners:
  "p \<in> {''/t/rootfs/sandbox'', ''/t/rootfs/sandbox/.bashrc''}
   \<Longrightarrow> owner_attribute (walked uid) p = Inr (Some [CHR 0x08, CHR 0xE6, CHR 0x07, CHR 0x10, CHR 0xE6, CHR 0x07])"
  "p \<in> {''/t/rootfs/usr'', ''/t/rootfs/usr/bin'', ''/t/rootfs/usr/bin/sudo'', ''/t/rootfs/link''}
   \<Longrightarrow> owner_attribute (walked uid) p = Inr None"
  by (auto simp: owner_attribute_def walked_defs)

text \<open>One entry and one directory of the walk, as long as the files are those.\<close>

lemma files_after_append: "files_after uid s (h @ es) = foldl (after_event uid) (files_after uid s h) es"
  by (simp add: files_after_def)

definition recorded :: "string option \<Rightarrow> (nat \<times> nat) option" where
  "recorded x = (case x of None \<Rightarrow> Some (0, 0) | Some v \<Rightarrow> decode_rootless_owner v)"

lemma walked_entry:
  assumes h: "files_after (env_uid E) owned_rootfs h = walked (env_uid E)" and path: "path_join d name = path"
    and stat: "result_bind (fs_metadata (walked (env_uid E)) (Symlink_Metadata path)) (\<lambda>m. Inr (meta_is_dir m, meta_mode m)) = Inr (b, mode)"
    and own: "owner_attribute (walked (env_uid E)) path = Inr x" and rec: "recorded x = Some owner"
    and line: "CHR 0x0A \<notin> set (relative_to r path)"
  shows "\<exists>h'. walk_entries (file_world E owned_rootfs) r d (Inr name # es) pending out n h
      = walk_entries (file_world E owned_rootfs) r d es (if b then pending @ [path] else pending)
          (out @ pseudo_line (relative_to r path) (mode mod 4096) owner) (n + 1) h'
    \<and> files_after (env_uid E) owned_rootfs h' = walked (env_uid E)"
proof -
  obtain m where m: "fs_metadata (walked (env_uid E)) (Symlink_Metadata path) = Inr m" "meta_is_dir m = b" "meta_mode m = mode"
    using stat by (cases "fs_metadata (walked (env_uid E)) (Symlink_Metadata path)") auto
  let ?stat = "h @ [Fs (Symlink_Metadata path) True]" and ?own = "h @ [Fs (Symlink_Metadata path) True, Fs (Get_Xattr path ROOTLESS_OWNER_XATTR) True]"
  have after: "files_after (env_uid E) owned_rootfs ?stat = walked (env_uid E)" "files_after (env_uid E) owned_rootfs ?own = walked (env_uid E)"
    by (simp_all add: files_after_append h)
  have owner: "read_rootless_owner (file_world E owned_rootfs) path ?stat = (Some (Inr (if x = None then None else Some owner)), ?own)"
    using own rec by (auto simp: read_rootless_owner_def file_calls after owner_attribute_def recorded_def split: option.splits)
  have "walk_entries (file_world E owned_rootfs) r d (Inr name # es) pending out n h
      = walk_entries (file_world E owned_rootfs) r d es (if b then pending @ [path] else pending)
          (out @ pseudo_line (relative_to r path) (mode mod 4096) owner) (n + 1) ?own"
    using line rec by (auto simp: walk_apply map_err_def path Let_def file_calls h m owner recorded_def simp del: walk_entries.simps)
  with after(2) show ?thesis by blast
qed

lemma walked_dir:
  assumes h: "files_after (env_uid E) owned_rootfs h = walked (env_uid E)"
    and names: "fs_children (walked (env_uid E)) (Read_Dir d) = Inr es"
  shows "\<exists>h'. walk_rootfs (Suc n) (file_world E owned_rootfs) r (ps @ [d]) out k h
      = await_ok (walk_entries (file_world E owned_rootfs) r d es ps out k)
          (\<lambda>(pending', out', k'). walk_rootfs n (file_world E owned_rootfs) r pending' out' k') h'
    \<and> files_after (env_uid E) owned_rootfs h' = walked (env_uid E)"
proof -
  let ?read = "h @ [Fs (Read_Dir d) True]"
  have "files_after (env_uid E) owned_rootfs ?read = walked (env_uid E)" by (simp add: files_after_append h)
  moreover have "walk_rootfs (Suc n) (file_world E owned_rootfs) r (ps @ [d]) out k h
      = await_ok (walk_entries (file_world E owned_rootfs) r d es ps out k)
          (\<lambda>(pending', out', k'). walk_rootfs n (file_world E owned_rootfs) r pending' out' k') ?read"
    by (simp add: file_calls h names Let_def del: walk_entries.simps)
  ultimately show ?thesis by blast
qed

definition walks :: "env \<Rightarrow> 'a action \<Rightarrow> 'a \<Rightarrow> bool" where
  "walks E m r \<longleftrightarrow> (\<forall>h. files_after (env_uid E) owned_rootfs h = walked (env_uid E)
     \<longrightarrow> (\<exists>h'. m h = (Some r, h') \<and> files_after (env_uid E) owned_rootfs h' = walked (env_uid E)))"

lemma walks_entry:
  assumes "result_bind (fs_metadata (walked (env_uid E)) (Symlink_Metadata path)) (\<lambda>m. Inr (meta_is_dir m, meta_mode m)) = Inr (b, mode)"
    and "owner_attribute (walked (env_uid E)) path = Inr x" and "recorded x = Some owner"
    and "path_join d name = path" and rel: "relative_to r path = rel" "CHR 0x0A \<notin> set rel" and "mode < 4096"
    and rest: "walks E (walk_entries (file_world E owned_rootfs) r d es (if b then pending @ [path] else pending)
          (out @ pseudo_line rel mode owner) (n + 1)) R"
  shows "walks E (walk_entries (file_world E owned_rootfs) r d (Inr name # es) pending out n) R"
  unfolding walks_def
proof (intro allI impI)
  fix h assume h: "files_after (env_uid E) owned_rootfs h = walked (env_uid E)"
  then show "\<exists>h'. walk_entries (file_world E owned_rootfs) r d (Inr name # es) pending out n h = (Some R, h')
      \<and> files_after (env_uid E) owned_rootfs h' = walked (env_uid E)"
    using walked_entry [OF h assms(4,1,2,3), of r es pending out n] rest rel assms(7) unfolding walks_def by fastforce
qed

lemma walks_entries_end: "walks E (walk_entries W r d [] pending out n) (Inr (pending, out, n))"
  by (simp add: walks_def run_simps)

lemma walks_dir:
  assumes names: "fs_children (walked (env_uid E)) (Read_Dir d) = Inr es"
    and entries: "walks E (walk_entries (file_world E owned_rootfs) r d es ps out k) (Inr (pending, out', k'))"
    and rest: "walks E (walk_rootfs n (file_world E owned_rootfs) r pending out' k') R"
  shows "walks E (walk_rootfs (Suc n) (file_world E owned_rootfs) r (ps @ [d]) out k) R"
  unfolding walks_def
proof (intro allI impI)
  fix h assume h: "files_after (env_uid E) owned_rootfs h = walked (env_uid E)"
  obtain h1 where h1: "walk_rootfs (Suc n) (file_world E owned_rootfs) r (ps @ [d]) out k h
      = await_ok (walk_entries (file_world E owned_rootfs) r d es ps out k)
          (\<lambda>(pending', out', k'). walk_rootfs n (file_world E owned_rootfs) r pending' out' k') h1"
    "files_after (env_uid E) owned_rootfs h1 = walked (env_uid E)"
    using walked_dir [OF h names] by blast
  obtain h2 where "walk_entries (file_world E owned_rootfs) r d es ps out k h1 = (Some (Inr (pending, out', k')), h2)"
    "files_after (env_uid E) owned_rootfs h2 = walked (env_uid E)"
    using entries h1(2) unfolding walks_def by blast
  then show "\<exists>h'. walk_rootfs (Suc n) (file_world E owned_rootfs) r (ps @ [d]) out k h = (Some R, h')
      \<and> files_after (env_uid E) owned_rootfs h' = walked (env_uid E)"
    using rest unfolding walks_def h1(1) by (simp add: step_apply)
qed

lemma walks_end: "walks E (walk_rootfs (Suc n) W r [] out k) (Inr (out, k))"
  by (simp add: walks_def run_simps)

lemma walk_places:
  "path_join ''/t/rootfs'' ''sandbox'' = ''/t/rootfs/sandbox''" "path_join ''/t/rootfs'' ''usr'' = ''/t/rootfs/usr''"
  "path_join ''/t/rootfs'' ''link'' = ''/t/rootfs/link''" "path_join ''/t/rootfs/usr'' ''bin'' = ''/t/rootfs/usr/bin''"
  "path_join ''/t/rootfs/usr/bin'' ''sudo'' = ''/t/rootfs/usr/bin/sudo''"
  "path_join ''/t/rootfs/sandbox'' ''.bashrc'' = ''/t/rootfs/sandbox/.bashrc''"
  "relative_to ''/t/rootfs'' ''/t/rootfs/sandbox'' = ''sandbox''" "relative_to ''/t/rootfs'' ''/t/rootfs/usr'' = ''usr''"
  "relative_to ''/t/rootfs'' ''/t/rootfs/link'' = ''link''" "relative_to ''/t/rootfs'' ''/t/rootfs/usr/bin'' = ''usr/bin''"
  "relative_to ''/t/rootfs'' ''/t/rootfs/usr/bin/sudo'' = ''usr/bin/sudo''"
  "relative_to ''/t/rootfs'' ''/t/rootfs/sandbox/.bashrc'' = ''sandbox/.bashrc''"
  by code_simp+

lemma recorded_values: "recorded None = Some (0, 0)"
  "recorded (Some [CHR 0x08, CHR 0xE6, CHR 0x07, CHR 0x10, CHR 0xE6, CHR 0x07]) = Some (998, 998)"
  by (simp_all add: recorded_def owner_998)

text \<open>The lines in the order of the walk.\<close>

definition owner_lines :: string where
  "owner_lines = pseudo_line ''sandbox'' 493 (998, 998) @ pseudo_line ''usr'' 493 (0, 0) @ pseudo_line ''link'' 511 (0, 0)
     @ pseudo_line ''usr/bin'' 493 (0, 0) @ pseudo_line ''usr/bin/sudo'' 2541 (0, 0) @ pseudo_line ''sandbox/.bashrc'' 420 (998, 998)"

lemmas owned_entry = walks_entry [OF walked_stats(1) walked_owners(1) recorded_values(2)]
  walks_entry [OF walked_stats(2) walked_owners(1) recorded_values(2)] walks_entry [OF walked_stats(3) walked_owners(2) recorded_values(1)]
  walks_entry [OF walked_stats(4) walked_owners(2) recorded_values(1)] walks_entry [OF walked_stats(5) walked_owners(2) recorded_values(1)]
  walks_entry [OF walked_stats(6) walked_owners(2) recorded_values(1)]

lemma walks_entries_of_dirs:
  "walks E (walk_entries (file_world E owned_rootfs) ''/t/rootfs'' ''/t/rootfs'' [Inr ''sandbox'', Inr ''usr'', Inr ''link''] [] out n)
     (Inr ([''/t/rootfs/sandbox'', ''/t/rootfs/usr''],
       ((out @ pseudo_line ''sandbox'' 493 (998, 998)) @ pseudo_line ''usr'' 493 (0, 0)) @ pseudo_line ''link'' 511 (0, 0), n + 1 + 1 + 1))"
  "walks E (walk_entries (file_world E owned_rootfs) ''/t/rootfs'' ''/t/rootfs/usr'' [Inr ''bin''] [''/t/rootfs/sandbox''] out n)
     (Inr ([''/t/rootfs/sandbox'', ''/t/rootfs/usr/bin''], out @ pseudo_line ''usr/bin'' 493 (0, 0), n + 1))"
  "walks E (walk_entries (file_world E owned_rootfs) ''/t/rootfs'' ''/t/rootfs/usr/bin'' [Inr ''sudo''] [''/t/rootfs/sandbox''] out n)
     (Inr ([''/t/rootfs/sandbox''], out @ pseudo_line ''usr/bin/sudo'' 2541 (0, 0), n + 1))"
  "walks E (walk_entries (file_world E owned_rootfs) ''/t/rootfs'' ''/t/rootfs/sandbox'' [Inr ''.bashrc''] [] out n)
     (Inr ([], out @ pseudo_line ''sandbox/.bashrc'' 420 (998, 998), n + 1))"
proof -
  show "walks E (walk_entries (file_world E owned_rootfs) ''/t/rootfs'' ''/t/rootfs'' [Inr ''sandbox'', Inr ''usr'', Inr ''link''] [] out n)
     (Inr ([''/t/rootfs/sandbox'', ''/t/rootfs/usr''],
       ((out @ pseudo_line ''sandbox'' 493 (998, 998)) @ pseudo_line ''usr'' 493 (0, 0)) @ pseudo_line ''link'' 511 (0, 0), n + 1 + 1 + 1))"
    by (rule owned_entry(1), simp, rule walk_places, rule walk_places, simp, simp, simp only: if_True append.simps,
      rule owned_entry(3), simp, rule walk_places, rule walk_places, simp, simp, simp only: if_True append.simps,
      rule owned_entry(6), simp, rule walk_places, rule walk_places, simp, simp, simp only: if_False, rule walks_entries_end)
  show "walks E (walk_entries (file_world E owned_rootfs) ''/t/rootfs'' ''/t/rootfs/usr'' [Inr ''bin''] [''/t/rootfs/sandbox''] out n)
     (Inr ([''/t/rootfs/sandbox'', ''/t/rootfs/usr/bin''], out @ pseudo_line ''usr/bin'' 493 (0, 0), n + 1))"
    by (rule owned_entry(4), simp, rule walk_places, rule walk_places, simp, simp, simp only: if_True append.simps, rule walks_entries_end)
  show "walks E (walk_entries (file_world E owned_rootfs) ''/t/rootfs'' ''/t/rootfs/usr/bin'' [Inr ''sudo''] [''/t/rootfs/sandbox''] out n)
     (Inr ([''/t/rootfs/sandbox''], out @ pseudo_line ''usr/bin/sudo'' 2541 (0, 0), n + 1))"
    by (rule owned_entry(5), simp, rule walk_places, rule walk_places, simp, simp, simp only: if_False, rule walks_entries_end)
  show "walks E (walk_entries (file_world E owned_rootfs) ''/t/rootfs'' ''/t/rootfs/sandbox'' [Inr ''.bashrc''] [] out n)
     (Inr ([], out @ pseudo_line ''sandbox/.bashrc'' 420 (998, 998), n + 1))"
    by (rule owned_entry(2), simp, rule walk_places, rule walk_places, simp, simp, simp only: if_False, rule walks_entries_end)
qed

lemma whole_walk:
  "walks E (walk_rootfs (Suc (Suc (Suc (Suc (Suc n))))) (file_world E owned_rootfs) ''/t/rootfs'' [''/t/rootfs''] [] 0) (Inr (owner_lines, 6))"
proof -
  have "walks E (walk_rootfs (Suc (Suc (Suc (Suc (Suc n))))) (file_world E owned_rootfs) ''/t/rootfs'' ([] @ [''/t/rootfs'']) [] 0)
    (Inr (((((([] @ pseudo_line ''sandbox'' 493 (998, 998)) @ pseudo_line ''usr'' 493 (0, 0)) @ pseudo_line ''link'' 511 (0, 0))
      @ pseudo_line ''usr/bin'' 493 (0, 0)) @ pseudo_line ''usr/bin/sudo'' 2541 (0, 0)) @ pseudo_line ''sandbox/.bashrc'' 420 (998, 998),
      0 + 1 + 1 + 1 + 1 + 1 + 1))"
    by (rule walks_dir [OF walked_dirs(1) walks_entries_of_dirs(1)],
      rule walks_dir [OF walked_dirs(3) walks_entries_of_dirs(2), unfolded append.simps],
      rule walks_dir [OF walked_dirs(4) walks_entries_of_dirs(3), unfolded append.simps],
      rule walks_dir [OF walked_dirs(2) walks_entries_of_dirs(4), unfolded append.simps], rule walks_end)
  then show ?thesis by (simp add: owner_lines_def numeral_eq_Suc del: walk_rootfs.simps)
qed

lemma owner_lines_sorted:
  "mset (text_lines owner_lines) = mset
     [[CHR 0x22] @ ''link'' @ [CHR 0x22] @ '' m 777 0 0'', [CHR 0x22] @ ''sandbox'' @ [CHR 0x22] @ '' m 755 998 998'',
      [CHR 0x22] @ ''sandbox/.bashrc'' @ [CHR 0x22] @ '' m 644 998 998'', [CHR 0x22] @ ''usr'' @ [CHR 0x22] @ '' m 755 0 0'',
      [CHR 0x22] @ ''usr/bin'' @ [CHR 0x22] @ '' m 755 0 0'', [CHR 0x22] @ ''usr/bin/sudo'' @ [CHR 0x22] @ '' m 4755 0 0'']"
proof -
  have "text_lines owner_lines =
     [[CHR 0x22] @ ''sandbox'' @ [CHR 0x22] @ '' m 755 998 998'', [CHR 0x22] @ ''usr'' @ [CHR 0x22] @ '' m 755 0 0'',
      [CHR 0x22] @ ''link'' @ [CHR 0x22] @ '' m 777 0 0'', [CHR 0x22] @ ''usr/bin'' @ [CHR 0x22] @ '' m 755 0 0'',
      [CHR 0x22] @ ''usr/bin/sudo'' @ [CHR 0x22] @ '' m 4755 0 0'', [CHR 0x22] @ ''sandbox/.bashrc'' @ [CHR 0x22] @ '' m 644 998 998'']"
    unfolding owner_lines_def lines_written by code_simp
  then show ?thesis by (simp only: mset.simps add_mset_commute)
qed

lemma pseudo_file_calls:
  "fs_change uid owned_rootfs (Write_File ''/t/ownership.pseudo'' []) = Inr (walked uid)"
  "\<exists>s. fs_change uid (walked uid) (Write_File ''/t/ownership.pseudo'' t) = Inr s \<and> text_at s [''t'', ''ownership.pseudo''] = Some t"
  by (simp_all add: walked_defs)

lemma ownership_pseudo_file_restores_recorded_owners_passes:
  assumes "5 \<le> env_rounds E"
  shows "ownership_pseudo_file_restores_recorded_owners E"
proof -
  obtain n where n: "env_rounds E = Suc (Suc (Suc (Suc (Suc n))))"
    using assms by (auto simp: numeral_eq_Suc dest!: le_Suc_ex)
  let ?W = "file_world E owned_rootfs" and ?h = "[Fs (Write_File ''/t/ownership.pseudo'' []) True]"
  have start: "files_after (env_uid E) owned_rootfs [] = owned_rootfs" by (simp add: files_after_def)
  then have "files_after (env_uid E) owned_rootfs ?h = walked (env_uid E)"
    by (simp add: files_after_def pseudo_file_calls del: fs_change.simps)
  then obtain h where h: "walk_rootfs (env_rounds E) ?W ''/t/rootfs'' [''/t/rootfs''] [] 0 ?h = (Some (Inr (owner_lines, 6)), h)"
    "files_after (env_uid E) owned_rootfs h = walked (env_uid E)"
    using whole_walk [of E n] unfolding walks_def n by blast
  obtain s where s: "fs_change (env_uid E) (walked (env_uid E)) (Write_File ''/t/ownership.pseudo'' owner_lines) = Inr s"
    "text_at s [''t'', ''ownership.pseudo''] = Some owner_lines"
    using pseudo_file_calls(2) by blast
  show ?thesis
    unfolding ownership_pseudo_file_restores_recorded_owners_def leaves_def write_ownership_pseudo_file_def
    by (simp add: file_calls h start pseudo_file_calls(1) s files_after_append owner_lines_sorted n [symmetric]
        del: walk_rootfs.simps fs_change.simps cong: later_cong)
qed

end
