(* ===== verification/Spec2Isabelle.thy ===== *)
theory Spec2Isabelle
  imports Program Protocol Cache_Findings Egress_Policy Rootfs_Files Raw_Stream Test_Mapping Test_Config Test_Driver Test_Image Test_Client Test_Service Test_Egress Test_Init Test_Host
begin

text \<open>
  A verification library for \<^emph>\<open>openshell-driver-lxd\<close>, the compute driver that runs OpenShell sandboxes as
  LXD containers.

  \<^bold>\<open>The program.\<close> A gateway calls the driver over gRPC (\<open>crates/openshell-driver-lxd\<close>); the driver talks to
  the LXD daemon through a client library of its own (\<open>crates/lxd-client\<close>), over a Unix socket or HTTPS.
  Creating a sandbox resolves its OCI image to an LXD image (importing it with \<open>skopeo\<close>, \<open>umoci\<close> and
  \<open>mksquashfs\<close> when LXD does not have it), provisions volumes with the supervisor and a DHCP client, writes an
  egress ACL, creates the instance stopped, pushes secrets into it and starts it. Besides the handlers, one
  task follows LXD's lifecycle events and publishes them to watchers, and one pre-warms the default image and
  cleans up what earlier releases left.

  \<^bold>\<open>How code is modelled.\<close> Pure functions are HOL functions of the same name. Asynchronous code is a function from
  the history of events to a result and the longer history (\<open>Effects\<close>); an \<open>event\<close> is one effect with the answer
  it got, and the environment \<open>env\<close> (\<open>World\<close>) answers from the whole history, so a theorem about every \<open>env\<close>
  holds for every behaviour of LXD, of the host and of other clients. Results are \<open>error + value\<close>; a computation
  that does not return has the result \<open>None\<close>. \<open>await\<close>, \<open>await_ok\<close> and \<open>await_map\<close> are \<open>.await\<close>, \<open>.await?\<close> and
  \<open>.await.map_err(..)?\<close>; \<open>with_lock\<close> is a mutex guard to the end of its scope and \<open>timeout_secs\<close> is
  \<open>tokio::time::timeout\<close>, which drops a computation after as many effects as the environment allows. What
  packages outside the repository compute (\<open>serde_json\<close>, \<open>url\<close>, \<open>urlencoding\<close>, \<open>sha2\<close>, \<open>rustls\<close>, \<open>tar\<close>) are
  the \<open>ext_\<close> fields of the environment, about which nothing is assumed except where a theorem says so.

  \<^bold>\<open>Theories and sources\<close> (paths under \<open>src/crates\<close>).
  \<^item> \<open>Prelude\<close>, \<open>Regex\<close>, \<open>Json\<close>, \<open>F64\<close>, \<open>Ip\<close>, \<open>Paths\<close>: what the sources use of the language and its standard library:
    strings and decimal text, the regular expressions, JSON values, binary64 arithmetic, IP and socket addresses,
    path components. \<open>Effects\<close>: the monad, its program logic \<open>run\<close>, and the judgements \<open>emits\<close> and \<open>returns\<close>.
    \<open>Proto\<close>: the messages of \<open>proto/\<close>. \<open>World\<close>: events, environment, primitive actions.
  \<^item> \<open>Lxd_Types\<close> (\<open>lxd-client/src/types.rs\<close>, \<open>error.rs\<close>), \<open>Lxd_Tls\<close> and \<open>Lxd_Client\<close> (\<open>client.rs\<close>: certificate pinning,
    endpoints, the project in every path, requests and reply envelopes), \<open>Lxd_Operations\<close> (\<open>operations.rs\<close>,
    \<open>events.rs\<close>: the waiting loops), \<open>Lxd_Api\<close> (\<open>instances.rs\<close>, \<open>images.rs\<close>, \<open>storage.rs\<close>, \<open>networks.rs\<close>, \<open>projects.rs\<close>),
    \<open>Acls\<close> (\<open>acls.rs\<close>), \<open>Split_Image_Body\<close> (\<open>split_image_body.rs\<close>), \<open>Resources\<close> (\<open>resources.rs\<close>).
  \<^item> \<open>Driver_Error\<close>, \<open>Config\<close>, \<open>Mapping\<close>, \<open>Egress\<close>, \<open>Dhcp\<close>, \<open>Gc\<close>, \<open>Driver\<close>, \<open>Watcher\<close>, \<open>Grpc\<close>, \<open>Startup\<close>: the files
    \<open>error.rs\<close>, \<open>config.rs\<close>, \<open>mapping.rs\<close>, \<open>egress.rs\<close>, \<open>dhcp_client.rs\<close>, \<open>gc.rs\<close>, \<open>driver.rs\<close>, \<open>watcher.rs\<close>, \<open>grpc.rs\<close>,
    \<open>main.rs\<close> of \<open>openshell-driver-lxd/src\<close>. \<open>image.rs\<close> is split: \<open>Oci_Reference\<close> (references, digests, aliases),
    \<open>Rootfs\<close> (owners, symbolic links, the init), \<open>Image\<close> (importer and cache).
  \<^item> \<open>Server\<close>: the calls of the service and the tasks that \<open>main\<close> starts, each as one action.
  \<^item> \<open>Api_Laws\<close> and \<open>Guards\<close>: which events each client method emits, and the judgements about order: \<open>only_after\<close>,
    \<open>preceded\<close>. \<open>Driver_Laws\<close>, \<open>Image_Laws\<close>, \<open>Gc_Laws\<close>, \<open>Create_Laws\<close>, \<open>Service_Laws\<close>, \<open>Watch_Laws\<close>: the
    laws of the components over them. \<open>Schedules\<close>: interleavings of tasks that respect the locks.
  \<^item> \<open>Program\<close>: all tasks together. \<open>Protocol\<close>: the lifecycle operations as automata over the changes they ask LXD for.
    \<open>Wait_Laws\<close> and \<open>Watch_Stream\<close>: the liveness of waits and the completeness of watches. \<open>Sample_World\<close>: a concrete
    environment for instances. \<open>Cache_Findings\<close>: a run in which the cache returns what its own check rejected.

  \<^item> \<open>Cli\<close>: the options of \<open>config.rs\<close> as a table of names, defaults, value parsers, \<open>requires\<close> and \<open>conflicts_with\<close>,
    and the parsing of a command line by that table, from which \<open>main\<close> starts. \<open>Egress_Policy\<close>: what the texts of the
    ACL rules let through, read as LXD documents them.
  \<^item> \<open>Raw_Stream\<close> (\<open>client.rs\<close>): the stream under a WebSocket, whose polls are those of the Unix socket or TLS connection it is.
  \<^item> \<open>File_System\<close>: the calls of \<open>std::fs\<close> over directories, files and symbolic links, an instance of the environment that
    answers from the files as the program left them. \<open>Rootfs_Files\<close>: what installing the init does to such files.
  \<^item> \<open>Test_Support\<close>, \<open>Test_Resources\<close>, \<open>Test_Mapping\<close>, \<open>Test_Config\<close>, \<open>Test_Driver\<close>, \<open>Test_Image\<close>, \<open>Test_Client\<close>, \<open>Test_Service\<close>, \<open>Test_Egress\<close>,
    \<open>Test_Files\<close>, \<open>Test_Init\<close>, \<open>Test_Host\<close>: the unit tests at the end of the Rust files, each a Boolean definition of the same name over the model, with
    the lemma \<open>.._passes\<close> that it holds. They tie the model to what the authors expect of the code on concrete
    inputs; a result of a package outside the repository is a parameter there, with what the test needs of it.

  \<^bold>\<open>State.\<close> The driver keeps no table of sandboxes: LXD is the state, and the marker \<open>KEY_SANDBOX_ID\<close> in an
  instance's config makes it a sandbox. What the program does keep is a function of the history (the \<open>OnceCell\<close> of
  the architecture check, the counter of staging names, held locks) or is passed along (the queue of recent
  events, the map of known sandboxes, the state of the streamed body).

  \<^bold>\<open>Interfaces\<close> are locales, each interpreted on the model: \<open>checked_first\<close> (a read whose good answer must be
  seen before anything changes) for the marker of an instance, the alias of an image and the rules of an ACL;
  \<open>wait_events\<close> (the events of a wait) for reads and for locks; \<open>image_source\<close> (importer and alias check of a
  cache) for \<open>skopeo\<close>; \<open>server_pin\<close> (a certificate verifier that accepts one certificate) for the pin by
  fingerprint and the pin by certificate; \<open>trace_abstraction\<close> (a view of a history that is stable under longer
  histories) for the changes asked of LXD. The trait \<open>ServerCertVerifier\<close> of the code is a record of functions.

  \<^bold>\<open>What is shown.\<close> Whatever any task changes in LXD, however the tasks are interleaved, is permitted to that task:
  a handler changes only the instance it was called for, and only after LXD confirmed that it is a sandbox, or
  one it creates (\<open>Program\<close>). Creating, starting, stopping and deleting refine automata that say in which order changes
  are asked for, how often a step is repeated, what is undone when a step fails, and which outcome the caller
  is told (\<open>Protocol\<close>). Lifecycle calls with a time limit always return (\<open>Driver_Laws\<close>), and a wait for an
  operation misses no completion, whether LXD finishes before or after the subscription (\<open>Wait_Laws\<close>). Creations exclude
  clean-up from their volumes and lifecycle calls on one instance exclude each other, under every interleaving
  (below). Images are imported once and only for a fitting architecture; installing the
  init in an unpacked image changes no file outside its rootfs, wherever the links of the image point (\<open>Rootfs_Files\<close>, over
  \<open>Image_Laws\<close>). Clean-up deletes only what LXD listed and what is stale (\<open>Gc_Laws\<close>). The watcher announces only
  what LXD reported, reports every instance that is gone after a gap and drops repetitions (\<open>Watch_Laws\<close>); a
  stream of \<open>WatchSandboxes\<close> is the listing followed by every later event, or an error where events were lost
  (\<open>Watch_Stream\<close>). Start-up, the gateway endpoint and the ACL follow the configuration
  (\<open>Service_Laws\<close>). The public address blocks are exactly the complement of the reserved ones (\<open>Egress\<close>), the
  streamed upload sends exactly what it announced, in frames of bounded size (\<open>Split_Image_Body\<close>), CPU quantities are rounded exactly in
  spite of binary floating point (\<open>Resources\<close>), an instance's config and devices confine the sandbox and read
  back as the sandbox asked for (\<open>Mapping\<close>). A connection trusts what its pin says and nothing else, and
  certificate fingerprints round-trip, except that some texts panic (\<open>Lxd_Tls\<close>). An accepted command line gives a
  configuration that fits together (\<open>Cli\<close>), the rules of the ACL let through the gateway and public addresses and
  nothing else (\<open>Egress_Policy\<close>), and the gateway reads every condition the driver reports as intended
  (\<open>Test_Mapping\<close>).

  \<^bold>\<open>Bounds.\<close> Loops that the program may run for ever take \<open>env_rounds\<close> rounds and then hang: the waits for an
  operation, the watcher's reconnections, the clean-up task and the walk over a rootfs. Hanging is the result
  \<open>None\<close>, so safety theorems cover every prefix of such a loop for every number of rounds, and \<open>returns\<close> is proved
  only where a time limit ends the loop. Symbolic links are followed at most \<open>MAX_SYMLINK_HOPS\<close> times, as in the
  code. Numbers are naturals with their width checked where the code parses or checks it (\<open>parse_u32\<close>,
  \<open>checked_add\<close>); counters wrap as the atomic does.

  \<^bold>\<open>Not modelled.\<close> Serving gRPC and HTTP over sockets, the TLS handshake and HTTP framing
  (their outcome is an answer of the environment; what a socket does is a parameter of \<open>Raw_Stream\<close>), the \<open>Debug\<close> texts, logging, the removal of unused entries from the maps of locks (\<open>Arc::strong_count\<close>),
  the wake-up order of tasks that wait for a lock (a schedule may grant it to any of them), and cancellation of a
  handler whose caller goes away.
  \<open>crates/computev1\<close> re-exports generated code. The scripts of the guest and of the host, packaging and the
  tests against a real LXD are outside it. Of the unit tests those are left out that exercise archives, sockets or
  threads, and what \<open>clap\<close> checks of its own tables; those on real files are replayed on the file system of \<open>File_System\<close>.
\<close>

section \<open>Exclusion between tasks\<close>

text \<open>Claim C9. Clean-up cannot take a volume away from a creation: however the tasks are interleaved, no volume is
  deleted while another task holds \<open>volume_use\<close> for reading, and the request that creates an instance is sent
  while its creation holds it.\<close>

theorem volume_use_excludes_cleanup:
  "\<not> (schedule (s @ [(g, e)]) \<and> executes (collect_garbage E (driver_new E c lxd)) (own g (s @ [(g, e)]))
       \<and> deletes_volume E lxd pool v e \<and> t \<noteq> g \<and> holding ''volume_use:read'' (own t s))
   \<and> under_lock ''volume_use:read'' (creates_instance E lxd (sb_name sandbox)) (create_sandbox E (driver_new E c lxd) sandbox)"
proof -
  have "excludes ''volume_use:write'' ''volume_use:read''" by (simp add: excludes_def)
  then show ?thesis using not_while_held [OF collect_under_lock] create_under_lock by blast
qed

text \<open>Claim C10. Stopping and deleting the same instance are serialised: however the tasks are interleaved, neither
  changes anything in LXD while another task is in its own locked part for that instance.\<close>

theorem stop_and_delete_serialised:
  "\<not> (schedule (s @ [(t, e)])
       \<and> (executes (stop_sandbox E d name) (own t (s @ [(t, e)])) \<or> executes (delete_sandbox E d name) (own t (s @ [(t, e)])))
       \<and> \<not> observing e \<and> t' \<noteq> t \<and> holding (lifecycle_lock name) (own t' s))"
  using not_while_held [OF lifecycle_under_lock(1)] not_while_held [OF lifecycle_under_lock(2)] lifecycle_lock_excludes
  by blast

end
